(* ===== verification/Prelude.thy ===== *)
theory Prelude
  imports Complex_Main "HOL-Library.AList" "HOL-Library.List_Lexorder" "HOL-Library.Char_ord"
    "HOL-Library.Sublist" "HOL-Library.Multiset"
begin

text \<open>
  What every component of the model shares: the Python values and containers the code uses,
  the errors it raises, and the list, dictionary, text and arithmetic lemmas the component
  theories rest on.

  \<^item> A Python \<open>dict\<close> is an association list in insertion order (\<open>dict_set\<close> keeps the position
    of an existing key, as Python does), so iteration over \<open>values()\<close> is the list itself.
  \<^item> A JSON-like value (\<open>Any\<close> in the annotations) is a \<open>pyval\<close>.
  \<^item> A Python \<open>float\<close> is a real number: the model has no rounding error, no infinities and no
    NaN; a Python \<open>int\<close> is an \<open>int\<close>; a \<open>str\<close> is a \<open>string\<close>.
  \<^item> A raise is the left side of a sum whose error type is \<open>py_error\<close>.
\<close>

section \<open>Collections of facts\<close>

named_theorems dict_simps \<open>lookups, keys and updates of dictionaries\<close>
named_theorems inv_intros \<open>operations preserve their component's invariant\<close>
named_theorems frame_simps \<open>fields an operation leaves alone\<close>

section \<open>Errors\<close>

datatype py_error =
    KeyError string
  | ValueError string
  | PermissionError string
  | TypeError
  | IndexError
  | AttributeError
  | IntegrityError
  | RuntimeError string

type_synonym 'a result = "py_error + 'a"

section \<open>Dictionaries\<close>

type_synonym ('k, 'v) dict = "('k \<times> 'v) list"

abbreviation dict_get :: "('k, 'v) dict \<Rightarrow> 'k \<Rightarrow> 'v option" where
  "dict_get d k \<equiv> map_of d k"

abbreviation dict_set :: "'k \<Rightarrow> 'v \<Rightarrow> ('k, 'v) dict \<Rightarrow> ('k, 'v) dict" where
  "dict_set k v d \<equiv> AList.update k v d"

abbreviation dict_del :: "'k \<Rightarrow> ('k, 'v) dict \<Rightarrow> ('k, 'v) dict" where
  "dict_del k d \<equiv> AList.delete k d"

abbreviation dict_keys :: "('k, 'v) dict \<Rightarrow> 'k list" where
  "dict_keys d \<equiv> map fst d"

abbreviation dict_values :: "('k, 'v) dict \<Rightarrow> 'v list" where
  "dict_values d \<equiv> map snd d"

definition dict_append :: "'k \<Rightarrow> 'v \<Rightarrow> ('k, 'v list) dict \<Rightarrow> ('k, 'v list) dict" where
  \<comment> \<open>\<open>d.setdefault(k, []).append(v)\<close>\<close>
  "dict_append k v d = dict_set k ((case dict_get d k of None \<Rightarrow> [] | Some vs \<Rightarrow> vs) @ [v]) d"

definition dict_merge :: "('k, 'v) dict \<Rightarrow> ('k, 'v) dict \<Rightarrow> ('k, 'v) dict" where
  \<comment> \<open>\<open>{**a, **b}\<close>\<close>
  "dict_merge a b = fold (\<lambda>(k, v) d. dict_set k v d) b a"

definition dict_upd :: "'k \<Rightarrow> ('v \<Rightarrow> 'v) \<Rightarrow> ('k, 'v) dict \<Rightarrow> ('k, 'v) dict" where
  \<comment> \<open>mutation of the object stored at a key; nothing happens when there is none\<close>
  "dict_upd k f d = (case dict_get d k of None \<Rightarrow> d | Some v \<Rightarrow> dict_set k (f v) d)"

lemma dict_get_set [dict_simps, simp]:
  "dict_get (dict_set k v d) k' = (if k' = k then Some v else dict_get d k')"
  by (simp add: update_conv')

lemma dict_keys_set [dict_simps]:
  "dict_keys (dict_set k v d) = (if k \<in> set (dict_keys d) then dict_keys d else dict_keys d @ [k])"
  by (induction d) auto

lemma dict_set_keys_set [dict_simps, simp]:
  "set (dict_keys (dict_set k v d)) = insert k (set (dict_keys d))"
  by (auto simp: dict_keys_set)

lemma dict_set_distinct [dict_simps, simp]:
  "distinct (dict_keys d) \<Longrightarrow> distinct (dict_keys (dict_set k v d))"
  by (auto simp: dict_keys_set)

lemma dict_set_new [dict_simps]:
  "k \<notin> set (dict_keys d) \<Longrightarrow> dict_set k v d = d @ [(k, v)]"
  by (induction d) auto

lemma set_dict_set: "set (dict_set k v d) \<subseteq> insert (k, v) (set d)"
  by (induction d) auto

lemma dict_set_values:
  "set (dict_values (dict_set k v d)) \<subseteq> insert v (set (dict_values d))"
  by (induction d) auto

lemma dict_get_values: "dict_get d k = Some v \<Longrightarrow> v \<in> set (dict_values d)"
  by (metis map_of_SomeD snd_conv image_eqI list.set_map)

lemma dict_get_None_keys: "dict_get d k = None \<longleftrightarrow> k \<notin> set (dict_keys d)"
  by (simp add: map_of_eq_None_iff)

lemma dict_set_in_place:
  "distinct (dict_keys d) \<Longrightarrow> k \<in> set (dict_keys d) \<Longrightarrow>
     dict_set k v d = map (\<lambda>(k', v'). if k' = k then (k', v) else (k', v')) d"
proof (induction d)
  case (Cons p d)
  obtain k' v' where p: "p = (k', v')" by (cases p)
  show ?case
  proof (cases "k' = k")
    case True
    with Cons.prems p have "k \<notin> fst ` set d" by auto
    then have "map (\<lambda>(k', v'). if k' = k then (k', v) else (k', v')) d = d"
      by (intro map_idI) force
    with True p show ?thesis by simp
  next
    case False
    with Cons p show ?thesis by auto
  qed
qed simp

lemma dict_upd_get [dict_simps, simp]:
  "dict_get (dict_upd k f d) k' = (if k' = k then map_option f (dict_get d k) else dict_get d k')"
  by (auto simp: dict_upd_def split: option.splits)

lemma dict_keys_upd [dict_simps, simp]: "dict_keys (dict_upd k f d) = dict_keys d"
proof (cases "dict_get d k")
  case (Some v)
  then have "k \<in> set (dict_keys d)" by (metis dict_get_None_keys option.distinct(1))
  with Some show ?thesis by (simp add: dict_upd_def dict_keys_set)
qed (simp add: dict_upd_def)

lemma length_dict_upd [dict_simps, simp]: "length (dict_upd k f d) = length d"
  by (metis dict_keys_upd length_map)

lemma dict_upd_map:
  "distinct (dict_keys d) \<Longrightarrow> dict_upd k f d = map (\<lambda>(k', v). (k', if k' = k then f v else v)) d"
proof (induction d)
  case (Cons p d)
  obtain k' v' where p: "p = (k', v')" by (cases p)
  show ?case
  proof (cases "k' = k")
    case True
    with Cons.prems p have "k \<notin> fst ` set d" by auto
    then have "map (\<lambda>(k', v). (k', if k' = k then f v else v)) d = d"
      by (intro map_idI) force
    with True p show ?thesis by (simp add: dict_upd_def)
  next
    case False
    with Cons.prems p have "dict_upd k f (p # d) = p # dict_upd k f d"
      by (simp add: dict_upd_def split: option.splits)
    with Cons False p show ?thesis by simp
  qed
qed (simp add: dict_upd_def)

lemma dict_get_upd_values:
  "distinct (dict_keys d) \<Longrightarrow> dict_values (dict_upd k f d) =
     map (\<lambda>(k', v). if k' = k then f v else v) d"
  by (auto simp: dict_upd_map)

lemma dict_merge_get: "distinct (dict_keys b) \<Longrightarrow>
   dict_get (dict_merge a b) k = (case dict_get b k of Some v \<Rightarrow> Some v | None \<Rightarrow> dict_get a k)"
proof (induction b arbitrary: a)
  case (Cons p b)
  obtain k' v where p: "p = (k', v)" by (cases p)
  have step: "dict_merge a ((k', v) # b) = dict_merge (dict_set k' v a) b"
    by (simp add: dict_merge_def)
  have "k' \<notin> set (dict_keys b)" using Cons.prems p by simp
  then have "dict_get b k' = None" by (simp only: dict_get_None_keys) simp
  with Cons.IH [of "dict_set k' v a"] Cons.prems show ?case
    by (auto simp: step p split: option.splits)
qed (simp add: dict_merge_def)

definition pcount :: "('v \<Rightarrow> bool) \<Rightarrow> ('k, 'v) dict \<Rightarrow> int" where
  \<comment> \<open>how many stored values satisfy a predicate\<close>
  "pcount P d = int (length (filter P (dict_values d)))"

lemma pcount_upd:
  "dict_get d k = Some v \<Longrightarrow>
     pcount P (dict_upd k f d) = pcount P d - (if P v then 1 else 0) + (if P (f v) then 1 else 0)"
proof (induction d)
  case (Cons p d)
  obtain k' v' where p: "p = (k', v')" by (cases p)
  show ?case
  proof (cases "k' = k")
    case True
    with Cons.prems p show ?thesis by (simp add: dict_upd_def pcount_def)
  next
    case False
    with Cons.prems p have "dict_upd k f (p # d) = p # dict_upd k f d"
      by (simp add: dict_upd_def split: option.splits)
    with Cons False p show ?thesis by (auto simp: pcount_def)
  qed
qed simp

lemma pcount_set_new:
  "k \<notin> set (dict_keys d) \<Longrightarrow> pcount P (dict_set k v d) = pcount P d + (if P v then 1 else 0)"
  by (simp add: dict_set_new pcount_def)

lemma pcount_nonneg [simp]: "0 \<le> pcount P d"
  by (simp add: pcount_def)

lemma pcount_pos: "dict_get d k = Some v \<Longrightarrow> P v \<Longrightarrow> 0 < pcount P d"
  using dict_get_values [of d k v] by (auto simp: pcount_def filter_empty_conv)

lemma dict_get_in: "distinct (dict_keys d) \<Longrightarrow> (k, v) \<in> set d \<longleftrightarrow> dict_get d k = Some v"
  by (metis map_of_SomeD map_of_is_SomeI)

section \<open>Sequences: sorting, first maximum, prefixes\<close>

abbreviation py_sorted :: "('a \<Rightarrow> 'b::linorder) \<Rightarrow> 'a list \<Rightarrow> 'a list" where
  \<comment> \<open>\<open>sorted(xs, key=f)\<close>: stable\<close>
  "py_sorted f xs \<equiv> sort_key f xs"

definition py_sorted_desc :: "('a \<Rightarrow> 'b::linorder) \<Rightarrow> 'a list \<Rightarrow> 'a list" where
  \<comment> \<open>\<open>sorted(xs, key=f, reverse=True)\<close>: stable too, so the reverse of sorting the reverse\<close>
  "py_sorted_desc f xs = rev (sort_key f (rev xs))"

definition last_n :: "int \<Rightarrow> 'a list \<Rightarrow> 'a list" where
  \<comment> \<open>\<open>xs[-n:]\<close>; a count of zero is \<open>xs[0:]\<close>, the whole list, and a negative one drops a prefix\<close>
  "last_n n xs = (if n > 0 then drop (length xs - nat n) xs else drop (nat (- n)) xs)"

lemma last_n_drop: "0 < w \<Longrightarrow> last_n w xs = drop (length xs - nat w) xs"
  by (simp add: last_n_def)

lemma last_n_all: "0 < w \<Longrightarrow> int (length xs) \<le> w \<Longrightarrow> last_n w xs = xs"
  by (simp add: last_n_drop)

lemma last_n_snoc: "0 < w \<Longrightarrow> last_n w (last_n w xs @ [x]) = last_n w (xs @ [x])"
  by (cases "length xs \<le> nat w") (auto simp: last_n_drop Suc_diff_le)

definition first_n :: "int \<Rightarrow> 'a list \<Rightarrow> 'a list" where
  \<comment> \<open>SQL \<open>LIMIT n\<close>: a negative limit is no limit\<close>
  "first_n n xs = (if n < 0 then xs else take (nat n) xs)"

lemma first_n_map: "map f (first_n n xs) = first_n n (map f xs)"
  by (simp add: first_n_def take_map)

lemma set_py_sorted_desc [simp]: "set (py_sorted_desc f xs) = set xs"
  by (simp add: py_sorted_desc_def)

lemma length_py_sorted_desc [simp]: "length (py_sorted_desc f xs) = length xs"
  by (simp add: py_sorted_desc_def)

lemma mset_py_sorted_desc [simp]: "mset (py_sorted_desc f xs) = mset xs"
  by (simp add: py_sorted_desc_def)

lemma py_sorted_desc_sorted: "sorted_wrt (\<lambda>x y. f y \<le> f x) (py_sorted_desc f xs)"
proof -
  have "sorted (map f (sort_key f (rev xs)))" by simp
  then have "sorted_wrt (\<lambda>x y. f x \<le> f y) (sort_key f (rev xs))"
    by (simp add: sorted_wrt_map)
  then show ?thesis by (simp add: py_sorted_desc_def sorted_wrt_rev)
qed

lemma py_sorted_desc_rev:
  assumes "sorted_wrt (<) (map f xs)"
  shows "py_sorted_desc f xs = rev xs"
proof -
  have "sort_key f (rev xs) = xs"
    using assms by (intro sort_key_inj_key_eq) (auto simp: strict_sorted_iff distinct_map)
  then show ?thesis by (simp add: py_sorted_desc_def)
qed

lemma py_sorted_id: "sorted_wrt (<) (map f xs) \<Longrightarrow> sort_key f xs = xs"
  by (intro sort_key_inj_key_eq) (auto simp: strict_sorted_iff distinct_map)

lemma find_Some_in': "find P xs = Some x \<Longrightarrow> x \<in> set xs"
  by (auto simp: find_Some_iff)

lemma find_filter_conj: "find P (filter Q xs) = find (\<lambda>x. Q x \<and> P x) xs"
  by (induction xs) auto

lemma find_insort_key:
  assumes "sorted (map g ys)"
  shows "find P (insort_key g x ys) =
    (if \<not> P x then find P ys
     else (case find P ys of Some y \<Rightarrow> if g y < g x then Some y else Some x | None \<Rightarrow> Some x))"
  using assms
proof (induction ys)
  case (Cons y ys)
  show ?case
  proof (cases "g x \<le> g y")
    case True
    have "find P (y # ys) = Some z \<Longrightarrow> g x \<le> g z" for z
      using Cons.prems True by (auto dest!: find_Some_in' intro: order_trans split: if_splits)
    with True show ?thesis by (auto split: option.splits)
  next
    case False
    with Cons show ?thesis by (auto split: option.splits)
  qed
qed simp

text \<open>
  Looking for the first element that satisfies a predicate in a stably sorted list finds the least
  one, and among the equally least ones the first of the original list.
\<close>

definition first_best :: "('a \<Rightarrow> 'b::linorder) \<Rightarrow> ('a \<Rightarrow> bool) \<Rightarrow> 'a list \<Rightarrow> 'a \<Rightarrow> bool" where
  "first_best g P xs x \<longleftrightarrow> (\<exists>i < length xs. xs ! i = x \<and> P x \<and>
     (\<forall>j < length xs. P (xs ! j) \<longrightarrow> g x < g (xs ! j) \<or> (g x = g (xs ! j) \<and> i \<le> j)))"

lemma first_best_Cons:
  "first_best g P (x # xs) y \<longleftrightarrow>
     (P x \<and> y = x \<and> (\<forall>z \<in> set xs. P z \<longrightarrow> g x \<le> g z)) \<or> (first_best g P xs y \<and> (P x \<longrightarrow> g y < g x))"
  (is "?L \<longleftrightarrow> ?A \<or> ?B")
proof
  assume ?L
  then obtain i where i: "i < Suc (length xs)" "(x # xs) ! i = y" "P y"
    and best: "\<And>j. j < Suc (length xs) \<Longrightarrow> P ((x # xs) ! j) \<Longrightarrow>
       g y < g ((x # xs) ! j) \<or> (g y = g ((x # xs) ! j) \<and> i \<le> j)"
    by (auto simp: first_best_def)
  show "?A \<or> ?B"
  proof (cases i)
    case 0
    have "g y \<le> g z" if "z \<in> set xs" "P z" for z
    proof -
      from that obtain j where "j < length xs" "xs ! j = z" by (auto simp: in_set_conv_nth)
      with best [of "Suc j"] that show ?thesis by auto
    qed
    with 0 i show ?thesis by auto
  next
    case (Suc k)
    have "first_best g P xs y"
      unfolding first_best_def
    proof (intro exI [of _ k] conjI allI impI)
      fix j assume "j < length xs" "P (xs ! j)"
      with best [of "Suc j"] Suc show "g y < g (xs ! j) \<or> g y = g (xs ! j) \<and> k \<le> j" by auto
    qed (use i Suc in auto)
    moreover have "P x \<longrightarrow> g y < g x" using best [of 0] Suc by auto
    ultimately show ?thesis by blast
  qed
next
  assume "?A \<or> ?B"
  then show ?L
  proof
    assume ?A
    then have "\<forall>j < Suc (length xs). P ((x # xs) ! j) \<longrightarrow> g x \<le> g ((x # xs) ! j)"
      by (auto simp: nth_Cons split: nat.splits)
    with \<open>?A\<close> show ?L
      unfolding first_best_def by (intro exI [of _ 0]) (auto simp: order_le_less)
  next
    assume ?B
    then obtain k where k: "k < length xs" "xs ! k = y" "P y"
      and best: "\<And>j. j < length xs \<Longrightarrow> P (xs ! j) \<Longrightarrow> g y < g (xs ! j) \<or> (g y = g (xs ! j) \<and> k \<le> j)"
      and x: "P x \<longrightarrow> g y < g x"
      by (auto simp: first_best_def)
    show ?L
      unfolding first_best_def
    proof (intro exI [of _ "Suc k"] conjI allI impI)
      fix j assume "j < length (x # xs)" "P ((x # xs) ! j)"
      with best x show "g y < g ((x # xs) ! j) \<or> g y = g ((x # xs) ! j) \<and> Suc k \<le> j"
        by (cases j) auto
    qed (use k in auto)
  qed
qed

lemma first_best_in: "first_best g P xs x \<Longrightarrow> x \<in> set xs \<and> P x"
  by (auto simp: first_best_def)

lemma first_best_least: "first_best g P xs x \<Longrightarrow> z \<in> set xs \<Longrightarrow> P z \<Longrightarrow> g x \<le> g z"
  by (fastforce simp: first_best_def in_set_conv_nth)

lemma first_best_unique: "first_best g P xs x \<Longrightarrow> first_best g P xs y \<Longrightarrow> x = y"
proof (induction xs arbitrary: x y)
  case Nil
  then show ?case by (simp add: first_best_def)
next
  case (Cons a xs)
  then show ?case unfolding first_best_Cons by (meson first_best_in leD)
qed

lemma first_best_snoc:
  "first_best g P (xs @ [y]) x \<longleftrightarrow>
     (first_best g P xs x \<and> (P y \<longrightarrow> g x \<le> g y)) \<or> (P y \<and> x = y \<and> (\<forall>z \<in> set xs. P z \<longrightarrow> g y < g z))"
proof (induction xs)
  case Nil
  show ?case by (auto simp: first_best_Cons) (simp_all add: first_best_def)
next
  case (Cons a xs)
  show ?case
    unfolding append_Cons first_best_Cons Cons.IH by (auto dest: first_best_in)
qed

lemma find_sort_key_Some: "find P (sort_key g xs) = Some x \<longleftrightarrow> first_best g P xs x"
proof (induction xs arbitrary: x)
  case Nil
  show ?case by (simp add: first_best_def)
next
  case (Cons y ys)
  have none: "find P (sort_key g ys) = None \<longleftrightarrow> (\<forall>z \<in> set ys. \<not> P z)" by (auto simp: find_None_iff)
  show ?case
  proof (cases "find P (sort_key g ys)")
    case None
    with none have "\<not> first_best g P ys z" for z by (auto dest: first_best_in)
    with None none show ?thesis by (auto simp: find_insort_key first_best_Cons)
  next
    case (Some z)
    then have z: "first_best g P ys z" by (simp add: Cons.IH)
    show ?thesis
    proof (cases "P y \<and> \<not> g z < g y")
      case True
      then have "\<forall>w \<in> set ys. P w \<longrightarrow> g y \<le> g w"
        using first_best_least [OF z] by (meson leI order_trans)
      moreover have "\<not> (first_best g P ys x \<and> g x < g y)"
        using True first_best_unique [OF z] by blast
      ultimately show ?thesis using True Some by (auto simp: find_insort_key first_best_Cons)
    next
      case False
      then have "\<not> (P y \<and> (\<forall>w \<in> set ys. P w \<longrightarrow> g y \<le> g w))"
        using first_best_in [OF z] leD by blast
      with False Some z show ?thesis
        by (auto simp: find_insort_key first_best_Cons dest: first_best_unique)
    qed
  qed
qed

lemma py_sorted_desc_sort_key: "py_sorted_desc (f :: 'a \<Rightarrow> int) xs = sort_key (\<lambda>x. - f x) xs"
proof (rule sym, rule properties_for_sort_key)
  show "mset (py_sorted_desc f xs) = mset xs" by simp
next
  fix k
  have "filter (\<lambda>x. f x = f k) (sort_key f (rev xs)) = filter (\<lambda>x. f x = f k) (rev xs)"
    by (rule sort_key_stable)
  then have "filter (\<lambda>x. f x = f k) (py_sorted_desc f xs) = filter (\<lambda>x. f x = f k) xs"
    by (simp add: py_sorted_desc_def rev_filter [symmetric])
  then show "filter (\<lambda>x. - f k = - f x) (py_sorted_desc f xs) = filter (\<lambda>x. - f k = - f x) xs"
    by (simp add: eq_commute)
next
  show "sorted (map (\<lambda>x. - f x) (py_sorted_desc f xs))"
    using py_sorted_desc_sorted [of f xs] by (simp add: sorted_wrt_map)
qed

lemma find_Some_in: "find P xs = Some x \<Longrightarrow> x \<in> set xs \<and> P x"
  by (auto simp: find_Some_iff)

lemma find_None_not: "find P xs = None \<longleftrightarrow> (\<forall>x \<in> set xs. \<not> P x)"
  by (auto simp: find_None_iff)

fun replace_first :: "('a \<Rightarrow> bool) \<Rightarrow> ('a \<Rightarrow> 'a) \<Rightarrow> 'a list \<Rightarrow> 'a list" where
  "replace_first P f [] = []"
| "replace_first P f (x # xs) = (if P x then f x # xs else x # replace_first P f xs)"

lemma set_replace_first: "set (replace_first P f xs) \<subseteq> set xs \<union> f ` {x \<in> set xs. P x}"
  by (induction xs) auto

lemma replace_first_append_None: "find P xs = None \<Longrightarrow> replace_first P f (xs @ ys) = xs @ replace_first P f ys"
  by (induction xs) (auto split: if_splits)

lemma find_replace_first:
  "(\<And>x. P (f x) = P x) \<Longrightarrow> find P (replace_first P f xs) = map_option f (find P xs)"
  by (induction xs) auto

lemma map_replace_first: "(\<And>x. g (f x) = g x) \<Longrightarrow> map g (replace_first P f xs) = map g xs"
  by (induction xs) auto

lemma replace_first_id: "find P xs = None \<Longrightarrow> replace_first P f xs = xs"
  by (induction xs) (auto split: if_splits)

lemma find_replace_first_other:
  "(\<And>x. P x \<Longrightarrow> \<not> Q x \<and> \<not> Q (f x)) \<Longrightarrow> find Q (replace_first P f xs) = find Q xs"
  by (induction xs) auto

lemma find_append: "find P (xs @ ys) = (case find P xs of None \<Rightarrow> find P ys | Some x \<Rightarrow> Some x)"
  by (induction xs) auto

section \<open>Text\<close>

fun split_on :: "char \<Rightarrow> string \<Rightarrow> string list" where
  \<comment> \<open>\<open>s.split(c)\<close>\<close>
  "split_on c [] = [[]]"
| "split_on c (x # xs) =
     (if x = c then [] # split_on c xs
      else (case split_on c xs of [] \<Rightarrow> [[x]] | y # ys \<Rightarrow> (x # y) # ys))"

fun join_with :: "string \<Rightarrow> string list \<Rightarrow> string" where
  \<comment> \<open>\<open>sep.join(xs)\<close>\<close>
  "join_with sep [] = []"
| "join_with sep [x] = x"
| "join_with sep (x # y # ys) = x @ sep @ join_with sep (y # ys)"

lemma split_on_nonempty [simp]: "split_on c s \<noteq> []"
  by (induction s) (auto split: list.splits)

lemma join_split_on: "join_with [c] (split_on c s) = s"
proof (induction s)
  case (Cons x s)
  obtain y ys where ys: "split_on c s = y # ys" by (cases "split_on c s") auto
  with Cons show ?case by (cases ys) auto
qed simp

lemma split_on_no_sep: "c \<notin> set s \<Longrightarrow> split_on c s = [s]"
  by (induction s) auto

lemma split_on_parts: "p \<in> set (split_on c s) \<Longrightarrow> c \<notin> set p"
proof (induction s arbitrary: p)
  case (Cons x s)
  obtain y ys where "split_on c s = y # ys" by (cases "split_on c s") auto
  with Cons show ?case by (fastforce split: if_splits)
qed simp

lemma split_on_append:
  "c \<notin> set a \<Longrightarrow> split_on c (a @ c # b) = a # split_on c b"
  by (induction a) auto

lemma split_join_with: "ps \<noteq> [] \<Longrightarrow> (\<forall>p \<in> set ps. c \<notin> set p) \<Longrightarrow> split_on c (join_with [c] ps) = ps"
  by (induction "[c]" ps rule: join_with.induct) (auto simp: split_on_no_sep split_on_append)

definition startswith :: "string \<Rightarrow> string \<Rightarrow> bool" where
  "startswith p s = (take (length p) s = p)"

definition removeprefix :: "string \<Rightarrow> string \<Rightarrow> string" where
  "removeprefix p s = (if startswith p s then drop (length p) s else s)"

fun contains_sub :: "string \<Rightarrow> string \<Rightarrow> bool" where
  \<comment> \<open>\<open>p in s\<close> on strings\<close>
  "contains_sub p [] = (p = [])"
| "contains_sub p (x # xs) = (startswith p (x # xs) \<or> contains_sub p xs)"

lemma startswith_append [simp]: "startswith p (p @ s)"
  by (simp add: startswith_def)

lemma startswith_iff: "startswith p s \<longleftrightarrow> (\<exists>r. s = p @ r)"
  by (metis append_eq_conv_conj startswith_def)

lemma removeprefix_append [simp]: "removeprefix p (p @ s) = s"
  by (simp add: removeprefix_def)

lemma contains_sub_iff: "contains_sub p s \<longleftrightarrow> (\<exists>a b. s = a @ p @ b)"
proof (induction s)
  case (Cons x xs)
  show ?case
  proof
    assume "contains_sub p (x # xs)"
    then consider r where "x # xs = p @ r" | a b where "xs = a @ p @ b"
      using Cons by (auto simp: startswith_iff)
    then show "\<exists>a b. x # xs = a @ p @ b"
      by (metis append_Cons append_Nil)
  next
    assume "\<exists>a b. x # xs = a @ p @ b"
    then obtain a b where ab: "x # xs = a @ p @ b" by blast
    show "contains_sub p (x # xs)"
    proof (cases a)
      case Nil
      with ab have "startswith p (x # xs)" by (simp only: startswith_iff) auto
      then show ?thesis by simp
    next
      case (Cons y ys)
      with ab have "xs = ys @ p @ b" by simp
      with \<open>contains_sub p xs = (\<exists>a b. xs = a @ p @ b)\<close> show ?thesis by auto
    qed
  qed
qed auto

definition quoted :: "string \<Rightarrow> string" where
  \<comment> \<open>the \<open>'{x}'\<close> of an f-string\<close>
  "quoted s = [CHR 0x27] @ s @ [CHR 0x27]"

function show_nat :: "nat \<Rightarrow> string" where
  "show_nat n = (if n < 10 then [char_of (48 + n)] else show_nat (n div 10) @ [char_of (48 + n mod 10)])"
  by pat_completeness auto
termination
  by (relation "measure id") auto

declare show_nat.simps [simp del]

definition show_int :: "int \<Rightarrow> string" where
  "show_int i = (if i < 0 then ''-'' @ show_nat (nat (- i)) else show_nat (nat i))"

section \<open>Numbers\<close>

definition round_half_even :: "real \<Rightarrow> int" where
  "round_half_even x =
     (let f = \<lfloor>x\<rfloor>; d = x - of_int f
      in if d < 1 / 2 then f else if d > 1 / 2 then f + 1 else if even f then f else f + 1)"

definition py_round :: "real \<Rightarrow> nat \<Rightarrow> real" where
  \<comment> \<open>\<open>round(x, n)\<close>: to \<open>n\<close> decimals, ties to even\<close>
  "py_round x n = of_int (round_half_even (x * 10 ^ n)) / 10 ^ n"

lemma round_half_even_mono:
  assumes "x \<le> y" shows "round_half_even x \<le> round_half_even y"
proof (cases "\<lfloor>x\<rfloor> = \<lfloor>y\<rfloor>")
  case True
  with assms show ?thesis by (auto simp: round_half_even_def Let_def)
next
  case False
  with floor_mono [OF assms] have "\<lfloor>x\<rfloor> + 1 \<le> \<lfloor>y\<rfloor>" by linarith
  moreover have "round_half_even x \<le> \<lfloor>x\<rfloor> + 1" by (auto simp: round_half_even_def Let_def)
  moreover have "\<lfloor>y\<rfloor> \<le> round_half_even y" by (auto simp: round_half_even_def Let_def)
  ultimately show ?thesis by linarith
qed

lemma round_half_even_of_int [simp]: "round_half_even (of_int i) = i"
  by (simp add: round_half_even_def)

lemma py_round_mono: "x \<le> y \<Longrightarrow> py_round x n \<le> py_round y n"
  unfolding py_round_def
  by (intro divide_right_mono) (auto intro!: round_half_even_mono mult_right_mono)

lemma py_round_int [simp]: "py_round (of_int i) n = of_int i"
proof -
  have "(of_int i * 10 ^ n :: real) = of_int (i * 10 ^ n)" by simp
  then show ?thesis by (simp only: py_round_def round_half_even_of_int) simp
qed

lemma py_round_0 [simp]: "py_round 0 n = 0"
  using py_round_int [of 0] by simp

lemma py_round_1 [simp]: "py_round 1 n = 1"
  using py_round_int [of 1] by simp

lemma py_round_nonneg: "0 \<le> x \<Longrightarrow> 0 \<le> py_round x n"
  using py_round_mono [of 0 x n] by simp

lemma py_round_le_1: "x \<le> 1 \<Longrightarrow> py_round x n \<le> 1"
  using py_round_mono [of x 1 n] by simp

lemma py_round_ge_m1: "- 1 \<le> x \<Longrightarrow> - 1 \<le> py_round x n"
  using py_round_mono [of "- 1" x n] py_round_int [of "- 1" n] by simp

section \<open>The greatest by a key\<close>

fun py_max :: "('a \<Rightarrow> 'b::linorder) \<Rightarrow> 'a \<Rightarrow> 'a list \<Rightarrow> 'a" where
  \<comment> \<open>\<open>max([x, *xs], key=f)\<close>: the first of the greatest\<close>
  "py_max f x [] = x"
| "py_max f x (y # ys) = py_max f (if f y > f x then y else x) ys"

lemma py_max_in: "py_max f x xs \<in> set (x # xs)"
proof (induction xs arbitrary: x)
  case (Cons y ys)
  from Cons.IH [of "if f x < f y then y else x"] show ?case by (auto split: if_splits)
qed simp

lemma py_max_ge: "y \<in> set (x # xs) \<Longrightarrow> f y \<le> f (py_max f x xs)"
proof (induction xs arbitrary: x y)
  case (Cons z zs)
  let ?m = "if f x < f z then z else x"
  have m: "f ?m \<le> f (py_max f x (z # zs))" using Cons.IH [of ?m ?m] by simp
  from Cons.prems consider "y = x \<or> y = z" | "y \<in> set zs" by auto
  then show ?case
  proof cases
    case 1
    then have "f y \<le> f ?m" by auto
    also note m
    finally show ?thesis .
  qed (use Cons.IH [of y ?m] in simp)
qed simp

lemma py_max_Max: "f (py_max f x xs) = Max (f ` set (x # xs))"
  by (rule Max_eqI [symmetric]) (use py_max_ge [of _ x xs f] py_max_in [of f x xs] in auto)

end
