(* ===== verification/PyValue.thy ===== *)
theory PyValue
  imports Prelude
begin

text \<open>
  The JSON-like values the code passes around as \<open>Any\<close>, and the Python operators it applies to
  them: truth, \<open>==\<close>, \<open><\<close>/\<open>>\<close> (which raise \<open>TypeError\<close> on values that do not compare),
  \<open>in\<close>, \<open>type(a) is type(b)\<close> and dictionary access. Keys of a \<open>dict\<close> are strings, as in JSON.
\<close>

datatype pyval =
    PNone
  | PBool bool
  | PInt int
  | PFloat real
  | PStr string
  | PList "pyval list"
  | PDict "(string \<times> pyval) list"

section \<open>Types, truth and numbers\<close>

datatype pytype = TNone | TBool | TInt | TFloat | TStr | TList | TDict

fun py_type :: "pyval \<Rightarrow> pytype" where
  "py_type PNone = TNone"
| "py_type (PBool _) = TBool"
| "py_type (PInt _) = TInt"
| "py_type (PFloat _) = TFloat"
| "py_type (PStr _) = TStr"
| "py_type (PList _) = TList"
| "py_type (PDict _) = TDict"

fun truthy :: "pyval \<Rightarrow> bool" where
  "truthy PNone = False"
| "truthy (PBool b) = b"
| "truthy (PInt i) = (i \<noteq> 0)"
| "truthy (PFloat x) = (x \<noteq> 0)"
| "truthy (PStr s) = (s \<noteq> [])"
| "truthy (PList xs) = (xs \<noteq> [])"
| "truthy (PDict d) = (d \<noteq> [])"

fun py_num :: "pyval \<Rightarrow> real option" where
  \<comment> \<open>the numeric value of a \<open>bool\<close>, an \<open>int\<close> or a \<open>float\<close>, which compare with each other\<close>
  "py_num (PBool b) = Some (if b then 1 else 0)"
| "py_num (PInt i) = Some (of_int i)"
| "py_num (PFloat x) = Some x"
| "py_num _ = None"

section \<open>Equality and order\<close>

fun py_eq :: "pyval \<Rightarrow> pyval \<Rightarrow> bool"
  and py_eq_list :: "pyval list \<Rightarrow> pyval list \<Rightarrow> bool"
  and py_eq_items :: "(string \<times> pyval) list \<Rightarrow> (string \<times> pyval) list \<Rightarrow> bool" where
  "py_eq (PStr a) b = (b = PStr a)"
| "py_eq (PList xs) b = (case b of PList ys \<Rightarrow> py_eq_list xs ys | _ \<Rightarrow> False)"
| "py_eq (PDict c) b = (case b of PDict d \<Rightarrow> length c = length d \<and> py_eq_items c d | _ \<Rightarrow> False)"
| "py_eq PNone b = (b = PNone)"
| "py_eq a b = (case (py_num a, py_num b) of (Some x, Some y) \<Rightarrow> x = y | _ \<Rightarrow> False)"
| "py_eq_list [] ys = (ys = [])"
| "py_eq_list (x # xs) ys = (case ys of [] \<Rightarrow> False | y # ys' \<Rightarrow> py_eq x y \<and> py_eq_list xs ys')"
| "py_eq_items [] d = True"
| "py_eq_items ((k, v) # c) d =
     ((case dict_get d k of None \<Rightarrow> False | Some w \<Rightarrow> py_eq v w) \<and> py_eq_items c d)"

definition cmp3 :: "'a::linorder \<Rightarrow> 'a \<Rightarrow> int" where
  \<comment> \<open>\<open>(a > b) - (a < b)\<close>\<close>
  "cmp3 a b = (if a > b then 1 else if a < b then -1 else 0)"

fun py_cmp :: "pyval \<Rightarrow> pyval \<Rightarrow> int option"
  and py_cmp_list :: "pyval list \<Rightarrow> pyval list \<Rightarrow> int option" where
  \<comment> \<open>\<open>(a > b) - (a < b)\<close>, \<open>None\<close> where the comparison raises \<open>TypeError\<close>\<close>
  "py_cmp (PStr a) b = (case b of PStr c \<Rightarrow> Some (cmp3 a c) | _ \<Rightarrow> None)"
| "py_cmp (PList xs) b = (case b of PList ys \<Rightarrow> py_cmp_list xs ys | _ \<Rightarrow> None)"
| "py_cmp a b = (case (py_num a, py_num b) of (Some x, Some y) \<Rightarrow> Some (cmp3 x y) | _ \<Rightarrow> None)"
| "py_cmp_list [] ys = Some (if ys = [] then 0 else -1)"
| "py_cmp_list (x # xs) ys =
     (case ys of [] \<Rightarrow> Some 1
      | y # ys' \<Rightarrow> if py_eq x y then py_cmp_list xs ys' else py_cmp x y)"

fun py_iter :: "pyval \<Rightarrow> pyval list option" where
  \<comment> \<open>the items a \<open>for\<close> loop sees; \<open>None\<close> where the value is not iterable\<close>
  "py_iter (PList xs) = Some xs"
| "py_iter (PStr s) = Some (map (\<lambda>c. PStr [c]) s)"
| "py_iter (PDict d) = Some (map (\<lambda>p. PStr (fst p)) d)"
| "py_iter _ = None"

fun py_in :: "pyval \<Rightarrow> pyval \<Rightarrow> bool result" where
  \<comment> \<open>\<open>x in c\<close>\<close>
  "py_in x (PList xs) = Inr (\<exists>y \<in> set xs. py_eq x y)"
| "py_in x (PStr s) = (case x of PStr p \<Rightarrow> Inr (contains_sub p s) | _ \<Rightarrow> Inl TypeError)"
| "py_in x (PDict d) = (case x of PStr k \<Rightarrow> Inr (k \<in> set (dict_keys d))
                        | PList _ \<Rightarrow> Inl TypeError | PDict _ \<Rightarrow> Inl TypeError | _ \<Rightarrow> Inr False)"
| "py_in x _ = Inl TypeError"

section \<open>Well-formed values\<close>

fun pv_ok :: "pyval \<Rightarrow> bool" where
  \<comment> \<open>every dictionary inside has distinct keys, which Python guarantees\<close>
  "pv_ok (PList xs) = (\<forall>x \<in> set xs. pv_ok x)"
| "pv_ok (PDict d) = (distinct (dict_keys d) \<and> (\<forall>p \<in> set d. pv_ok (snd p)))"
| "pv_ok _ = True"

lemma py_eq_type_str: "py_eq (PStr s) v \<longleftrightarrow> v = PStr s"
  by simp

lemma py_eq_items_iff:
  "py_eq_items c d \<longleftrightarrow> (\<forall>(k, v) \<in> set c. \<exists>w. dict_get d k = Some w \<and> py_eq v w)"
  by (induction c) (auto split: option.splits)

lemma py_eq_list_iff: "py_eq_list xs ys \<longleftrightarrow> list_all2 py_eq xs ys"
  by (induction xs arbitrary: ys) (auto split: list.splits simp: list_all2_Cons1)

lemma py_eq_refl [simp]: "pv_ok v \<Longrightarrow> py_eq v v"
proof (induction v)
  case (PList xs)
  then show ?case by (auto simp: py_eq_list_iff list_all2_same)
next
  case (PDict d)
  then show ?case by (fastforce simp: py_eq_items_iff)
qed auto

lemma py_eq_str_left [simp]: "py_eq v (PStr s) \<longleftrightarrow> v = PStr s"
  by (cases v) auto

lemma cmp3_eq_0 [simp]: "cmp3 a b = 0 \<longleftrightarrow> a = b"
  by (auto simp: cmp3_def)

lemma cmp3_pos [simp]: "0 < cmp3 a b \<longleftrightarrow> b < a" "0 \<le> cmp3 a b \<longleftrightarrow> b \<le> a"
  by (auto simp: cmp3_def)

lemma cmp3_neg [simp]: "cmp3 a b < 0 \<longleftrightarrow> a < b" "cmp3 a b \<le> 0 \<longleftrightarrow> a \<le> b"
  by (auto simp: cmp3_def)

section \<open>Optional keys\<close>

definition get_or :: "(string, pyval) dict \<Rightarrow> string \<Rightarrow> pyval \<Rightarrow> pyval" where
  \<comment> \<open>\<open>d.get(k, dflt)\<close>\<close>
  "get_or d k dflt = (case dict_get d k of None \<Rightarrow> dflt | Some v \<Rightarrow> v)"

section \<open>Dotted paths\<close>

fun get_path :: "pyval \<Rightarrow> string list \<Rightarrow> pyval \<Rightarrow> pyval" where
  \<comment> \<open>the loop of \<open>_get_path\<close> and \<open>_get_dotted\<close> over the parts of the path\<close>
  "get_path cur [] dflt = cur"
| "get_path cur (part # parts) dflt =
     (case cur of
        PDict d \<Rightarrow> (case dict_get d part of None \<Rightarrow> dflt | Some v \<Rightarrow> get_path v parts dflt)
      | _ \<Rightarrow> dflt)"

lemma get_path_Nil_dict [simp]: "get_path (PDict d) [p] dflt = (case dict_get d p of None \<Rightarrow> dflt | Some v \<Rightarrow> v)"
  by (simp split: option.splits)

end
