(* ===== verification/Render.thy ===== *)
theory Render
  imports PyValue
begin

text \<open>
  Rendering: how the f-strings of the code show numbers, strings and lists. A float shows as its
  shortest decimal of at most 17 places, which is what \<open>repr\<close> prints for the decimal constants
  the code and its clients write.
\<close>

fun pad_left :: "nat \<Rightarrow> string \<Rightarrow> string" where
  "pad_left n s = replicate (n - length s) CHR ''0'' @ s"

definition show_fixed :: "nat \<Rightarrow> real \<Rightarrow> string" where
  \<comment> \<open>\<open>f"{x:.nf}"\<close>\<close>
  "show_fixed n x =
     (let k = nat (round_half_even (\<bar>x\<bar> * 10 ^ n))
      in (if x < 0 then ''-'' else []) @ show_nat (k div 10 ^ n) @
         (if n = 0 then [] else ''.'' @ pad_left n (show_nat (k mod 10 ^ n))))"

fun shortest_from :: "nat \<Rightarrow> nat \<Rightarrow> real \<Rightarrow> string" where
  "shortest_from 0 n x = show_fixed n x"
| "shortest_from (Suc fuel) n x = (if py_round x n = x then show_fixed n x else shortest_from fuel (Suc n) x)"

definition show_float :: "real \<Rightarrow> string" where
  \<comment> \<open>\<open>f"{x}"\<close> for a float of moderate size\<close>
  "show_float x = shortest_from 16 1 x"

fun escape_char :: "char \<Rightarrow> char \<Rightarrow> string" where
  "escape_char q c =
     (if c = q \<or> c = CHR 0x5C then [CHR 0x5C, c]
      else if c = CHR 0x0A then [CHR 0x5C, CHR ''n'']
      else if c = CHR 0x0D then [CHR 0x5C, CHR ''r'']
      else if c = CHR 0x09 then [CHR 0x5C, CHR ''t'']
      else [c])"

definition repr_str :: "string \<Rightarrow> string" where
  \<comment> \<open>\<open>repr(s)\<close>: single quotes unless the text holds one and no double quote\<close>
  "repr_str s =
     (let q = (if CHR 0x27 \<in> set s \<and> CHR 0x22 \<notin> set s then CHR 0x22 else CHR 0x27)
      in [q] @ concat (map (escape_char q) s) @ [q])"

definition repr_str_list :: "string list \<Rightarrow> string" where
  "repr_str_list xs = ''['' @ join_with '', '' (map repr_str xs) @ '']''"

fun py_repr :: "pyval \<Rightarrow> string" where
  \<comment> \<open>\<open>repr(v)\<close> of a JSON-like value\<close>
  "py_repr PNone = ''None''"
| "py_repr (PBool b) = (if b then ''True'' else ''False'')"
| "py_repr (PInt i) = show_int i"
| "py_repr (PFloat x) = show_float x"
| "py_repr (PStr s) = repr_str s"
| "py_repr (PList xs) = ''['' @ join_with '', '' (map py_repr xs) @ '']''"
| "py_repr (PDict d) = ''{'' @ join_with '', '' (map (\<lambda>p. repr_str (fst p) @ '': '' @ py_repr (snd p)) d) @ ''}''"

definition py_str :: "pyval \<Rightarrow> string" where
  \<comment> \<open>\<open>f"{v}"\<close>\<close>
  "py_str v = (case v of PStr s \<Rightarrow> s | _ \<Rightarrow> py_repr v)"

section \<open>What a call reads from the outside\<close>

text \<open>
  The clock, the current time as ISO text and the random identifier of a call are arguments of
  the operations: \<open>time.time()\<close>, \<open>datetime.now(timezone.utc).isoformat()\<close> and the hexadecimal
  digits of \<open>uuid.uuid4()\<close>. One call reads its clock once.
\<close>

record env =
  env_time :: real
  env_stamp :: string
  env_uuid :: string

definition new_id :: "string \<Rightarrow> env \<Rightarrow> string" where
  "new_id pre env = pre @ ''_'' @ env_uuid env"

section \<open>Checks that may raise\<close>

fun all_r :: "('a \<Rightarrow> bool result) \<Rightarrow> 'a list \<Rightarrow> bool result" where
  \<comment> \<open>\<open>all(f(x) for x in xs)\<close>\<close>
  "all_r f [] = Inr True"
| "all_r f (x # xs) =
     (case f x of Inl err \<Rightarrow> Inl err | Inr b \<Rightarrow> if b then all_r f xs else Inr False)"

fun any_r :: "('a \<Rightarrow> bool result) \<Rightarrow> 'a list \<Rightarrow> bool result" where
  \<comment> \<open>\<open>any(f(x) for x in xs)\<close>\<close>
  "any_r f [] = Inr False"
| "any_r f (x # xs) =
     (case f x of Inl err \<Rightarrow> Inl err | Inr b \<Rightarrow> if b then Inr True else any_r f xs)"

fun filter_r :: "('a \<Rightarrow> bool result) \<Rightarrow> 'a list \<Rightarrow> 'a list result" where
  \<comment> \<open>\<open>[x for x in xs if f(x)]\<close>\<close>
  "filter_r f [] = Inr []"
| "filter_r f (x # xs) =
     (case f x of Inl err \<Rightarrow> Inl err
      | Inr b \<Rightarrow> (case filter_r f xs of Inl err \<Rightarrow> Inl err
                 | Inr ys \<Rightarrow> Inr (if b then x # ys else ys)))"

fun fold_r :: "('a \<Rightarrow> 's \<Rightarrow> 's result) \<Rightarrow> 'a list \<Rightarrow> 's \<Rightarrow> 's result" where
  \<comment> \<open>a loop whose body may raise\<close>
  "fold_r f [] s = Inr s"
| "fold_r f (x # xs) s = (case f x s of Inl err \<Rightarrow> Inl err | Inr s' \<Rightarrow> fold_r f xs s')"

definition need_dict :: "pyval \<Rightarrow> (string, pyval) dict result" where
  \<comment> \<open>\<open>v.get\<close> or \<open>v.items\<close> of a value that has to be a dict\<close>
  "need_dict v = (case v of PDict d \<Rightarrow> Inr d | _ \<Rightarrow> Inl AttributeError)"

section \<open>Computations that may raise\<close>

definition then_r :: "'a result \<Rightarrow> ('a \<Rightarrow> 'b result) \<Rightarrow> 'b result" where
  \<comment> \<open>one expression after another, up to the first that raises\<close>
  "then_r m f = (case m of Inl err \<Rightarrow> Inl err | Inr a \<Rightarrow> f a)"

lemma then_r_simps [simp]: "then_r (Inl err) f = Inl err" "then_r (Inr a) f = f a"
  by (simp_all add: then_r_def)

lemma then_r_Inr: "then_r m f = Inr b \<longleftrightarrow> (\<exists>a. m = Inr a \<and> f a = Inr b)"
  by (cases m) auto

fun map_r :: "('a \<Rightarrow> 'b result) \<Rightarrow> 'a list \<Rightarrow> 'b list result" where
  \<comment> \<open>\<open>[f(x) for x in xs]\<close>\<close>
  "map_r f [] = Inr []"
| "map_r f (x # xs) = then_r (f x) (\<lambda>y. then_r (map_r f xs) (\<lambda>ys. Inr (y # ys)))"

lemma map_r_Inr: "map_r f xs = Inr ys \<longleftrightarrow> list_all2 (\<lambda>x y. f x = Inr y) xs ys"
  by (induction xs arbitrary: ys) (auto simp: then_r_Inr list_all2_Cons1)

lemma map_r_total: "(\<And>x. x \<in> set xs \<Longrightarrow> f x = Inr (g x)) \<Longrightarrow> map_r f xs = Inr (map g xs)"
  by (induction xs) auto

section \<open>Effects on a state that may raise\<close>

definition seq_r :: "'a result \<times> 's \<Rightarrow> ('a \<Rightarrow> 's \<Rightarrow> 'b result \<times> 's) \<Rightarrow> 'b result \<times> 's" where
  \<comment> \<open>one statement after another: what the first did stays done when the second raises\<close>
  "seq_r m f = (case m of (Inl err, s) \<Rightarrow> (Inl err, s) | (Inr a, s) \<Rightarrow> f a s)"

lemma seq_r_simps [simp]: "seq_r (Inl err, s) f = (Inl err, s)" "seq_r (Inr a, s) f = f a s"
  by (simp_all add: seq_r_def)

lemma seq_r_Inr: "seq_r m f = (Inr b, s') \<longleftrightarrow> (\<exists>a s. m = (Inr a, s) \<and> f a s = (Inr b, s'))"
  by (cases m) (auto simp: seq_r_def split: sum.splits)

definition lift_r :: "('s \<Rightarrow> 'p) \<Rightarrow> ('p \<Rightarrow> 's \<Rightarrow> 's) \<Rightarrow> ('p \<Rightarrow> ('a \<times> 'p) result) \<Rightarrow> 's \<Rightarrow> 'a result \<times> 's" where
  \<comment> \<open>an operation of a part of the state, which stays as it was when the operation raises\<close>
  "lift_r get put f s = (case f (get s) of Inl err \<Rightarrow> (Inl err, s) | Inr (a, p) \<Rightarrow> (Inr a, put p s))"

section \<open>Lemmas on checks\<close>

lemma fold_r_append: "fold_r f (xs @ ys) s = (case fold_r f xs s of Inl err \<Rightarrow> Inl err | Inr s' \<Rightarrow> fold_r f ys s')"
  by (induction xs arbitrary: s) (auto split: sum.splits)

lemma filter_r_Inr: "filter_r f xs = Inr ys \<Longrightarrow> ys = filter (\<lambda>x. f x = Inr True) xs"
  by (induction xs arbitrary: ys) (auto split: sum.splits if_splits)

lemma filter_r_total: "(\<forall>x \<in> set xs. \<exists>b. f x = Inr b) \<Longrightarrow>
   filter_r f xs = Inr (filter (\<lambda>x. f x = Inr True) xs)"
  by (induction xs) auto

lemma filter_r_defined: "filter_r f xs = Inr ys \<Longrightarrow> x \<in> set xs \<Longrightarrow> \<exists>b. f x = Inr b"
  by (induction xs arbitrary: ys) (auto split: sum.splits)

lemma all_r_Inr: "all_r f xs = Inr True \<longleftrightarrow> (\<forall>x \<in> set xs. f x = Inr True)"
  by (induction xs) (auto split: sum.splits)

lemma all_r_total: "(\<forall>x \<in> set xs. \<exists>b. f x = Inr b) \<Longrightarrow> \<exists>b. all_r f xs = Inr b"
  by (induction xs) auto

lemma any_r_total: "(\<forall>x \<in> set xs. \<exists>b. f x = Inr b) \<Longrightarrow> \<exists>b. any_r f xs = Inr b"
  by (induction xs) auto

end
