(* ===== verification/Policy_Contracts.thy ===== *)
theory Policy_Contracts
  imports Render
begin

text \<open>
  \<open>omni/contracts/policy.py\<close>: the records of the Policy Engine. Severity is the linear order of
  \<open>risk_level\<close>; the optional fields of the Pydantic models are options, their defaults are the
  values the constructors below take.
\<close>

section \<open>Risk levels\<close>

datatype risk_level = LOW | MEDIUM | HIGH | CRITICAL

fun risk_value :: "risk_level \<Rightarrow> string" where
  "risk_value LOW = ''low''"
| "risk_value MEDIUM = ''medium''"
| "risk_value HIGH = ''high''"
| "risk_value CRITICAL = ''critical''"

definition RISK_ORDER :: "risk_level list" where
  "RISK_ORDER = [LOW, MEDIUM, HIGH, CRITICAL]"

fun risk_rank :: "risk_level \<Rightarrow> nat" where
  \<comment> \<open>\<open>RISK_ORDER.index(level)\<close>\<close>
  "risk_rank LOW = 0"
| "risk_rank MEDIUM = 1"
| "risk_rank HIGH = 2"
| "risk_rank CRITICAL = 3"

lemma risk_rank_index: "risk_rank l < length RISK_ORDER \<and> RISK_ORDER ! risk_rank l = l"
  by (cases l) (simp_all add: RISK_ORDER_def)

lemma risk_rank_inj [simp]: "risk_rank a = risk_rank b \<longleftrightarrow> a = b"
  by (cases a; cases b) simp_all

instantiation risk_level :: linorder
begin

definition less_eq_risk_level :: "risk_level \<Rightarrow> risk_level \<Rightarrow> bool" where
  "less_eq_risk_level a b \<longleftrightarrow> risk_rank a \<le> risk_rank b"

definition less_risk_level :: "risk_level \<Rightarrow> risk_level \<Rightarrow> bool" where
  "less_risk_level a b \<longleftrightarrow> risk_rank a < risk_rank b"

instance
proof
  fix x y z :: risk_level
  show "x < y \<longleftrightarrow> x \<le> y \<and> \<not> y \<le> x"
    by (auto simp: less_eq_risk_level_def less_risk_level_def)
  show "x \<le> x" by (simp add: less_eq_risk_level_def)
  show "x \<le> y \<Longrightarrow> y \<le> z \<Longrightarrow> x \<le> z" by (simp add: less_eq_risk_level_def)
  show "x \<le> y \<Longrightarrow> y \<le> x \<Longrightarrow> x = y"
    using risk_rank_inj [of x y] by (simp add: less_eq_risk_level_def)
  show "x \<le> y \<or> y \<le> x" by (auto simp: less_eq_risk_level_def)
qed

end

definition risk_at_least :: "risk_level \<Rightarrow> risk_level \<Rightarrow> bool" where
  "risk_at_least level threshold \<longleftrightarrow> risk_rank threshold \<le> risk_rank level"

lemma risk_at_least_le: "risk_at_least level threshold \<longleftrightarrow> threshold \<le> level"
  by (simp add: risk_at_least_def less_eq_risk_level_def)

definition risk_of_value :: "pyval \<Rightarrow> risk_level option" where
  \<comment> \<open>\<open>RiskLevel(v)\<close>, \<open>None\<close> for its \<open>ValueError\<close>\<close>
  "risk_of_value v = map_of
     [(PStr (risk_value LOW), LOW), (PStr (risk_value MEDIUM), MEDIUM),
      (PStr (risk_value HIGH), HIGH), (PStr (risk_value CRITICAL), CRITICAL)] v"

lemma risk_of_value_of_risk [simp]: "risk_of_value (PStr (risk_value l)) = Some l"
  by (cases l) (simp_all add: risk_of_value_def)

section \<open>Principals, resources, rules\<close>

record principal =
  pr_id :: string
  pr_roles :: "string list"
  pr_groups :: "string list"
  pr_attributes :: "(string, pyval) dict"

record resource =
  rs_type :: string
  rs_attributes :: "(string, pyval) dict"

definition default_resource :: resource where
  "default_resource = \<lparr>rs_type = ''generic'', rs_attributes = []\<rparr>"

definition resource_risk :: "resource \<Rightarrow> risk_level" where
  "resource_risk r =
     (case risk_of_value (case dict_get (rs_attributes r) ''risk_level'' of None \<Rightarrow> PStr ''low'' | Some v \<Rightarrow> v)
      of None \<Rightarrow> LOW | Some l \<Rightarrow> l)"

record abac_condition =
  ac_field :: string
  ac_op :: string
  ac_value :: pyval

record policy_rule =
  ru_id :: string
  ru_action :: string
  ru_effect :: string
  ru_roles :: "string list"
  ru_groups :: "string list"
  ru_conditions :: "abac_condition list"
  ru_priority :: int
  ru_risk_level :: "risk_level option"
  ru_require_approval :: bool
  ru_approve_roles :: "string list"

section \<open>Limits and decisions\<close>

record limit_policy =
  lp_id :: string
  lp_scope :: string
  lp_scope_value :: string
  lp_window_seconds :: int
  lp_max_cost :: "real option"
  lp_max_calls :: "int option"

record limit_status =
  ls_allowed :: bool
  ls_current_cost :: real
  ls_current_calls :: int
  ls_violations :: "string list"

definition default_limit_status :: limit_status where
  "default_limit_status = \<lparr>ls_allowed = True, ls_current_cost = 0, ls_current_calls = 0, ls_violations = []\<rparr>"

datatype approval_status = NONE | PENDING | APPROVED | REJECTED

fun approval_value :: "approval_status \<Rightarrow> string" where
  "approval_value NONE = ''none''"
| "approval_value PENDING = ''pending''"
| "approval_value APPROVED = ''approved''"
| "approval_value REJECTED = ''rejected''"

record policy_decision =
  pd_id :: string
  pd_allowed :: bool
  pd_matched_rule :: "string option"
  pd_reason :: string
  pd_principal_id :: string
  pd_risk_level :: risk_level
  pd_require_approval :: bool
  pd_approve_roles :: "string list"
  pd_approval_status :: approval_status
  pd_limit_status :: limit_status
  pd_evaluated_at :: string

definition new_decision :: "env \<Rightarrow> bool \<Rightarrow> string \<Rightarrow> policy_decision" where
  \<comment> \<open>\<open>PolicyDecision(allowed=..., reason=...)\<close> with every other field at its default\<close>
  "new_decision env allowed reason =
     \<lparr>pd_id = new_id ''dec'' env, pd_allowed = allowed, pd_matched_rule = None, pd_reason = reason,
      pd_principal_id = [], pd_risk_level = LOW, pd_require_approval = False, pd_approve_roles = [],
      pd_approval_status = NONE, pd_limit_status = default_limit_status, pd_evaluated_at = env_stamp env\<rparr>"

definition dump_limit_status :: "limit_status \<Rightarrow> pyval" where
  "dump_limit_status s = PDict
     [(''allowed'', PBool (ls_allowed s)), (''current_cost'', PFloat (ls_current_cost s)),
      (''current_calls'', PInt (ls_current_calls s)), (''violations'', PList (map PStr (ls_violations s)))]"

definition opt_str :: "string option \<Rightarrow> pyval" where
  "opt_str x = (case x of None \<Rightarrow> PNone | Some s \<Rightarrow> PStr s)"

definition dump_decision :: "policy_decision \<Rightarrow> pyval" where
  \<comment> \<open>\<open>decision.model_dump(mode="json")\<close>\<close>
  "dump_decision d = PDict
     [(''decision_id'', PStr (pd_id d)), (''allowed'', PBool (pd_allowed d)),
      (''matched_rule'', opt_str (pd_matched_rule d)), (''reason'', PStr (pd_reason d)),
      (''principal_id'', PStr (pd_principal_id d)), (''risk_level'', PStr (risk_value (pd_risk_level d))),
      (''require_approval'', PBool (pd_require_approval d)),
      (''approve_roles'', PList (map PStr (pd_approve_roles d))),
      (''approval_status'', PStr (approval_value (pd_approval_status d))),
      (''limit_status'', dump_limit_status (pd_limit_status d)),
      (''evaluated_at'', PStr (pd_evaluated_at d))]"

lemma truthy_dump_decision [simp]: "truthy (dump_decision d)"
  by (simp add: dump_decision_def)

lemma risk_value_inj [simp]: "risk_value a = risk_value b \<longleftrightarrow> a = b"
  by (cases a; cases b) simp_all

lemma approval_value_inj [simp]: "approval_value a = approval_value b \<longleftrightarrow> a = b"
  by (cases a; cases b) simp_all

lemma map_PStr_inj [simp]: "map PStr a = map PStr b \<longleftrightarrow> a = b"
  by (simp add: inj_map_eq_map inj_def)

lemma opt_str_inj [simp]: "opt_str a = opt_str b \<longleftrightarrow> a = b"
  by (auto simp: opt_str_def split: option.splits)

lemma dump_decision_inj [simp]: "dump_decision a = dump_decision b \<longleftrightarrow> a = b"
  by (cases a; cases b) (auto simp: dump_decision_def dump_limit_status_def intro!: limit_status.equality)

end
