(* ===== verification/Append_Log.thy ===== *)
theory Append_Log
  imports Prelude
begin

text \<open>
  The contract that several components promise: their operations only ever append to a log, and
  keep an invariant. Clients reason about any sequence of operations from the laws alone; each
  provider interprets the locale on its own operations.
\<close>

definition leads :: "('c \<Rightarrow> 's \<Rightarrow> 's) \<Rightarrow> ('c \<Rightarrow> bool) \<Rightarrow> 's \<Rightarrow> 's \<Rightarrow> bool" where
  \<comment> \<open>a state reaches another by operations of a kind; how a system moves a component it contains\<close>
  "leads step V s s' \<longleftrightarrow> (\<exists>cs. (\<forall>c \<in> set cs. V c) \<and> s' = fold step cs s)"

lemma leads_refl [intro!, simp]: "leads step V s s"
  unfolding leads_def by (rule exI [of _ "[]"]) simp

lemma leads_trans: "leads step V s t \<Longrightarrow> leads step V t u \<Longrightarrow> leads step V s u"
  unfolding leads_def by (metis UnE comp_apply fold_append set_append)

lemma leads_step: "V c \<Longrightarrow> leads step V s (step c s)"
  unfolding leads_def by (rule exI [of _ "[c]"]) simp

lemma leads_mono: "leads step V s t \<Longrightarrow> (\<And>c. V c \<Longrightarrow> W c) \<Longrightarrow> leads step W s t"
  unfolding leads_def by blast

locale append_log =
  fixes log_of :: "'s \<Rightarrow> 'e list"
    and step :: "'c \<Rightarrow> 's \<Rightarrow> 's"
  assumes step_appends: "prefix (log_of s) (log_of (step c s))"
begin

lemma run_appends: "prefix (log_of s) (log_of (fold step cs s))"
proof (induction cs arbitrary: s)
  case (Cons c cs)
  have "prefix (log_of s) (log_of (step c s))" by (rule step_appends)
  also have "prefix (log_of (step c s)) (log_of (fold step cs (step c s)))" by (rule Cons.IH)
  finally show ?case by simp
qed simp

lemma run_keeps_entry:
  assumes "i < length (log_of s)"
  shows "log_of (fold step cs s) ! i = log_of s ! i"
proof -
  obtain zs where "log_of (fold step cs s) = log_of s @ zs"
    using run_appends [of s cs] by (auto simp: prefix_def)
  with assms show ?thesis by (simp add: nth_append)
qed

lemma leads_appends: "leads step V s t \<Longrightarrow> prefix (log_of s) (log_of t)"
  unfolding leads_def using run_appends by blast

lemma run_length: "length (log_of s) \<le> length (log_of (fold step cs s))"
  using run_appends by (rule prefix_length_le)

lemma run_monotone: "e \<in> set (log_of s) \<Longrightarrow> e \<in> set (log_of (fold step cs s))"
  using run_appends [of s cs] by (auto simp: prefix_def)

end

locale guarded_machine =
  fixes step :: "'c \<Rightarrow> 's \<Rightarrow> 's"
    and ok :: "'s \<Rightarrow> bool"
    and valid :: "'c \<Rightarrow> bool"
  assumes valid_step_ok: "ok s \<Longrightarrow> valid c \<Longrightarrow> ok (step c s)"
begin

lemma valid_run_ok: "ok s \<Longrightarrow> \<forall>c \<in> set cs. valid c \<Longrightarrow> ok (fold step cs s)"
  by (induction cs arbitrary: s) (auto intro: valid_step_ok)

lemma valid_leads_ok: "leads step valid s t \<Longrightarrow> ok s \<Longrightarrow> ok t"
  unfolding leads_def using valid_run_ok by blast

end

locale machine =
  fixes step :: "'c \<Rightarrow> 's \<Rightarrow> 's"
    and ok :: "'s \<Rightarrow> bool"
  assumes step_ok: "ok s \<Longrightarrow> ok (step c s)"

sublocale machine \<subseteq> unguarded: guarded_machine step ok "\<lambda>_. True"
  by unfold_locales (rule step_ok)

context machine
begin

lemma run_ok: "ok s \<Longrightarrow> ok (fold step cs s)"
  by (rule unguarded.valid_run_ok) simp_all

lemma leads_ok: "leads step V s t \<Longrightarrow> ok s \<Longrightarrow> ok t"
  unfolding leads_def using run_ok by blast

end

locale disciplined_machine =
  fixes step :: "'c \<Rightarrow> 's \<Rightarrow> 's"
    and ok :: "'s \<Rightarrow> bool"
    and allowed :: "'c \<Rightarrow> 's \<Rightarrow> bool"
  assumes allowed_step_ok: "ok s \<Longrightarrow> allowed c s \<Longrightarrow> ok (step c s)"
begin

primrec all_allowed :: "'c list \<Rightarrow> 's \<Rightarrow> bool" where
  "all_allowed [] s = True"
| "all_allowed (c # cs) s = (allowed c s \<and> all_allowed cs (step c s))"

lemma allowed_run_ok: "ok s \<Longrightarrow> all_allowed cs s \<Longrightarrow> ok (fold step cs s)"
  by (induction cs arbitrary: s) (auto intro: allowed_step_ok)

end

locale logged_machine = append_log log_of step + machine step ok
  for log_of :: "'s \<Rightarrow> 'e list" and step :: "'c \<Rightarrow> 's \<Rightarrow> 's" and ok :: "'s \<Rightarrow> bool"
begin

lemma run_ok_appends: "ok s \<Longrightarrow> ok (fold step cs s) \<and> prefix (log_of s) (log_of (fold step cs s))"
  by (simp add: run_ok run_appends)

end

end
