(* ===== verification/Ledger.thy ===== *)
theory Ledger
  imports Render Append_Log
begin

text \<open>
  \<open>omni/audit/ledger.py\<close>: the SQLite table of the \<open>ReplayLedger\<close>, its \<open>record\<close> and its filtered
  \<open>replay\<close>. The table is the list of its rows in insertion order together with the counter behind
  \<open>AUTOINCREMENT\<close>; JSON text of a payload decodes to the payload.
\<close>

record ledger_row =
  lr_id :: int
  lr_ts :: string
  lr_subsystem :: string
  lr_subject :: string
  lr_event :: string
  lr_decision_id :: "string option"
  lr_payload :: pyval

record ledger =
  lg_rows :: "ledger_row list"
  lg_seq :: int

definition new_ledger :: ledger where
  "new_ledger = \<lparr>lg_rows = [], lg_seq = 0\<rparr>"

definition ledger_record ::
  "env \<Rightarrow> string \<Rightarrow> string \<Rightarrow> string \<Rightarrow> pyval option \<Rightarrow> string option \<Rightarrow> ledger \<Rightarrow> ledger_row \<times> ledger" where
  "ledger_record env subsystem subject event payload decision_id lg =
     (let row = \<lparr>lr_id = lg_seq lg + 1, lr_ts = env_stamp env, lr_subsystem = subsystem,
                 lr_subject = subject, lr_event = event, lr_decision_id = decision_id,
                 lr_payload = (case payload of None \<Rightarrow> PDict []
                               | Some p \<Rightarrow> if truthy p then p else PDict [])\<rparr>
      in (row, lg\<lparr>lg_rows := lg_rows lg @ [row], lg_seq := lg_seq lg + 1\<rparr>))"

definition ledger_replay :: "string option \<Rightarrow> string option \<Rightarrow> int \<Rightarrow> ledger \<Rightarrow> ledger_row list" where
  "ledger_replay subject subsystem limit lg =
     first_n limit (sort_key lr_id
       (filter (\<lambda>r. (case subject of None \<Rightarrow> True | Some s \<Rightarrow> lr_subject r = s) \<and>
                    (case subsystem of None \<Rightarrow> True | Some s \<Rightarrow> lr_subsystem r = s)) (lg_rows lg)))"

definition ledger_count :: "ledger \<Rightarrow> nat" where
  "ledger_count lg = length (lg_rows lg)"

section \<open>The table's invariant\<close>

definition ledger_ok :: "ledger \<Rightarrow> bool" where
  \<comment> \<open>identifiers are strictly increasing and below the counter\<close>
  "ledger_ok lg \<longleftrightarrow> sorted_wrt (<) (map lr_id (lg_rows lg)) \<and> (\<forall>r \<in> set (lg_rows lg). lr_id r \<le> lg_seq lg)"

definition ledger_step :: "env \<times> string \<times> string \<times> string \<times> pyval option \<times> string option \<Rightarrow> ledger \<Rightarrow> ledger" where
  "ledger_step = (\<lambda>(env, subsystem, subject, event, payload, decision_id) lg.
     snd (ledger_record env subsystem subject event payload decision_id lg))"

lemma ledger_record_rows [frame_simps]:
  "lg_rows (snd (ledger_record env subsystem subject event payload decision_id lg)) =
     lg_rows lg @ [fst (ledger_record env subsystem subject event payload decision_id lg)]"
  by (simp add: ledger_record_def Let_def)

lemma ledger_record_row [frame_simps]:
  "lr_subsystem (fst (ledger_record env subsystem subject event payload decision_id lg)) = subsystem"
  "lr_subject (fst (ledger_record env subsystem subject event payload decision_id lg)) = subject"
  "lr_event (fst (ledger_record env subsystem subject event payload decision_id lg)) = event"
  "lr_decision_id (fst (ledger_record env subsystem subject event payload decision_id lg)) = decision_id"
  "lr_ts (fst (ledger_record env subsystem subject event payload decision_id lg)) = env_stamp env"
  by (simp_all add: ledger_record_def Let_def)

lemma ledger_record_ok [inv_intros]:
  "ledger_ok lg \<Longrightarrow> ledger_ok (snd (ledger_record env subsystem subject event payload decision_id lg))"
  by (force simp: ledger_ok_def ledger_record_def Let_def sorted_wrt_append)

lemma new_ledger_ok [inv_intros]: "ledger_ok new_ledger"
  by (simp add: ledger_ok_def new_ledger_def)

interpretation ledger_log: logged_machine lg_rows ledger_step ledger_ok
  by unfold_locales
    (auto simp: ledger_step_def ledger_record_rows intro: ledger_record_ok split: prod.splits)

section \<open>Replay\<close>

lemma sort_key_filter_id:
  assumes "sorted_wrt (<) (map f xs)"
  shows "sort_key f (filter P xs) = filter P (xs :: 'a list)"
proof -
  have "sorted (map f xs)"
    using assms by (auto simp: sorted_wrt_iff_nth_less intro: less_imp_le)
  then have "sort_key f xs = xs" by (simp add: sorted_sort_id sort_key_id_if_sorted)
  then show ?thesis by (metis filter_sort)
qed

end
