(* ===== verification/Policy.thy ===== *)
theory Policy
  imports Policy_Contracts Ledger
begin

text \<open>
  \<open>omni/policy/engine.py\<close>: conditions and rule matching, rolling-window limits, the decision
  procedure \<open>evaluate\<close>, the approval chain and the seed rules. The engine's state is a record; the
  \<open>ReplayLedger\<close> it may hold a reference to is passed beside it, so that other components can
  share it. A raise inside a condition is an \<open>Inl\<close>, and leaves the state as it was.
\<close>

section \<open>Conditions\<close>

definition policy_get_path :: "pyval \<Rightarrow> string \<Rightarrow> pyval" where
  "policy_get_path obj path = get_path obj (split_on CHR ''.'' path) PNone"

definition risk_index :: "string \<Rightarrow> int" where
  "risk_index v = (case risk_of_value (PStr v) of None \<Rightarrow> -1 | Some l \<Rightarrow> int (risk_rank l))"

definition policy_compare :: "pyval \<Rightarrow> pyval \<Rightarrow> int option" where
  "policy_compare a b =
     (case (a, b) of
        (PStr s, PStr t) \<Rightarrow>
          if risk_index s \<ge> 0 \<and> risk_index t \<ge> 0 then Some (cmp3 (risk_index s) (risk_index t))
          else py_cmp a b
      | _ \<Rightarrow> py_cmp a b)"

definition eval_op :: "string \<Rightarrow> pyval \<Rightarrow> pyval \<Rightarrow> bool result" where
  "eval_op op actual want =
     (if op = ''eq'' then Inr (py_eq actual want)
      else if op = ''ne'' then Inr (\<not> py_eq actual want)
      else (case policy_compare actual want of
          None \<Rightarrow> Inr False
        | Some c \<Rightarrow>
            if op = ''gt'' then Inr (c > 0)
            else if op = ''gte'' then Inr (c \<ge> 0)
            else if op = ''lt'' then Inr (c < 0)
            else if op = ''lte'' then Inr (c \<le> 0)
            else if op = ''in'' then py_in actual (if truthy want then want else PList [])
            else if op = ''contains'' then
              (case py_iter (if truthy want then want else PList []) of
                 None \<Rightarrow> Inl TypeError
               | Some items \<Rightarrow> any_r (\<lambda>item. py_in item (if truthy actual then actual else PList [])) items)
            else Inr False))"

definition principal_dict :: "principal \<Rightarrow> pyval" where
  "principal_dict p = PDict
     [(''id'', PStr (pr_id p)), (''roles'', PList (map PStr (pr_roles p))),
      (''groups'', PList (map PStr (pr_groups p))), (''attributes'', PDict (pr_attributes p))]"

definition resource_dict :: "resource \<Rightarrow> pyval" where
  "resource_dict r = PDict (dict_merge [(''type'', PStr (rs_type r))] (rs_attributes r))"

definition eval_condition :: "abac_condition \<Rightarrow> principal \<Rightarrow> resource \<Rightarrow> bool result" where
  "eval_condition c p r =
     (if startswith ''principal.'' (ac_field c)
      then eval_op (ac_op c) (policy_get_path (principal_dict p) (removeprefix ''principal.'' (ac_field c))) (ac_value c)
      else if startswith ''resource.'' (ac_field c)
      then eval_op (ac_op c) (policy_get_path (resource_dict r) (removeprefix ''resource.'' (ac_field c))) (ac_value c)
      else Inr False)"

section \<open>Rule matching\<close>

definition action_matches :: "string \<Rightarrow> string \<Rightarrow> bool" where
  "action_matches pat action =
     (if pat = ''*'' then True
      else if CHR ''*'' \<notin> set pat then pat = action
      else startswith (butlast pat) action)"

definition rule_matches :: "policy_rule \<Rightarrow> principal \<Rightarrow> string \<Rightarrow> resource \<Rightarrow> bool result" where
  "rule_matches rule p action r =
     (if \<not> action_matches (ru_action rule) action then Inr False
      else if ru_roles rule \<noteq> [] \<and> \<not> list_ex (\<lambda>x. x \<in> set (pr_roles p)) (ru_roles rule) then Inr False
      else if ru_groups rule \<noteq> [] \<and> \<not> list_ex (\<lambda>x. x \<in> set (pr_groups p)) (ru_groups rule) then Inr False
      else all_r (\<lambda>c. eval_condition c p r) (ru_conditions rule))"

section \<open>State\<close>

record usage =
  us_ts :: real
  us_scope :: string
  us_value :: string
  us_cost :: real
  us_calls :: int

record policy_engine =
  pe_rules :: "policy_rule list"
  pe_limits :: "limit_policy list"
  pe_lockdown :: bool
  pe_decisions :: "policy_decision list"
  pe_pendings :: "(string, policy_decision) dict"
  pe_usage :: "usage list"

type_synonym policy_state = "policy_engine \<times> ledger option"

definition add_rule :: "policy_rule \<Rightarrow> policy_engine \<Rightarrow> policy_engine" where
  "add_rule rule e = e\<lparr>pe_rules := pe_rules e @ [rule]\<rparr>"

definition add_limit :: "limit_policy \<Rightarrow> policy_engine \<Rightarrow> policy_engine" where
  "add_limit limit e = e\<lparr>pe_limits := pe_limits e @ [limit]\<rparr>"

definition set_lockdown :: "bool \<Rightarrow> policy_engine \<Rightarrow> policy_engine" where
  "set_lockdown enabled e = e\<lparr>pe_lockdown := enabled\<rparr>"

definition new_policy_engine :: "policy_rule list \<Rightarrow> policy_engine" where
  "new_policy_engine seed = fold add_rule seed
     \<lparr>pe_rules = [], pe_limits = [], pe_lockdown = False, pe_decisions = [], pe_pendings = [], pe_usage = []\<rparr>"

section \<open>Limits\<close>

definition scopes :: "principal \<Rightarrow> (string \<times> string) list" where
  \<comment> \<open>the comprehension over \<open>("GROUP", g)\<close> yields the pair \<open>(g, g)\<close> as well\<close>
  "scopes p = (''GLOBAL'', ''*'') # concat (map (\<lambda>g. map (\<lambda>s. (s, g)) [''GROUP'', g]) (pr_groups p))
                @ [(''PRINCIPAL'', pr_id p)]"

definition limit_windows ::
  "limit_policy list \<Rightarrow> principal \<Rightarrow> (string \<times> string \<times> string, limit_policy) dict" where
  "limit_windows limits p =
     fold (\<lambda>(l, scope, value) d.
             if lp_scope l = scope \<and> lp_scope_value l \<in> {''*'', value} then dict_set (scope, value, lp_id l) l d else d)
       (concat (map (\<lambda>l. map (\<lambda>sv. (l, sv)) (scopes p)) limits)) []"

definition recent_usage :: "real \<Rightarrow> limit_policy \<Rightarrow> string \<Rightarrow> string \<Rightarrow> usage list \<Rightarrow> usage list" where
  "recent_usage now lm scope value us =
     filter (\<lambda>u. us_scope u = scope \<and> us_value u = value \<and> now - us_ts u \<le> of_int (lp_window_seconds lm)) us"

definition used_cost :: "real \<Rightarrow> limit_policy \<Rightarrow> string \<Rightarrow> string \<Rightarrow> usage list \<Rightarrow> real" where
  "used_cost now lm scope value us = sum_list (map us_cost (recent_usage now lm scope value us))"

definition used_calls :: "real \<Rightarrow> limit_policy \<Rightarrow> string \<Rightarrow> string \<Rightarrow> usage list \<Rightarrow> int" where
  "used_calls now lm scope value us = sum_list (map us_calls (recent_usage now lm scope value us))"

definition cost_violated :: "limit_policy \<Rightarrow> real \<Rightarrow> bool" where
  "cost_violated lm tot = (case lp_max_cost lm of None \<Rightarrow> False | Some m \<Rightarrow> tot > m)"

definition calls_violated :: "limit_policy \<Rightarrow> int \<Rightarrow> bool" where
  "calls_violated lm tot = (case lp_max_calls lm of None \<Rightarrow> False | Some m \<Rightarrow> tot > m)"

definition violation_text :: "string \<Rightarrow> limit_policy \<Rightarrow> string \<Rightarrow> string \<Rightarrow> string \<Rightarrow> string \<Rightarrow> string" where
  "violation_text kind lm scope value tot bound =
     kind @ '' limit '' @ quoted (lp_id lm) @ '' ('' @ scope @ '':'' @ value @ ''): '' @ tot @ '' > '' @ bound"

definition limit_step :: "real \<Rightarrow> usage list \<Rightarrow> real \<Rightarrow> int \<Rightarrow>
    (string \<times> string \<times> string) \<times> limit_policy \<Rightarrow> limit_status \<Rightarrow> limit_status" where
  "limit_step now us cost calls =
     (\<lambda>((scope, value, _), lm) status.
        let uc = used_cost now lm scope value us;
            un = used_calls now lm scope value us;
            s1 = (if cost_violated lm (uc + cost)
                  then status\<lparr>ls_allowed := False, ls_violations := ls_violations status @
                         [violation_text ''cost'' lm scope value (show_fixed 2 (uc + cost))
                            (case lp_max_cost lm of None \<Rightarrow> [] | Some m \<Rightarrow> show_float m)]\<rparr>
                  else status);
            s2 = (if calls_violated lm (un + calls)
                  then s1\<lparr>ls_allowed := False, ls_violations := ls_violations s1 @
                         [violation_text ''call'' lm scope value (show_int (un + calls))
                            (case lp_max_calls lm of None \<Rightarrow> [] | Some m \<Rightarrow> show_int m)]\<rparr>
                  else s1)
        in s2\<lparr>ls_current_cost := py_round (max (ls_current_cost s2) uc) 4,
              ls_current_calls := max (ls_current_calls s2) un\<rparr>)"

definition check_limits :: "real \<Rightarrow> policy_engine \<Rightarrow> principal \<Rightarrow> real \<Rightarrow> int \<Rightarrow> limit_status" where
  "check_limits now e p cost calls =
     fold (limit_step now (pe_usage e) cost calls) (limit_windows (pe_limits e) p) default_limit_status"

definition record_usage :: "real \<Rightarrow> principal \<Rightarrow> real \<Rightarrow> int \<Rightarrow> policy_engine \<Rightarrow> policy_engine" where
  "record_usage now p cost calls e =
     (if cost \<le> 0 \<and> calls \<le> 0 then e
      else e\<lparr>pe_usage := pe_usage e @
        map (\<lambda>g. \<lparr>us_ts = now, us_scope = ''GROUP'', us_value = g, us_cost = cost, us_calls = calls\<rparr>) (pr_groups p) @
        [\<lparr>us_ts = now, us_scope = ''PRINCIPAL'', us_value = pr_id p, us_cost = cost, us_calls = calls\<rparr>,
         \<lparr>us_ts = now, us_scope = ''GLOBAL'', us_value = ''*'', us_cost = cost, us_calls = calls\<rparr>]\<rparr>)"

section \<open>Decisions\<close>

definition log_subject :: "policy_decision \<Rightarrow> string" where
  "log_subject d = (if pd_principal_id d \<noteq> [] then pd_principal_id d else ''policy'')"

definition log_event :: "policy_decision \<Rightarrow> string" where
  "log_event d = ''decision.'' @ (if pd_allowed d then ''allow'' else ''deny'')"

definition policy_subsystem :: string where
  "policy_subsystem = ''policy''"

definition policy_log :: "env \<Rightarrow> policy_decision \<Rightarrow> policy_state \<Rightarrow> policy_decision \<times> policy_state" where
  "policy_log env d st =
     (let e = (fst st)\<lparr>pe_decisions := pe_decisions (fst st) @ [d]\<rparr>
      in (d, e,
          (case snd st of
             None \<Rightarrow> None
           | Some lg \<Rightarrow> Some (snd (ledger_record env policy_subsystem (log_subject d) (log_event d)
               (Some (dump_decision d)) (Some (pd_id d)) lg)))))"

text \<open>The messages of the decisions.\<close>

definition lockdown_text :: "string \<Rightarrow> principal \<Rightarrow> string" where
  "lockdown_text action p =
     ''emergency lockdown active; action '' @ quoted action @ '' denied for principal '' @ quoted (pr_id p)"

definition deny_text :: "policy_rule \<Rightarrow> string" where
  "deny_text rule = ''denied by rule '' @ quoted (ru_id rule) @ '' ('' @ ru_action rule @ '')''"

definition default_text :: "string \<Rightarrow> principal \<Rightarrow> string" where
  "default_text action p =
     ''no policy matches action '' @ quoted action @ '' for principal '' @ quoted (pr_id p) @ '' (default deny)''"

definition risk_text :: "resource \<Rightarrow> risk_level option \<Rightarrow> policy_rule \<Rightarrow> string" where
  "risk_text r threshold rule =
     ''risk gate: resource risk '' @ quoted (risk_value (resource_risk r)) @ '' exceeds allowed '' @
     quoted (case threshold of None \<Rightarrow> [] | Some t \<Rightarrow> risk_value t) @ '' by rule '' @ quoted (ru_id rule)"

definition limit_text :: "limit_status \<Rightarrow> string" where
  "limit_text status = ''limit exceeded: '' @ join_with '', '' (ls_violations status)"

definition approval_text :: "policy_rule \<Rightarrow> string" where
  "approval_text rule = ''requires approval by roles '' @ repr_str_list (ru_approve_roles rule) @
     '' (rule '' @ quoted (ru_id rule) @ '')''"

definition allowed_text :: "policy_rule \<Rightarrow> string" where
  "allowed_text rule = ''allowed by rule '' @ quoted (ru_id rule)"

definition rejected_text :: "string \<Rightarrow> string" where
  "rejected_text role = ''approved denied: '' @ quoted role @ '' lacks an approval role''"

definition approved_text :: "string \<Rightarrow> string" where
  "approved_text role = ''approved by role '' @ quoted role"

definition is_exempt :: "principal \<Rightarrow> bool" where
  "is_exempt p \<longleftrightarrow> ''approval.exempt'' \<in> set (pr_roles p)"

definition evaluate_allow ::
  "env \<Rightarrow> principal \<Rightarrow> resource \<Rightarrow> real \<Rightarrow> int \<Rightarrow> policy_rule \<Rightarrow> policy_state \<Rightarrow> policy_decision \<times> policy_state" where
  \<comment> \<open>\<open>evaluate\<close> once no rule denies and the rule \<open>allow\<close> is the first to allow\<close>
  "evaluate_allow env p r cost calls allow st =
     (let e = fst st; status = check_limits (env_time env) e p cost calls in
      if (case ru_risk_level allow of None \<Rightarrow> False | Some t \<Rightarrow> risk_at_least (resource_risk r) t)
      then policy_log env
        ((new_decision env False (risk_text r (ru_risk_level allow) allow))
          \<lparr>pd_matched_rule := Some (ru_id allow), pd_principal_id := pr_id p,
           pd_risk_level := resource_risk r, pd_limit_status := status\<rparr>) st
      else if \<not> ls_allowed status
      then policy_log env
        ((new_decision env False (limit_text status))
          \<lparr>pd_matched_rule := Some (ru_id allow), pd_risk_level := resource_risk r, pd_limit_status := status\<rparr>) st
      else if ru_require_approval allow \<and> \<not> is_exempt p
      then
        (let pending =
           (new_decision env False (approval_text allow))
             \<lparr>pd_matched_rule := Some (ru_id allow), pd_principal_id := pr_id p,
              pd_risk_level := resource_risk r, pd_require_approval := True,
              pd_approve_roles := ru_approve_roles allow, pd_approval_status := PENDING,
              pd_limit_status := status\<rparr>
         in policy_log env pending (e\<lparr>pe_pendings := dict_set (pd_id pending) pending (pe_pendings e)\<rparr>, snd st))
      else policy_log env
        ((new_decision env True (allowed_text allow))
          \<lparr>pd_matched_rule := Some (ru_id allow), pd_principal_id := pr_id p,
           pd_risk_level := resource_risk r, pd_limit_status := status\<rparr>)
        (record_usage (env_time env) p cost calls e, snd st))"

definition is_admin :: "principal \<Rightarrow> bool" where
  "is_admin p \<longleftrightarrow> ''system.admin'' \<in> set (pr_roles p)"

definition is_deny :: "policy_rule \<Rightarrow> bool" where
  "is_deny rule \<longleftrightarrow> ru_effect rule = ''DENY''"

definition is_allow :: "policy_rule \<Rightarrow> bool" where
  "is_allow rule \<longleftrightarrow> ru_effect rule = ''ALLOW''"

definition evaluate :: "env \<Rightarrow> principal \<Rightarrow> string \<Rightarrow> resource option \<Rightarrow> real \<Rightarrow> int \<Rightarrow> policy_state \<Rightarrow>
    (policy_decision \<times> policy_state) result" where
  "evaluate env p action res cost calls st =
     (let e = fst st; r = (case res of None \<Rightarrow> default_resource | Some r \<Rightarrow> r) in
      if pe_lockdown e \<and> \<not> is_admin p
      then Inr (policy_log env
        (new_decision env False (lockdown_text action p)) st)
      else (case filter_r (\<lambda>rule. rule_matches rule p action r) (pe_rules e) of
          Inl err \<Rightarrow> Inl err
        | Inr rules \<Rightarrow>
            (let matching = py_sorted_desc ru_priority rules in
             case find is_deny matching of
               Some rule \<Rightarrow> Inr (policy_log env
                 ((new_decision env False (deny_text rule))
                   \<lparr>pd_matched_rule := Some (ru_id rule), pd_risk_level := resource_risk r,
                    pd_limit_status := check_limits (env_time env) e p cost calls\<rparr>) st)
             | None \<Rightarrow>
               (case find is_allow matching of
                  None \<Rightarrow> Inr (policy_log env
                    ((new_decision env False (default_text action p))
                      \<lparr>pd_risk_level := resource_risk r,
                       pd_limit_status := check_limits (env_time env) e p cost calls\<rparr>) st)
                | Some allow \<Rightarrow> Inr (evaluate_allow env p r cost calls allow st)))))"

section \<open>Approvals and the log\<close>

definition approve :: "env \<Rightarrow> string \<Rightarrow> string \<Rightarrow> policy_state \<Rightarrow> (policy_decision \<times> policy_state) result" where
  "approve env decision_id approver_role st =
     (case dict_get (pe_pendings (fst st)) decision_id of
        None \<Rightarrow> Inl (KeyError (''no pending approval '' @ quoted decision_id))
      | Some pending \<Rightarrow>
          if approver_role \<notin> set (pd_approve_roles pending)
          then Inr (policy_log env
            (pending\<lparr>pd_approval_status := REJECTED,
               pd_reason := rejected_text approver_role\<rparr>) st)
          else Inr (policy_log env
            (pending\<lparr>pd_allowed := True, pd_approval_status := APPROVED,
               pd_reason := approved_text approver_role\<rparr>)
            ((fst st)\<lparr>pe_pendings := dict_del decision_id (pe_pendings (fst st))\<rparr>, snd st)))"

definition pending_approvals :: "policy_engine \<Rightarrow> policy_decision list" where
  "pending_approvals e = dict_values (pe_pendings e)"

definition decision_log :: "int \<Rightarrow> policy_engine \<Rightarrow> policy_decision list" where
  "decision_log limit e = last_n limit (pe_decisions e)"

end
