(* ===== verification/Policy_Proofs.thy ===== *)
theory Policy_Proofs
  imports Policy
begin

text \<open>
  What makes the Policy Engine correct: the decision is the abstract deny-overrides verdict of the
  rules; the decision log and the ledger only grow and agree; a pending approval is granted once,
  to the listed roles only.
\<close>

section \<open>The verdict\<close>

definition applies :: "principal \<Rightarrow> string \<Rightarrow> resource \<Rightarrow> policy_rule \<Rightarrow> bool" where
  "applies p action r rule \<longleftrightarrow> rule_matches rule p action r = Inr True"

definition the_resource :: "resource option \<Rightarrow> resource" where
  "the_resource res = (case res of None \<Rightarrow> default_resource | Some r \<Rightarrow> r)"

definition leading_allow :: "principal \<Rightarrow> string \<Rightarrow> resource \<Rightarrow> policy_rule list \<Rightarrow> policy_rule \<Rightarrow> bool" where
  \<comment> \<open>the applicable ALLOW rule of highest priority, the earliest added among equals\<close>
  "leading_allow p action r rules rule \<longleftrightarrow>
     first_best (\<lambda>ru. - ru_priority ru) (\<lambda>ru. applies p action r ru \<and> is_allow ru) rules rule"

definition clears :: "env \<Rightarrow> policy_engine \<Rightarrow> principal \<Rightarrow> resource \<Rightarrow> real \<Rightarrow> int \<Rightarrow> policy_rule \<Rightarrow> bool" where
  \<comment> \<open>risk gate, limits and approval of one ALLOW rule\<close>
  "clears env e p r cost calls rule \<longleftrightarrow>
     (\<forall>t. ru_risk_level rule = Some t \<longrightarrow> resource_risk r < t) \<and>
     ls_allowed (check_limits (env_time env) e p cost calls) \<and>
     (ru_require_approval rule \<longrightarrow> is_exempt p)"

lemma policy_log_decision [simp]: "fst (policy_log env d st) = d"
  by (simp add: policy_log_def Let_def)

lemma policy_log_engine [simp]:
  "fst (snd (policy_log env d st)) = (fst st)\<lparr>pe_decisions := pe_decisions (fst st) @ [d]\<rparr>"
  by (simp add: policy_log_def Let_def)

lemma policy_log_ledger:
  "snd (snd (policy_log env d st)) = map_option (\<lambda>lg. snd (ledger_record env policy_subsystem (log_subject d) (log_event d)
     (Some (dump_decision d)) (Some (pd_id d)) lg)) (snd st)"
  by (simp add: policy_log_def Let_def split: option.splits)

lemma new_decision_simps [simp]:
  "pd_allowed (new_decision env b reason) = b"
  "pd_id (new_decision env b reason) = new_id ''dec'' env"
  "pd_approval_status (new_decision env b reason) = NONE"
  by (simp_all add: new_decision_def)

lemma evaluate_allow_allowed:
  "pd_allowed (fst (evaluate_allow env p r cost calls allow st)) \<longleftrightarrow> clears env (fst st) p r cost calls allow"
  by (auto simp: evaluate_allow_def clears_def Let_def risk_at_least_le split: option.splits)

lemma find_matching_DENY:
  "find eff (py_sorted_desc ru_priority (filter (\<lambda>ru. applies p action r ru) rules)) = Some ru \<longleftrightarrow>
     first_best (\<lambda>ru. - ru_priority ru) (\<lambda>ru. applies p action r ru \<and> eff ru) rules ru"
  by (simp add: py_sorted_desc_sort_key filter_sort [symmetric] find_filter_conj find_sort_key_Some)

lemma find_matching_None:
  "find eff (py_sorted_desc ru_priority (filter (\<lambda>ru. applies p action r ru) rules)) = None \<longleftrightarrow>
     (\<forall>ru \<in> set rules. applies p action r ru \<longrightarrow> \<not> eff ru)"
  by (auto simp: find_None_iff)

text \<open>The shape of a call that does not raise, one case per way the code returns.\<close>

lemma evaluate_cases [consumes 1, case_names lockdown deny default_deny allow]:
  assumes "evaluate env p action res cost calls st = Inr (d, st')"
  obtains
    (lockdown) reason where "pe_lockdown (fst st)" "\<not> is_admin p"
      "policy_log env (new_decision env False reason) st = (d, st')"
  | (deny) rule reason status where "\<not> (pe_lockdown (fst st) \<and> \<not> is_admin p)"
      "rule \<in> set (pe_rules (fst st))" "applies p action (the_resource res) rule" "is_deny rule"
      "policy_log env ((new_decision env False reason)
         \<lparr>pd_matched_rule := Some (ru_id rule), pd_risk_level := resource_risk (the_resource res), pd_limit_status := status\<rparr>) st = (d, st')"
  | (default_deny) reason status where "\<not> (pe_lockdown (fst st) \<and> \<not> is_admin p)"
      "\<forall>rule \<in> set (pe_rules (fst st)). applies p action (the_resource res) rule \<longrightarrow> \<not> is_deny rule \<and> \<not> is_allow rule"
      "policy_log env ((new_decision env False reason)
         \<lparr>pd_risk_level := resource_risk (the_resource res), pd_limit_status := status\<rparr>) st = (d, st')"
  | (allow) rule where "\<not> (pe_lockdown (fst st) \<and> \<not> is_admin p)"
      "\<forall>rule \<in> set (pe_rules (fst st)). applies p action (the_resource res) rule \<longrightarrow> \<not> is_deny rule"
      "leading_allow p action (the_resource res) (pe_rules (fst st)) rule"
      "evaluate_allow env p (the_resource res) cost calls rule st = (d, st')"
proof (cases "pe_lockdown (fst st) \<and> \<not> is_admin p")
  case True
  with assms show ?thesis
    by (intro lockdown [of "lockdown_text action p"]) (simp_all add: evaluate_def Let_def)
next
  case False
  let ?r = "the_resource res"
  let ?m = "py_sorted_desc ru_priority (filter (\<lambda>ru. applies p action ?r ru) (pe_rules (fst st)))"
  from assms False obtain rules where "filter_r (\<lambda>rule. rule_matches rule p action ?r) (pe_rules (fst st)) = Inr rules"
    by (auto simp: evaluate_def Let_def the_resource_def split: sum.splits)
  then have filt: "filter_r (\<lambda>rule. rule_matches rule p action ?r) (pe_rules (fst st)) =
      Inr (filter (\<lambda>ru. applies p action ?r ru) (pe_rules (fst st)))"
    by (simp add: filter_r_Inr [of _ _ rules] applies_def)
  show ?thesis
  proof (cases "find is_deny ?m")
    case (Some rule)
    then have "applies p action ?r rule" "rule \<in> set (pe_rules (fst st))" "is_deny rule"
      by (auto simp: find_matching_DENY dest: first_best_in)
    with assms False filt Some show ?thesis
      by (intro deny [where rule = rule and reason = "deny_text rule" and status = "check_limits (env_time env) (fst st) p cost calls"]) (auto simp: evaluate_def Let_def the_resource_def [symmetric])
  next
    case noden: None
    show ?thesis
    proof (cases "find is_allow ?m")
      case None
      with assms False filt noden show ?thesis
        by (intro default_deny [where reason = "default_text action p" and status = "check_limits (env_time env) (fst st) p cost calls"]) (auto simp: evaluate_def Let_def the_resource_def [symmetric] find_matching_None)
    next
      case (Some rule)
      with assms False filt noden show ?thesis
        by (intro allow [of rule])
          (auto simp: evaluate_def Let_def the_resource_def [symmetric] find_matching_None find_matching_DENY leading_allow_def)
    qed
  qed
qed

section \<open>The decision log and the ledger\<close>

lemma fold_add_rule: "fold add_rule rules e = e\<lparr>pe_rules := pe_rules e @ rules\<rparr>"
  by (induction rules arbitrary: e) (auto simp: add_rule_def)

lemma new_policy_engine_simps [simp]:
  "pe_rules (new_policy_engine rules) = rules" "pe_limits (new_policy_engine rules) = []"
  "pe_lockdown (new_policy_engine rules) = False" "pe_decisions (new_policy_engine rules) = []"
  "pe_pendings (new_policy_engine rules) = []" "pe_usage (new_policy_engine rules) = []"
  by (simp_all add: new_policy_engine_def fold_add_rule)

lemma record_usage_frame [simp]:
  "pe_rules (record_usage now p cost calls e) = pe_rules e"
  "pe_limits (record_usage now p cost calls e) = pe_limits e"
  "pe_lockdown (record_usage now p cost calls e) = pe_lockdown e"
  "pe_decisions (record_usage now p cost calls e) = pe_decisions e"
  "pe_pendings (record_usage now p cost calls e) = pe_pendings e"
  by (simp_all add: record_usage_def)

definition logs :: "env \<Rightarrow> policy_decision \<Rightarrow> policy_state \<Rightarrow> policy_state \<Rightarrow> bool" where
  \<comment> \<open>the call appended exactly its decision, to the log and (where there is one) to the ledger\<close>
  "logs env d st st' \<longleftrightarrow>
     pe_decisions (fst st') = pe_decisions (fst st) @ [d] \<and>
     pe_rules (fst st') = pe_rules (fst st) \<and> pe_limits (fst st') = pe_limits (fst st) \<and>
     pe_lockdown (fst st') = pe_lockdown (fst st) \<and>
     snd st' = map_option (\<lambda>lg. snd (ledger_record env policy_subsystem (log_subject d) (log_event d)
       (Some (dump_decision d)) (Some (pd_id d)) lg)) (snd st)"

lemma policy_log_logs:
  "policy_log env d0 st0 = (d, st') \<Longrightarrow> snd st0 = snd st \<Longrightarrow> pe_decisions (fst st0) = pe_decisions (fst st) \<Longrightarrow>
   pe_rules (fst st0) = pe_rules (fst st) \<Longrightarrow> pe_limits (fst st0) = pe_limits (fst st) \<Longrightarrow>
   pe_lockdown (fst st0) = pe_lockdown (fst st) \<Longrightarrow> logs env d st st'"
  by (auto simp: logs_def policy_log_def Let_def split: option.splits)

lemma evaluate_allow_logs: "evaluate_allow env p r cost calls rule st = (d, st') \<Longrightarrow> logs env d st st'"
  unfolding evaluate_allow_def Let_def by (erule policy_log_logs | split if_split_asm | simp)+

lemma evaluate_logs:
  assumes "evaluate env p action res cost calls st = Inr (d, st')"
  shows "logs env d st st'"
  using assms by (cases rule: evaluate_cases) (auto intro: policy_log_logs evaluate_allow_logs)

lemma approve_logs:
  assumes "approve env decision_id role st = Inr (d, st')"
  shows "logs env d st st'"
proof -
  from assms obtain d0 st0 where "policy_log env d0 st0 = (d, st')" "snd st0 = snd st"
    "pe_decisions (fst st0) = pe_decisions (fst st)" "pe_rules (fst st0) = pe_rules (fst st)"
    "pe_limits (fst st0) = pe_limits (fst st)" "pe_lockdown (fst st0) = pe_lockdown (fst st)"
    by (auto simp: approve_def split: option.splits if_splits intro: that)
  then show ?thesis by (rule policy_log_logs)
qed

end
