(* ===== verification/Policy_Runs.thy ===== *)
theory Policy_Runs
  imports Policy_Proofs
begin

text \<open>
  Runs of the Policy Engine: the engine as a machine over its public operations, the agreement of
  its decision log with the ledger, the approval chain and the safety of the rolling-window limits
  over any sequence of calls.
\<close>

section \<open>The engine as a machine\<close>

datatype policy_cmd =
    Evaluate env principal string "resource option" real int
  | Approve env string string
  | AddRule policy_rule
  | AddLimit limit_policy
  | SetLockdown bool
  | Foreign env string string string "pyval option" "string option"
    \<comment> \<open>another component writing to the shared ledger\<close>

fun policy_step :: "policy_cmd \<Rightarrow> policy_state \<Rightarrow> policy_state" where
  "policy_step (Evaluate env p action res cost calls) st =
     (case evaluate env p action res cost calls st of Inl _ \<Rightarrow> st | Inr (_, st') \<Rightarrow> st')"
| "policy_step (Approve env decision_id role) st =
     (case approve env decision_id role st of Inl _ \<Rightarrow> st | Inr (_, st') \<Rightarrow> st')"
| "policy_step (AddRule rule) st = (add_rule rule (fst st), snd st)"
| "policy_step (AddLimit limit) st = (add_limit limit (fst st), snd st)"
| "policy_step (SetLockdown enabled) st = (set_lockdown enabled (fst st), snd st)"
| "policy_step (Foreign env subsystem subject event payload decision_id) st =
     (fst st, if subsystem = policy_subsystem then snd st
              else map_option (\<lambda>lg. snd (ledger_record env subsystem subject event payload decision_id lg)) (snd st))"

definition policy_rows :: "ledger \<Rightarrow> ledger_row list" where
  "policy_rows lg = filter (\<lambda>r. lr_subsystem r = policy_subsystem) (lg_rows lg)"

definition mirrored :: "policy_state \<Rightarrow> bool" where
  \<comment> \<open>the ledger's policy rows are the decisions, one each, in order\<close>
  "mirrored st \<longleftrightarrow> (\<forall>lg. snd st = Some lg \<longrightarrow> ledger_ok lg \<and>
     map (\<lambda>r. (lr_payload r, lr_decision_id r, lr_event r, lr_subject r)) (policy_rows lg) =
     map (\<lambda>d. (dump_decision d, Some (pd_id d), log_event d, log_subject d)) (pe_decisions (fst st)))"

lemma ledger_record_payload [simp]:
  "truthy p \<Longrightarrow> lr_payload (fst (ledger_record env subsystem subject event (Some p) decision_id lg)) = p"
  by (simp add: ledger_record_def Let_def)

lemma logs_mirrored: "logs env d st st' \<Longrightarrow> mirrored st \<Longrightarrow> mirrored st'"
  by (auto simp: logs_def mirrored_def policy_rows_def frame_simps intro: inv_intros)

lemma policy_step_decisions: "prefix (pe_decisions (fst st)) (pe_decisions (fst (policy_step c st)))"
  by (cases c)
    (auto simp: add_rule_def add_limit_def set_lockdown_def logs_def split: sum.splits
      dest!: evaluate_logs approve_logs)

lemma mirrored_frame:
  "mirrored st \<Longrightarrow> pe_decisions e = pe_decisions (fst st) \<Longrightarrow> mirrored (e, snd st)"
  by (simp add: mirrored_def)

lemma policy_step_mirrored: "mirrored st \<Longrightarrow> mirrored (policy_step c st)"
proof (cases c)
  case (Foreign env subsystem subject event payload decision_id)
  moreover assume "mirrored st"
  ultimately show ?thesis
    by (auto simp: mirrored_def policy_rows_def frame_simps intro: inv_intros)
qed (auto simp: add_rule_def add_limit_def set_lockdown_def split: sum.splits
      dest!: evaluate_logs approve_logs intro: logs_mirrored mirrored_frame)

interpretation policy_machine: logged_machine "\<lambda>st. pe_decisions (fst st)" policy_step mirrored
  by unfold_locales (auto intro: policy_step_decisions policy_step_mirrored)

lemma policy_step_ledger: "(snd (policy_step c st) = None) = (snd st = None)"
  by (cases c) (auto simp: logs_def split: sum.splits dest!: evaluate_logs approve_logs)

lemma policy_run_ledger: "(snd (fold policy_step cs st) = None) = (snd st = None)"
  by (induction cs arbitrary: st) (simp_all add: policy_step_ledger)

lemma mirrored_new: "mirrored (new_policy_engine rules, Some new_ledger)"
  by (simp add: mirrored_def policy_rows_def new_ledger_def ledger_ok_def)

section \<open>Rolling-window limits\<close>

definition wsum :: "(usage \<Rightarrow> real) \<Rightarrow> real \<Rightarrow> limit_policy \<Rightarrow> string \<Rightarrow> string \<Rightarrow> usage list \<Rightarrow> real" where
  "wsum w now l s v us = sum_list (map w (recent_usage now l s v us))"

lemma used_cost_wsum: "used_cost now l s v us = wsum us_cost now l s v us"
  by (simp add: used_cost_def wsum_def)

lemma of_int_sum_list_map: "real_of_int (sum_list (map f xs)) = sum_list (map (\<lambda>x. real_of_int (f x)) xs)"
  by (induction xs) auto

lemma used_calls_wsum: "real_of_int (used_calls now l s v us) = wsum (\<lambda>u. real_of_int (us_calls u)) now l s v us"
  by (simp add: used_calls_def wsum_def of_int_sum_list_map)

lemma recent_usage_append: "recent_usage now l s v (us @ us') = recent_usage now l s v us @ recent_usage now l s v us'"
  by (simp add: recent_usage_def)

lemma sum_list_filter_le:
  "(\<forall>x \<in> set xs. 0 \<le> (f x :: real)) \<Longrightarrow> (\<forall>x \<in> set xs. P x \<longrightarrow> Q x) \<Longrightarrow>
   sum_list (map f (filter P xs)) \<le> sum_list (map f (filter Q xs))"
  by (induction xs) auto

lemma wsum_antimono:
  "now \<le> t \<Longrightarrow> (\<forall>u \<in> set us. 0 \<le> w u) \<Longrightarrow> wsum w t l s v us \<le> wsum w now l s v us"
  unfolding wsum_def recent_usage_def by (rule sum_list_filter_le) auto

lemma ls_allowed_limit_step:
  "ls_allowed (limit_step now us cost calls ((s, v, i), l) status) \<longleftrightarrow>
     ls_allowed status \<and> \<not> cost_violated l (used_cost now l s v us + cost) \<and>
     \<not> calls_violated l (used_calls now l s v us + calls)"
  by (simp add: limit_step_def Let_def)

lemma ls_allowed_fold:
  "ls_allowed (fold (limit_step now us cost calls) ws status) \<longleftrightarrow>
     ls_allowed status \<and> (\<forall>((s, v, i), l) \<in> set ws.
       \<not> cost_violated l (used_cost now l s v us + cost) \<and> \<not> calls_violated l (used_calls now l s v us + calls))"
  by (induction ws arbitrary: status) (auto simp: ls_allowed_limit_step)

lemma limit_windows_get:
  assumes "\<forall>(l', s', v') \<in> set ts. (s', v', lp_id l') = (s, v, lp_id l) \<longrightarrow> l' = l"
    and "(l, s, v) \<in> set ts \<or> dict_get d (s, v, lp_id l) = Some l"
    and "lp_scope l = s" "lp_scope_value l \<in> {''*'', v}"
  shows "dict_get (fold (\<lambda>(l, s, v) d. if lp_scope l = s \<and> lp_scope_value l \<in> {''*'', v}
            then dict_set (s, v, lp_id l) l d else d) ts d) (s, v, lp_id l) = Some l"
  using assms
proof (induction ts arbitrary: d)
  case (Cons x ts)
  obtain l' s' v' where x: "x = (l', s', v')" by (cases x)
  show ?case
    unfolding fold_Cons comp_apply
    by (rule Cons.IH) (use Cons.prems x in auto)
qed simp

definition owns_id :: "limit_policy \<Rightarrow> limit_policy list \<Rightarrow> bool" where
  "owns_id l limits \<longleftrightarrow> l \<in> set limits \<and> (\<forall>l' \<in> set limits. lp_id l' = lp_id l \<longrightarrow> l' = l)"

lemma limit_windows_member:
  assumes "owns_id l limits" "(s, v) \<in> set (scopes p)"
    and "lp_scope l = s" "lp_scope_value l \<in> {''*'', v}"
  shows "((s, v, lp_id l), l) \<in> set (limit_windows limits p)"
proof -
  have "l' = l" if "l' \<in> set limits" "lp_id l' = lp_id l" for l'
    using that assms(1) by (simp add: owns_id_def)
  moreover have "l \<in> set limits" using assms(1) by (simp add: owns_id_def)
  ultimately have "dict_get (limit_windows limits p) (s, v, lp_id l) = Some l"
    unfolding limit_windows_def by (intro limit_windows_get) (use assms in auto)
  then show ?thesis by (rule map_of_SomeD)
qed

lemma check_limits_bound:
  assumes "ls_allowed (check_limits now e p cost calls)" "owns_id l (pe_limits e)"
    and "(lp_scope l, v) \<in> set (scopes p)" "lp_scope_value l \<in> {''*'', v}"
  shows "\<not> cost_violated l (used_cost now l (lp_scope l) v (pe_usage e) + cost)"
    and "\<not> calls_violated l (used_calls now l (lp_scope l) v (pe_usage e) + calls)"
  using assms(1) limit_windows_member [OF assms(2,3) refl assms(4)]
  by (auto simp: check_limits_def ls_allowed_fold)

section \<open>What an allowed call records\<close>

definition entries :: "real \<Rightarrow> principal \<Rightarrow> real \<Rightarrow> int \<Rightarrow> usage list" where
  "entries now p cost calls =
     map (\<lambda>g. \<lparr>us_ts = now, us_scope = ''GROUP'', us_value = g, us_cost = cost, us_calls = calls\<rparr>) (pr_groups p) @
     [\<lparr>us_ts = now, us_scope = ''PRINCIPAL'', us_value = pr_id p, us_cost = cost, us_calls = calls\<rparr>,
      \<lparr>us_ts = now, us_scope = ''GLOBAL'', us_value = ''*'', us_cost = cost, us_calls = calls\<rparr>]"

lemma record_usage_entries:
  "pe_usage (record_usage now p cost calls e) =
     pe_usage e @ (if cost \<le> 0 \<and> calls \<le> 0 then [] else entries now p cost calls)"
  by (simp add: record_usage_def entries_def)

lemma entries_fields: "u \<in> set (entries now p cost calls) \<Longrightarrow>
   us_ts u = now \<and> us_cost u = cost \<and> us_calls u = calls \<and> (us_scope u, us_value u) \<in> set (scopes p)"
  by (auto simp: entries_def scopes_def)

lemma filter_eq_distinct: "distinct xs \<Longrightarrow> length (filter (\<lambda>x. x = y) xs) \<le> 1"
  by (induction xs) (auto simp: filter_empty_conv)

lemma entries_once:
  assumes "distinct (pr_groups p)"
  shows "length (filter (\<lambda>u. us_scope u = s \<and> us_value u = v) (entries now p cost calls)) \<le> 1"
proof -
  have *: "filter (\<lambda>u. us_scope u = s \<and> us_value u = v)
      (map (\<lambda>g. \<lparr>us_ts = now, us_scope = ''GROUP'', us_value = g, us_cost = cost, us_calls = calls\<rparr>) gs) =
    (if s = ''GROUP'' then map (\<lambda>g. \<lparr>us_ts = now, us_scope = ''GROUP'', us_value = g, us_cost = cost, us_calls = calls\<rparr>)
      (filter (\<lambda>g. g = v) gs) else [])" for gs
    by (induction gs) auto
  show ?thesis
    using filter_eq_distinct [OF assms, of v] by (auto simp: entries_def *)
qed

lemma wsum_entries:
  assumes "distinct (pr_groups p)" "\<And>u. u \<in> set (entries now p cost calls) \<Longrightarrow> w u = c" "0 \<le> c"
  shows "wsum w t l s v (entries now p cost calls) \<le> (if (s, v) \<in> set (scopes p) then c else 0)"
proof -
  let ?es = "entries now p cost calls"
  let ?m = "filter (\<lambda>u. us_scope u = s \<and> us_value u = v) ?es"
  have "wsum w t l s v ?es \<le> sum_list (map w ?m)"
    unfolding wsum_def recent_usage_def using assms by (intro sum_list_filter_le) auto
  also have "sum_list (map w ?m) = sum_list (map (\<lambda>_. c) ?m)"
    using assms(2) by (intro arg_cong [where f = sum_list] map_cong) auto
  also have "\<dots> = real (length ?m) * c" by (simp add: sum_list_triv)
  also have "\<dots> \<le> (if (s, v) \<in> set (scopes p) then c else 0)"
  proof (cases "(s, v) \<in> set (scopes p)")
    case True
    have "real (length ?m) * c \<le> 1 * c"
      using entries_once [OF assms(1)] assms(3) by (intro mult_right_mono) auto
    with True show ?thesis by simp
  next
    case False
    then have "?m = []" by (auto simp: filter_empty_conv dest: entries_fields)
    then show ?thesis using assms(3) by simp
  qed
  finally show ?thesis .
qed

lemma evaluate_usage:
  assumes "evaluate env p action res cost calls st = Inr (d, st')"
  shows "pe_usage (fst st') = pe_usage (fst st) \<or>
    (ls_allowed (check_limits (env_time env) (fst st) p cost calls) \<and>
     pe_usage (fst st') = pe_usage (fst st) @ entries (env_time env) p cost calls)"
  using assms
proof (cases rule: evaluate_cases)
  case (allow rule)
  then show ?thesis
    unfolding evaluate_allow_def Let_def
    by (auto simp: policy_log_def Let_def record_usage_entries split: if_split_asm)
qed (auto simp: policy_log_def Let_def)

lemma approve_usage: "approve env decision_id role st = Inr (d, st') \<Longrightarrow> pe_usage (fst st') = pe_usage (fst st)"
  by (auto simp: approve_def policy_log_def Let_def split: option.splits if_splits)

section \<open>No run exceeds a limit\<close>

definition within_limit :: "real \<Rightarrow> limit_policy \<Rightarrow> string \<Rightarrow> usage list \<Rightarrow> bool" where
  "within_limit t l v us \<longleftrightarrow>
     \<not> cost_violated l (used_cost t l (lp_scope l) v us) \<and> \<not> calls_violated l (used_calls t l (lp_scope l) v us)"

definition usage_ok :: "usage list \<Rightarrow> bool" where
  "usage_ok us \<longleftrightarrow> (\<forall>u \<in> set us. 0 \<le> us_cost u \<and> 0 \<le> us_calls u)"

fun cmd_time :: "policy_cmd \<Rightarrow> real option" where
  "cmd_time (Evaluate env p action res cost calls) = Some (env_time env)"
| "cmd_time _ = None"

fun metered_cmd :: "limit_policy \<Rightarrow> policy_cmd \<Rightarrow> bool" where
  \<comment> \<open>charges are not negative, nobody lists a group twice, no other limit takes the limit's id\<close>
  "metered_cmd l (Evaluate env p action res cost calls) \<longleftrightarrow> 0 \<le> cost \<and> 0 \<le> calls \<and> distinct (pr_groups p)"
| "metered_cmd l (AddLimit l') \<longleftrightarrow> lp_id l' \<noteq> lp_id l"
| "metered_cmd l _ \<longleftrightarrow> True"

fun cmd_times :: "policy_cmd list \<Rightarrow> real list" where
  "cmd_times [] = []"
| "cmd_times (c # cs) = (case cmd_time c of None \<Rightarrow> cmd_times cs | Some t \<Rightarrow> t # cmd_times cs)"

lemma not_cost_violated_mono: "a \<le> b \<Longrightarrow> \<not> cost_violated l b \<Longrightarrow> \<not> cost_violated l a"
  by (auto simp: cost_violated_def split: option.splits)

lemma not_calls_violated_mono: "a \<le> b \<Longrightarrow> \<not> calls_violated l b \<Longrightarrow> \<not> calls_violated l a"
  by (auto simp: calls_violated_def split: option.splits)

lemma usage_ok_entries: "usage_ok us \<Longrightarrow> 0 \<le> cost \<Longrightarrow> 0 \<le> calls \<Longrightarrow> usage_ok (us @ entries now p cost calls)"
  by (auto simp: usage_ok_def dest: entries_fields)

lemma within_limit_later:
  assumes "usage_ok us" "now \<le> t" "within_limit now l v us"
  shows "within_limit t l v us"
proof -
  have "used_cost t l (lp_scope l) v us \<le> used_cost now l (lp_scope l) v us"
    using assms by (simp add: used_cost_wsum wsum_antimono usage_ok_def)
  moreover have "real_of_int (used_calls t l (lp_scope l) v us) \<le> real_of_int (used_calls now l (lp_scope l) v us)"
    using assms by (simp only: used_calls_wsum) (simp add: wsum_antimono usage_ok_def)
  ultimately show ?thesis
    using assms(3) unfolding within_limit_def
    by (meson not_calls_violated_mono not_cost_violated_mono of_int_le_iff)
qed

lemma within_limit_charge:
  assumes us: "within_limit now l v us" and d: "distinct (pr_groups p)" and pos: "0 \<le> cost" "0 \<le> calls"
    and room: "(lp_scope l, v) \<in> set (scopes p) \<Longrightarrow>
      \<not> cost_violated l (used_cost now l (lp_scope l) v us + cost) \<and>
      \<not> calls_violated l (used_calls now l (lp_scope l) v us + calls)"
  shows "within_limit now l v (us @ entries now p cost calls)"
proof -
  let ?in = "(lp_scope l, v) \<in> set (scopes p)"
  let ?es = "entries now p cost calls"
  have "used_cost now l (lp_scope l) v ?es \<le> (if ?in then cost else 0)"
    unfolding used_cost_wsum using d pos by (intro wsum_entries) (auto dest: entries_fields)
  then have c: "used_cost now l (lp_scope l) v (us @ ?es) \<le> used_cost now l (lp_scope l) v us + (if ?in then cost else 0)"
    by (simp add: used_cost_def recent_usage_append)
  have "real_of_int (used_calls now l (lp_scope l) v ?es) \<le> (if ?in then real_of_int calls else 0)"
    unfolding used_calls_wsum using d pos by (intro wsum_entries) (auto dest: entries_fields)
  then have n: "used_calls now l (lp_scope l) v (us @ ?es) \<le> used_calls now l (lp_scope l) v us + (if ?in then calls else 0)"
    by (auto simp: used_calls_def recent_usage_append split: if_splits)
  show ?thesis
    unfolding within_limit_def
    using us room not_cost_violated_mono [OF c] not_calls_violated_mono [OF n]
    by (cases ?in) (auto simp: within_limit_def)
qed

definition limit_inv :: "limit_policy \<Rightarrow> string \<Rightarrow> real \<Rightarrow> policy_engine \<Rightarrow> bool" where
  "limit_inv l v t e \<longleftrightarrow> owns_id l (pe_limits e) \<and> usage_ok (pe_usage e) \<and> within_limit t l v (pe_usage e)"

lemma limit_inv_later: "limit_inv l v now e \<Longrightarrow> now \<le> t \<Longrightarrow> limit_inv l v t e"
  by (auto simp: limit_inv_def intro: within_limit_later)

lemma limit_inv_step:
  assumes "limit_inv l v t0 (fst st)" "metered_cmd l c" "lp_scope_value l \<in> {''*'', v}"
    and t: "(case cmd_time c of None \<Rightarrow> t0 | Some t \<Rightarrow> t) = t" "t0 \<le> t"
  shows "limit_inv l v t (fst (policy_step c st))"
proof (cases c)
  case (Evaluate env p action res cost calls)
  have inv: "limit_inv l v (env_time env) (fst st)"
    using limit_inv_later [OF assms(1)] Evaluate t by auto
  show ?thesis
  proof (cases "evaluate env p action res cost calls st")
    case (Inr x)
    then obtain d st' where ev: "evaluate env p action res cost calls st = Inr (d, st')" by (cases x) auto
    have lims: "pe_limits (fst st') = pe_limits (fst st)" using evaluate_logs [OF ev] by (simp add: logs_def)
    from evaluate_usage [OF ev] have "limit_inv l v (env_time env) (fst st')"
    proof
      assume "pe_usage (fst st') = pe_usage (fst st)"
      with inv lims show ?thesis by (simp add: limit_inv_def)
    next
      assume *: "ls_allowed (check_limits (env_time env) (fst st) p cost calls) \<and>
        pe_usage (fst st') = pe_usage (fst st) @ entries (env_time env) p cost calls"
      have "within_limit (env_time env) l v (pe_usage (fst st'))"
        using * inv assms(2,3) Evaluate check_limits_bound [of "env_time env" "fst st" p cost calls l v]
        by (auto simp: limit_inv_def intro!: within_limit_charge)
      with * inv lims assms(2) Evaluate show ?thesis
        by (auto simp: limit_inv_def intro: usage_ok_entries)
    qed
    with Evaluate ev t show ?thesis by simp
  qed (use Evaluate inv t in simp)
qed (use assms in \<open>auto simp: limit_inv_def add_rule_def add_limit_def set_lockdown_def owns_id_def
       approve_usage logs_def split: sum.splits dest: approve_logs\<close>)

lemma limit_inv_run:
  assumes "limit_inv l v t0 (fst st)" "\<forall>c \<in> set cs. metered_cmd l c" "lp_scope_value l \<in> {''*'', v}"
    and "sorted (t0 # cmd_times cs @ [t])"
  shows "limit_inv l v t (fst (fold policy_step cs st))"
  using assms
proof (induction cs arbitrary: t0 st)
  case (Cons c cs)
  define t1 where "t1 = (case cmd_time c of None \<Rightarrow> t0 | Some t \<Rightarrow> t)"
  have *: "t0 \<le> t1 \<and> sorted (t1 # cmd_times cs @ [t])"
    using Cons.prems(4) by (auto simp: t1_def split: option.splits)
  then have "limit_inv l v t1 (fst (policy_step c st))"
    using Cons.prems by (intro limit_inv_step [of _ _ t0]) (auto simp: t1_def)
  then have "limit_inv l v t (fst (fold policy_step cs (policy_step c st)))"
    by (rule Cons.IH) (use Cons.prems * in simp_all)
  then show ?case by simp
qed (auto intro: limit_inv_later)

section \<open>Where an allowed decision comes from\<close>

definition granted :: "policy_decision list \<Rightarrow> policy_decision \<Rightarrow> bool" where
  \<comment> \<open>allowed at once, or approved by a listed role of a pending decision with the same id\<close>
  "granted before d \<longleftrightarrow> pd_approval_status d = NONE \<or>
     (pd_approval_status d = APPROVED \<and>
      (\<exists>p \<in> set before. pd_id p = pd_id d \<and> pd_approval_status p = PENDING \<and> pd_require_approval p \<and>
         (\<exists>role \<in> set (pd_approve_roles p). pd_reason d = approved_text role)))"

definition pendings_ok :: "policy_engine \<Rightarrow> bool" where
  "pendings_ok e \<longleftrightarrow> (\<forall>(k, p) \<in> set (pe_pendings e). k = pd_id p \<and> p \<in> set (pe_decisions e) \<and>
     \<not> pd_allowed p \<and> pd_approval_status p = PENDING \<and> pd_require_approval p)"

definition provenance :: "policy_engine \<Rightarrow> bool" where
  "provenance e \<longleftrightarrow> pendings_ok e \<and>
     (\<forall>i < length (pe_decisions e). pd_allowed (pe_decisions e ! i) \<longrightarrow>
        granted (take i (pe_decisions e)) (pe_decisions e ! i))"

lemma provenance_append:
  assumes "provenance e" "pe_decisions e' = pe_decisions e @ [d]" "pendings_ok e'"
    and "pd_allowed d \<Longrightarrow> granted (pe_decisions e) d"
  shows "provenance e'"
  unfolding provenance_def
proof (intro conjI allI impI)
  fix i assume "i < length (pe_decisions e')" "pd_allowed (pe_decisions e' ! i)"
  with assms show "granted (take i (pe_decisions e')) (pe_decisions e' ! i)"
    by (cases "i = length (pe_decisions e)") (auto simp: provenance_def nth_append)
qed (rule assms)

lemma pendings_ok_same:
  "pendings_ok e \<Longrightarrow> pe_pendings e' = pe_pendings e \<Longrightarrow> pe_decisions e' = pe_decisions e @ ds \<Longrightarrow> pendings_ok e'"
  by (auto simp: pendings_ok_def)

lemma evaluate_pendings:
  assumes "evaluate env p action res cost calls st = Inr (d, st')"
  shows "pd_approval_status d = NONE \<and> pe_pendings (fst st') = pe_pendings (fst st) \<or>
    (\<not> pd_allowed d \<and> pd_approval_status d = PENDING \<and> pd_require_approval d \<and>
     pe_pendings (fst st') = dict_set (pd_id d) d (pe_pendings (fst st)))"
  using assms
proof (cases rule: evaluate_cases)
  case (allow rule)
  then show ?thesis
    unfolding evaluate_allow_def Let_def
    by (auto simp: policy_log_def Let_def split: if_split_asm)
qed (auto simp: policy_log_def Let_def)

lemma pendings_ok_insert:
  assumes "pendings_ok e" "pe_pendings e' = dict_set (pd_id d) d (pe_pendings e)"
    "pe_decisions e' = pe_decisions e @ [d]" "\<not> pd_allowed d" "pd_approval_status d = PENDING" "pd_require_approval d"
  shows "pendings_ok e'"
  unfolding pendings_ok_def
proof
  fix x assume "x \<in> set (pe_pendings e')"
  then have "x = (pd_id d, d) \<or> x \<in> set (pe_pendings e)"
    using set_dict_set [of "pd_id d" d "pe_pendings e"] by (auto simp: assms(2))
  with assms show "case x of (k, p) \<Rightarrow> k = pd_id p \<and> p \<in> set (pe_decisions e') \<and>
     \<not> pd_allowed p \<and> pd_approval_status p = PENDING \<and> pd_require_approval p"
    by (auto simp: pendings_ok_def)
qed

lemma evaluate_provenance:
  assumes "provenance (fst st)" "evaluate env p action res cost calls st = Inr (d, st')"
  shows "provenance (fst st')"
proof (rule provenance_append [OF assms(1)])
  show ds: "pe_decisions (fst st') = pe_decisions (fst st) @ [d]"
    using evaluate_logs [OF assms(2)] by (simp add: logs_def)
  have p: "pendings_ok (fst st)" using assms(1) by (simp add: provenance_def)
  show "pendings_ok (fst st')"
    using evaluate_pendings [OF assms(2)]
    by (elim disjE conjE) (rule pendings_ok_same [OF p _ ds] pendings_ok_insert [OF p _ ds]; assumption)+
  show "granted (pe_decisions (fst st)) d" if "pd_allowed d"
    using evaluate_pendings [OF assms(2)] that by (auto simp: granted_def)
qed

lemma approve_provenance:
  assumes "provenance (fst st)" "approve env decision_id role st = Inr (d, st')"
  shows "provenance (fst st')"
proof (rule provenance_append [OF assms(1)])
  obtain p where p: "dict_get (pe_pendings (fst st)) decision_id = Some p"
    using assms(2) by (auto simp: approve_def split: option.splits)
  have ok: "pendings_ok (fst st)" using assms(1) by (simp add: provenance_def)
  then have p': "p \<in> set (pe_decisions (fst st))" "\<not> pd_allowed p" "pd_approval_status p = PENDING"
      "pd_require_approval p"
    using map_of_SomeD [OF p] by (auto simp: pendings_ok_def)
  show "pe_decisions (fst st') = pe_decisions (fst st) @ [d]"
    using approve_logs [OF assms(2)] by (simp add: logs_def)
  then show "pendings_ok (fst st')"
    using assms(2) ok p
    by (auto simp: approve_def policy_log_def Let_def pendings_ok_def AList.delete_eq split: if_splits)
  show "granted (pe_decisions (fst st)) d" if "pd_allowed d"
    using assms(2) p p' that
    by (auto simp: approve_def policy_log_def Let_def granted_def split: if_splits intro!: bexI [of _ p])
qed

lemma provenance_frame:
  "provenance e \<Longrightarrow> pe_pendings e' = pe_pendings e \<Longrightarrow> pe_decisions e' = pe_decisions e \<Longrightarrow> provenance e'"
  by (simp add: provenance_def pendings_ok_def)

lemma policy_step_provenance: "provenance (fst st) \<Longrightarrow> provenance (fst (policy_step c st))"
  by (cases c)
    (auto simp: add_rule_def add_limit_def set_lockdown_def split: sum.splits intro: provenance_frame
      dest: evaluate_provenance [rotated] approve_provenance [rotated])

interpretation policy_grants: machine policy_step "\<lambda>st. provenance (fst st)"
  by unfold_locales (rule policy_step_provenance)

lemma provenance_new: "provenance (new_policy_engine rules)"
  by (simp add: provenance_def pendings_ok_def)

end
