(* ===== verification/Seed_Rules.thy ===== *)
theory Seed_Rules
  imports Policy_Proofs
begin

text \<open>
  \<open>make_seed_rules\<close> of \<open>omni/policy/engine.py\<close>: the rules the default control plane starts with,
  and the facts about matching them that the properties of the deployed policy rest on.
\<close>

definition seed_rule :: "string \<Rightarrow> string \<Rightarrow> string \<Rightarrow> string list \<Rightarrow> int \<Rightarrow> policy_rule" where
  \<comment> \<open>\<open>PolicyRule(...)\<close> with the remaining fields at their defaults\<close>
  "seed_rule rid action effect roles priority =
     \<lparr>ru_id = rid, ru_action = action, ru_effect = effect, ru_roles = roles, ru_groups = [],
      ru_conditions = [], ru_priority = priority, ru_risk_level = None, ru_require_approval = False,
      ru_approve_roles = []\<rparr>"

definition risk_at_most :: "string \<Rightarrow> abac_condition" where
  "risk_at_most level = \<lparr>ac_field = ''resource.risk_level'', ac_op = ''lte'', ac_value = PStr level\<rparr>"

definition make_seed_rules :: "policy_rule list" where
  "make_seed_rules =
     [(seed_rule ''rule_allow_agent_ops'' ''agent.*'' ''ALLOW'' [''operator'', ''system.admin''] 100)
        \<lparr>ru_conditions := [risk_at_most ''medium'']\<rparr>,
      (seed_rule ''rule_allow_web_agent_run'' ''agent.run'' ''ALLOW'' [''web-user'', ''operator'', ''system.admin''] 95)
        \<lparr>ru_conditions := [risk_at_most ''low'']\<rparr>,
      seed_rule ''rule_allow_read'' ''memory.read'' ''ALLOW'' [''reader'', ''operator'', ''system.admin''] 90,
      seed_rule ''rule_write_operator'' ''memory.write'' ''ALLOW'' [''operator'', ''system.admin''] 80,
      seed_rule ''rule_allow_skill_ops'' ''skill.*'' ''ALLOW'' [''operator'', ''system.admin''] 70,
      seed_rule ''rule_allow_evolution_apply'' ''evolution.*'' ''ALLOW'' [''system.admin''] 75,
      seed_rule ''rule_allow_learning_reflect'' ''learning.*'' ''ALLOW'' [''operator'', ''system.admin''] 70,
      (seed_rule ''rule_deploy_admin'' ''deploy'' ''ALLOW'' [''release-engineer'', ''system.admin''] 60)
        \<lparr>ru_require_approval := True, ru_approve_roles := [''release-manager'', ''system.admin'']\<rparr>,
      seed_rule ''rule_deny_guests_write'' ''*'' ''DENY'' [''guest''] 200,
      seed_rule ''rule_deny_payment_guest'' ''payment.*'' ''DENY'' [''guest'', ''reader''] 150]"

section \<open>Rules whose conditions only compare\<close>

definition comparing :: "policy_rule \<Rightarrow> bool" where
  \<comment> \<open>no condition uses \<open>in\<close> or \<open>contains\<close>, the operators that can raise\<close>
  "comparing rule \<longleftrightarrow> (\<forall>c \<in> set (ru_conditions rule). ac_op c \<noteq> ''in'' \<and> ac_op c \<noteq> ''contains'')"

lemma eval_op_total: "op \<noteq> ''in'' \<Longrightarrow> op \<noteq> ''contains'' \<Longrightarrow> \<exists>b. eval_op op a w = Inr b"
  by (auto simp: eval_op_def split: option.splits)

lemma rule_matches_total: "comparing rule \<Longrightarrow> \<exists>b. rule_matches rule p action r = Inr b"
  unfolding rule_matches_def comparing_def
  by (auto intro!: all_r_total simp: eval_condition_def eval_op_total)

lemma evaluate_total:
  assumes "\<forall>rule \<in> set (pe_rules (fst st)). comparing rule"
  shows "\<exists>d st'. evaluate env p action res cost calls st = Inr (d, st')"
proof -
  have filt: "filter_r (\<lambda>rule. rule_matches rule p action r) (pe_rules (fst st)) =
      Inr (filter (\<lambda>rule. rule_matches rule p action r = Inr True) (pe_rules (fst st)))" for r
    using assms by (intro filter_r_total) (auto intro: rule_matches_total)
  have "\<not> isl (evaluate env p action res cost calls st)"
    by (simp add: evaluate_def Let_def filt split: option.split)
  then show ?thesis by (cases "evaluate env p action res cost calls st") auto
qed

lemma seed_comparing: "\<forall>rule \<in> set make_seed_rules. comparing rule"
  by (simp add: make_seed_rules_def seed_rule_def comparing_def risk_at_most_def)

section \<open>Matching the seed rules\<close>

lemma applies_no_conditions:
  "ru_conditions rule = [] \<Longrightarrow> ru_groups rule = [] \<Longrightarrow> applies p action r rule \<longleftrightarrow>
     action_matches (ru_action rule) action \<and>
     (ru_roles rule \<noteq> [] \<longrightarrow> list_ex (\<lambda>x. x \<in> set (pr_roles p)) (ru_roles rule))"
  by (auto simp: applies_def rule_matches_def)

lemma applies_matches: "applies p action r rule \<Longrightarrow> action_matches (ru_action rule) action"
  by (auto simp: applies_def rule_matches_def split: if_splits)

lemma applies_roles: "applies p action r rule \<Longrightarrow> ru_roles rule \<noteq> [] \<Longrightarrow>
   \<exists>x \<in> set (ru_roles rule). x \<in> set (pr_roles p)"
  by (auto simp: applies_def rule_matches_def list_ex_iff split: if_splits)

lemma seed_guest_denied:
  "''guest'' \<in> set (pr_roles p) \<Longrightarrow> \<exists>rule \<in> set make_seed_rules. applies p action r rule \<and> is_deny rule"
  by (simp add: make_seed_rules_def seed_rule_def applies_no_conditions is_deny_def action_matches_def)

lemma seed_patterns [simp]:
  "action_matches ''agent.*'' action \<longleftrightarrow> startswith ''agent.'' action"
  "action_matches ''skill.*'' action \<longleftrightarrow> startswith ''skill.'' action"
  "action_matches ''evolution.*'' action \<longleftrightarrow> startswith ''evolution.'' action"
  "action_matches ''learning.*'' action \<longleftrightarrow> startswith ''learning.'' action"
  "action_matches ''agent.run'' action \<longleftrightarrow> action = ''agent.run''"
  "action_matches ''memory.read'' action \<longleftrightarrow> action = ''memory.read''"
  "action_matches ''memory.write'' action \<longleftrightarrow> action = ''memory.write''"
  "action_matches ''deploy'' action \<longleftrightarrow> action = ''deploy''"
  by (auto simp: action_matches_def)

definition seed_grants :: "(string \<times> string list) list" where
  \<comment> \<open>action pattern and roles of the ALLOW rules\<close>
  "seed_grants = map (\<lambda>rule. (ru_action rule, ru_roles rule)) (filter is_allow make_seed_rules)"

lemma seed_grants_eq: "seed_grants =
   [(''agent.*'', [''operator'', ''system.admin'']), (''agent.run'', [''web-user'', ''operator'', ''system.admin'']),
    (''memory.read'', [''reader'', ''operator'', ''system.admin'']), (''memory.write'', [''operator'', ''system.admin'']),
    (''skill.*'', [''operator'', ''system.admin'']), (''evolution.*'', [''system.admin'']),
    (''learning.*'', [''operator'', ''system.admin'']), (''deploy'', [''release-engineer'', ''system.admin''])]"
  by (simp add: seed_grants_def make_seed_rules_def seed_rule_def is_allow_def)

lemma seed_applies_grant:
  assumes "rule \<in> set make_seed_rules" "is_allow rule" "applies p action r rule"
  shows "\<exists>(pat, roles) \<in> set seed_grants. action_matches pat action \<and> (\<exists>x \<in> set roles. x \<in> set (pr_roles p))"
proof -
  have "(ru_action rule, ru_roles rule) \<in> set seed_grants" using assms(1,2) by (auto simp: seed_grants_def)
  moreover from this have "ru_roles rule \<noteq> []" unfolding seed_grants_eq by auto
  ultimately show ?thesis using applies_matches [OF assms(3)] applies_roles [OF assms(3)] by blast
qed

lemma seed_evolution_admin:
  assumes "rule \<in> set make_seed_rules" "is_allow rule" "applies p (''evolution.'' @ op) r rule"
  shows "''system.admin'' \<in> set (pr_roles p)"
  using seed_applies_grant [OF assms] unfolding seed_grants_eq
  by (simp add: startswith_def)

lemma seed_deploy:
  assumes "rule \<in> set make_seed_rules" "is_allow rule" "applies p ''deploy'' r rule"
  shows "ru_require_approval rule"
proof -
  have "\<forall>rule \<in> set make_seed_rules. is_allow rule \<longrightarrow>
      action_matches (ru_action rule) ''deploy'' \<longrightarrow> ru_require_approval rule"
    by (simp add: make_seed_rules_def seed_rule_def is_allow_def startswith_def)
  with assms(1,2) applies_matches [OF assms(3)] show ?thesis by blast
qed

end
