(* ===== verification/Policy_Properties.thy ===== *)
theory Policy_Properties
  imports Policy_Runs Seed_Rules
begin

text \<open>
  The properties of the Policy Engine (\<open>omni/policy/engine.py\<close>) and their instances at concrete inputs.
\<close>

section \<open>A sample engine for the instances\<close>

definition sample_env :: "real \<Rightarrow> string \<Rightarrow> env" where
  "sample_env t uuid = \<lparr>env_time = t, env_stamp = ''2026-01-01T00:00:00+00:00'', env_uuid = uuid\<rparr>"

definition sample_operator :: principal where
  "sample_operator = \<lparr>pr_id = ''ada'', pr_roles = [''operator''], pr_groups = [''team''], pr_attributes = []\<rparr>"

definition sample_limit :: limit_policy where
  "sample_limit = \<lparr>lp_id = ''lim'', lp_scope = ''GROUP'', lp_scope_value = ''team'', lp_window_seconds = 3600,
     lp_max_cost = Some 10, lp_max_calls = None\<rparr>"

definition sample_rule :: policy_rule where
  "sample_rule = (seed_rule ''r1'' ''*'' ''ALLOW'' [''operator''] 10)
     \<lparr>ru_require_approval := True, ru_approve_roles := [''manager'']\<rparr>"

definition sample_pending :: policy_decision where
  "sample_pending = (new_decision (sample_env 0 ''u1'') False ''waiting'')
     \<lparr>pd_require_approval := True, pd_approve_roles := [''manager''], pd_approval_status := PENDING\<rparr>"

definition sample_state :: policy_state where
  "sample_state = ((new_policy_engine [sample_rule])\<lparr>pe_pendings := [(''dec_u1'', sample_pending)]\<rparr>, None)"

section \<open>Decisions\<close>

text \<open>
  C6. The verdict of \<open>evaluate\<close> is the deny-overrides policy: a call is allowed exactly when the
  engine is not locked down (or the caller is a system admin), no applicable rule denies, and the
  leading applicable ALLOW rule (highest priority, first added among equals) passes its risk
  gate, the rolling limits and its approval requirement. In every other case it is denied.
\<close>
theorem evaluate_verdict:
  assumes "evaluate env p action res cost calls st = Inr (d, st')"
  shows "pd_allowed d \<longleftrightarrow>
    (pe_lockdown (fst st) \<longrightarrow> is_admin p) \<and>
    (\<forall>rule \<in> set (pe_rules (fst st)). applies p action (the_resource res) rule \<longrightarrow> \<not> is_deny rule) \<and>
    (\<exists>rule. leading_allow p action (the_resource res) (pe_rules (fst st)) rule \<and>
       clears env (fst st) p (the_resource res) cost calls rule)"
  using assms
proof (cases rule: evaluate_cases)
  case (lockdown reason)
  then show ?thesis by (metis fst_conv new_decision_simps(1) policy_log_decision)
next
  case (deny rule reason status)
  then have "d = fst (policy_log env ((new_decision env False reason)
     \<lparr>pd_matched_rule := Some (ru_id rule), pd_risk_level := resource_risk (the_resource res), pd_limit_status := status\<rparr>) st)"
    by (metis fst_conv)
  then have "\<not> pd_allowed d" by simp
  with deny show ?thesis by blast
next
  case (default_deny reason status)
  then have "d = fst (policy_log env ((new_decision env False reason)
     \<lparr>pd_risk_level := resource_risk (the_resource res), pd_limit_status := status\<rparr>) st)"
    by (metis fst_conv)
  then have "\<not> pd_allowed d" by simp
  moreover have "\<not> leading_allow p action (the_resource res) (pe_rules (fst st)) rule" for rule
    using default_deny by (auto simp: leading_allow_def dest: first_best_in)
  ultimately show ?thesis by blast
next
  case (allow rule)
  then have "pd_allowed d \<longleftrightarrow> clears env (fst st) p (the_resource res) cost calls rule"
    by (metis evaluate_allow_allowed fst_conv)
  moreover have "rule' = rule" if "leading_allow p action (the_resource res) (pe_rules (fst st)) rule'" for rule'
    using that allow by (auto simp: leading_allow_def intro: first_best_unique)
  ultimately show ?thesis using allow by blast
qed

lemma sample_seed_decision:
  "\<exists>d st'. evaluate (sample_env 0 ''u1'') sample_operator ''memory.write'' None 0 1
     (new_policy_engine make_seed_rules, None) = Inr (d, st')"
  by (rule evaluate_total) (simp add: seed_comparing)

lemma evaluate_verdict_witness:
  "\<exists>d st'. evaluate (sample_env 0 ''u1'') sample_operator ''memory.write'' None 0 1
       (new_policy_engine make_seed_rules, None) = Inr (d, st') \<and>
     (pd_allowed d \<longrightarrow> (\<exists>rule. leading_allow sample_operator ''memory.write'' default_resource make_seed_rules rule))"
proof -
  obtain d st' where ev: "evaluate (sample_env 0 ''u1'') sample_operator ''memory.write'' None 0 1
     (new_policy_engine make_seed_rules, None) = Inr (d, st')"
    using sample_seed_decision by blast
  then show ?thesis using evaluate_verdict [OF ev] by (auto simp: the_resource_def)
qed

text \<open>
  C29. The default control plane's rules never make \<open>evaluate\<close> raise, whoever asks for whatever;
  a guest is always denied, an evolution action is allowed to system admins only, and a deploy is
  never allowed without an approval, except for a principal with the exempt role.
\<close>
theorem seed_policy:
  "\<exists>d st'. evaluate env p action res cost calls (new_policy_engine make_seed_rules, lg) = Inr (d, st') \<and>
     \<not> (''guest'' \<in> set (pr_roles p) \<and> pd_allowed d) \<and>
     \<not> (action = ''evolution.'' @ op \<and> pd_allowed d \<and> \<not> is_admin p) \<and>
     \<not> (action = ''deploy'' \<and> pd_allowed d \<and> \<not> is_exempt p)"
proof -
  let ?st = "(new_policy_engine make_seed_rules, lg)"
  obtain d st' where ev: "evaluate env p action res cost calls ?st = Inr (d, st')"
    using evaluate_total [of ?st] seed_comparing by fastforce
  have verdict: "\<exists>rule \<in> set make_seed_rules. is_allow rule \<and> applies p action (the_resource res) rule \<and>
      clears env (fst ?st) p (the_resource res) cost calls rule \<and>
      (\<forall>rule \<in> set make_seed_rules. applies p action (the_resource res) rule \<longrightarrow> \<not> is_deny rule)"
    if "pd_allowed d"
    using ev that
  proof (cases rule: evaluate_cases)
    case (allow rule)
    then have "clears env (fst ?st) p (the_resource res) cost calls rule"
      using that by (metis evaluate_allow_allowed fst_conv)
    with allow show ?thesis by (auto simp: leading_allow_def dest!: first_best_in)
  qed (auto simp: policy_log_def Let_def)
  show ?thesis
    using ev verdict seed_guest_denied [of p action "the_resource res"]
      seed_evolution_admin [of _ p op "the_resource res"] seed_deploy [of _ p "the_resource res"]
    by (auto simp: clears_def is_admin_def)
qed

section \<open>The decision log\<close>

text \<open>
  The log is append-only: a decision that \<open>evaluate\<close> returns stays at its position of the
  decision log whatever calls follow, approvals of the same decision included.
\<close>
theorem decision_stays:
  assumes "evaluate env p action res cost calls st = Inr (d, st')"
  shows "pe_decisions (fst (fold policy_step cs st')) ! length (pe_decisions (fst st)) = d"
proof -
  have "pe_decisions (fst st') = pe_decisions (fst st) @ [d]"
    using evaluate_logs [OF assms] by (simp add: logs_def)
  then show ?thesis
    using policy_machine.run_keeps_entry [of "length (pe_decisions (fst st))" st' cs] by simp
qed

lemma decision_stays_witness:
  "\<exists>d st'. evaluate (sample_env 0 ''u1'') sample_operator ''memory.write'' None 0 1
       (new_policy_engine make_seed_rules, None) = Inr (d, st') \<and>
     pe_decisions (fst (fold policy_step [Approve (sample_env 1 ''u2'') ''dec_u1'' ''manager'', SetLockdown True] st')) ! 0 = d"
proof -
  obtain d st' where ev: "evaluate (sample_env 0 ''u1'') sample_operator ''memory.write'' None 0 1
     (new_policy_engine make_seed_rules, None) = Inr (d, st')"
    using sample_seed_decision by blast
  with decision_stays [OF ev, of "[Approve (sample_env 1 ''u2'') ''dec_u1'' ''manager'', SetLockdown True]"]
  show ?thesis by auto
qed

text \<open>
  C10. Every decision is replayable: after any sequence of calls on a fresh engine with a fresh
  ledger, other components writing to the ledger in between, the ledger's replay of the policy
  subsystem returns the dumped decisions of the log, all of them, in order.
\<close>
theorem decisions_replayable:
  "\<exists>lg. snd (fold policy_step cs (new_policy_engine rules, Some new_ledger)) = Some lg \<and>
     map lr_payload (ledger_replay None (Some policy_subsystem) n lg) =
       first_n n (map dump_decision (pe_decisions (fst (fold policy_step cs (new_policy_engine rules, Some new_ledger)))))"
proof -
  let ?st = "fold policy_step cs (new_policy_engine rules, Some new_ledger)"
  obtain lg where lg: "snd ?st = Some lg" using policy_run_ledger [of cs "(new_policy_engine rules, Some new_ledger)"] by auto
  have "mirrored ?st" by (rule policy_machine.run_ok) (rule mirrored_new)
  then have ok: "ledger_ok lg" and rows: "map (\<lambda>r. (lr_payload r, lr_decision_id r, lr_event r, lr_subject r)) (policy_rows lg) =
      map (\<lambda>d. (dump_decision d, Some (pd_id d), log_event d, log_subject d)) (pe_decisions (fst ?st))"
    using lg by (simp_all add: mirrored_def)
  have eq: "map lr_payload (policy_rows lg) = map dump_decision (pe_decisions (fst ?st))"
    using arg_cong [OF rows, of "map fst"] by (simp add: comp_def)
  have "ledger_replay None (Some policy_subsystem) n lg = first_n n (policy_rows lg)"
    using ok by (simp add: ledger_replay_def ledger_ok_def policy_rows_def sort_key_filter_id)
  with lg eq show ?thesis by (simp add: first_n_map)
qed

section \<open>Limits\<close>

text \<open>
  C7. No sequence of calls exceeds a rolling-window limit: from an engine without usage, as long
  as charges are not negative, groups are not repeated and the clock does not run backwards, at
  every later time the cost and the calls charged within the limit's window are at most its
  bounds (for the scope value the limit names, or for any one when it names all of them).
\<close>
theorem limits_never_exceeded:
  assumes "owns_id l (pe_limits e)" "pe_usage e = []"
    and "\<not> cost_violated l 0" "\<not> calls_violated l 0" "lp_scope_value l \<in> {''*'', v}"
    and "\<forall>c \<in> set cs. metered_cmd l c" "sorted (cmd_times cs @ [t])"
  shows "let us = pe_usage (fst (fold policy_step cs (e, lg)))
         in \<not> cost_violated l (used_cost t l (lp_scope l) v us) \<and> \<not> calls_violated l (used_calls t l (lp_scope l) v us)"
proof -
  define t0 where "t0 = hd (cmd_times cs @ [t])"
  have "limit_inv l v t0 e"
    using assms(1-4) by (simp add: limit_inv_def usage_ok_def within_limit_def used_cost_def used_calls_def recent_usage_def)
  moreover have "sorted (t0 # cmd_times cs @ [t])"
    using assms(7) by (cases "cmd_times cs") (auto simp: t0_def)
  ultimately have "limit_inv l v t (fst (fold policy_step cs (e, lg)))"
    using assms(5,6) by (intro limit_inv_run [of l v t0]) auto
  then show ?thesis by (simp add: limit_inv_def within_limit_def Let_def)
qed

lemma limits_never_exceeded_witness:
  "let e = add_limit sample_limit (new_policy_engine make_seed_rules);
       cs = [Evaluate (sample_env 0 ''u1'') sample_operator ''memory.write'' None 7 1,
             Evaluate (sample_env 5 ''u2'') sample_operator ''memory.write'' None 7 1]
   in \<not> cost_violated sample_limit (used_cost 9 sample_limit ''GROUP'' ''team'' (pe_usage (fst (fold policy_step cs (e, None)))))"
  using limits_never_exceeded [of sample_limit "add_limit sample_limit (new_policy_engine make_seed_rules)" "''team''"
      "[Evaluate (sample_env 0 ''u1'') sample_operator ''memory.write'' None 7 1,
        Evaluate (sample_env 5 ''u2'') sample_operator ''memory.write'' None 7 1]" 9 None]
  by (simp add: add_limit_def owns_id_def sample_limit_def sample_operator_def sample_env_def
      cost_violated_def calls_violated_def Let_def del: fold.simps fold_simps)

section \<open>Approvals\<close>

text \<open>
  C28. An approval is granted at most once and only to a listed role: with a decision pending, a
  listed role gets the decision with \<open>allowed\<close> set and consumes the pending entry, so that the
  same id then raises \<open>KeyError\<close>; any other role gets a rejection and leaves the entry pending.
  Neither charges usage.
\<close>
theorem approval_once:
  assumes "dict_get (pe_pendings (fst st)) decision_id = Some pending"
  shows "\<exists>d st'. approve env decision_id role st = Inr (d, st') \<and> pe_usage (fst st') = pe_usage (fst st) \<and>
    (if role \<in> set (pd_approve_roles pending)
     then pd_allowed d \<and> pd_id d = pd_id pending \<and> pd_approval_status d = APPROVED \<and>
       approve env' decision_id role' st' = Inl (KeyError (''no pending approval '' @ quoted decision_id))
     else pd_allowed d = pd_allowed pending \<and> pd_approval_status d = REJECTED \<and>
       dict_get (pe_pendings (fst st')) decision_id = Some pending)"
  using assms
  by (cases "role \<in> set (pd_approve_roles pending)")
    (simp_all add: approve_def policy_log_def Let_def delete_conv del: quoted_def)

lemma approval_once_witness:
  "\<exists>d st'. approve (sample_env 1 ''u2'') ''dec_u1'' ''manager'' sample_state = Inr (d, st') \<and> pd_allowed d \<and>
     approve (sample_env 2 ''u3'') ''dec_u1'' ''manager'' st' = Inl (KeyError (''no pending approval '' @ quoted ''dec_u1''))"
  using approval_once [of sample_state "''dec_u1''" sample_pending "sample_env 1 ''u2''" "''manager''" "sample_env 2 ''u3''" "''manager''"]
  by (auto simp: sample_state_def sample_pending_def)

text \<open>
  Provenance of permissions: in the log of any run of a fresh engine, every allowed decision
  either was allowed at once or is the approval, by a role the decision lists, of a decision with
  the same id that was logged earlier as pending.
\<close>
theorem allowed_provenance:
  "let ds = pe_decisions (fst (fold policy_step cs (new_policy_engine rules, lg)))
   in \<not> (\<exists>i < length ds. pd_allowed (ds ! i) \<and> \<not> granted (take i ds) (ds ! i))"
proof -
  have "provenance (fst (fold policy_step cs (new_policy_engine rules, lg)))"
    by (rule policy_grants.run_ok) (simp add: provenance_new)
  then show ?thesis by (simp add: provenance_def Let_def)
qed

end
