(* ===== verification/Memory_Diff.thy ===== *)
theory Memory_Diff
  imports Render
begin

text \<open>
  \<open>omni/contracts/memory.py\<close> (the diff records) and \<open>omni/memory/diff.py\<close>: the structural diff of
  two JSON documents. The diff is empty exactly when the documents are the same up to the order
  of dictionary keys, which \<open>canon\<close> forgets.
\<close>

datatype memory_diff_op = ADD | REMOVE | REPLACE

record memory_diff_item =
  di_op :: memory_diff_op
  di_path :: string
  di_old_value :: pyval
  di_new_value :: pyval

definition diff_item :: "memory_diff_op \<Rightarrow> string \<Rightarrow> pyval \<Rightarrow> pyval \<Rightarrow> memory_diff_item" where
  "diff_item op path old new = \<lparr>di_op = op, di_path = path, di_old_value = old, di_new_value = new\<rparr>"

definition path_or_root :: "string \<Rightarrow> string" where
  "path_or_root path = (if path = [] then ''<root>'' else path)"

definition child_key :: "string \<Rightarrow> string \<Rightarrow> string" where
  "child_key path key = (if path = [] then key else path @ ''.'' @ key)"

definition child_index :: "string \<Rightarrow> nat \<Rightarrow> string" where
  "child_index path i = path @ ''['' @ show_nat i @ '']''"

definition all_keys_sorted :: "(string \<times> pyval) list \<Rightarrow> (string \<times> pyval) list \<Rightarrow> string list" where
  \<comment> \<open>\<open>sorted(set(old) | set(new))\<close>\<close>
  "all_keys_sorted c d = sort (remdups (dict_keys c @ dict_keys d))"

lemma size_dict_get: "dict_get d k = Some v \<Longrightarrow> size v < size (PDict d)"
  by (induction d) (auto split: if_splits)

lemma size_nth: "i < length xs \<Longrightarrow> size (xs ! i) < size (PList xs)"
  using size_list_estimation' [OF nth_mem, of i xs "size (xs ! i)" size] by simp

function walk :: "pyval \<Rightarrow> pyval \<Rightarrow> string \<Rightarrow> memory_diff_item list" where
  "walk old new path =
     (if py_type old \<noteq> py_type new then [diff_item REPLACE (path_or_root path) old new]
      else (case old of
          PDict c \<Rightarrow> (case new of
              PDict d \<Rightarrow> concat (map (\<lambda>k.
                  (case dict_get c k of
                     None \<Rightarrow> (case dict_get d k of None \<Rightarrow> [] | Some w \<Rightarrow> [diff_item ADD (child_key path k) PNone w])
                   | Some v \<Rightarrow> (case dict_get d k of
                        None \<Rightarrow> [diff_item REMOVE (child_key path k) v PNone]
                      | Some w \<Rightarrow> walk v w (child_key path k)))) (all_keys_sorted c d))
            | _ \<Rightarrow> [])
        | PList xs \<Rightarrow> (case new of
              PList ys \<Rightarrow> concat (map (\<lambda>i.
                  if i \<ge> length xs then [diff_item ADD (child_index path i) PNone (ys ! i)]
                  else if i \<ge> length ys then [diff_item REMOVE (child_index path i) (xs ! i) PNone]
                  else walk (xs ! i) (ys ! i) (child_index path i)) [0..<max (length xs) (length ys)])
            | _ \<Rightarrow> [])
        | _ \<Rightarrow> if py_eq old new then [] else [diff_item REPLACE (path_or_root path) old new]))"
  by pat_completeness auto
termination
  by (relation "measure (\<lambda>(old, new, path). size old)") (auto simp: size_nth dest: size_dict_get simp del: pyval.size)

declare walk.simps [simp del]

definition diff_values :: "(string \<times> pyval) list \<Rightarrow> (string \<times> pyval) list \<Rightarrow> memory_diff_item list" where
  \<comment> \<open>an absent document (\<open>None\<close>) is the empty one\<close>
  "diff_values old new = walk (PDict old) (PDict new) []"

section \<open>Documents up to the order of keys\<close>

fun canon :: "pyval \<Rightarrow> pyval" where
  "canon (PList xs) = PList (map canon xs)"
| "canon (PDict d) = PDict (sort_key fst (map (\<lambda>(k, v). (k, canon v)) d))"
| "canon v = v"

lemma py_type_canon [simp]: "py_type (canon v) = py_type v"
  by (cases v) simp_all

lemma map_of_canon: "map_of (map (\<lambda>(k, v). (k, f v)) d) k = map_option f (map_of d k)"
  by (induction d) auto

lemma dict_keys_canon: "dict_keys (map (\<lambda>(k, v). (k, f v)) d) = dict_keys d"
  by (induction d) auto

lemma sort_key_fst_unique:
  fixes a b :: "(string \<times> 'v) list"
  assumes "distinct (dict_keys a)" "distinct (dict_keys b)"
  shows "sort_key fst a = sort_key fst b \<longleftrightarrow> map_of a = map_of b"
proof
  have d: "distinct (map fst (sort_key fst xs))" if "distinct (dict_keys xs)" for xs :: "(string \<times> 'v) list"
    using that by (metis distinct_map distinct_sort set_sort)
  {
    assume "map_of a = map_of b"
    with assms have "set a = set b" by (metis map_of_inject_set)
    with assms d show "sort_key fst a = sort_key fst b"
      by (intro map_sorted_distinct_set_unique [where f = fst]) (auto simp: distinct_map)
  next
    assume "sort_key fst a = sort_key fst b"
    then have "set a = set b" by (metis set_sort)
    with assms show "map_of a = map_of b" by (metis map_of_inject_set)
  }
qed

lemma canon_dict_eq:
  assumes "distinct (dict_keys c)" "distinct (dict_keys d)"
  shows "canon (PDict c) = canon (PDict d) \<longleftrightarrow>
    (\<forall>k. map_option canon (dict_get c k) = map_option canon (dict_get d k))"
proof -
  have "canon (PDict c) = canon (PDict d) \<longleftrightarrow>
      map_of (map (\<lambda>(k, v). (k, canon v)) c) = map_of (map (\<lambda>(k, v). (k, canon v)) d)"
    unfolding canon.simps pyval.inject
    by (rule sort_key_fst_unique) (simp_all only: dict_keys_canon assms)
  then show ?thesis by (simp only: fun_eq_iff map_of_canon)
qed

lemma pv_ok_get: "pv_ok (PDict d) \<Longrightarrow> dict_get d k = Some v \<Longrightarrow> pv_ok v"
  by (auto dest!: map_of_SomeD)

lemma all_keys_sorted_set: "k \<in> set (all_keys_sorted c d) \<longleftrightarrow> dict_get c k \<noteq> None \<or> dict_get d k \<noteq> None"
  unfolding all_keys_sorted_def by (simp add: dict_get_None_keys del: not_None_eq)

lemma concat_map_empty: "concat (map f xs) = [] \<longleftrightarrow> (\<forall>x \<in> set xs. f x = [])"
  by simp

lemma walk_dict_empty:
  "walk (PDict c) (PDict d) path = [] \<longleftrightarrow>
     (\<forall>k \<in> set (all_keys_sorted c d). \<exists>v w. dict_get c k = Some v \<and> dict_get d k = Some w \<and>
        walk v w (child_key path k) = [])"
proof -
  have "walk (PDict c) (PDict d) path = concat (map (\<lambda>k. (case dict_get c k of
       None \<Rightarrow> (case dict_get d k of None \<Rightarrow> [] | Some w \<Rightarrow> [diff_item ADD (child_key path k) PNone w])
     | Some v \<Rightarrow> (case dict_get d k of None \<Rightarrow> [diff_item REMOVE (child_key path k) v PNone]
         | Some w \<Rightarrow> walk v w (child_key path k)))) (all_keys_sorted c d))"
    by (simp add: walk.simps [of "PDict c"])
  then have "walk (PDict c) (PDict d) path = [] \<longleftrightarrow> (\<forall>k \<in> set (all_keys_sorted c d). (case dict_get c k of
       None \<Rightarrow> (case dict_get d k of None \<Rightarrow> [] | Some w \<Rightarrow> [diff_item ADD (child_key path k) PNone w])
     | Some v \<Rightarrow> (case dict_get d k of None \<Rightarrow> [diff_item REMOVE (child_key path k) v PNone]
         | Some w \<Rightarrow> walk v w (child_key path k))) = [])"
    by (simp only: concat_map_empty)
  also have "\<dots> \<longleftrightarrow> (\<forall>k \<in> set (all_keys_sorted c d). \<exists>v w. dict_get c k = Some v \<and> dict_get d k = Some w \<and>
        walk v w (child_key path k) = [])"
  proof (intro ball_cong refl)
    fix k assume "k \<in> set (all_keys_sorted c d)"
    then show "((case dict_get c k of
       None \<Rightarrow> (case dict_get d k of None \<Rightarrow> [] | Some w \<Rightarrow> [diff_item ADD (child_key path k) PNone w])
     | Some v \<Rightarrow> (case dict_get d k of None \<Rightarrow> [diff_item REMOVE (child_key path k) v PNone]
         | Some w \<Rightarrow> walk v w (child_key path k))) = []) =
       (\<exists>v w. dict_get c k = Some v \<and> dict_get d k = Some w \<and> walk v w (child_key path k) = [])"
      by (cases "dict_get c k"; cases "dict_get d k") (simp_all add: all_keys_sorted_set)
  qed
  finally show ?thesis .
qed

lemma walk_list_empty:
  "walk (PList xs) (PList ys) path = [] \<longleftrightarrow>
     length xs = length ys \<and> (\<forall>i < length xs. walk (xs ! i) (ys ! i) (child_index path i) = [])"
proof -
  have "walk (PList xs) (PList ys) path = concat (map (\<lambda>i.
       if i \<ge> length xs then [diff_item ADD (child_index path i) PNone (ys ! i)]
       else if i \<ge> length ys then [diff_item REMOVE (child_index path i) (xs ! i) PNone]
       else walk (xs ! i) (ys ! i) (child_index path i)) [0..<max (length xs) (length ys)])"
    by (simp add: walk.simps [of "PList xs"])
  then have "walk (PList xs) (PList ys) path = [] \<longleftrightarrow>
      (\<forall>i \<in> set [0..<max (length xs) (length ys)].
         (if i \<ge> length xs then [diff_item ADD (child_index path i) PNone (ys ! i)]
          else if i \<ge> length ys then [diff_item REMOVE (child_index path i) (xs ! i) PNone]
          else walk (xs ! i) (ys ! i) (child_index path i)) = [])"
    by (simp only: concat_map_empty)
  also have "\<dots> \<longleftrightarrow> (\<forall>i \<in> set [0..<max (length xs) (length ys)].
      i < length xs \<and> i < length ys \<and> walk (xs ! i) (ys ! i) (child_index path i) = [])"
    by (intro ball_cong refl) simp
  finally have *: "walk (PList xs) (PList ys) path = [] \<longleftrightarrow>
      (\<forall>i < max (length xs) (length ys). i < length xs \<and> i < length ys \<and> walk (xs ! i) (ys ! i) (child_index path i) = [])"
    by (simp only: set_upt atLeastLessThan_iff Ball_def) simp
  show ?thesis
  proof (cases "length xs = length ys")
    case False
    then have "min (length xs) (length ys) < max (length xs) (length ys)" by linarith
    moreover have "\<not> (min (length xs) (length ys) < length xs \<and> min (length xs) (length ys) < length ys)"
      by linarith
    ultimately show ?thesis unfolding * using False by blast
  qed (auto simp: *)
qed

lemma walk_atom:
  assumes "py_type old = py_type new" "\<forall>c. old \<noteq> PDict c" "\<forall>xs. old \<noteq> PList xs"
  shows "walk old new path = (if py_eq old new then [] else [diff_item REPLACE (path_or_root path) old new])"
  using assms by (subst walk.simps) (cases old; simp)

lemma canon_atom:
  assumes "py_type old = py_type new" "\<forall>c. old \<noteq> PDict c" "\<forall>xs. old \<noteq> PList xs"
  shows "py_eq old new \<longleftrightarrow> canon old = canon new"
  using assms by (cases old; cases new; auto)

lemma walk_empty_iff:
  "pv_ok old \<Longrightarrow> pv_ok new \<Longrightarrow> walk old new path = [] \<longleftrightarrow> canon old = canon new"
proof (induction old new path rule: walk.induct)
  case (1 old new path)
  show ?case
  proof (cases "py_type old = py_type new")
    case False
    then have "canon old \<noteq> canon new" by (metis py_type_canon)
    with False show ?thesis by (simp add: walk.simps [of old new])
  next
    case True
    consider (dict) c d where "old = PDict c" "new = PDict d" | (list) xs ys where "old = PList xs" "new = PList ys"
      | (atom) "\<forall>c. old \<noteq> PDict c" "\<forall>xs. old \<noteq> PList xs"
      using True by (cases old; cases new) auto
    then show ?thesis
    proof cases
      case dict
      have sub: "walk v w (child_key path k) = [] \<longleftrightarrow> canon v = canon w"
        if "dict_get c k = Some v" "dict_get d k = Some w" for k v w
        by (rule "1.IH"(2)) (use dict that "1.prems" True pv_ok_get in \<open>auto simp: all_keys_sorted_set\<close>)
      have "walk old new path = [] \<longleftrightarrow>
          (\<forall>k \<in> set (all_keys_sorted c d). map_option canon (dict_get c k) = map_option canon (dict_get d k))"
        unfolding dict walk_dict_empty
      proof (intro ball_cong refl)
        fix k assume "k \<in> set (all_keys_sorted c d)"
        then show "(\<exists>v w. dict_get c k = Some v \<and> dict_get d k = Some w \<and> walk v w (child_key path k) = []) =
            (map_option canon (dict_get c k) = map_option canon (dict_get d k))"
          by (cases "dict_get c k"; cases "dict_get d k") (simp_all add: all_keys_sorted_set sub)
      qed
      also have "\<dots> \<longleftrightarrow> (\<forall>k. map_option canon (dict_get c k) = map_option canon (dict_get d k))"
        by (auto simp: all_keys_sorted_set)
      also have "\<dots> \<longleftrightarrow> canon old = canon new"
        using canon_dict_eq [of c d] dict "1.prems" by simp
      finally show ?thesis .
    next
      case list
      have sub: "walk (xs ! i) (ys ! i) (child_index path i) = [] \<longleftrightarrow> canon (xs ! i) = canon (ys ! i)"
        if "i < length xs" "i < length ys" for i
        by (rule "1.IH"(1)) (use list that "1.prems" True in auto)
      show ?thesis
        unfolding list walk_list_empty canon.simps pyval.inject list_eq_iff_nth_eq [of "map canon xs"]
        by (auto simp: sub)
    next
      case atom
      with True show ?thesis by (simp add: walk_atom canon_atom)
    qed
  qed
qed

lemma diff_values_empty_iff:
  "pv_ok (PDict old) \<Longrightarrow> pv_ok (PDict new) \<Longrightarrow> diff_values old new = [] \<longleftrightarrow> canon (PDict old) = canon (PDict new)"
  unfolding diff_values_def by (rule walk_empty_iff)

end
