(* ===== verification/Memory_Store.thy ===== *)
theory Memory_Store
  imports Memory_Diff Append_Log
begin

text \<open>
  \<open>omni/contracts/memory.py\<close> and \<open>omni/memory/store.py\<close>: the versioned store. The SQLite table
  is the list of its rows in insertion order; its primary key \<open>(key, branch, version)\<close> makes an
  insertion of an existing key an \<open>IntegrityError\<close>. A time is the text \<open>str(datetime)\<close> of a UTC
  time, which is what the \<open>sqlite3\<close> adapter of the standard library stores for a \<open>datetime\<close> and
  what orders as the times do: the date, a space (not the \<open>T\<close> of ISO text) and the clock. The hash
  of a value (\<open>hashlib\<close> over its JSON text) is the argument \<open>h\<close>.
\<close>

type_synonym doc = "(string \<times> pyval) list"

record memory_entry =
  me_key :: string
  me_branch :: string
  me_version :: int
  me_value :: doc
  me_agent_id :: string
  me_reason :: string
  me_parent_version :: "int option"
  me_hash :: string
  me_created_at :: string

record memory_row =
  mr_entry :: memory_entry
  mr_provenance :: "string option"

type_synonym memory_store = "memory_row list"

record memory_diff =
  md_key :: string
  md_branch :: string
  md_from_version :: int
  md_to_version :: int
  md_items :: "memory_diff_item list"

record rollback_request =
  rr_key :: string
  rr_branch :: string
  rr_target_version :: int
  rr_agent_id :: string
  rr_reason :: string

record branch_request =
  br_key :: string
  br_source_branch :: string
  br_source_version :: "int option"
  br_new_branch :: string
  br_agent_id :: string
  br_reason :: string

definition created_text :: "string \<Rightarrow> string" where
  \<comment> \<open>\<open>str(datetime.fromisoformat(s))\<close> of an ISO text: its \<open>T\<close> becomes a space\<close>
  "created_text s = map (\<lambda>c. if c = CHR ''T'' then CHR '' '' else c) s"

section \<open>Internals\<close>

definition in_branch :: "string \<Rightarrow> string \<Rightarrow> memory_row \<Rightarrow> bool" where
  "in_branch key branch r \<longleftrightarrow> me_key (mr_entry r) = key \<and> me_branch (mr_entry r) = branch"

definition row_to_entry :: "memory_row option \<Rightarrow> memory_entry option" where
  "row_to_entry = map_option mr_entry"

definition fetchone :: "memory_row list \<Rightarrow> memory_row option" where
  "fetchone rows = (case rows of [] \<Rightarrow> None | r # _ \<Rightarrow> Some r)"

definition mem_latest :: "string \<Rightarrow> string \<Rightarrow> memory_store \<Rightarrow> memory_entry option" where
  \<comment> \<open>\<open>ORDER BY version DESC LIMIT 1\<close>\<close>
  "mem_latest key branch rows = row_to_entry (fetchone
     (take 1 (py_sorted_desc (\<lambda>r. me_version (mr_entry r)) (filter (in_branch key branch) rows))))"

definition mem_insert :: "memory_entry \<Rightarrow> string option \<Rightarrow> memory_store \<Rightarrow> memory_store result" where
  "mem_insert entry provenance rows =
     (if list_ex (\<lambda>r. in_branch (me_key entry) (me_branch entry) r \<and> me_version (mr_entry r) = me_version entry) rows
      then Inl IntegrityError
      else Inr (rows @ [\<lparr>mr_entry = entry, mr_provenance = provenance\<rparr>]))"

section \<open>Operations\<close>

definition mem_write :: "(doc \<Rightarrow> string) \<Rightarrow> env \<Rightarrow> string \<Rightarrow> doc \<Rightarrow> string \<Rightarrow> string \<Rightarrow> string \<Rightarrow>
    memory_store \<Rightarrow> (memory_entry \<times> memory_store) result" where
  "mem_write h env key value agent_id reason branch rows =
     (let latest = mem_latest key branch rows;
          entry = \<lparr>me_key = key, me_branch = branch,
            me_version = (case latest of None \<Rightarrow> 1 | Some l \<Rightarrow> me_version l + 1), me_value = value,
            me_agent_id = agent_id, me_reason = reason,
            me_parent_version = (case latest of None \<Rightarrow> None | Some l \<Rightarrow> Some (me_version l)),
            me_hash = h value, me_created_at = created_text (env_stamp env)\<rparr>
      in (case mem_insert entry None rows of Inl err \<Rightarrow> Inl err | Inr rows' \<Rightarrow> Inr (entry, rows')))"

definition mem_read :: "string \<Rightarrow> string \<Rightarrow> int option \<Rightarrow> memory_store \<Rightarrow> memory_entry option" where
  "mem_read key branch version rows =
     (case version of
        None \<Rightarrow> mem_latest key branch rows
      | Some v \<Rightarrow> row_to_entry (fetchone (filter (\<lambda>r. in_branch key branch r \<and> me_version (mr_entry r) = v) rows)))"

definition mem_history :: "string \<Rightarrow> string \<Rightarrow> memory_store \<Rightarrow> memory_entry list" where
  "mem_history key branch rows =
     map mr_entry (sort_key (\<lambda>r. me_version (mr_entry r)) (filter (in_branch key branch) rows))"

definition int_or :: "int option \<Rightarrow> int \<Rightarrow> int" where
  \<comment> \<open>\<open>x or d\<close> on an optional version\<close>
  "int_or x d = (case x of None \<Rightarrow> d | Some v \<Rightarrow> if v = 0 then d else v)"

definition mem_diff :: "string \<Rightarrow> string \<Rightarrow> int option \<Rightarrow> int option \<Rightarrow> memory_store \<Rightarrow> memory_diff option" where
  "mem_diff key branch from_version to_version rows =
     (case mem_latest key branch rows of
        None \<Rightarrow> None
      | Some latest \<Rightarrow>
          (let to = int_or to_version (me_version latest); from = int_or from_version (max 1 (to - 1)) in
           case (mem_read key branch (Some from) rows, mem_read key branch (Some to) rows) of
             (Some a, Some b) \<Rightarrow> Some \<lparr>md_key = key, md_branch = branch, md_from_version = from,
               md_to_version = to, md_items = diff_values (me_value a) (me_value b)\<rparr>
           | _ \<Rightarrow> None))"

definition mem_rollback :: "(doc \<Rightarrow> string) \<Rightarrow> env \<Rightarrow> rollback_request \<Rightarrow> memory_store \<Rightarrow>
    (memory_entry \<times> memory_store) result" where
  "mem_rollback h env req rows =
     (case mem_read (rr_key req) (rr_branch req) (Some (rr_target_version req)) rows of
        None \<Rightarrow> Inl (KeyError (''no version '' @ show_int (rr_target_version req) @ '' for '' @ quoted (rr_key req) @
                  '' on '' @ quoted (rr_branch req)))
      | Some target \<Rightarrow> mem_write h env (rr_key req) (me_value target) (rr_agent_id req)
          (''rollback to v'' @ show_int (rr_target_version req) @ '': '' @ rr_reason req) (rr_branch req) rows)"

definition mem_branch :: "env \<Rightarrow> branch_request \<Rightarrow> memory_store \<Rightarrow> (memory_entry \<times> memory_store) result" where
  "mem_branch env req rows =
     (case mem_read (br_key req) (br_source_branch req) (br_source_version req) rows of
        None \<Rightarrow> Inl (KeyError (''source version not found for '' @ quoted (br_key req) @ ''@'' @ br_source_branch req))
      | Some source \<Rightarrow>
          (case mem_read (br_key req) (br_new_branch req) (Some 1) rows of
             Some _ \<Rightarrow> Inl (KeyError (''branch '' @ quoted (br_new_branch req) @ '' already has v1 for '' @ quoted (br_key req)))
           | None \<Rightarrow>
               (let entry = \<lparr>me_key = br_key req, me_branch = br_new_branch req, me_version = 1,
                  me_value = me_value source, me_agent_id = br_agent_id req, me_reason = br_reason req,
                  me_parent_version = None, me_hash = me_hash source, me_created_at = created_text (env_stamp env)\<rparr>
                in (case mem_insert entry (Some (br_source_branch req @ ''@'' @ show_int (me_version source))) rows of
                      Inl err \<Rightarrow> Inl err
                    | Inr rows' \<Rightarrow> Inr (entry, rows')))))"

definition nest_rows :: "memory_row list \<Rightarrow> (string, (string, doc) dict) dict" where
  \<comment> \<open>\<open>out.setdefault(key, {})[branch] = value\<close> over the rows\<close>
  "nest_rows rows = fold (\<lambda>r out.
     dict_set (me_key (mr_entry r))
       (dict_set (me_branch (mr_entry r)) (me_value (mr_entry r))
          (case dict_get out (me_key (mr_entry r)) of None \<Rightarrow> [] | Some d \<Rightarrow> d)) out) rows []"

definition max_version :: "memory_row list \<Rightarrow> int option" where
  \<comment> \<open>\<open>SELECT MAX(version)\<close>, null over no rows\<close>
  "max_version rows = (case rows of [] \<Rightarrow> None | _ \<Rightarrow> Some (Max (set (map (\<lambda>r. me_version (mr_entry r)) rows))))"

definition latest_rows :: "memory_row list \<Rightarrow> memory_row list" where
  \<comment> \<open>the rows whose version is the maximum of their key and branch\<close>
  "latest_rows rows = filter (\<lambda>r. max_version (filter (in_branch (me_key (mr_entry r)) (me_branch (mr_entry r))) rows)
     = Some (me_version (mr_entry r))) rows"

definition mem_snapshot :: "memory_store \<Rightarrow> (string, (string, doc) dict) dict" where
  "mem_snapshot rows = nest_rows (latest_rows rows)"

definition mem_snapshot_asof :: "string \<Rightarrow> memory_store \<Rightarrow> (string, (string, doc) dict) dict" where
  "mem_snapshot_asof iso_ts rows =
     nest_rows (latest_rows (filter (\<lambda>r. me_created_at (mr_entry r) \<le> iso_ts) rows))"

definition mem_all_keys :: "string \<Rightarrow> memory_store \<Rightarrow> string list" where
  \<comment> \<open>\<open>DISTINCT\<close>; the order, which SQL leaves open, is that of the first row\<close>
  "mem_all_keys branch rows =
     rev (remdups (rev (map (\<lambda>r. me_key (mr_entry r)) (filter (\<lambda>r. me_branch (mr_entry r) = branch) rows))))"

end
