(* ===== verification/Memory_Proofs.thy ===== *)
theory Memory_Proofs
  imports Memory_Store
begin

text \<open>
  The versioned store refines the abstract one: a history, a list of entries, for every key and
  branch. Reads look into it, every write appends to one of them, and nothing else changes.
\<close>

section \<open>Histories\<close>

definition branch_rows :: "string \<Rightarrow> string \<Rightarrow> memory_store \<Rightarrow> memory_row list" where
  "branch_rows key branch rows = filter (in_branch key branch) rows"

definition versions :: "memory_row list \<Rightarrow> int list" where
  "versions rows = map (\<lambda>r. me_version (mr_entry r)) rows"

definition parent_of :: "int \<Rightarrow> int option" where
  "parent_of v = (if v = 1 then None else Some (v - 1))"

definition row_ok :: "memory_row \<Rightarrow> bool" where
  "row_ok r \<longleftrightarrow> pv_ok (PDict (me_value (mr_entry r))) \<and>
     me_parent_version (mr_entry r) = parent_of (me_version (mr_entry r))"

definition store_ok :: "memory_store \<Rightarrow> bool" where
  \<comment> \<open>the versions of every key and branch are 1, 2, ... in the order of insertion\<close>
  "store_ok rows \<longleftrightarrow> (\<forall>k b. versions (branch_rows k b rows) = [1..int (length (branch_rows k b rows))]) \<and>
     (\<forall>r \<in> set rows. row_ok r)"

lemma branch_rows_append [simp]: "branch_rows k b (xs @ ys) = branch_rows k b xs @ branch_rows k b ys"
  by (simp add: branch_rows_def)

lemma branch_rows_Cons: "branch_rows k b (r # rows) =
    (if in_branch k b r then r # branch_rows k b rows else branch_rows k b rows)"
  by (simp add: branch_rows_def)

lemma branch_rows_Nil [simp]: "branch_rows k b [] = []"
  by (simp add: branch_rows_def)

lemma strict_upto: "sorted_wrt (<) [1..int n]"
  by (simp add: strict_sorted_iff)

lemma versions_strict: "store_ok rows \<Longrightarrow> sorted_wrt (<) (map (\<lambda>r. me_version (mr_entry r)) (branch_rows k b rows))"
  using strict_upto unfolding store_ok_def versions_def by metis

lemma versions_nth:
  assumes "store_ok rows" "i < length (branch_rows k b rows)"
  shows "me_version (mr_entry (branch_rows k b rows ! i)) = int i + 1"
proof -
  have "versions (branch_rows k b rows) ! i = [1..int (length (branch_rows k b rows))] ! i"
    using assms(1) by (simp add: store_ok_def)
  with assms(2) show ?thesis by (simp add: versions_def)
qed

lemma history_eq: "store_ok rows \<Longrightarrow> mem_history k b rows = map mr_entry (branch_rows k b rows)"
  using versions_strict [of rows k b] by (simp add: mem_history_def branch_rows_def py_sorted_id)

lemma fetchone_take: "fetchone (take (Suc 0) xs) = (if xs = [] then None else Some (hd xs))"
  by (cases xs) (simp_all add: fetchone_def)

lemma latest_eq: "store_ok rows \<Longrightarrow> mem_latest k b rows =
    (if mem_history k b rows = [] then None else Some (last (mem_history k b rows)))"
  using versions_strict [of rows k b]
  by (simp add: mem_latest_def fetchone_take row_to_entry_def history_eq py_sorted_desc_rev
      branch_rows_def [symmetric] last_map hd_rev)

lemma history_length: "store_ok rows \<Longrightarrow> length (mem_history k b rows) = length (branch_rows k b rows)"
  by (simp add: history_eq)

lemma history_version: "store_ok rows \<Longrightarrow> i < length (mem_history k b rows) \<Longrightarrow> me_version (mem_history k b rows ! i) = int i + 1"
  by (simp add: history_eq versions_nth)

lemma history_in: "store_ok rows \<Longrightarrow> e \<in> set (mem_history k b rows) \<Longrightarrow>
    me_key e = k \<and> me_branch e = b \<and> pv_ok (PDict (me_value e)) \<and> me_parent_version e = parent_of (me_version e)"
  by (auto simp: history_eq branch_rows_def in_branch_def store_ok_def row_ok_def simp del: pv_ok.simps)

lemma fetchone_find: "fetchone (filter P xs) = find P xs"
  by (induction xs) (auto simp: fetchone_def)

lemma read_eq:
  assumes "store_ok rows"
  shows "mem_read k b (Some v) rows =
    (if 1 \<le> v \<and> v \<le> int (length (mem_history k b rows)) then Some (mem_history k b rows ! nat (v - 1)) else None)"
proof -
  let ?br = "branch_rows k b rows"
  have "filter (\<lambda>r. in_branch k b r \<and> me_version (mr_entry r) = v) rows = filter (\<lambda>r. me_version (mr_entry r) = v) ?br"
    by (simp add: branch_rows_def)
  then have eq: "mem_read k b (Some v) rows = map_option mr_entry (find (\<lambda>r. me_version (mr_entry r) = v) ?br)"
    by (simp add: mem_read_def row_to_entry_def fetchone_find)
  show ?thesis
  proof (cases "1 \<le> v \<and> v \<le> int (length ?br)")
    case True
    then have "nat (v - 1) < length ?br" by linarith
    then have "find (\<lambda>r. me_version (mr_entry r) = v) ?br = Some (?br ! nat (v - 1))"
      unfolding find_Some_iff using assms True by (intro exI [of _ "nat (v - 1)"]) (auto simp: versions_nth)
    with True assms eq \<open>nat (v - 1) < length ?br\<close> show ?thesis by (simp add: history_eq)
  next
    case False
    have "find (\<lambda>r. me_version (mr_entry r) = v) ?br = None"
      unfolding find_None_iff in_set_conv_nth using assms False by (auto simp: versions_nth)
    with False assms eq show ?thesis by (auto simp: history_eq)
  qed
qed

section \<open>Insertion\<close>

definition next_version :: "string \<Rightarrow> string \<Rightarrow> memory_store \<Rightarrow> int" where
  "next_version k b rows = int (length (mem_history k b rows)) + 1"

lemma latest_version: "store_ok rows \<Longrightarrow>
    (case mem_latest k b rows of None \<Rightarrow> 1 | Some l \<Rightarrow> me_version l + 1) = next_version k b rows \<and>
    (case mem_latest k b rows of None \<Rightarrow> None | Some l \<Rightarrow> Some (me_version l)) = parent_of (next_version k b rows)"
  by (auto simp: latest_eq next_version_def parent_of_def last_conv_nth history_version of_nat_diff
      Suc_le_eq)

lemma mem_insert_next:
  assumes "store_ok rows" "me_version e = next_version (me_key e) (me_branch e) rows"
  shows "mem_insert e prov rows = Inr (rows @ [\<lparr>mr_entry = e, mr_provenance = prov\<rparr>])"
proof -
  have "me_version (mr_entry r) \<noteq> me_version e" if "r \<in> set rows" "in_branch (me_key e) (me_branch e) r" for r
  proof -
    from that have "r \<in> set (branch_rows (me_key e) (me_branch e) rows)" by (simp add: branch_rows_def)
    then obtain i where "i < length (branch_rows (me_key e) (me_branch e) rows)"
        "branch_rows (me_key e) (me_branch e) rows ! i = r" by (auto simp: in_set_conv_nth)
    with assms versions_nth [of rows i "me_key e" "me_branch e"] show ?thesis
      by (auto simp: next_version_def history_length)
  qed
  then show ?thesis by (auto simp: mem_insert_def list_ex_iff)
qed

lemma store_ok_append:
  assumes "store_ok rows" "me_version e = next_version (me_key e) (me_branch e) rows"
    and "pv_ok (PDict (me_value e))" "me_parent_version e = parent_of (me_version e)"
  shows "store_ok (rows @ [\<lparr>mr_entry = e, mr_provenance = prov\<rparr>])"
proof -
  have "versions (branch_rows k b (rows @ [\<lparr>mr_entry = e, mr_provenance = prov\<rparr>])) =
      [1..int (length (branch_rows k b (rows @ [\<lparr>mr_entry = e, mr_provenance = prov\<rparr>])))]" for k b
  proof (cases "me_key e = k \<and> me_branch e = b")
    case True
    have "[1..int (length (branch_rows k b rows)) + 1] = [1..int (length (branch_rows k b rows))] @ [int (length (branch_rows k b rows)) + 1]"
      by (subst upto_rec2) simp_all
    with True assms show ?thesis
      by (auto simp: store_ok_def versions_def branch_rows_Cons in_branch_def next_version_def history_length add.commute)
  qed (use assms(1) in \<open>auto simp: store_ok_def branch_rows_Cons in_branch_def\<close>)
  with assms show ?thesis by (auto simp: store_ok_def row_ok_def simp del: branch_rows_append pv_ok.simps)
qed

lemma history_append:
  assumes "store_ok (rows @ [\<lparr>mr_entry = e, mr_provenance = prov\<rparr>])" "store_ok rows"
  shows "mem_history k b (rows @ [\<lparr>mr_entry = e, mr_provenance = prov\<rparr>]) =
    mem_history k b rows @ (if me_key e = k \<and> me_branch e = b then [e] else [])"
  using assms by (auto simp: history_eq branch_rows_Cons in_branch_def)

definition appends :: "memory_entry \<Rightarrow> memory_store \<Rightarrow> memory_store \<Rightarrow> bool" where
  \<comment> \<open>the abstract effect of a successful write\<close>
  "appends e rows rows' \<longleftrightarrow> store_ok rows' \<and> (\<exists>prov. rows' = rows @ [\<lparr>mr_entry = e, mr_provenance = prov\<rparr>]) \<and>
     (\<forall>k b. mem_history k b rows' = mem_history k b rows @ (if me_key e = k \<and> me_branch e = b then [e] else []))"

lemma insert_appends:
  assumes "store_ok rows" "me_version e = next_version (me_key e) (me_branch e) rows"
    and "pv_ok (PDict (me_value e))" "me_parent_version e = parent_of (me_version e)"
  shows "\<exists>rows'. mem_insert e prov rows = Inr rows' \<and> appends e rows rows'"
  using assms by (auto simp: mem_insert_next appends_def store_ok_append history_append simp del: pv_ok.simps)

lemma write_appends:
  assumes "store_ok rows" "pv_ok (PDict value)"
  shows "\<exists>e rows'. mem_write h env key value agent reason branch rows = Inr (e, rows') \<and> appends e rows rows' \<and>
    me_key e = key \<and> me_branch e = branch \<and> me_value e = value \<and> me_version e = next_version key branch rows \<and>
    me_agent_id e = agent \<and> me_reason e = reason \<and> me_hash e = h value \<and> me_created_at e = created_text (env_stamp env)"
proof -
  define e where "e = \<lparr>me_key = key, me_branch = branch, me_version = next_version key branch rows, me_value = value,
    me_agent_id = agent, me_reason = reason, me_parent_version = parent_of (next_version key branch rows),
    me_hash = h value, me_created_at = created_text (env_stamp env)\<rparr>"
  have "mem_write h env key value agent reason branch rows =
      (case mem_insert e None rows of Inl err \<Rightarrow> Inl err | Inr rows' \<Rightarrow> Inr (e, rows'))"
    using latest_version [OF assms(1), of key branch] by (simp add: mem_write_def Let_def e_def split: sum.split)
  moreover obtain rows' where "mem_insert e None rows = Inr rows'" "appends e rows rows'"
    using insert_appends [of rows e None] assms by (auto simp: e_def)
  ultimately show ?thesis by (auto simp: e_def)
qed

section \<open>Rollback and branching\<close>

lemma rollback_appends:
  assumes "store_ok rows" "mem_read (rr_key req) (rr_branch req) (Some (rr_target_version req)) rows = Some target"
  shows "\<exists>e rows'. mem_rollback h env req rows = Inr (e, rows') \<and> appends e rows rows' \<and>
    me_key e = rr_key req \<and> me_branch e = rr_branch req \<and> me_value e = me_value target \<and>
    me_version e = next_version (rr_key req) (rr_branch req) rows"
proof -
  have "target \<in> set (mem_history (rr_key req) (rr_branch req) rows)"
    using assms by (auto simp: read_eq split: if_splits)
  then have "pv_ok (PDict (me_value target))" using history_in assms(1) by blast
  from write_appends [OF assms(1) this, of h env "rr_key req" "rr_agent_id req" _ "rr_branch req"] assms(2)
  show ?thesis by (fastforce simp: mem_rollback_def)
qed

lemma read_history: "store_ok rows \<Longrightarrow> mem_read k b v rows = Some e \<Longrightarrow> e \<in> set (mem_history k b rows)"
  by (cases v) (auto simp: read_eq, auto simp: mem_read_def latest_eq split: if_splits)

lemma branch_appends:
  assumes "store_ok rows" "mem_read (br_key req) (br_source_branch req) (br_source_version req) rows = Some source"
    and "mem_history (br_key req) (br_new_branch req) rows = []"
  shows "\<exists>e rows'. mem_branch env req rows = Inr (e, rows') \<and> appends e rows rows' \<and>
    me_key e = br_key req \<and> me_branch e = br_new_branch req \<and> me_value e = me_value source \<and> me_version e = 1"
proof -
  define e where "e = \<lparr>me_key = br_key req, me_branch = br_new_branch req, me_version = 1,
    me_value = me_value source, me_agent_id = br_agent_id req, me_reason = br_reason req,
    me_parent_version = None, me_hash = me_hash source, me_created_at = created_text (env_stamp env)\<rparr>"
  have ok: "pv_ok (PDict (me_value source))" using read_history [OF assms(1,2)] history_in assms(1) by blast
  have "mem_read (br_key req) (br_new_branch req) (Some 1) rows = None" using assms by (simp add: read_eq)
  then have "mem_branch env req rows =
      (case mem_insert e (Some (br_source_branch req @ ''@'' @ show_int (me_version source))) rows of
         Inl err \<Rightarrow> Inl err | Inr rows' \<Rightarrow> Inr (e, rows'))"
    using assms(2) by (simp add: mem_branch_def Let_def e_def split: sum.split)
  moreover obtain rows' where
    "mem_insert e (Some (br_source_branch req @ ''@'' @ show_int (me_version source))) rows = Inr rows'" "appends e rows rows'"
    using insert_appends [of rows e] assms ok by (auto simp: e_def next_version_def parent_of_def)
  ultimately show ?thesis by (auto simp: e_def)
qed

lemma branch_taken: "store_ok rows \<Longrightarrow> mem_history (br_key req) (br_new_branch req) rows \<noteq> [] \<Longrightarrow>
    \<exists>msg. mem_branch env req rows = Inl (KeyError msg)"
  by (auto simp: mem_branch_def read_eq Suc_le_eq split: option.split)

section \<open>Runs\<close>

datatype mem_cmd =
    Write env string doc string string string
  | Rollback env rollback_request
  | Branch env branch_request

fun mem_cmd_result :: "(doc \<Rightarrow> string) \<Rightarrow> mem_cmd \<Rightarrow> memory_store \<Rightarrow> (memory_entry \<times> memory_store) result" where
  "mem_cmd_result h (Write env key value agent reason branch) rows = mem_write h env key value agent reason branch rows"
| "mem_cmd_result h (Rollback env req) rows = mem_rollback h env req rows"
| "mem_cmd_result h (Branch env req) rows = mem_branch env req rows"

definition mem_step :: "(doc \<Rightarrow> string) \<Rightarrow> mem_cmd \<Rightarrow> memory_store \<Rightarrow> memory_store" where
  "mem_step h c rows = (case mem_cmd_result h c rows of Inl _ \<Rightarrow> rows | Inr (_, rows') \<Rightarrow> rows')"

fun valid_mem_cmd :: "mem_cmd \<Rightarrow> bool" where
  \<comment> \<open>the written value is a Python dictionary: no key twice\<close>
  "valid_mem_cmd (Write env key value agent reason branch) = pv_ok (PDict value)"
| "valid_mem_cmd _ = True"

lemma mem_insert_prefix: "mem_insert e prov rows = Inr rows' \<Longrightarrow> prefix rows rows'"
  by (auto simp: mem_insert_def split: if_splits)

lemma mem_step_prefix: "prefix rows (mem_step h c rows)"
  by (cases c)
    (auto simp: mem_step_def mem_write_def mem_rollback_def mem_branch_def Let_def
      split: sum.split option.split dest: mem_insert_prefix)

lemma branch_cases:
  assumes "store_ok rows" "mem_branch env req rows = Inr (e, rows')"
  shows "appends e rows rows'"
proof -
  obtain source where s: "mem_read (br_key req) (br_source_branch req) (br_source_version req) rows = Some source"
    using assms(2) by (auto simp: mem_branch_def split: option.splits)
  have "mem_history (br_key req) (br_new_branch req) rows = []"
    using assms branch_taken [OF assms(1), of req env] by fastforce
  from branch_appends [OF assms(1) s this, of env] assms(2) show ?thesis by auto
qed

lemma cmd_appends:
  assumes "store_ok rows" "valid_mem_cmd c" "mem_cmd_result h c rows = Inr (e, rows')"
  shows "appends e rows rows'"
proof (cases c)
  case (Write env key doc agent reason branch)
  with assms write_appends [OF assms(1), of doc h env key agent reason branch] show ?thesis by auto
next
  case (Rollback env req)
  then obtain target where "mem_read (rr_key req) (rr_branch req) (Some (rr_target_version req)) rows = Some target"
    using assms(3) by (auto simp: mem_rollback_def split: option.splits)
  from rollback_appends [OF assms(1) this, of h env] Rollback assms(3) show ?thesis by auto
next
  case (Branch env req)
  with assms branch_cases show ?thesis by auto
qed

lemma mem_step_ok: "store_ok rows \<Longrightarrow> valid_mem_cmd c \<Longrightarrow> store_ok (mem_step h c rows)"
  by (auto simp: mem_step_def split: sum.split dest: cmd_appends simp: appends_def)

interpretation mem_log: append_log "\<lambda>rows. rows" "mem_step h"
  by unfold_locales (rule mem_step_prefix)

interpretation mem_machine: guarded_machine "mem_step h" store_ok valid_mem_cmd
  by unfold_locales (rule mem_step_ok)

lemma store_ok_Nil [simp]: "store_ok []"
  by (simp add: store_ok_def versions_def)

lemma read_stable:
  "mem_read k b (Some v) rows = Some e \<Longrightarrow> prefix rows rows' \<Longrightarrow> mem_read k b (Some v) rows' = Some e"
  by (auto simp: mem_read_def row_to_entry_def fetchone_find find_append prefix_def)

section \<open>Snapshots\<close>

definition snap_get :: "(string, (string, doc) dict) dict \<Rightarrow> string \<Rightarrow> string \<Rightarrow> doc option" where
  "snap_get snap k b = (case dict_get snap k of None \<Rightarrow> None | Some d \<Rightarrow> dict_get d b)"

lemma snap_get_nest: "snap_get (nest_rows rows) k b =
    map_option (\<lambda>r. me_value (mr_entry r)) (if branch_rows k b rows = [] then None else Some (last (branch_rows k b rows)))"
proof (induction rows rule: rev_induct)
  case (snoc r rows)
  have "nest_rows (rows @ [r]) = dict_set (me_key (mr_entry r))
     (dict_set (me_branch (mr_entry r)) (me_value (mr_entry r))
       (case dict_get (nest_rows rows) (me_key (mr_entry r)) of None \<Rightarrow> [] | Some d \<Rightarrow> d)) (nest_rows rows)"
    by (simp add: nest_rows_def)
  with snoc show ?case
    by (auto simp: snap_get_def branch_rows_Cons in_branch_def split: option.splits if_splits)
qed (simp add: nest_rows_def snap_get_def)

lemma branch_latest_rows: "branch_rows k b (latest_rows rows) =
    filter (\<lambda>r. max_version (branch_rows k b rows) = Some (me_version (mr_entry r))) (branch_rows k b rows)"
  by (auto simp: branch_rows_def latest_rows_def in_branch_def intro!: filter_cong)

lemma max_version_upto:
  assumes "versions rs = [1..int (length rs)]" "rs \<noteq> []"
  shows "max_version rs = Some (int (length rs))"
proof -
  have "Max (set (versions rs)) = int (length rs)"
    using assms by (auto intro!: Max_eqI simp: Suc_le_eq)
  with assms(2) show ?thesis by (cases rs) (auto simp: max_version_def versions_def)
qed

lemma last_version_filter:
  assumes "versions rs = [1..int (length rs)]" "rs \<noteq> []"
  shows "filter (\<lambda>r. me_version (mr_entry r) = int (length rs)) rs = [last rs]"
proof -
  obtain xs r where rs: "rs = xs @ [r]" using assms(2) by (metis rev_exhaust)
  have v: "me_version (mr_entry (rs ! i)) = int i + 1" if "i < length rs" for i
    using that arg_cong [OF assms(1), of "\<lambda>ys. ys ! i"] by (simp add: versions_def)
  then have "me_version (mr_entry (xs ! i)) = int i + 1" if "i < length xs" for i
    using that by (metis rs length_append_singleton less_SucI nth_append)
  then have "filter (\<lambda>r. me_version (mr_entry r) = int (length rs)) xs = []"
    by (auto simp: filter_empty_conv in_set_conv_nth rs)
  moreover have "me_version (mr_entry r) = int (length rs)" using v [of "length xs"] by (simp add: rs)
  ultimately show ?thesis by (simp add: rs)
qed

lemma snapshot_latest:
  assumes "store_ok rows"
  shows "snap_get (mem_snapshot rows) k b = map_option me_value (mem_latest k b rows)"
proof (cases "branch_rows k b rows = []")
  case True
  with assms show ?thesis by (simp add: mem_snapshot_def snap_get_nest branch_latest_rows latest_eq history_eq)
next
  case False
  let ?rs = "branch_rows k b rows"
  have v: "versions ?rs = [1..int (length ?rs)]" using assms by (simp add: store_ok_def)
  have "branch_rows k b (latest_rows rows) = [last ?rs]"
    using last_version_filter [OF v False] max_version_upto [OF v False]
    by (simp add: branch_latest_rows eq_commute)
  with assms False show ?thesis
    by (simp add: mem_snapshot_def snap_get_nest latest_eq history_eq last_map)
qed

end
