(* ===== verification/Py_Text.thy ===== *)
theory Py_Text
  imports Prelude
begin

text \<open>
  Text operations of the standard library on ASCII text: \<open>lower\<close>, \<open>strip\<close> and the reading of a
  decimal literal by \<open>int\<close>.
\<close>

definition to_lower :: "char \<Rightarrow> char" where
  "to_lower c = (let n = of_char c :: nat in if 65 \<le> n \<and> n \<le> 90 then char_of (n + 32) else c)"

definition lower :: "string \<Rightarrow> string" where
  "lower s = map to_lower s"

definition is_space :: "char \<Rightarrow> bool" where
  "is_space c \<longleftrightarrow> (let n = of_char c :: nat in (9 \<le> n \<and> n \<le> 13) \<or> (28 \<le> n \<and> n \<le> 32))"

definition strip :: "string \<Rightarrow> string" where
  "strip s = rev (dropWhile is_space (rev (dropWhile is_space s)))"

definition digit_of :: "char \<Rightarrow> int option" where
  "digit_of c = (let n = of_char c :: nat in if 48 \<le> n \<and> n \<le> 57 then Some (int n - 48) else None)"

fun read_digits :: "bool \<Rightarrow> int \<Rightarrow> string \<Rightarrow> int option" where
  \<comment> \<open>digits with single underscores between them; the flag says that the last character was a digit\<close>
  "read_digits after_digit acc [] = (if after_digit then Some acc else None)"
| "read_digits after_digit acc (c # cs) =
     (case digit_of c of
        Some d \<Rightarrow> read_digits True (acc * 10 + d) cs
      | None \<Rightarrow> if c = CHR ''_'' \<and> after_digit then read_digits False acc cs else None)"

definition read_int :: "string \<Rightarrow> int option" where
  \<comment> \<open>\<open>int(s)\<close>, \<open>None\<close> for its \<open>ValueError\<close>\<close>
  "read_int s =
     (case strip s of
        [] \<Rightarrow> None
      | c # cs \<Rightarrow> if c = CHR ''-'' then map_option uminus (read_digits False 0 cs)
          else if c = CHR ''+'' then read_digits False 0 cs
          else read_digits False 0 (c # cs))"

definition slice_to :: "int \<Rightarrow> 'a list \<Rightarrow> 'a list" where
  \<comment> \<open>\<open>xs[:n]\<close>\<close>
  "slice_to n xs = (if n \<ge> 0 then take (nat n) xs else take (nat (int (length xs) + n)) xs)"

end
