(* ===== verification/Memory_Fusion.thy ===== *)
theory Memory_Fusion
  imports Memory_Proofs Py_Text "HOL-Library.Product_Lexorder"
begin

text \<open>
  \<open>omni/memory/fusion.py\<close>: \<open>deep_merge\<close> and the \<open>MemoryFuser\<close>, which writes the newest or the
  merged value of every key of the source branches to a target branch. All writes of one call
  share the call's clock.
\<close>

section \<open>Deep merge\<close>

function deep_merge :: "doc \<Rightarrow> doc \<Rightarrow> doc" where
  "deep_merge base [] = base"
| "deep_merge base ((key, v) # rest) =
     deep_merge (dict_set key
       (case (dict_get base key, v) of (Some (PDict b), PDict ov) \<Rightarrow> PDict (deep_merge b ov) | _ \<Rightarrow> v) base) rest"
  by pat_completeness auto
termination
  by (relation "measure (\<lambda>(base, ov). size_list (size_prod (\<lambda>_. 0) size) ov)") auto

definition merge_value :: "pyval option \<Rightarrow> pyval \<Rightarrow> pyval" where
  \<comment> \<open>what one key of the override makes of the value it meets\<close>
  "merge_value old v = (case (old, v) of (Some (PDict b), PDict ov) \<Rightarrow> PDict (deep_merge b ov) | _ \<Rightarrow> v)"

lemma deep_merge_Cons: "deep_merge base ((key, v) # rest) = deep_merge (dict_set key (merge_value (dict_get base key) v) base) rest"
  by (simp add: merge_value_def)

lemma deep_merge_get:
  "distinct (dict_keys ov) \<Longrightarrow> dict_get (deep_merge base ov) k =
     (case dict_get ov k of None \<Rightarrow> dict_get base k | Some v \<Rightarrow> Some (merge_value (dict_get base k) v))"
proof (induction ov arbitrary: base)
  case (Cons p ov)
  obtain key v where p: "p = (key, v)" by (cases p)
  have "dict_get ov key = None" using Cons.prems p by (simp add: dict_get_None_keys)
  with Cons p show ?case unfolding p deep_merge_Cons by (auto split: option.splits)
qed simp

lemma deep_merge_ok: "pv_ok (PDict base) \<Longrightarrow> pv_ok (PDict ov) \<Longrightarrow> pv_ok (PDict (deep_merge base ov))"
proof (induction base ov rule: deep_merge.induct)
  case (2 base key v rest)
  have set_ok: "pv_ok (PDict (dict_set key x base))" if "pv_ok x" for x
    using 2(3) that by (fastforce dest: subsetD [OF set_dict_set])
  have "pv_ok (merge_value (dict_get base key) v)"
  proof (cases "\<exists>b o'. dict_get base key = Some (PDict b) \<and> v = PDict o'")
    case True
    then obtain b o' where "dict_get base key = Some (PDict b)" "v = PDict o'" by blast
    moreover from this have "pv_ok (PDict b)" using 2(3) pv_ok_get by blast
    moreover have "pv_ok v" using 2(4) by simp
    ultimately show ?thesis using 2(1) [of _ _ "PDict b" b o'] by (simp add: merge_value_def)
  next
    case False
    then have "merge_value (dict_get base key) v = v"
      by (auto simp: merge_value_def split: option.split pyval.split)
    then show ?thesis using 2(4) by simp
  qed
  with set_ok have "pv_ok (PDict (dict_set key (merge_value (dict_get base key) v) base))" by blast
  with 2(2) 2(4) show ?case by (simp add: merge_value_def del: deep_merge.simps(1))
qed simp

section \<open>The fuser\<close>

record fuse_report =
  fr_target_branch :: string
  fr_strategy :: string
  fr_keys_fused :: int
  fr_keys_unchanged :: int
  fr_decisions :: "pyval list"

record memory_fuser =
  mf_agent_id :: string
  mf_strategy :: string

definition STRATEGIES :: "string list" where
  "STRATEGIES = [''newest'', ''merge'']"

definition new_memory_fuser :: "string \<Rightarrow> string \<Rightarrow> memory_fuser result" where
  "new_memory_fuser agent_id strategy =
     (if strategy \<notin> set STRATEGIES then Inl (KeyError (''unknown fusion strategy '' @ quoted strategy))
      else Inr \<lparr>mf_agent_id = agent_id, mf_strategy = strategy\<rparr>)"

definition at_version :: "memory_entry \<Rightarrow> string" where
  "at_version e = me_branch e @ ''@'' @ show_int (me_version e)"

definition fuse_collect :: "string list \<Rightarrow> memory_store \<Rightarrow> (string \<times> string, memory_entry) dict" where
  "fuse_collect source_branches rows =
     fold (\<lambda>branch latest. fold (\<lambda>key latest.
        (case mem_read key branch None rows of None \<Rightarrow> latest | Some entry \<Rightarrow> dict_set (branch, key) entry latest))
        (mem_all_keys branch rows) latest) source_branches []"

definition fuse_keys :: "(string \<times> string, memory_entry) dict \<Rightarrow> string list" where
  \<comment> \<open>\<open>sorted(keys)\<close>: a key is added with each of its entries\<close>
  "fuse_keys latest = sort (remdups (map snd (dict_keys latest)))"

definition fuse_entries :: "(string \<times> string, memory_entry) dict \<Rightarrow> string \<Rightarrow> memory_entry list" where
  "fuse_entries latest key = map snd (filter (\<lambda>((b, k), e). k = key) latest)"

definition fuse_value :: "string \<Rightarrow> string \<Rightarrow> memory_entry list \<Rightarrow> doc \<times> pyval" where
  \<comment> \<open>the value of a key and the decision; a key always has an entry\<close>
  "fuse_value strategy key entries =
     (if strategy = ''newest''
      then (case entries of
          [] \<Rightarrow> ([], PDict [])
        | e # es \<Rightarrow>
            (let winner = py_max (\<lambda>e. (me_created_at e, me_version e)) e es
             in (me_value winner, PDict [(''key'', PStr key), (''winner'', PStr (at_version winner))])))
      else (fold (\<lambda>e merged. deep_merge merged (me_value e)) entries [],
            PDict [(''key'', PStr key), (''winner'', PStr ''merge''), (''sources'', PList (map (\<lambda>e. PStr (at_version e)) entries))]))"

definition fuse_reason :: "string list \<Rightarrow> string \<Rightarrow> string \<Rightarrow> string" where
  "fuse_reason source_branches target_branch reason =
     strip (''fusion of '' @ repr_str_list source_branches @ '' into '' @ target_branch @ '': '' @ reason)"

definition fuse_key :: "(doc \<Rightarrow> string) \<Rightarrow> env \<Rightarrow> memory_fuser \<Rightarrow> string \<Rightarrow> string \<Rightarrow>
    (string \<times> string, memory_entry) dict \<Rightarrow> string \<Rightarrow> fuse_report \<times> memory_store \<Rightarrow> (fuse_report \<times> memory_store) result" where
  "fuse_key h env mf why target latest key = (\<lambda>(report, rows).
     (let (v, decision) = fuse_value (mf_strategy mf) key (fuse_entries latest key) in
      if (case mem_read key target None rows of None \<Rightarrow> False | Some existing \<Rightarrow> py_eq (PDict (me_value existing)) (PDict v))
      then Inr (report\<lparr>fr_keys_unchanged := fr_keys_unchanged report + 1,
                       fr_decisions := fr_decisions report @ [decision]\<rparr>, rows)
      else (case mem_write h env key v (mf_agent_id mf) why target rows of
          Inl err \<Rightarrow> Inl err
        | Inr (_, rows') \<Rightarrow> Inr (report\<lparr>fr_keys_fused := fr_keys_fused report + 1,
                                      fr_decisions := fr_decisions report @ [decision]\<rparr>, rows'))))"

definition fuse :: "(doc \<Rightarrow> string) \<Rightarrow> env \<Rightarrow> memory_fuser \<Rightarrow> string list \<Rightarrow> string \<Rightarrow> string \<Rightarrow>
    memory_store \<Rightarrow> (fuse_report \<times> memory_store) result" where
  "fuse h env mf source_branches target_branch reason rows =
     (if source_branches = [] then Inl (ValueError ''at least one source branch is required'')
      else
        (let latest = fuse_collect source_branches rows;
             report = \<lparr>fr_target_branch = target_branch, fr_strategy = mf_strategy mf, fr_keys_fused = 0,
                       fr_keys_unchanged = 0, fr_decisions = []\<rparr>
         in fold_r (fuse_key h env mf (fuse_reason source_branches target_branch reason) target_branch latest)
              (fuse_keys latest) (report, rows)))"

end
