(* ===== verification/Memory_Fusion_Proofs.thy ===== *)
theory Memory_Fusion_Proofs
  imports Memory_Fusion
begin

text \<open>
  What a fusion does to the store: it only adds versions to the target branch, every fused key
  ends with the computed value, and a second fusion finds nothing left to do.
\<close>

declare pv_ok.simps(2) [simp del] py_eq.simps(3) [simp del]

section \<open>Only the target branch grows\<close>

definition only_branch :: "string \<Rightarrow> memory_store \<Rightarrow> memory_store \<Rightarrow> bool" where
  "only_branch target rows rows' \<longleftrightarrow>
     (\<exists>zs. rows' = rows @ zs \<and> (\<forall>r \<in> set zs. me_branch (mr_entry r) = target))"

lemma only_branch_refl [simp]: "only_branch target rows rows"
  by (simp add: only_branch_def)

lemma only_branch_trans: "only_branch t a b \<Longrightarrow> only_branch t b c \<Longrightarrow> only_branch t a c"
  by (fastforce simp: only_branch_def)

lemma only_branch_latest:
  assumes "only_branch target rows rows'" "b \<noteq> target"
  shows "mem_latest k b rows' = mem_latest k b rows" "mem_all_keys b rows' = mem_all_keys b rows"
    "mem_history k b rows' = mem_history k b rows"
proof -
  obtain zs where zs: "rows' = rows @ zs" "\<forall>r \<in> set zs. me_branch (mr_entry r) = target"
    using assms(1) by (auto simp: only_branch_def)
  then have "filter (in_branch k b) zs = []" "filter (\<lambda>r. me_branch (mr_entry r) = b) zs = []"
    using assms(2) by (auto simp: filter_empty_conv in_branch_def)
  then show "mem_latest k b rows' = mem_latest k b rows" "mem_all_keys b rows' = mem_all_keys b rows"
    "mem_history k b rows' = mem_history k b rows"
    by (simp_all add: zs(1) mem_latest_def mem_all_keys_def mem_history_def)
qed

lemma fuse_collect_same:
  assumes "only_branch target rows rows'" "target \<notin> set sources"
  shows "fuse_collect sources rows' = fuse_collect sources rows"
  unfolding fuse_collect_def
proof (rule fold_cong)
  fix b assume "b \<in> set sources"
  with assms have "b \<noteq> target" by auto
  then show "(\<lambda>latest. fold (\<lambda>key latest. case mem_read key b None rows' of None \<Rightarrow> latest
        | Some entry \<Rightarrow> dict_set (b, key) entry latest) (mem_all_keys b rows') latest) =
      (\<lambda>latest. fold (\<lambda>key latest. case mem_read key b None rows of None \<Rightarrow> latest
        | Some entry \<Rightarrow> dict_set (b, key) entry latest) (mem_all_keys b rows) latest)"
    using only_branch_latest [OF assms(1)] by (simp add: mem_read_def)
qed simp_all

section \<open>The computed values are documents\<close>

definition entries_ok :: "(string \<times> string, memory_entry) dict \<Rightarrow> bool" where
  "entries_ok latest \<longleftrightarrow> (\<forall>(bk, e) \<in> set latest. pv_ok (PDict (me_value e)))"

lemma fuse_collect_ok: "store_ok rows \<Longrightarrow> entries_ok (fuse_collect sources rows)"
proof -
  assume ok: "store_ok rows"
  have upd: "entries_ok (dict_set bk e latest)" if "entries_ok latest" "pv_ok (PDict (me_value e))" for bk e latest
    using that set_dict_set [of bk e latest] unfolding entries_ok_def by blast
  have inner: "entries_ok (fold (\<lambda>key latest. case mem_read key b None rows of None \<Rightarrow> latest
      | Some entry \<Rightarrow> dict_set (b, key) entry latest) ks latest)" if "entries_ok latest" for b ks latest
    using that
  proof (induction ks arbitrary: latest)
    case (Cons k ks)
    have "entries_ok (case mem_read k b None rows of None \<Rightarrow> latest | Some entry \<Rightarrow> dict_set (b, k) entry latest)"
      using Cons.prems read_history [OF ok, of k b None] history_in [OF ok]
      by (auto split: option.split intro!: upd)
    with Cons.IH show ?case by simp
  qed simp
  have "entries_ok (fold (\<lambda>branch latest. fold (\<lambda>key latest. case mem_read key branch None rows of None \<Rightarrow> latest
      | Some entry \<Rightarrow> dict_set (branch, key) entry latest) (mem_all_keys branch rows) latest) sources latest)"
    if "entries_ok latest" for latest
    using that by (induction sources arbitrary: latest) (simp_all add: inner)
  then show "entries_ok (fuse_collect sources rows)"
    unfolding fuse_collect_def by (simp add: entries_ok_def [of "[]"])
qed

lemma fold_merge_ok: "\<forall>e \<in> set es. pv_ok (PDict (me_value e)) \<Longrightarrow> pv_ok (PDict d) \<Longrightarrow>
   pv_ok (PDict (fold (\<lambda>e merged. deep_merge merged (me_value e)) es d))"
  by (induction es arbitrary: d) (auto intro: deep_merge_ok)

lemma fuse_value_ok:
  assumes "entries_ok latest"
  shows "pv_ok (PDict (fst (fuse_value strategy key (fuse_entries latest key))))"
proof -
  have es: "\<forall>e \<in> set (fuse_entries latest key). pv_ok (PDict (me_value e))"
    using assms by (auto simp: entries_ok_def fuse_entries_def)
  show ?thesis
  proof (cases "strategy = ''newest''")
    case True
    show ?thesis
    proof (cases "fuse_entries latest key")
      case Nil
      with True show ?thesis by (simp add: fuse_value_def pv_ok.simps(2))
    next
      case (Cons e rest)
      with True es py_max_in [of "\<lambda>e. (me_created_at e, me_version e)" e rest] show ?thesis
        by (auto simp: fuse_value_def Let_def)
    qed
  next
    case False
    with es show ?thesis by (simp add: fuse_value_def fold_merge_ok pv_ok.simps(2) [of "[]"])
  qed
qed

section \<open>The loop\<close>

definition settled :: "memory_fuser \<Rightarrow> string \<Rightarrow> (string \<times> string, memory_entry) dict \<Rightarrow> memory_store \<Rightarrow> string \<Rightarrow> bool" where
  "settled mf target latest rows key \<longleftrightarrow> (\<exists>e. mem_latest key target rows = Some e \<and>
     py_eq (PDict (me_value e)) (PDict (fst (fuse_value (mf_strategy mf) key (fuse_entries latest key)))))"

lemma fuse_key_settled:
  "settled mf target latest rows key \<Longrightarrow> \<exists>report'. fuse_key h env mf why target latest key (report, rows) = Inr (report', rows) \<and>
     fr_keys_fused report' = fr_keys_fused report \<and> fr_keys_unchanged report' = fr_keys_unchanged report + 1"
  by (auto simp: settled_def fuse_key_def mem_read_def split: prod.split)

lemma fuse_key_step:
  assumes "store_ok rows" "entries_ok latest"
  shows "\<exists>report' rows'. fuse_key h env mf why target latest key (report, rows) = Inr (report', rows') \<and>
    store_ok rows' \<and> only_branch target rows rows' \<and> settled mf target latest rows' key \<and>
    (\<forall>k. k \<noteq> key \<longrightarrow> mem_history k target rows' = mem_history k target rows) \<and>
    fr_keys_fused report' + fr_keys_unchanged report' = fr_keys_fused report + fr_keys_unchanged report + 1"
proof -
  let ?v = "fst (fuse_value (mf_strategy mf) key (fuse_entries latest key))"
  have ok: "pv_ok (PDict ?v)" by (rule fuse_value_ok) (rule assms)
  show ?thesis
  proof (cases "settled mf target latest rows key")
    case True
    with fuse_key_settled [OF True, of h env why report] assms show ?thesis by fastforce
  next
    case False
    obtain e rows' where w: "mem_write h env key ?v (mf_agent_id mf) why target rows = Inr (e, rows')"
      "appends e rows rows'" "me_key e = key" "me_branch e = target" "me_value e = ?v"
      using write_appends [OF assms(1) ok] by blast
    have hist: "mem_history k b rows' = mem_history k b rows @ (if key = k \<and> target = b then [e] else [])" for k b
      using w by (simp add: appends_def)
    have "settled mf target latest rows' key"
      using w hist [of key target] ok by (auto simp: settled_def appends_def latest_eq intro!: py_eq_refl)
    moreover have "only_branch target rows rows'" using w by (auto simp: appends_def only_branch_def)
    ultimately show ?thesis
      using False w hist
      by (auto simp: settled_def fuse_key_def mem_read_def appends_def split: prod.splits option.splits)
  qed
qed

lemma settled_other:
  assumes "settled mf target latest rows k" "store_ok rows" "store_ok rows'"
    and "mem_history k target rows' = mem_history k target rows"
  shows "settled mf target latest rows' k"
proof -
  have "mem_latest k target rows' = mem_latest k target rows"
    by (simp only: latest_eq [OF assms(2)] latest_eq [OF assms(3)] assms(4))
  with assms(1) show ?thesis by (simp only: settled_def)
qed

lemma fuse_loop:
  assumes "store_ok rows" "entries_ok latest" "distinct ks"
  shows "\<exists>report' rows'. fold_r (fuse_key h env mf why target latest) ks (report, rows) = Inr (report', rows') \<and>
    store_ok rows' \<and> only_branch target rows rows' \<and> (\<forall>k \<in> set ks. settled mf target latest rows' k) \<and>
    (\<forall>k. k \<notin> set ks \<longrightarrow> mem_history k target rows' = mem_history k target rows) \<and>
    fr_keys_fused report' + fr_keys_unchanged report' = fr_keys_fused report + fr_keys_unchanged report + int (length ks)"
  using assms
proof (induction ks arbitrary: report rows)
  case (Cons k ks)
  obtain r1 rows1 where s1: "fuse_key h env mf why target latest k (report, rows) = Inr (r1, rows1)"
    "store_ok rows1" "only_branch target rows rows1" "settled mf target latest rows1 k"
    "\<forall>k'. k' \<noteq> k \<longrightarrow> mem_history k' target rows1 = mem_history k' target rows"
    "fr_keys_fused r1 + fr_keys_unchanged r1 = fr_keys_fused report + fr_keys_unchanged report + 1"
    using fuse_key_step [OF Cons.prems(1,2)] by blast
  obtain r2 rows2 where s2: "fold_r (fuse_key h env mf why target latest) ks (r1, rows1) = Inr (r2, rows2)"
    "store_ok rows2" "only_branch target rows1 rows2" "\<forall>k \<in> set ks. settled mf target latest rows2 k"
    "\<forall>k. k \<notin> set ks \<longrightarrow> mem_history k target rows2 = mem_history k target rows1"
    "fr_keys_fused r2 + fr_keys_unchanged r2 = fr_keys_fused r1 + fr_keys_unchanged r1 + int (length ks)"
    using Cons.IH [OF s1(2) Cons.prems(2), of r1] Cons.prems(3) by auto
  have "settled mf target latest rows2 k"
    using settled_other [OF s1(4) s1(2) s2(2)] s2(5) Cons.prems(3) by simp
  with s1 s2 show ?case by (auto intro: only_branch_trans)
qed simp

lemma fuse_loop_settled:
  "\<forall>k \<in> set ks. settled mf target latest rows k \<Longrightarrow>
     \<exists>report'. fold_r (fuse_key h env mf why target latest) ks (report, rows) = Inr (report', rows) \<and>
       fr_keys_fused report' = fr_keys_fused report \<and> fr_keys_unchanged report' = fr_keys_unchanged report + int (length ks)"
proof (induction ks arbitrary: report)
  case (Cons k ks)
  then obtain r1 where r1: "fuse_key h env mf why target latest k (report, rows) = Inr (r1, rows)"
    "fr_keys_fused r1 = fr_keys_fused report" "fr_keys_unchanged r1 = fr_keys_unchanged report + 1"
    using fuse_key_settled by (metis list.set_intros(1))
  with Cons.IH [of r1] Cons.prems show ?case by auto
qed simp

lemma distinct_fuse_keys: "distinct (fuse_keys latest)"
  by (simp add: fuse_keys_def)

end
