(* ===== verification/Memory_Properties.thy ===== *)
theory Memory_Properties
  imports Memory_Fusion_Proofs
begin

text \<open>
  The properties of the versioned memory (\<open>omni/memory\<close>) and their instances at concrete inputs.
\<close>

declare pv_ok.simps(2) [simp]

section \<open>A sample store for the instances\<close>

definition memory_env :: "string \<Rightarrow> env" where
  "memory_env stamp = \<lparr>env_time = 0, env_stamp = stamp, env_uuid = []\<rparr>"

definition sample_cmds :: "mem_cmd list" where
  "sample_cmds =
     [Write (memory_env ''2026-01-01T08:00:00+00:00'') ''goal'' [(''n'', PInt 1)] ''ada'' ''first'' ''main'',
      Write (memory_env ''2026-01-01T21:00:00+00:00'') ''goal'' [(''n'', PInt 2)] ''ada'' ''second'' ''main'']"

definition no_hash :: "doc \<Rightarrow> string" where
  "no_hash = (\<lambda>_. [])"

definition sample_store :: memory_store where
  "sample_store = fold (mem_step no_hash) sample_cmds []"

lemma sample_store_eq: "sample_store =
   [\<lparr>mr_entry = \<lparr>me_key = ''goal'', me_branch = ''main'', me_version = 1, me_value = [(''n'', PInt 1)],
       me_agent_id = ''ada'', me_reason = ''first'', me_parent_version = None, me_hash = [],
       me_created_at = ''2026-01-01 08:00:00+00:00''\<rparr>, mr_provenance = None\<rparr>,
    \<lparr>mr_entry = \<lparr>me_key = ''goal'', me_branch = ''main'', me_version = 2, me_value = [(''n'', PInt 2)],
       me_agent_id = ''ada'', me_reason = ''second'', me_parent_version = Some 1, me_hash = [],
       me_created_at = ''2026-01-01 21:00:00+00:00''\<rparr>, mr_provenance = None\<rparr>]"
  by (simp add: sample_store_def sample_cmds_def mem_step_def mem_write_def mem_latest_def mem_insert_def
      in_branch_def fetchone_def row_to_entry_def no_hash_def memory_env_def created_text_def py_sorted_desc_def Let_def)

lemma sample_store_ok: "store_ok sample_store"
  unfolding sample_store_def
  by (rule mem_machine.valid_run_ok) (simp_all add: sample_cmds_def)

section \<open>Versions\<close>

text \<open>
  C12. After any sequence of writes, rollbacks and branchings the history of every key on every
  branch has exactly the versions 1, 2, ..., n, each with its predecessor as parent.
\<close>
theorem versions_contiguous:
  assumes "\<forall>c \<in> set cs. valid_mem_cmd c"
  shows "let es = mem_history k b (fold (mem_step h) cs [])
    in map me_version es = [1..int (length es)] \<and> map me_parent_version es = map (\<lambda>e. parent_of (me_version e)) es"
proof -
  have ok: "store_ok (fold (mem_step h) cs [])"
    using assms by (intro mem_machine.valid_run_ok) auto
  have "map me_version (mem_history k b (fold (mem_step h) cs [])) =
      [1..int (length (mem_history k b (fold (mem_step h) cs [])))]"
    using ok unfolding history_eq [OF ok] by (simp add: store_ok_def versions_def comp_def)
  moreover have "map me_parent_version es = map (\<lambda>e. parent_of (me_version e)) es"
    if "es = mem_history k b (fold (mem_step h) cs [])" for es
    using history_in [OF ok, of _ k b] that by simp
  ultimately show ?thesis by (simp add: Let_def)
qed

lemma versions_contiguous_witness:
  "let es = mem_history ''goal'' ''main'' (fold (mem_step no_hash) sample_cmds []) in map me_version es = [1..int (length es)]"
  using versions_contiguous [of sample_cmds "''goal''" "''main''" no_hash] by (simp add: sample_cmds_def Let_def)

text \<open>
  Versions are immutable: once a version of a key can be read on a branch, every later
  sequence of operations leaves the entry that reading it returns unchanged.
\<close>
theorem version_immutable:
  assumes "mem_read k b (Some v) rows = Some e"
  shows "mem_read k b (Some v) (fold (mem_step h) cs rows) = Some e"
  using assms mem_log.run_appends by (rule read_stable)

lemma version_immutable_witness:
  "\<exists>e. mem_read ''goal'' ''main'' (Some 1) (fold (mem_step no_hash) sample_cmds sample_store) = Some e \<and>
     me_value e = [(''n'', PInt 1)]"
  using version_immutable [of "''goal''" "''main''" 1 sample_store _ no_hash sample_cmds]
  by (auto simp: mem_read_def sample_store_eq in_branch_def fetchone_def row_to_entry_def)

text \<open>
  C13. A write to a well-formed store never fails; it appends one entry, with the next version and
  the given value, to the history of its key and branch, changes no other history, and is what
  the next read returns.
\<close>
theorem write_refines:
  assumes "store_ok rows" "pv_ok (PDict value)"
  shows "\<exists>e rows'. mem_write h env key value agent reason branch rows = Inr (e, rows') \<and> store_ok rows' \<and>
    me_value e = value \<and> me_version e = int (length (mem_history key branch rows)) + 1 \<and>
    me_agent_id e = agent \<and> me_reason e = reason \<and>
    mem_history key branch rows' = mem_history key branch rows @ [e] \<and>
    mem_read key branch None rows' = Some e \<and>
    (\<forall>k b. (k, b) \<noteq> (key, branch) \<longrightarrow> mem_history k b rows' = mem_history k b rows)"
  using write_appends [OF assms, of h env key agent reason branch]
  by (auto simp: appends_def next_version_def mem_read_def latest_eq simp del: pv_ok.simps)

lemma write_refines_witness:
  "\<exists>e rows'. mem_write no_hash (memory_env ''2026-01-02T00:00:00+00:00'') ''goal'' [(''n'', PInt 3)] ''bob'' ''third'' ''main'' sample_store = Inr (e, rows') \<and>
     mem_read ''goal'' ''main'' None rows' = Some e \<and> me_value e = [(''n'', PInt 3)]"
  using write_refines [OF sample_store_ok, of "[(''n'', PInt 3)]" no_hash "memory_env ''2026-01-02T00:00:00+00:00''" "''goal''" "''bob''" "''third''" "''main''"]
  by auto

text \<open>
  A rollback to a version that exists appends a new version with the old value, whose diff to
  the old version is empty; the past stays as it was. A rollback to a missing version raises
  \<open>KeyError\<close>.
\<close>
theorem rollback_restores:
  assumes "store_ok rows"
  shows "(case mem_read (rr_key req) (rr_branch req) (Some (rr_target_version req)) rows of
      None \<Rightarrow> \<exists>msg. mem_rollback h env req rows = Inl (KeyError msg)
    | Some target \<Rightarrow> \<exists>e rows'. mem_rollback h env req rows = Inr (e, rows') \<and> me_value e = me_value target \<and>
        mem_history (rr_key req) (rr_branch req) rows' = mem_history (rr_key req) (rr_branch req) rows @ [e] \<and>
        (\<exists>d. mem_diff (rr_key req) (rr_branch req) (Some (rr_target_version req)) None rows' = Some d \<and>
           md_to_version d = me_version e \<and> md_items d = []))"
proof (cases "mem_read (rr_key req) (rr_branch req) (Some (rr_target_version req)) rows")
  case None
  then show ?thesis by (simp add: mem_rollback_def)
next
  case (Some target)
  obtain e rows' where e: "mem_rollback h env req rows = Inr (e, rows')" "appends e rows rows'"
    "me_key e = rr_key req" "me_branch e = rr_branch req" "me_value e = me_value target"
    "me_version e = next_version (rr_key req) (rr_branch req) rows"
    using rollback_appends [OF assms Some, of h env] by blast
  let ?hist = "mem_history (rr_key req) (rr_branch req)"
  have ok': "store_ok rows'" and hist: "?hist rows' = ?hist rows @ [e]" using e by (auto simp: appends_def)
  have tv: "1 \<le> rr_target_version req" "rr_target_version req \<le> int (length (?hist rows))"
    and target: "target = ?hist rows ! nat (rr_target_version req - 1)"
    using Some by (auto simp: read_eq [OF assms] split: if_splits)
  have "mem_read (rr_key req) (rr_branch req) (Some (rr_target_version req)) rows' = Some target"
    using Some e(2) by (auto simp: appends_def intro: read_stable)
  moreover have "mem_read (rr_key req) (rr_branch req) (Some (me_version e)) rows' = Some e"
    using e(6) by (simp add: read_eq [OF ok'] hist next_version_def nth_append)
  moreover have "mem_latest (rr_key req) (rr_branch req) rows' = Some e"
    by (simp add: latest_eq [OF ok'] hist)
  moreover have "diff_values (me_value target) (me_value e) = []"
    using e(5) read_history [OF assms Some] history_in [OF assms] by (subst diff_values_empty_iff) auto
  ultimately show ?thesis
    using Some e hist tv by (auto simp: mem_diff_def int_or_def Let_def)
qed

lemma rollback_restores_witness:
  "\<exists>e rows'. mem_rollback no_hash (memory_env ''2026-01-02T00:00:00+00:00'')
     \<lparr>rr_key = ''goal'', rr_branch = ''main'', rr_target_version = 1, rr_agent_id = ''bob'', rr_reason = ''undo''\<rparr> sample_store = Inr (e, rows') \<and>
     me_value e = [(''n'', PInt 1)]"
  using rollback_restores [OF sample_store_ok, of no_hash "memory_env ''2026-01-02T00:00:00+00:00''"
      "\<lparr>rr_key = ''goal'', rr_branch = ''main'', rr_target_version = 1, rr_agent_id = ''bob'', rr_reason = ''undo''\<rparr>"]
  by (auto simp: mem_read_def sample_store_eq in_branch_def fetchone_def row_to_entry_def)

text \<open>
  C30. The structural diff of two documents is empty exactly when they agree up to the order of
  dictionary keys, at every depth.
\<close>
theorem diff_empty_iff_same:
  assumes "pv_ok (PDict old)" "pv_ok (PDict new)"
  shows "diff_values old new = [] \<longleftrightarrow> canon (PDict old) = canon (PDict new)"
  using assms by (rule diff_values_empty_iff)

lemma diff_empty_iff_same_witness:
  "diff_values [(''a'', PInt 1), (''b'', PList [PNone])] [(''b'', PList [PNone]), (''a'', PInt 1)] = []"
  using diff_empty_iff_same [of "[(''a'', PInt 1), (''b'', PList [PNone])]" "[(''b'', PList [PNone]), (''a'', PInt 1)]"]
  by (simp add: less_eq_char_def)

text \<open>
  A snapshot holds, for every key and branch, the value of the latest version and nothing
  else, in every store that writes, rollbacks and branchings can produce.
\<close>
theorem snapshot_is_latest:
  assumes "\<forall>c \<in> set cs. valid_mem_cmd c"
  shows "let rows = fold (mem_step h) cs []
    in snap_get (mem_snapshot rows) k b = map_option me_value (mem_latest k b rows)"
proof -
  have "store_ok (fold (mem_step h) cs [])" using assms by (intro mem_machine.valid_run_ok) auto
  then show ?thesis by (simp add: snapshot_latest Let_def)
qed

lemma snapshot_is_latest_witness:
  "snap_get (mem_snapshot (fold (mem_step no_hash) sample_cmds [])) ''goal'' ''main'' =
     map_option me_value (mem_latest ''goal'' ''main'' (fold (mem_step no_hash) sample_cmds []))"
  using snapshot_is_latest [of sample_cmds no_hash "''goal''" "''main''"] by (simp add: sample_cmds_def Let_def)

section \<open>Time travel\<close>

lemma dated_le: "length d' = length d \<Longrightarrow> d' @ CHR '' '' # x \<le> d @ CHR ''T'' # y \<longleftrightarrow> d' \<le> (d :: string)"
  by (induction d' d rule: list_induct2) (auto simp: less_char_def)

text \<open>
  Time travel is by day only: because the stored time has a space where an ISO timestamp has
  its \<open>T\<close>, a snapshot as of an ISO timestamp ignores the clock part of the timestamp, and holds
  all versions of that day, those written later than the timestamp included.
\<close>
theorem asof_ignores_clock:
  assumes "\<forall>r \<in> set rows. \<exists>d c. length d = 10 \<and> me_created_at (mr_entry r) = d @ '' '' @ c" "length day = 10"
  shows "mem_snapshot_asof (day @ ''T'' @ clock) rows = mem_snapshot_asof (day @ ''T'' @ clock') rows"
proof -
  have "me_created_at (mr_entry r) \<le> day @ ''T'' @ clock \<longleftrightarrow> me_created_at (mr_entry r) \<le> day @ ''T'' @ clock'"
    if "r \<in> set rows" for r
  proof -
    from assms(1) that obtain d c where "length d = 10" "me_created_at (mr_entry r) = d @ '' '' @ c" by blast
    with assms(2) show ?thesis by (simp add: dated_le)
  qed
  then show ?thesis by (simp add: mem_snapshot_asof_def cong: filter_cong)
qed

lemma asof_ignores_clock_witness:
  "mem_snapshot_asof (''2026-01-01'' @ ''T'' @ ''09:00:00+00:00'') sample_store =
   mem_snapshot_asof (''2026-01-01'' @ ''T'' @ ''23:59:59+00:00'') sample_store"
proof (rule asof_ignores_clock)
  have "\<exists>d c. length d = 10 \<and> ''2026-01-01 08:00:00+00:00'' = d @ '' '' @ c"
    by (intro exI [of _ "''2026-01-01''"] exI [of _ "''08:00:00+00:00''"]) simp
  moreover have "\<exists>d c. length d = 10 \<and> ''2026-01-01 21:00:00+00:00'' = d @ '' '' @ c"
    by (intro exI [of _ "''2026-01-01''"] exI [of _ "''21:00:00+00:00''"]) simp
  ultimately show "\<forall>r \<in> set sample_store. \<exists>d c. length d = 10 \<and> me_created_at (mr_entry r) = d @ '' '' @ c"
    by (simp add: sample_store_eq)
qed simp

section \<open>Fusion\<close>

text \<open>
  C31. Fusing branches into a target that is not one of them always succeeds, leaves the history
  of every other branch as it was, leaves every fused key's latest value on the target equal to the
  value the strategy computes, and accounts for each key once in its report.
\<close>
theorem fuse_correct:
  assumes "store_ok rows" "sources \<noteq> []" "target \<notin> set sources"
  shows "\<exists>report rows'. fuse h env mf sources target reason rows = Inr (report, rows') \<and> store_ok rows' \<and>
    (\<forall>k b. b \<noteq> target \<longrightarrow> mem_history k b rows' = mem_history k b rows) \<and>
    (\<forall>k \<in> set (fuse_keys (fuse_collect sources rows)). settled mf target (fuse_collect sources rows) rows' k) \<and>
    fr_keys_fused report + fr_keys_unchanged report = int (length (fuse_keys (fuse_collect sources rows)))"
proof -
  let ?latest = "fuse_collect sources rows"
  let ?report = "\<lparr>fr_target_branch = target, fr_strategy = mf_strategy mf, fr_keys_fused = 0,
    fr_keys_unchanged = 0, fr_decisions = []\<rparr>"
  obtain report rows' where
    "fold_r (fuse_key h env mf (fuse_reason sources target reason) target ?latest) (fuse_keys ?latest) (?report, rows) = Inr (report, rows')"
    "store_ok rows'" "only_branch target rows rows'" "\<forall>k \<in> set (fuse_keys ?latest). settled mf target ?latest rows' k"
    "fr_keys_fused report + fr_keys_unchanged report = int (length (fuse_keys ?latest))"
    using fuse_loop [OF assms(1) fuse_collect_ok [OF assms(1), of sources] distinct_fuse_keys [of ?latest],
        of h env mf "fuse_reason sources target reason" target ?report] by auto
  with assms(2) only_branch_latest(3) show ?thesis by (auto simp: fuse_def Let_def)
qed

lemma fuse_correct_witness:
  "\<exists>report rows'. fuse no_hash (memory_env ''2026-01-03T00:00:00+00:00'') \<lparr>mf_agent_id = ''fuser'', mf_strategy = ''merge''\<rparr>
     [''main''] ''trunk'' [] sample_store = Inr (report, rows') \<and> mem_history ''goal'' ''main'' rows' = mem_history ''goal'' ''main'' sample_store"
  using fuse_correct [OF sample_store_ok, of "[''main'']" "''trunk''" no_hash "memory_env ''2026-01-03T00:00:00+00:00''"
      "\<lparr>mf_agent_id = ''fuser'', mf_strategy = ''merge''\<rparr>" "[]"]
  by auto

text \<open>
  Fusion is idempotent: fusing the same branches again, at any later time, writes nothing and
  reports every key unchanged.
\<close>
theorem fuse_idempotent:
  assumes "store_ok rows" "target \<notin> set sources"
    and "fuse h env mf sources target reason rows = Inr (report, rows')"
  shows "\<exists>report'. fuse h env' mf sources target reason' rows' = Inr (report', rows') \<and> fr_keys_fused report' = 0 \<and>
    fr_keys_unchanged report' = fr_keys_fused report + fr_keys_unchanged report"
proof -
  let ?latest = "fuse_collect sources rows"
  let ?report = "\<lparr>fr_target_branch = target, fr_strategy = mf_strategy mf, fr_keys_fused = 0,
    fr_keys_unchanged = 0, fr_decisions = []\<rparr>"
  have ne: "sources \<noteq> []" using assms(3) by (auto simp: fuse_def)
  have run: "fold_r (fuse_key h env mf (fuse_reason sources target reason) target ?latest) (fuse_keys ?latest) (?report, rows) = Inr (report, rows')"
    using assms(3) ne by (simp add: fuse_def Let_def)
  have *: "only_branch target rows rows'" "\<forall>k \<in> set (fuse_keys ?latest). settled mf target ?latest rows' k"
    "fr_keys_fused report + fr_keys_unchanged report = int (length (fuse_keys ?latest))"
    using fuse_loop [OF assms(1) fuse_collect_ok [OF assms(1), of sources] distinct_fuse_keys [of ?latest],
        of h env mf "fuse_reason sources target reason" target ?report] run by auto
  have "fuse_collect sources rows' = ?latest" by (rule fuse_collect_same) (use * assms(2) in auto)
  with fuse_loop_settled [OF *(2), of h env' "fuse_reason sources target reason'" ?report] *(3) ne
  show ?thesis by (auto simp: fuse_def Let_def)
qed

lemma fuse_idempotent_witness:
  "\<exists>report rows' report'. fuse no_hash (memory_env ''2026-01-03T00:00:00+00:00'') \<lparr>mf_agent_id = ''fuser'', mf_strategy = ''newest''\<rparr>
       [''main''] ''trunk'' [] sample_store = Inr (report, rows') \<and>
     fuse no_hash (memory_env ''2026-01-04T00:00:00+00:00'') \<lparr>mf_agent_id = ''fuser'', mf_strategy = ''newest''\<rparr>
       [''main''] ''trunk'' [] rows' = Inr (report', rows') \<and> fr_keys_fused report' = 0"
proof -
  let ?mf = "\<lparr>mf_agent_id = ''fuser'', mf_strategy = ''newest''\<rparr>"
  obtain report rows' where "fuse no_hash (memory_env ''2026-01-03T00:00:00+00:00'') ?mf [''main''] ''trunk'' [] sample_store = Inr (report, rows')"
    using fuse_loop [OF sample_store_ok fuse_collect_ok [OF sample_store_ok] distinct_fuse_keys, of no_hash
        "memory_env ''2026-01-03T00:00:00+00:00''" ?mf "fuse_reason [''main''] ''trunk'' []" "''trunk''"]
    by (force simp: fuse_def Let_def)
  with fuse_idempotent [OF sample_store_ok _ this, of "memory_env ''2026-01-04T00:00:00+00:00''" "[]"]
  show ?thesis by auto
qed

end
