(* ===== verification/Orchestrator.thy ===== *)
theory Orchestrator
  imports Render Append_Log
begin

text \<open>
  \<open>omni/contracts/agent.py\<close> and \<open>omni/orchestrator/engine.py\<close>: the pool of agents and tasks, the
  scoring strategies, assignment, balancing, spawning and termination. Agents and tasks are
  objects the code mutates in place; the model keeps them under their ids in two dictionaries and
  a reference to one is its key. Times are POSIX times.
\<close>

section \<open>Contracts\<close>

datatype agent_type = SYSTEM | ORCHESTRATOR | SUPERVISOR | WORKER | SPECIALIST

datatype agent_status = RUNNING | IDLE | WAITING | BLOCKED | TERMINATED

record agent_spec =
  ag_id :: string
  ag_name :: string
  ag_type :: agent_type
  ag_status :: agent_status
  ag_skills :: "string list"
  ag_load :: real
  ag_queue_depth :: int
  ag_model :: "string option"
  ag_cost_spent :: real
  ag_created_at :: real
  ag_last_heartbeat :: real

datatype task_status = QUEUED | ASSIGNED | TASK_RUNNING | COMPLETED | FAILED | CANCELLED

record task_spec =
  tk_id :: string
  tk_name :: string
  tk_signature :: string
  tk_required_skills :: "string list"
  tk_priority :: int
  tk_risk_level :: string
  tk_payload :: "(string \<times> pyval) list"
  tk_status :: task_status
  tk_assignee :: "string option"
  tk_created_at :: real
  tk_started_at :: "real option"
  tk_finished_at :: "real option"
  tk_result :: pyval

fun agent_type_value :: "agent_type \<Rightarrow> string" where
  "agent_type_value SYSTEM = ''system''"
| "agent_type_value ORCHESTRATOR = ''orchestrator''"
| "agent_type_value SUPERVISOR = ''supervisor''"
| "agent_type_value WORKER = ''worker''"
| "agent_type_value SPECIALIST = ''specialist''"

fun agent_status_value :: "agent_status \<Rightarrow> string" where
  "agent_status_value RUNNING = ''running''"
| "agent_status_value IDLE = ''idle''"
| "agent_status_value WAITING = ''waiting''"
| "agent_status_value BLOCKED = ''blocked''"
| "agent_status_value TERMINATED = ''terminated''"

fun task_status_value :: "task_status \<Rightarrow> string" where
  "task_status_value QUEUED = ''queued''"
| "task_status_value ASSIGNED = ''assigned''"
| "task_status_value TASK_RUNNING = ''running''"
| "task_status_value COMPLETED = ''completed''"
| "task_status_value FAILED = ''failed''"
| "task_status_value CANCELLED = ''cancelled''"

section \<open>Scoring strategies\<close>

type_synonym strategy = "agent_spec \<Rightarrow> task_spec \<Rightarrow> real"

definition lacks_skills :: "agent_spec \<Rightarrow> task_spec \<Rightarrow> bool" where
  "lacks_skills agent task \<longleftrightarrow> tk_required_skills task \<noteq> [] \<and> \<not> set (tk_required_skills task) \<subseteq> set (ag_skills agent)"

definition BalancedScoring :: strategy where
  "BalancedScoring agent task =
     (let load = ag_load agent + (real_of_int (min (ag_queue_depth agent) 5) / 5) * (1 / 4)
      in if lacks_skills agent task then - 1
         else (1 - load) + real_of_int (min (tk_priority task) 10) * (1 / 100))"

definition CostOptimizedScoring :: strategy where
  "CostOptimizedScoring agent task =
     (if lacks_skills agent task then - 1 else 1 - min (ag_cost_spent agent) 1000 / 1000)"

definition SpeedOptimizedScoring :: strategy where
  "SpeedOptimizedScoring agent task =
     (if lacks_skills agent task then - 1 else 1 - real_of_int (min (ag_queue_depth agent) 10) / 10)"

section \<open>State\<close>

record bottleneck_view =
  bv_agent_id :: string
  bv_load :: real
  bv_queue_depth :: int
  bv_threshold :: string

record reassignment =
  ra_task_id :: string
  ra_from_agent :: string
  ra_to_agent :: string
  ra_reason :: string

record model_option =
  mo_provider :: string
  mo_model :: string
  mo_cost_per_1k :: real
  mo_latency_ms :: real
  mo_quality :: real

record orchestrator =
  or_agents :: "(string, agent_spec) dict"
  or_tasks :: "(string, task_spec) dict"
  or_strategy :: strategy
  or_max_agents :: int
  or_spawn_threshold :: real
  or_idle_ttl_s :: real
  or_keep_min_idle :: int
  or_model_catalog :: "model_option list"
  or_arrival_rate :: real
  or_last_tick :: real

definition model_key :: "model_option \<Rightarrow> string" where
  "model_key m = mo_provider m @ ''/'' @ mo_model m"

definition default_model_catalog :: "model_option list" where
  "default_model_catalog =
     [\<lparr>mo_provider = ''openai'', mo_model = ''gpt-4o-mini'', mo_cost_per_1k = 15 / 100, mo_latency_ms = 400, mo_quality = 85 / 100\<rparr>,
      \<lparr>mo_provider = ''anthropic'', mo_model = ''claude-3-5-haiku'', mo_cost_per_1k = 25 / 100, mo_latency_ms = 500, mo_quality = 88 / 100\<rparr>,
      \<lparr>mo_provider = ''google'', mo_model = ''gemini-2-flash'', mo_cost_per_1k = 10 / 100, mo_latency_ms = 350, mo_quality = 82 / 100\<rparr>,
      \<lparr>mo_provider = ''openai'', mo_model = ''gpt-4o'', mo_cost_per_1k = 250 / 100, mo_latency_ms = 900, mo_quality = 97 / 100\<rparr>,
      \<lparr>mo_provider = ''anthropic'', mo_model = ''claude-3-5-sonnet'', mo_cost_per_1k = 3, mo_latency_ms = 1100, mo_quality = 98 / 100\<rparr>]"

definition new_orchestrator :: "env \<Rightarrow> strategy \<Rightarrow> int \<Rightarrow> real \<Rightarrow> real \<Rightarrow> int \<Rightarrow> model_option list \<Rightarrow> orchestrator" where
  "new_orchestrator env strategy max_agents spawn_threshold idle_ttl_s keep_min_idle catalog =
     \<lparr>or_agents = [], or_tasks = [], or_strategy = strategy, or_max_agents = max_agents,
      or_spawn_threshold = spawn_threshold, or_idle_ttl_s = idle_ttl_s, or_keep_min_idle = keep_min_idle,
      or_model_catalog = (if catalog = [] then default_model_catalog else catalog),
      or_arrival_rate = 0, or_last_tick = env_time env\<rparr>"

section \<open>Registry\<close>

definition new_agent :: "env \<Rightarrow> string \<Rightarrow> string list \<Rightarrow> agent_type \<Rightarrow> agent_spec" where
  "new_agent env name skills typ =
     \<lparr>ag_id = new_id ''agt'' env, ag_name = name, ag_type = typ, ag_status = IDLE, ag_skills = skills,
      ag_load = 0, ag_queue_depth = 0, ag_model = None, ag_cost_spent = 0,
      ag_created_at = env_time env, ag_last_heartbeat = env_time env\<rparr>"

definition register_agent :: "env \<Rightarrow> string \<Rightarrow> string list \<Rightarrow> agent_type \<Rightarrow> orchestrator \<Rightarrow> agent_spec \<times> orchestrator" where
  "register_agent env name skills typ st =
     (let agent = new_agent env name skills typ
      in (agent, st\<lparr>or_agents := dict_set (ag_id agent) agent (or_agents st)\<rparr>))"

definition upd_agent :: "string \<Rightarrow> (agent_spec \<Rightarrow> agent_spec) \<Rightarrow> orchestrator \<Rightarrow> orchestrator" where
  "upd_agent k f st = st\<lparr>or_agents := dict_upd k f (or_agents st)\<rparr>"

definition upd_task :: "string \<Rightarrow> (task_spec \<Rightarrow> task_spec) \<Rightarrow> orchestrator \<Rightarrow> orchestrator" where
  "upd_task k f st = st\<lparr>or_tasks := dict_upd k f (or_tasks st)\<rparr>"

definition beat :: "env \<Rightarrow> real option \<Rightarrow> agent_status option \<Rightarrow> real option \<Rightarrow> agent_spec \<Rightarrow> agent_spec" where
  "beat env load status cost_spent agent =
     (let a1 = (case load of None \<Rightarrow> agent | Some l \<Rightarrow> agent\<lparr>ag_load := max 0 (min 1 l)\<rparr>);
          a2 = (case status of None \<Rightarrow> a1 | Some s \<Rightarrow> a1\<lparr>ag_status := s\<rparr>);
          a3 = (case cost_spent of None \<Rightarrow> a2 | Some c \<Rightarrow> a2\<lparr>ag_cost_spent := c\<rparr>)
      in a3\<lparr>ag_last_heartbeat := env_time env\<rparr>)"

definition heartbeat :: "env \<Rightarrow> string \<Rightarrow> real option \<Rightarrow> agent_status option \<Rightarrow> real option \<Rightarrow> orchestrator \<Rightarrow>
    (agent_spec \<times> orchestrator) result" where
  "heartbeat env agent_id load status cost_spent st =
     (case dict_get (or_agents st) agent_id of
        None \<Rightarrow> Inl (KeyError (''unknown agent '' @ quoted agent_id))
      | Some agent \<Rightarrow> Inr (beat env load status cost_spent agent, upd_agent agent_id (beat env load status cost_spent) st))"

definition agents :: "orchestrator \<Rightarrow> agent_spec list" where
  "agents st = dict_values (or_agents st)"

definition get_agent :: "string \<Rightarrow> orchestrator \<Rightarrow> agent_spec option" where
  "get_agent agent_id st = dict_get (or_agents st) agent_id"

definition tasks :: "orchestrator \<Rightarrow> task_spec list" where
  "tasks st = dict_values (or_tasks st)"

section \<open>Intake\<close>

definition submit :: "env \<Rightarrow> task_spec \<Rightarrow> orchestrator \<Rightarrow> orchestrator" where
  "submit env task st =
     (let now = env_time env; dt = max (now - or_last_tick st) (1 / 1000000)
      in st\<lparr>or_tasks := dict_set (tk_id task) task (or_tasks st),
            or_arrival_rate := 7 / 10 * (1 / dt) + 3 / 10 * or_arrival_rate st, or_last_tick := now\<rparr>)"

definition best_step :: "strategy \<Rightarrow> task_spec \<Rightarrow> string \<times> agent_spec \<Rightarrow> (real \<times> string) option \<Rightarrow> (real \<times> string) option" where
  "best_step strategy task = (\<lambda>(k, agent) best.
     if ag_status agent = TERMINATED then best
     else (let score = strategy agent task in
       if score < 0 then best
       else if (case best of None \<Rightarrow> True | Some (s, _) \<Rightarrow> score > s) then Some (score, k) else best))"

definition best_agent :: "strategy \<Rightarrow> task_spec \<Rightarrow> (string, agent_spec) dict \<Rightarrow> (real \<times> string) option" where
  "best_agent strategy task ags = fold (best_step strategy task) ags None"

definition assign :: "env \<Rightarrow> string \<Rightarrow> orchestrator \<Rightarrow> (string option \<times> orchestrator) result" where
  "assign env task_id st =
     (case dict_get (or_tasks st) task_id of
        None \<Rightarrow> Inl (KeyError (''unknown task '' @ quoted task_id))
      | Some task \<Rightarrow>
          if tk_status task \<noteq> QUEUED then Inr (tk_assignee task, st)
          else (case best_agent (or_strategy st) task (or_agents st) of
              None \<Rightarrow> Inr (None, st)
            | Some (_, agent_id) \<Rightarrow> Inr (Some agent_id,
                upd_agent agent_id (\<lambda>a. a\<lparr>ag_queue_depth := ag_queue_depth a + 1, ag_status := RUNNING\<rparr>)
                  (upd_task task_id (\<lambda>t. t\<lparr>tk_status := ASSIGNED, tk_assignee := Some agent_id,
                     tk_started_at := Some (env_time env)\<rparr>) st))))"

definition release :: "real \<Rightarrow> agent_spec \<Rightarrow> agent_spec" where
  "release cost a = a\<lparr>ag_queue_depth := max 0 (ag_queue_depth a - 1), ag_cost_spent := ag_cost_spent a + cost,
     ag_load := max 0 (ag_load a - 1 / 10)\<rparr>"

definition finish :: "task_status \<Rightarrow> pyval \<Rightarrow> env \<Rightarrow> string \<Rightarrow> real \<Rightarrow> orchestrator \<Rightarrow> (task_spec \<times> orchestrator) result" where
  \<comment> \<open>the common body of \<open>complete\<close> and \<open>fail\<close>\<close>
  "finish status res env task_id cost st =
     (case dict_get (or_tasks st) task_id of
        None \<Rightarrow> Inl (KeyError task_id)
      | Some task \<Rightarrow>
          (let done = task\<lparr>tk_status := status, tk_result := res, tk_finished_at := Some (env_time env)\<rparr>;
               st1 = upd_task task_id (\<lambda>_. done) st
           in Inr (done, case tk_assignee task of
                None \<Rightarrow> st1
              | Some a \<Rightarrow> if a = [] then st1 else upd_agent a (release cost) st1)))"

definition complete_task :: "env \<Rightarrow> string \<Rightarrow> pyval \<Rightarrow> real \<Rightarrow> orchestrator \<Rightarrow> (task_spec \<times> orchestrator) result" where
  "complete_task env task_id res cost st = finish COMPLETED res env task_id cost st"

definition fail_task :: "env \<Rightarrow> string \<Rightarrow> string \<Rightarrow> real \<Rightarrow> orchestrator \<Rightarrow> (task_spec \<times> orchestrator) result" where
  "fail_task env task_id error cost st = finish FAILED (PDict [(''error'', PStr error)]) env task_id cost st"

section \<open>Monitoring\<close>

definition detect_bottlenecks :: "real \<Rightarrow> int \<Rightarrow> orchestrator \<Rightarrow> bottleneck_view list" where
  "detect_bottlenecks load_threshold queue_threshold st =
     map (\<lambda>a. \<lparr>bv_agent_id = ag_id a, bv_load = ag_load a, bv_queue_depth = ag_queue_depth a,
            bv_threshold = (if ag_load a \<ge> load_threshold then ''load'' else ''queue'')\<rparr>)
       (filter (\<lambda>a. ag_status a \<noteq> TERMINATED \<and> (ag_load a \<ge> load_threshold \<or> ag_queue_depth a \<ge> queue_threshold)) (agents st))"

definition duplicate_groups :: "task_spec list \<Rightarrow> (string, string list) dict" where
  "duplicate_groups ts = fold (\<lambda>t groups.
     if tk_status t \<notin> {QUEUED, ASSIGNED, TASK_RUNNING} then groups
     else if tk_signature t = [] then groups
     else dict_append (tk_signature t) (tk_id t) groups) ts []"

definition detect_duplicates :: "orchestrator \<Rightarrow> string list list" where
  "detect_duplicates st = filter (\<lambda>g. length g > 1) (dict_values (duplicate_groups (tasks st)))"

definition active_agents :: "orchestrator \<Rightarrow> agent_spec list" where
  "active_agents st = filter (\<lambda>a. ag_status a \<noteq> TERMINATED) (agents st)"

definition spawn_if_needed :: "env \<Rightarrow> string \<Rightarrow> orchestrator \<Rightarrow> string list \<times> orchestrator" where
  "spawn_if_needed env name_prefix st =
     (let active = active_agents st in
      if int (length active) \<ge> or_max_agents st then ([], st)
      else if active = []
      then (let (agent, st') = register_agent env (name_prefix @ ''-1'') [] WORKER st in ([ag_id agent], st'))
      else if sum_list (map ag_load active) / real (length active) < or_spawn_threshold st then ([], st)
      else (let (agent, st') = register_agent env (name_prefix @ ''-'' @ show_int (int (length active) + 1)) [] WORKER st
            in ([ag_id agent], st')))"

definition idle_expired :: "env \<Rightarrow> orchestrator \<Rightarrow> (string \<times> agent_spec) list" where
  "idle_expired env st = sort_key (\<lambda>p. ag_last_heartbeat (snd p))
     (filter (\<lambda>p. ag_status (snd p) = IDLE \<and> env_time env - ag_last_heartbeat (snd p) > or_idle_ttl_s st) (or_agents st))"

definition terminate_idle :: "env \<Rightarrow> orchestrator \<Rightarrow> string list \<times> orchestrator" where
  "terminate_idle env st =
     (let victims = drop (nat (or_keep_min_idle st)) (idle_expired env st)
      in (map (\<lambda>p. ag_id (snd p)) victims,
          fold (\<lambda>p. upd_agent (fst p) (\<lambda>a. a\<lparr>ag_status := TERMINATED\<rparr>)) victims st))"

section \<open>Balancing\<close>

definition load_of :: "orchestrator \<Rightarrow> string \<Rightarrow> real" where
  "load_of st k = (case dict_get (or_agents st) k of None \<Rightarrow> 0 | Some a \<Rightarrow> ag_load a)"

fun least_loaded :: "orchestrator \<Rightarrow> string \<Rightarrow> string list \<Rightarrow> string" where
  \<comment> \<open>\<open>min(underloaded, key=load)\<close>: the first of the least\<close>
  "least_loaded st k [] = k"
| "least_loaded st k (x # xs) = least_loaded st (if load_of st x < load_of st k then x else k) xs"

definition move_task :: "string \<Rightarrow> string \<Rightarrow> string \<Rightarrow> orchestrator \<Rightarrow> orchestrator" where
  "move_task task_id src dst st =
     upd_agent dst (\<lambda>a. a\<lparr>ag_queue_depth := ag_queue_depth a + 1, ag_load := min 1 (ag_load a + 1 / 10)\<rparr>)
       (upd_agent src (\<lambda>a. a\<lparr>ag_queue_depth := max 0 (ag_queue_depth a - 1), ag_load := max 0 (ag_load a - 1 / 10)\<rparr>)
         (upd_task task_id (\<lambda>t. t\<lparr>tk_assignee := Some dst, tk_status := ASSIGNED\<rparr>) st))"

definition balance_task :: "string list \<Rightarrow> string \<Rightarrow> string \<Rightarrow> reassignment list \<times> orchestrator \<Rightarrow> reassignment list \<times> orchestrator" where
  \<comment> \<open>the body of the inner loop; once three moves are made every further turn breaks at once\<close>
  "balance_task underloaded src task_id = (\<lambda>(moves, st).
     if length moves \<ge> 3 then (moves, st)
     else (case (dict_get (or_tasks st) task_id, underloaded) of
         (Some task, u # us) \<Rightarrow>
           if tk_status task = ASSIGNED \<and> tk_assignee task = Some src
           then (let dst = least_loaded st u us in
             (case dict_get (or_agents st) dst of
                None \<Rightarrow> (moves, st)
              | Some agent \<Rightarrow>
                  if or_strategy st agent task < 0 then (moves, st)
                  else (moves @ [\<lparr>ra_task_id = task_id, ra_from_agent = src, ra_to_agent = dst, ra_reason = ''load balancing''\<rparr>],
                        move_task task_id src dst st)))
           else (moves, st)
       | _ \<Rightarrow> (moves, st)))"

definition balance :: "real \<Rightarrow> real \<Rightarrow> orchestrator \<Rightarrow> reassignment list \<times> orchestrator" where
  "balance high_threshold low_threshold st =
     (let overloaded = dict_keys (filter (\<lambda>(k, a). ag_status a \<noteq> TERMINATED \<and> ag_load a \<ge> high_threshold \<and> ag_queue_depth a > 0) (or_agents st));
          underloaded = dict_keys (filter (\<lambda>(k, a). ag_status a \<noteq> TERMINATED \<and> ag_load a \<le> low_threshold) (or_agents st))
      in if overloaded = [] \<or> underloaded = [] then ([], st)
         else fold (\<lambda>src acc. fold (balance_task underloaded src) (dict_keys (or_tasks (snd acc))) acc) overloaded ([], st))"

section \<open>Prediction, models, report\<close>

definition arrival_rate :: "orchestrator \<Rightarrow> real" where
  "arrival_rate st = or_arrival_rate st"

definition total_cost :: "orchestrator \<Rightarrow> real" where
  "total_cost st = py_round (sum_list (map ag_cost_spent (agents st))) 4"

definition predict_next_tasks :: "real \<Rightarrow> orchestrator \<Rightarrow> real" where
  "predict_next_tasks horizon_minutes st = py_round (or_arrival_rate st * horizon_minutes * 60) 1"

definition mode_key :: "string \<Rightarrow> (model_option \<Rightarrow> real) option" where
  "mode_key mode = map_of
     [(''cost'', mo_cost_per_1k), (''speed'', mo_latency_ms), (''quality'', \<lambda>m. - mo_quality m),
      (''balanced'', \<lambda>m. mo_cost_per_1k m + mo_latency_ms m / 100 - mo_quality m)] mode"

definition choose_model :: "string \<Rightarrow> orchestrator \<Rightarrow> model_option result" where
  "choose_model mode st =
     (case mode_key mode of
        None \<Rightarrow> Inl (KeyError mode)
      | Some f \<Rightarrow> (case sort_key f (or_model_catalog st) of [] \<Rightarrow> Inl IndexError | m # _ \<Rightarrow> Inr m))"

definition count_tasks :: "task_status \<Rightarrow> orchestrator \<Rightarrow> int" where
  "count_tasks s st = int (length (filter (\<lambda>t. tk_status t = s) (tasks st)))"

definition orchestrator_report :: "orchestrator \<Rightarrow> pyval" where
  "orchestrator_report st =
     (let ags = active_agents st; n = length ags;
          cpu = (if ags = [] then 0 else sum_list (map ag_load ags) / real n) in
      PDict [(''agents_total'', PInt (int n)),
       (''agents_running'', PInt (int (length (filter (\<lambda>a. ag_status a = RUNNING) ags)))),
       (''agents_idle'', PInt (int (length (filter (\<lambda>a. ag_status a = IDLE) ags)))),
       (''tasks_total'', PInt (int (length (or_tasks st)))),
       (''tasks_queued'', PInt (count_tasks QUEUED st)),
       (''tasks_completed'', PInt (count_tasks COMPLETED st)),
       (''tasks_failed'', PInt (count_tasks FAILED st)),
       (''avg_load'', PFloat (py_round cpu 3)),
       (''predicted_tasks_next_10m'', PFloat (predict_next_tasks 10 st)),
       (''bottlenecks'', PInt (int (length (detect_bottlenecks (8 / 10) 10 st)))),
       (''duplicate_groups'', PInt (int (length (detect_duplicates st))))])"

end
