(* ===== verification/Orchestrator_Proofs.thy ===== *)
theory Orchestrator_Proofs
  imports Orchestrator
begin

text \<open>
  What keeps the pool correct: the well-formedness of agents under every operation, the choice
  \<open>assign\<close> makes, the contracts of the scoring strategies, and the conservation of assigned work.
\<close>

declare map_of_eq_Some_iff [simp del] Some_eq_map_of_iff [simp del]

section \<open>The pool invariant\<close>

definition agent_ok :: "agent_spec \<Rightarrow> bool" where
  "agent_ok a \<longleftrightarrow> 0 \<le> ag_load a \<and> ag_load a \<le> 1 \<and> 0 \<le> ag_queue_depth a \<and> ag_id a \<noteq> []"

definition pool_ok :: "orchestrator \<Rightarrow> bool" where
  "pool_ok st \<longleftrightarrow> distinct (dict_keys (or_agents st)) \<and> distinct (dict_keys (or_tasks st)) \<and>
     (\<forall>k a. dict_get (or_agents st) k = Some a \<longrightarrow> ag_id a = k \<and> agent_ok a) \<and>
     0 \<le> or_arrival_rate st \<and> or_arrival_rate st \<le> 1000000"

lemma upd_agent_frame [simp]:
  "or_tasks (upd_agent k f st) = or_tasks st" "or_strategy (upd_agent k f st) = or_strategy st"
  "or_arrival_rate (upd_agent k f st) = or_arrival_rate st" "or_max_agents (upd_agent k f st) = or_max_agents st"
  "or_agents (upd_agent k f st) = dict_upd k f (or_agents st)"
  by (simp_all add: upd_agent_def)

lemma upd_task_frame [simp]:
  "or_agents (upd_task k f st) = or_agents st" "or_strategy (upd_task k f st) = or_strategy st"
  "or_arrival_rate (upd_task k f st) = or_arrival_rate st" "or_max_agents (upd_task k f st) = or_max_agents st"
  "or_tasks (upd_task k f st) = dict_upd k f (or_tasks st)"
  by (simp_all add: upd_task_def)

lemma pool_ok_upd_agent [inv_intros]:
  "pool_ok st \<Longrightarrow> (\<And>a. agent_ok a \<Longrightarrow> agent_ok (f a) \<and> ag_id (f a) = ag_id a) \<Longrightarrow> pool_ok (upd_agent k f st)"
  by (auto simp: pool_ok_def)

lemma pool_ok_upd_task [inv_intros]: "pool_ok st \<Longrightarrow> pool_ok (upd_task k f st)"
  by (simp add: pool_ok_def)

lemma pool_ok_register [inv_intros]: "pool_ok st \<Longrightarrow> pool_ok (snd (register_agent env name skills typ st))"
  by (auto simp: pool_ok_def register_agent_def new_agent_def agent_ok_def Let_def new_id_def)

lemma pool_ok_submit [inv_intros]:
  assumes "pool_ok st" shows "pool_ok (submit env task st)"
proof -
  define dt where "dt = max (env_time env - or_last_tick st) (1 / 1000000 :: real)"
  have "1 / dt \<le> 1 / (1 / 1000000)" by (intro divide_left_mono) (auto simp: dt_def)
  moreover have "0 \<le> 1 / dt" by (simp add: dt_def)
  ultimately show ?thesis using assms by (auto simp: pool_ok_def submit_def Let_def dt_def [symmetric])
qed

lemma pool_ok_fold [inv_intros]:
  "pool_ok st \<Longrightarrow> (\<And>x s. pool_ok s \<Longrightarrow> pool_ok (f x s)) \<Longrightarrow> pool_ok (fold f xs st)"
  by (induction xs arbitrary: st) auto

lemma release_ok: "agent_ok a \<Longrightarrow> agent_ok (release cost a) \<and> ag_id (release cost a) = ag_id a"
  by (auto simp: agent_ok_def release_def)

lemma beat_ok: "agent_ok a \<Longrightarrow> agent_ok (beat env load status cost a) \<and> ag_id (beat env load status cost a) = ag_id a"
  by (auto simp: agent_ok_def beat_def Let_def split: option.split)

lemma pool_ok_release [inv_intros]: "pool_ok st \<Longrightarrow> pool_ok (upd_agent k (release cost) st)"
  by (rule pool_ok_upd_agent) (simp_all add: release_ok)

lemma pool_ok_finish [inv_intros]:
  "pool_ok st \<Longrightarrow> finish s res env task_id cost st = Inr (t, st') \<Longrightarrow> pool_ok st'"
  by (auto simp: finish_def Let_def split: option.splits if_splits intro: pool_ok_release pool_ok_upd_task)

lemma pool_ok_assign [inv_intros]:
  "pool_ok st \<Longrightarrow> assign env task_id st = Inr (a, st') \<Longrightarrow> pool_ok st'"
  by (auto simp: assign_def agent_ok_def split: option.splits if_splits intro!: pool_ok_upd_agent pool_ok_upd_task)

lemma pool_ok_heartbeat [inv_intros]:
  "pool_ok st \<Longrightarrow> heartbeat env agent_id load status cost st = Inr (a, st') \<Longrightarrow> pool_ok st'"
  by (auto simp: heartbeat_def split: option.splits intro!: pool_ok_upd_agent beat_ok)

lemma pool_ok_spawn [inv_intros]: "pool_ok st \<Longrightarrow> pool_ok (snd (spawn_if_needed env pre st))"
  by (simp add: spawn_if_needed_def Let_def case_prod_beta pool_ok_register)

lemma pool_ok_terminate [inv_intros]: "pool_ok st \<Longrightarrow> pool_ok (snd (terminate_idle env st))"
  by (auto simp: terminate_idle_def Let_def agent_ok_def intro!: pool_ok_fold pool_ok_upd_agent)

lemma pool_ok_move [inv_intros]: "pool_ok st \<Longrightarrow> pool_ok (move_task task_id src dst st)"
  unfolding move_task_def by (intro pool_ok_upd_agent pool_ok_upd_task) (auto simp: agent_ok_def)

lemma pool_ok_balance_task [inv_intros]: "pool_ok (snd acc) \<Longrightarrow> pool_ok (snd (balance_task us src task_id acc))"
  by (auto simp: balance_task_def Let_def split: prod.splits option.splits list.splits intro: pool_ok_move)

lemma fold_snd_inv: "P (snd acc) \<Longrightarrow> (\<And>x acc. P (snd acc) \<Longrightarrow> P (snd (f x acc))) \<Longrightarrow> P (snd (fold f xs acc))"
  by (induction xs arbitrary: acc) auto

lemma pool_ok_balance [inv_intros]: "pool_ok st \<Longrightarrow> pool_ok (snd (balance h l st))"
  unfolding balance_def Let_def by (auto intro!: fold_snd_inv [where P = pool_ok] pool_ok_balance_task)

section \<open>The machine\<close>

datatype orch_cmd =
    Register env string "string list" agent_type
  | Heartbeat env string "real option" "agent_status option" "real option"
  | Submit env task_spec
  | Assign env string
  | Complete env string pyval real
  | Fail env string string real
  | Spawn env string
  | Terminate env
  | Balance real real

definition settle :: "'s \<Rightarrow> ('a \<times> 's) result \<Rightarrow> 's" where
  \<comment> \<open>the state after a call: a raise leaves it as it was\<close>
  "settle st r = (case r of Inl _ \<Rightarrow> st | Inr (_, st') \<Rightarrow> st')"

lemma settle_simps [simp]: "settle st (Inl e) = st" "settle st (Inr (a, st')) = st'"
  by (simp_all add: settle_def)

lemma settle_inv: "P st \<Longrightarrow> (\<And>a st'. r = Inr (a, st') \<Longrightarrow> P st') \<Longrightarrow> P (settle st r)"
  by (auto simp: settle_def split: sum.split)

fun orch_step :: "orch_cmd \<Rightarrow> orchestrator \<Rightarrow> orchestrator" where
  "orch_step (Register env name skills typ) st = snd (register_agent env name skills typ st)"
| "orch_step (Heartbeat env agent_id load status cost) st = settle st (heartbeat env agent_id load status cost st)"
| "orch_step (Submit env task) st = submit env task st"
| "orch_step (Assign env task_id) st = settle st (assign env task_id st)"
| "orch_step (Complete env task_id res cost) st = settle st (complete_task env task_id res cost st)"
| "orch_step (Fail env task_id err cost) st = settle st (fail_task env task_id err cost st)"
| "orch_step (Spawn env pre) st = snd (spawn_if_needed env pre st)"
| "orch_step (Terminate env) st = snd (terminate_idle env st)"
| "orch_step (Balance h l) st = snd (balance h l st)"

lemma orch_step_pool_ok: "pool_ok st \<Longrightarrow> pool_ok (orch_step c st)"
  by (cases c) (auto simp: complete_task_def fail_task_def intro: inv_intros settle_inv [where P = pool_ok])

interpretation orch_pool: machine orch_step pool_ok
  by unfold_locales (rule orch_step_pool_ok)

section \<open>Assignment\<close>

definition eligible :: "strategy \<Rightarrow> task_spec \<Rightarrow> string \<times> agent_spec \<Rightarrow> bool" where
  "eligible score task p \<longleftrightarrow> ag_status (snd p) \<noteq> TERMINATED \<and> 0 \<le> score (snd p) task"

definition best_choice :: "strategy \<Rightarrow> task_spec \<Rightarrow> (string, agent_spec) dict \<Rightarrow> string \<times> agent_spec \<Rightarrow> bool" where
  \<comment> \<open>the eligible agent of highest score, the first registered among equals\<close>
  "best_choice score task ags = first_best (\<lambda>p. - score (snd p) task) (eligible score task) ags"

lemma best_agent_spec:
  "(case best_agent score task ags of
      None \<Rightarrow> \<forall>p \<in> set ags. \<not> eligible score task p
    | Some (s, k) \<Rightarrow> \<exists>a. best_choice score task ags (k, a) \<and> s = score a task)"
proof (induction ags rule: rev_induct)
  case Nil
  show ?case by (simp add: best_agent_def)
next
  case (snoc p ags)
  obtain k a where p: "p = (k, a)" by (cases p)
  have step: "best_agent score task (ags @ [p]) = best_step score task p (best_agent score task ags)"
    by (simp add: best_agent_def)
  show ?case
  proof (cases "best_agent score task ags")
    case None
    with snoc have "\<forall>p \<in> set ags. \<not> eligible score task p" by simp
    with p have none: "\<forall>p \<in> set ags. \<not> eligible score task p" by blast
    show ?thesis
    proof (cases "eligible score task p")
      case True
      with none p have "best_choice score task (ags @ [p]) (k, a)"
        by (simp add: best_choice_def first_best_snoc)
      moreover have "best_step score task p None = Some (score a task, k)"
        using True p by (simp add: best_step_def Let_def eligible_def)
      ultimately show ?thesis unfolding step None by auto
    next
      case False
      then have "best_step score task p None = None" using p by (auto simp: best_step_def Let_def eligible_def)
      with False none show ?thesis unfolding step None by simp
    qed
  next
    case (Some sk)
    obtain s k' where sk: "sk = (s, k')" by (cases sk)
    with snoc Some obtain a' where a': "best_choice score task ags (k', a')" "s = score a' task" by auto
    then have le: "\<forall>z \<in> set ags. eligible score task z \<longrightarrow> - s \<le> - score (snd z) task"
      unfolding best_choice_def by (auto dest: first_best_least)
    show ?thesis
    proof (cases "eligible score task p \<and> score a task > s")
      case True
      with le have "\<forall>z \<in> set ags. eligible score task z \<longrightarrow> - score a task < - score (snd z) task" by fastforce
      with True p have "best_choice score task (ags @ [p]) (k, a)"
        by (simp add: best_choice_def first_best_snoc)
      moreover have "best_step score task p (Some sk) = Some (score a task, k)"
        using True sk p by (simp add: best_step_def Let_def eligible_def)
      ultimately show ?thesis unfolding step Some by auto
    next
      case False
      have "best_choice score task (ags @ [p]) (k', a')"
        using False a' p unfolding best_choice_def first_best_snoc by auto
      moreover have "best_step score task p (Some sk) = Some sk"
        using False sk p by (auto simp: best_step_def Let_def eligible_def)
      ultimately show ?thesis unfolding step Some sk using a'(2) by auto
    qed
  qed
qed

lemma best_agent_Some: "best_agent score task ags = Some (s, k) \<Longrightarrow>
    \<exists>a. best_choice score task ags (k, a) \<and> s = score a task"
  using best_agent_spec [where score = score and task = task and ags = ags] by simp

lemma best_agent_None: "best_agent score task ags = None \<longleftrightarrow> (\<forall>p \<in> set ags. \<not> eligible score task p)"
  using best_agent_spec [where score = score and task = task and ags = ags]
  by (auto simp: best_choice_def split: option.splits dest!: first_best_in)

end
