(* ===== verification/Scoring.thy ===== *)
theory Scoring
  imports Orchestrator_Proofs
begin

text \<open>
  The interface between the orchestrator and its scoring strategies: a negative score means
  "incapable". The clients (\<open>assign\<close>, \<open>balance\<close>) are reasoned about from the contract; the three
  strategies of \<open>omni/orchestrator/engine.py\<close> provide it, two of them with the stronger contract
  that a capable agent never scores below zero.
\<close>

locale scoring =
  fixes score :: strategy
  assumes incapable: "lacks_skills a t \<Longrightarrow> score a t < 0"
begin

lemma choice_capable: "best_choice score t ags (k, a) \<Longrightarrow> \<not> lacks_skills a t"
  unfolding best_choice_def using incapable [of a t] by (auto simp: eligible_def dest!: first_best_in)

lemma assign_capable:
  assumes "or_strategy st = score" "dict_get (or_tasks st) task_id = Some t" "tk_status t = QUEUED"
    and "assign env task_id st = Inr (Some k, st')" "pool_ok st"
  shows "\<exists>a. dict_get (or_agents st) k = Some a \<and> ag_status a \<noteq> TERMINATED \<and> \<not> lacks_skills a t"
proof -
  obtain s where "best_agent score t (or_agents st) = Some (s, k)"
    using assms by (auto simp: assign_def split: option.splits)
  then obtain a where a: "best_choice score t (or_agents st) (k, a)"
    using best_agent_Some by blast
  then have "(k, a) \<in> set (or_agents st)" "ag_status a \<noteq> TERMINATED"
    unfolding best_choice_def by (auto simp: eligible_def dest!: first_best_in)
  moreover have "distinct (dict_keys (or_agents st))" using assms(5) unfolding pool_ok_def by blast
  ultimately have "dict_get (or_agents st) k = Some a" by (simp only: dict_get_in)
  with \<open>ag_status a \<noteq> TERMINATED\<close> choice_capable [OF a] show ?thesis by blast
qed

end

locale complete_scoring = scoring +
  assumes capable: "agent_ok a \<Longrightarrow> \<not> lacks_skills a t \<Longrightarrow> 0 \<le> score a t"
begin

lemma choice_progress:
  assumes "or_strategy st = score" "dict_get (or_tasks st) task_id = Some t" "tk_status t = QUEUED" "pool_ok st"
    and "dict_get (or_agents st) k = Some a" "ag_status a \<noteq> TERMINATED" "\<not> lacks_skills a t"
  shows "\<exists>k' st'. assign env task_id st = Inr (Some k', st')"
proof -
  have "agent_ok a" using assms(4,5) by (auto simp: pool_ok_def)
  then have "eligible score t (k, a)" using capable assms(6,7) by (simp add: eligible_def)
  moreover have "(k, a) \<in> set (or_agents st)" using assms(5) by (rule map_of_SomeD)
  ultimately have "best_agent score t (or_agents st) \<noteq> None"
    using best_agent_None by blast
  with assms show ?thesis by (auto simp: assign_def)
qed

end

interpretation balanced: scoring BalancedScoring
  by unfold_locales (simp add: BalancedScoring_def Let_def)

interpretation cost_optimized: complete_scoring CostOptimizedScoring
  by unfold_locales (auto simp: CostOptimizedScoring_def min_def)

interpretation speed_optimized: complete_scoring SpeedOptimizedScoring
  by unfold_locales (auto simp: SpeedOptimizedScoring_def min_def)

end
