(* ===== verification/Orchestrator_Work.thy ===== *)
theory Orchestrator_Work
  imports Scoring
begin

text \<open>
  Conservation of work: as long as ids are fresh and tasks are finished once, the queue depth of
  every agent is exactly the number of tasks assigned to it, whatever is assigned, finished,
  balanced, spawned or terminated.
\<close>

definition held_by :: "string \<Rightarrow> task_spec \<Rightarrow> bool" where
  "held_by k t \<longleftrightarrow> tk_status t = ASSIGNED \<and> tk_assignee t = Some k"

definition work_ok :: "orchestrator \<Rightarrow> bool" where
  "work_ok st \<longleftrightarrow> pool_ok st \<and>
     (\<forall>k a. dict_get (or_agents st) k = Some a \<longrightarrow> ag_queue_depth a = pcount (held_by k) (or_tasks st)) \<and>
     (\<forall>tid t. dict_get (or_tasks st) tid = Some t \<longrightarrow> tk_status t = ASSIGNED \<longrightarrow>
        (\<exists>k. tk_assignee t = Some k \<and> dict_get (or_agents st) k \<noteq> None))"

lemma work_okI:
  assumes "work_ok st" "pool_ok st'"
    and "\<And>k a. dict_get (or_agents st') k = Some a \<Longrightarrow> ag_queue_depth a = pcount (held_by k) (or_tasks st')"
    and "\<And>k. dict_get (or_agents st) k \<noteq> None \<Longrightarrow> dict_get (or_agents st') k \<noteq> None"
    and "\<And>tid t. dict_get (or_tasks st') tid = Some t \<Longrightarrow> tk_status t = ASSIGNED \<Longrightarrow>
      dict_get (or_tasks st) tid = Some t \<or> (\<exists>k. tk_assignee t = Some k \<and> dict_get (or_agents st') k \<noteq> None)"
  shows "work_ok st'"
  unfolding work_ok_def
proof (intro conjI allI impI)
  fix tid t assume "dict_get (or_tasks st') tid = Some t" "tk_status t = ASSIGNED"
  then show "\<exists>k. tk_assignee t = Some k \<and> dict_get (or_agents st') k \<noteq> None"
    using assms(1,4) assms(5) [of tid t] unfolding work_ok_def by blast
qed (use assms(2,3) in blast)+

lemma work_assigned: "work_ok st \<Longrightarrow> dict_get (or_tasks st) tid = Some t \<Longrightarrow> tk_status t = ASSIGNED \<Longrightarrow>
    \<exists>k a. tk_assignee t = Some k \<and> dict_get (or_agents st) k = Some a"
  unfolding work_ok_def by blast

lemma held_by_other: "tk_status t \<noteq> ASSIGNED \<Longrightarrow> \<not> held_by k t"
  by (simp add: held_by_def)

lemma work_queue: "work_ok st \<Longrightarrow> dict_get (or_agents st) k = Some a \<Longrightarrow> ag_queue_depth a = pcount (held_by k) (or_tasks st)"
  by (simp add: work_ok_def)

lemma work_ok_agent:
  assumes "work_ok st" "pool_ok (upd_agent k f st)" "\<And>a. ag_queue_depth (f a) = ag_queue_depth a"
  shows "work_ok (upd_agent k f st)"
  by (rule work_okI [OF assms(1,2)]) (use assms in \<open>auto simp: work_ok_def split: if_splits\<close>)

lemma work_ok_register:
  assumes "work_ok st" "dict_get (or_agents st) (new_id ''agt'' env) = None"
  shows "work_ok (snd (register_agent env name skills typ st))"
proof -
  let ?new = "new_id ''agt'' env"
  have "\<not> held_by ?new t" if "t \<in> set (dict_values (or_tasks st))" for t
  proof
    assume h: "held_by ?new t"
    have "distinct (dict_keys (or_tasks st))" using assms(1) by (simp add: work_ok_def pool_ok_def)
    moreover from that obtain tid where "(tid, t) \<in> set (or_tasks st)" by auto
    ultimately have "dict_get (or_tasks st) tid = Some t" by (simp only: dict_get_in)
    with assms h work_assigned show False by (fastforce simp: held_by_def)
  qed
  then have zero: "pcount (held_by ?new) (or_tasks st) = 0"
    by (auto simp: pcount_def filter_empty_conv)
  have "pool_ok (snd (register_agent env name skills typ st))"
    using assms(1) by (simp add: work_ok_def pool_ok_register)
  with assms(1) show ?thesis
    by (rule work_okI)
      (use zero work_queue [OF assms(1)] in \<open>auto simp: register_agent_def new_agent_def Let_def split: if_splits\<close>)
qed

lemma work_ok_submit:
  assumes "work_ok st" "dict_get (or_tasks st) (tk_id task) = None" "tk_status task \<noteq> ASSIGNED"
  shows "work_ok (submit env task st)"
proof -
  have "pool_ok (submit env task st)" using assms(1) by (simp add: work_ok_def pool_ok_submit)
  moreover have "pcount (held_by k) (or_tasks (submit env task st)) = pcount (held_by k) (or_tasks st)" for k
    using assms by (simp add: submit_def Let_def pcount_set_new held_by_other dict_get_None_keys)
  ultimately show ?thesis
    by (rule_tac work_okI [OF assms(1)]) (use assms work_queue [OF assms(1)] in \<open>auto simp: submit_def Let_def split: if_splits\<close>)
qed

lemma work_ok_assign:
  assumes "work_ok st" "assign env task_id st = Inr (r, st')"
  shows "work_ok st'"
proof (cases "st' = st")
  case False
  obtain t s k where t: "dict_get (or_tasks st) task_id = Some t" "tk_status t = QUEUED"
    "best_agent (or_strategy st) t (or_agents st) = Some (s, k)"
    and st': "st' = upd_agent k (\<lambda>a. a\<lparr>ag_queue_depth := ag_queue_depth a + 1, ag_status := RUNNING\<rparr>)
       (upd_task task_id (\<lambda>t. t\<lparr>tk_status := ASSIGNED, tk_assignee := Some k, tk_started_at := Some (env_time env)\<rparr>) st)"
    using assms(2) False by (auto simp: assign_def split: option.splits if_splits)
  obtain a where "best_choice (or_strategy st) t (or_agents st) (k, a)"
    using best_agent_Some t(3) by blast
  then have "(k, a) \<in> set (or_agents st)" unfolding best_choice_def by (auto dest!: first_best_in)
  then have k: "dict_get (or_agents st) k \<noteq> None" by (simp only: dict_get_None_keys) force
  have "pcount (held_by j) (or_tasks st') = pcount (held_by j) (or_tasks st) + (if j = k then 1 else 0)" for j
    unfolding st' using t by (simp add: pcount_upd held_by_def)
  moreover have "pool_ok st'" using assms by (auto simp: work_ok_def intro: pool_ok_assign)
  ultimately show ?thesis
    by (rule_tac work_okI [OF assms(1)]) (use k work_queue [OF assms(1)] in \<open>auto simp: st' split: if_splits\<close>)
qed (use assms in simp)

lemma work_ok_finish:
  assumes "work_ok st" "finish s res env task_id cost st = Inr (r, st')" "s \<noteq> ASSIGNED"
    and "\<forall>t. dict_get (or_tasks st) task_id = Some t \<longrightarrow> tk_status t = ASSIGNED"
  shows "work_ok st'"
proof -
  obtain t where t: "dict_get (or_tasks st) task_id = Some t" "tk_status t = ASSIGNED"
    using assms(2,4) by (auto simp: finish_def split: option.splits)
  then obtain k a where k: "tk_assignee t = Some k" and a: "dict_get (or_agents st) k = Some a"
    using work_assigned [OF assms(1)] by blast
  have pool: "pool_ok st" using assms(1) by (simp add: work_ok_def)
  from a pool have "k \<noteq> []" by (auto simp: pool_ok_def agent_ok_def)
  then have st': "st' = upd_agent k (release cost)
      (upd_task task_id (\<lambda>_. t\<lparr>tk_status := s, tk_result := res, tk_finished_at := Some (env_time env)\<rparr>) st)"
    using assms(2) t k by (auto simp: finish_def Let_def)
  have cnt: "pcount (held_by j) (or_tasks st') = pcount (held_by j) (or_tasks st) - (if j = k then 1 else 0)" for j
    unfolding st' using t k assms(3) by (simp add: pcount_upd held_by_def)
  have "0 < ag_queue_depth a"
    using work_queue [OF assms(1) a] pcount_pos [OF t(1), of "held_by k"] t(2) k by (simp add: held_by_def)
  with a have "\<forall>b. dict_get (or_agents st) k = Some b \<longrightarrow> ag_queue_depth (release cost b) = ag_queue_depth b - 1"
    by (simp add: release_def)
  moreover have "pool_ok st'" using pool assms(2) by (rule pool_ok_finish)
  ultimately show ?thesis
    by (rule_tac work_okI [OF assms(1)]) (use assms(3) cnt work_queue [OF assms(1)] in \<open>auto simp: st' split: if_splits\<close>)
qed

lemma work_ok_move:
  assumes "work_ok st" "dict_get (or_tasks st) task_id = Some t" "held_by src t" "dict_get (or_agents st) dst \<noteq> None"
  shows "work_ok (move_task task_id src dst st)"
proof -
  have pool: "pool_ok (move_task task_id src dst st)" using assms(1) by (simp add: work_ok_def pool_ok_move)
  have cnt: "pcount (held_by j) (or_tasks (move_task task_id src dst st)) =
      pcount (held_by j) (or_tasks st) - (if j = src then 1 else 0) + (if j = dst then 1 else 0)" for j
    using assms(2,3) by (auto simp: move_task_def pcount_upd held_by_def)
  have "0 < ag_queue_depth a" if "dict_get (or_agents st) src = Some a" for a
    using work_queue [OF assms(1) that] pcount_pos [OF assms(2), of "held_by src"] assms(3) by simp
  then have q: "ag_queue_depth a' = ag_queue_depth a - (if k = src then 1 else 0) + (if k = dst then 1 else 0)"
    if "dict_get (or_agents st) k = Some a" "dict_get (or_agents (move_task task_id src dst st)) k = Some a'" for k a a'
    using that by (fastforce simp: move_task_def split: if_splits)
  show ?thesis
  proof (rule work_okI [OF assms(1) pool])
    fix k a' assume a': "dict_get (or_agents (move_task task_id src dst st)) k = Some a'"
    then obtain a where a: "dict_get (or_agents st) k = Some a"
      by (cases "dict_get (or_agents st) k") (auto simp: move_task_def split: if_splits)
    show "ag_queue_depth a' = pcount (held_by k) (or_tasks (move_task task_id src dst st))"
      using q [OF a a'] work_queue [OF assms(1) a] cnt by simp
  next
    fix k assume "dict_get (or_agents st) k \<noteq> None"
    then show "dict_get (or_agents (move_task task_id src dst st)) k \<noteq> None" by (auto simp: move_task_def)
  next
    fix tid t' assume t': "dict_get (or_tasks (move_task task_id src dst st)) tid = Some t'"
    show "dict_get (or_tasks st) tid = Some t' \<or>
        (\<exists>k. tk_assignee t' = Some k \<and> dict_get (or_agents (move_task task_id src dst st)) k \<noteq> None)"
    proof (cases "tid = task_id")
      case True
      then have "tk_assignee t' = Some dst" using t' assms(2) by (auto simp: move_task_def)
      moreover have "dict_get (or_agents (move_task task_id src dst st)) dst \<noteq> None"
        using assms(4) by (auto simp: move_task_def)
      ultimately show ?thesis by blast
    next
      case False
      with t' show ?thesis by (simp add: move_task_def)
    qed
  qed
qed

lemma balance_task_cases:
  obtains "balance_task us src task_id (moves, st) = (moves, st)"
  | t dst agent where "length moves < 3" "dict_get (or_tasks st) task_id = Some t" "held_by src t"
      "dict_get (or_agents st) dst = Some agent" "0 \<le> or_strategy st agent t"
      "balance_task us src task_id (moves, st) =
        (moves @ [\<lparr>ra_task_id = task_id, ra_from_agent = src, ra_to_agent = dst, ra_reason = ''load balancing''\<rparr>],
         move_task task_id src dst st)"
proof (cases "balance_task us src task_id (moves, st) = (moves, st)")
  case False
  then obtain u uss t agent where h: "length moves < 3" "us = u # uss" "dict_get (or_tasks st) task_id = Some t"
    "tk_status t = ASSIGNED" "tk_assignee t = Some src" "dict_get (or_agents st) (least_loaded st u uss) = Some agent"
    "0 \<le> or_strategy st agent t"
    by (auto simp: balance_task_def Let_def split: if_splits option.splits list.splits)
  show ?thesis
    by (rule that(2) [of t "least_loaded st u uss" agent]) (use h in \<open>simp_all add: held_by_def balance_task_def Let_def\<close>)
qed (rule that(1))

lemma work_ok_balance_task:
  assumes "work_ok (snd acc)"
  shows "work_ok (snd (balance_task us src task_id acc))"
proof (cases acc)
  case (Pair moves st)
  show ?thesis
    unfolding Pair
    by (rule balance_task_cases [of us src task_id moves st]) (use assms Pair work_ok_move in \<open>auto\<close>)
qed

lemma work_ok_balance: "work_ok st \<Longrightarrow> work_ok (snd (balance h l st))"
  unfolding balance_def Let_def by (auto intro!: fold_snd_inv [where P = work_ok] work_ok_balance_task)

lemma work_ok_fold: "work_ok st \<Longrightarrow> (\<And>x s. work_ok s \<Longrightarrow> work_ok (f x s)) \<Longrightarrow> work_ok (fold f xs st)"
  by (induction xs arbitrary: st) auto

lemma work_ok_status: "work_ok st \<Longrightarrow> work_ok (upd_agent k (\<lambda>a. a\<lparr>ag_status := s\<rparr>) st)"
  by (rule work_ok_agent) (auto simp: work_ok_def agent_ok_def intro!: pool_ok_upd_agent)

lemma work_ok_terminate: "work_ok st \<Longrightarrow> work_ok (snd (terminate_idle env st))"
  unfolding terminate_idle_def Let_def by (auto intro: work_ok_fold work_ok_status)

lemma work_ok_heartbeat:
  assumes "work_ok st" "heartbeat env agent_id load status cost st = Inr (a, st')"
  shows "work_ok st'"
proof -
  have "st' = upd_agent agent_id (beat env load status cost) st"
    using assms(2) by (auto simp: heartbeat_def split: option.splits)
  moreover have "pool_ok st'" using assms by (auto simp: work_ok_def intro: pool_ok_heartbeat)
  ultimately show ?thesis using work_ok_agent [OF assms(1)] by (simp add: beat_def Let_def split: option.split)
qed

lemma work_ok_spawn:
  assumes "work_ok st" "dict_get (or_agents st) (new_id ''agt'' env) = None"
  shows "work_ok (snd (spawn_if_needed env pre st))"
  using assms by (simp add: spawn_if_needed_def Let_def case_prod_beta work_ok_register)

fun disciplined :: "orch_cmd \<Rightarrow> orchestrator \<Rightarrow> bool" where
  \<comment> \<open>fresh ids; a submitted task is not yet assigned; only assigned tasks are finished\<close>
  "disciplined (Register env name skills typ) st \<longleftrightarrow> dict_get (or_agents st) (new_id ''agt'' env) = None"
| "disciplined (Spawn env pre) st \<longleftrightarrow> dict_get (or_agents st) (new_id ''agt'' env) = None"
| "disciplined (Submit env task) st \<longleftrightarrow> dict_get (or_tasks st) (tk_id task) = None \<and> tk_status task \<noteq> ASSIGNED"
| "disciplined (Complete env task_id res cost) st \<longleftrightarrow> (case dict_get (or_tasks st) task_id of None \<Rightarrow> True | Some t \<Rightarrow> tk_status t = ASSIGNED)"
| "disciplined (Fail env task_id err cost) st \<longleftrightarrow> (case dict_get (or_tasks st) task_id of None \<Rightarrow> True | Some t \<Rightarrow> tk_status t = ASSIGNED)"
| "disciplined _ st \<longleftrightarrow> True"

lemma work_ok_complete:
  assumes "work_ok st" "finish s res env task_id cost st = Inr (r, st')" "s \<noteq> ASSIGNED"
    and "case dict_get (or_tasks st) task_id of None \<Rightarrow> True | Some t \<Rightarrow> tk_status t = ASSIGNED"
  shows "work_ok st'"
  using assms(4) by (intro work_ok_finish [OF assms(1-3)]) auto

lemma orch_step_work_ok:
  assumes "work_ok st" "disciplined c st"
  shows "work_ok (orch_step c st)"
proof (cases c)
  case (Heartbeat env agent_id load status cost)
  show ?thesis unfolding Heartbeat orch_step.simps
    by (rule settle_inv [where P = work_ok]) (use assms work_ok_heartbeat in blast)+
next
  case (Assign env task_id)
  show ?thesis unfolding Assign orch_step.simps
    by (rule settle_inv [where P = work_ok]) (use assms work_ok_assign in blast)+
next
  case (Complete env task_id res cost)
  show ?thesis unfolding Complete orch_step.simps complete_task_def
    by (rule settle_inv [where P = work_ok], rule assms, rule work_ok_complete [OF assms(1)])
      (use assms(2) Complete in auto)
next
  case (Fail env task_id err cost)
  show ?thesis unfolding Fail orch_step.simps fail_task_def
    by (rule settle_inv [where P = work_ok], rule assms, rule work_ok_complete [OF assms(1)])
      (use assms(2) Fail in auto)
qed (use assms in \<open>simp_all add: work_ok_register work_ok_submit work_ok_spawn work_ok_terminate work_ok_balance\<close>)

interpretation orch_work: disciplined_machine orch_step work_ok disciplined
  by unfold_locales (rule orch_step_work_ok)

end
