(* ===== verification/Orchestrator_Properties.thy ===== *)
theory Orchestrator_Properties
  imports Orchestrator_Work
begin

text \<open>
  The properties of the Meta-Orchestrator (\<open>omni/orchestrator/engine.py\<close>) and their instances.
\<close>

section \<open>A sample pool for the instances\<close>

definition pool_env :: "real \<Rightarrow> string \<Rightarrow> env" where
  "pool_env t uuid = \<lparr>env_time = t, env_stamp = [], env_uuid = uuid\<rparr>"

definition sample_pool :: orchestrator where
  "sample_pool = new_orchestrator (pool_env 0 []) BalancedScoring 50 (3 / 4) 300 2 []"

definition sample_task :: task_spec where
  "sample_task = \<lparr>tk_id = ''t1'', tk_name = ''job'', tk_signature = [], tk_required_skills = [''coding''], tk_priority = 0,
     tk_risk_level = ''low'', tk_payload = [], tk_status = QUEUED, tk_assignee = None, tk_created_at = 0,
     tk_started_at = None, tk_finished_at = None, tk_result = PNone\<rparr>"

definition sample_orch_cmds :: "orch_cmd list" where
  "sample_orch_cmds = [Register (pool_env 1 ''a'') ''coder'' [''coding''] WORKER, Submit (pool_env 2 []) sample_task]"

definition busy_pool :: orchestrator where
  "busy_pool = fold orch_step sample_orch_cmds sample_pool"

lemma pool_ok_new: "pool_ok (new_orchestrator env strategy max_agents spawn_threshold idle_ttl keep catalog)"
  by (simp add: new_orchestrator_def pool_ok_def)

lemma work_ok_new: "work_ok (new_orchestrator env strategy max_agents spawn_threshold idle_ttl keep catalog)"
  by (simp add: work_ok_def pool_ok_new) (simp add: new_orchestrator_def)

lemma busy_pool_ok: "pool_ok busy_pool"
  unfolding busy_pool_def by (rule orch_pool.run_ok) (simp add: sample_pool_def pool_ok_new)

lemma busy_pool_simps:
  "or_strategy busy_pool = BalancedScoring" "dict_get (or_tasks busy_pool) ''t1'' = Some sample_task"
  "or_agents busy_pool = [(''agt_a'', new_agent (pool_env 1 ''a'') ''coder'' [''coding''] WORKER)]"
  by (simp_all add: busy_pool_def sample_orch_cmds_def sample_pool_def new_orchestrator_def register_agent_def
      submit_def Let_def sample_task_def new_agent_def pool_env_def new_id_def)

section \<open>The pool\<close>

text \<open>
  Whatever sequence of calls the orchestrator gets, with whatever arguments, ids stay the keys
  of the registry, every agent's load stays within [0, 1] and its queue depth at least zero, and
  the arrival rate stays within [0, 1000000] tasks per second.
\<close>
theorem pool_stays_wellformed:
  "let st = fold orch_step cs (new_orchestrator env strategy max_agents spawn_threshold idle_ttl keep catalog)
   in distinct (dict_keys (or_agents st)) \<and> dict_keys (or_agents st) = map ag_id (agents st) \<and>
      list_all (\<lambda>a. 0 \<le> ag_load a \<and> ag_load a \<le> 1 \<and> 0 \<le> ag_queue_depth a) (agents st) \<and>
      0 \<le> arrival_rate st \<and> arrival_rate st \<le> 1000000"
proof -
  define st where "st = fold orch_step cs (new_orchestrator env strategy max_agents spawn_threshold idle_ttl keep catalog)"
  have ok: "pool_ok st" unfolding st_def by (rule orch_pool.run_ok) (rule pool_ok_new)
  then have d: "distinct (dict_keys (or_agents st))" by (simp add: pool_ok_def)
  have each: "ag_id a = k \<and> agent_ok a" if "(k, a) \<in> set (or_agents st)" for k a
  proof -
    have "dict_get (or_agents st) k = Some a" using that d by (simp only: dict_get_in)
    with ok show ?thesis by (simp add: pool_ok_def)
  qed
  then have "dict_keys (or_agents st) = map ag_id (agents st)"
    by (auto simp: agents_def)
  moreover have "list_all (\<lambda>a. 0 \<le> ag_load a \<and> ag_load a \<le> 1 \<and> 0 \<le> ag_queue_depth a) (agents st)"
    using each by (auto simp: agents_def list_all_iff agent_ok_def)
  ultimately show ?thesis
    using ok d by (simp add: st_def [symmetric] Let_def pool_ok_def arrival_rate_def)
qed

text \<open>
  C16. Assignment picks the best agent: for a queued task, if some active agent has a score of at
  least zero, \<open>assign\<close> gives the task to the one of highest score, the first registered among
  equals, marks the task assigned, and makes the agent running with one more task queued;
  otherwise it returns \<open>None\<close> and changes nothing.
\<close>
theorem assign_picks_best:
  assumes "dict_get (or_tasks st) task_id = Some t" "tk_status t = QUEUED" "pool_ok st"
  shows "if \<exists>p \<in> set (or_agents st). eligible (or_strategy st) t p
    then \<exists>k a st'. assign env task_id st = Inr (Some k, st') \<and> best_choice (or_strategy st) t (or_agents st) (k, a) \<and>
      get_agent k st' = Some (a\<lparr>ag_queue_depth := ag_queue_depth a + 1, ag_status := RUNNING\<rparr>) \<and>
      dict_get (or_tasks st') task_id = Some (t\<lparr>tk_status := ASSIGNED, tk_assignee := Some k, tk_started_at := Some (env_time env)\<rparr>)
    else assign env task_id st = Inr (None, st)"
proof (cases "best_agent (or_strategy st) t (or_agents st)")
  case None
  moreover from None have "\<not> (\<exists>p \<in> set (or_agents st). eligible (or_strategy st) t p)"
    using best_agent_None by blast
  ultimately show ?thesis using assms by (simp add: assign_def)
next
  case (Some sk)
  obtain s k where sk: "sk = (s, k)" by (cases sk)
  with Some obtain a where a: "best_choice (or_strategy st) t (or_agents st) (k, a)"
    using best_agent_Some by blast
  then have "(k, a) \<in> set (or_agents st)" "eligible (or_strategy st) t (k, a)"
    unfolding best_choice_def by (auto dest!: first_best_in)
  moreover have "dict_get (or_agents st) k = Some a"
    using calculation(1) dict_get_in [of "or_agents st" k a] assms(3) unfolding pool_ok_def by blast
  ultimately show ?thesis
    using assms Some sk a by (auto simp: assign_def get_agent_def intro!: bexI [of _ "(k, a)"])
qed

lemma assign_picks_best_witness:
  "\<exists>st'. assign (pool_env 3 []) ''t1'' busy_pool = Inr (Some ''agt_a'', st')"
proof -
  have "\<exists>p \<in> set (or_agents busy_pool). eligible (or_strategy busy_pool) sample_task p"
    by (simp add: busy_pool_simps eligible_def BalancedScoring_def lacks_skills_def new_agent_def sample_task_def)
  then obtain k a st' where "assign (pool_env 3 []) ''t1'' busy_pool = Inr (Some k, st')"
    "best_choice (or_strategy busy_pool) sample_task (or_agents busy_pool) (k, a)"
    using assign_picks_best [of busy_pool "''t1''" sample_task "pool_env 3 []"] busy_pool_ok
    by (auto simp: busy_pool_simps(2) sample_task_def)
  then show ?thesis by (auto simp: busy_pool_simps(3) best_choice_def dest!: first_best_in)
qed

text \<open>
  With any of the three built-in strategies a task is only ever assigned to an agent that is
  not terminated and has every skill the task requires.
\<close>
theorem assign_respects_skills:
  assumes "or_strategy st \<in> {BalancedScoring, CostOptimizedScoring, SpeedOptimizedScoring}" "pool_ok st"
    and "dict_get (or_tasks st) task_id = Some t" "tk_status t = QUEUED" "assign env task_id st = Inr (Some k, st')"
  shows "\<exists>a. get_agent k st = Some a \<and> ag_status a \<noteq> TERMINATED \<and> set (tk_required_skills t) \<subseteq> set (ag_skills a)"
proof -
  have "\<exists>a. dict_get (or_agents st) k = Some a \<and> ag_status a \<noteq> TERMINATED \<and> \<not> lacks_skills a t"
    using assms balanced.assign_capable cost_optimized.assign_capable speed_optimized.assign_capable by blast
  then show ?thesis by (auto simp: get_agent_def lacks_skills_def)
qed

lemma assign_respects_skills_witness:
  "\<exists>k st' a. assign (pool_env 3 []) ''t1'' busy_pool = Inr (Some k, st') \<and> get_agent k busy_pool = Some a \<and> ''coding'' \<in> set (ag_skills a)"
proof -
  have "\<exists>s. best_agent BalancedScoring sample_task (or_agents busy_pool) = Some (s, ''agt_a'')"
    by (simp add: busy_pool_simps best_agent_def best_step_def Let_def BalancedScoring_def lacks_skills_def new_agent_def sample_task_def)
  then obtain st' where st': "assign (pool_env 3 []) ''t1'' busy_pool = Inr (Some ''agt_a'', st')"
    by (auto simp: assign_def busy_pool_simps(1,2) sample_task_def)
  have "tk_status sample_task = QUEUED" "''coding'' \<in> set (tk_required_skills sample_task)" by (simp_all add: sample_task_def)
  with assign_respects_skills [OF _ busy_pool_ok busy_pool_simps(2) _ st'] st' show ?thesis
    by (auto simp: busy_pool_simps(1))
qed

text \<open>
  Progress: with the cost- or speed-optimised strategy a queued task is assigned whenever some
  active agent has the skills it requires.
\<close>
theorem assign_progress:
  assumes "or_strategy st \<in> {CostOptimizedScoring, SpeedOptimizedScoring}" "pool_ok st"
    and "dict_get (or_tasks st) task_id = Some t" "tk_status t = QUEUED"
    and "get_agent k st = Some a" "ag_status a \<noteq> TERMINATED" "set (tk_required_skills t) \<subseteq> set (ag_skills a)"
  shows "\<exists>k' st'. assign env task_id st = Inr (Some k', st')"
proof -
  have "\<not> lacks_skills a t" using assms(7) by (simp add: lacks_skills_def)
  with assms show ?thesis
    unfolding get_agent_def using cost_optimized.choice_progress speed_optimized.choice_progress by blast
qed

lemma assign_progress_witness:
  "\<exists>k' st'. assign (pool_env 3 []) ''t1'' (busy_pool\<lparr>or_strategy := SpeedOptimizedScoring\<rparr>) = Inr (Some k', st')"
proof -
  have "pool_ok (busy_pool\<lparr>or_strategy := SpeedOptimizedScoring\<rparr>)" using busy_pool_ok by (simp add: pool_ok_def)
  then show ?thesis
    using assign_progress [of "busy_pool\<lparr>or_strategy := SpeedOptimizedScoring\<rparr>" "''t1''" sample_task "''agt_a''"
        "new_agent (pool_env 1 ''a'') ''coder'' [''coding''] WORKER" "pool_env 3 []"]
    by (simp add: busy_pool_simps get_agent_def) (simp add: sample_task_def new_agent_def)
qed

text \<open>
  The balanced strategy gives no such guarantee: a fully loaded agent with five queued tasks
  scores below zero for a task of priority zero although it has the skills, so the task stays
  unassigned when no other agent can take it.
\<close>
theorem balanced_capable_rejected:
  "ag_load a = 1 \<and> ag_queue_depth a = 5 \<and> tk_priority t = 0 \<and> \<not> lacks_skills a t \<and>
   or_agents st = [(k, a)] \<and> or_strategy st = BalancedScoring \<and> dict_get (or_tasks st) task_id = Some t \<and> tk_status t = QUEUED
   \<Longrightarrow> assign env task_id st = Inr (None, st)"
  by (auto simp: assign_def best_agent_def best_step_def BalancedScoring_def Let_def)

lemma balanced_capable_rejected_witness:
  "let a = (new_agent (pool_env 1 ''a'') ''coder'' [''coding''] WORKER)\<lparr>ag_load := 1, ag_queue_depth := 5\<rparr>;
       st = busy_pool\<lparr>or_agents := [(''agt_a'', a)]\<rparr>
   in assign (pool_env 3 []) ''t1'' st = Inr (None, st)"
  unfolding Let_def
  by (rule balanced_capable_rejected [where t = sample_task and k = "''agt_a''"
        and a = "(new_agent (pool_env 1 ''a'') ''coder'' [''coding''] WORKER)\<lparr>ag_load := 1, ag_queue_depth := 5\<rparr>"])
    (use busy_pool_simps in \<open>simp add: sample_task_def new_agent_def lacks_skills_def\<close>)

section \<open>Work\<close>

text \<open>
  C15. Conservation of work: from an empty pool, as long as ids are fresh and only assigned tasks
  are completed or failed, the queue depth of every agent is at all times the number of tasks
  assigned to it, through assignment, completion, failure, heartbeats, balancing, spawning and
  termination.
\<close>
theorem work_conserved:
  assumes "orch_work.all_allowed cs (new_orchestrator env strategy max_agents spawn_threshold idle_ttl keep catalog)"
    and "get_agent k (fold orch_step cs (new_orchestrator env strategy max_agents spawn_threshold idle_ttl keep catalog)) = Some a"
  shows "ag_queue_depth a = pcount (held_by k)
    (or_tasks (fold orch_step cs (new_orchestrator env strategy max_agents spawn_threshold idle_ttl keep catalog)))"
  using work_queue [OF orch_work.allowed_run_ok [OF work_ok_new assms(1)]] assms(2) by (simp add: get_agent_def)

lemma work_conserved_witness:
  "\<exists>a. get_agent ''agt_a'' (fold orch_step sample_orch_cmds sample_pool) = Some a \<and>
     ag_queue_depth a = pcount (held_by ''agt_a'') (or_tasks (fold orch_step sample_orch_cmds sample_pool))"
proof -
  have "orch_work.all_allowed sample_orch_cmds (new_orchestrator (pool_env 0 []) BalancedScoring 50 (3 / 4) 300 2 [])"
    by (simp add: sample_orch_cmds_def new_orchestrator_def sample_task_def register_agent_def Let_def)
  moreover have "get_agent ''agt_a'' (fold orch_step sample_orch_cmds (new_orchestrator (pool_env 0 []) BalancedScoring 50 (3 / 4) 300 2 [])) =
      Some (new_agent (pool_env 1 ''a'') ''coder'' [''coding''] WORKER)"
    using busy_pool_simps(3) by (simp add: get_agent_def busy_pool_def sample_pool_def)
  ultimately show ?thesis using work_conserved unfolding sample_pool_def by blast
qed

end
