(* ===== verification/Orchestrator_Control.thy ===== *)
theory Orchestrator_Control
  imports Orchestrator_Properties
begin

text \<open>
  Balancing, termination, duplicate detection and model choice of the Meta-Orchestrator.
\<close>

section \<open>Balancing\<close>

definition balanced_from :: "orchestrator \<Rightarrow> reassignment list \<times> orchestrator \<Rightarrow> bool" where
  \<comment> \<open>what a balancing pass keeps of the state it started from\<close>
  "balanced_from st0 acc \<longleftrightarrow> work_ok (snd acc) \<and> length (fst acc) \<le> 3 \<and>
     dict_keys (or_tasks (snd acc)) = dict_keys (or_tasks st0) \<and>
     dict_keys (or_agents (snd acc)) = dict_keys (or_agents st0) \<and>
     pcount (\<lambda>t. tk_status t = ASSIGNED) (or_tasks (snd acc)) = pcount (\<lambda>t. tk_status t = ASSIGNED) (or_tasks st0) \<and>
     (\<forall>tid t. dict_get (or_tasks st0) tid = Some t \<longrightarrow>
        (if tk_status t = ASSIGNED then \<exists>k. dict_get (or_tasks (snd acc)) tid = Some (t\<lparr>tk_assignee := Some k\<rparr>)
         else dict_get (or_tasks (snd acc)) tid = Some t))"

lemma balanced_from_refl: "work_ok st \<Longrightarrow> balanced_from st ([], st)"
proof -
  assume ok: "work_ok st"
  have "\<exists>k. t = t\<lparr>tk_assignee := Some k\<rparr>" if t: "dict_get (or_tasks st) tid = Some t" "tk_status t = ASSIGNED" for tid t
  proof -
    obtain k where "tk_assignee t = Some k" using work_assigned [OF ok t] by blast
    then have "t = t\<lparr>tk_assignee := Some k\<rparr>" by simp
    then show ?thesis ..
  qed
  with ok show ?thesis by (simp add: balanced_from_def)
qed

lemma balanced_from_step:
  assumes "balanced_from st0 acc"
  shows "balanced_from st0 (balance_task us src task_id acc)"
proof (cases acc)
  case (Pair moves st)
  show ?thesis
    unfolding Pair
  proof (rule balance_task_cases [of us src task_id moves st])
    assume "balance_task us src task_id (moves, st) = (moves, st)"
    with assms Pair show "balanced_from st0 (balance_task us src task_id (moves, st))" by simp
  next
    fix t dst agent
    assume h: "length moves < 3" "dict_get (or_tasks st) task_id = Some t" "held_by src t"
      "dict_get (or_agents st) dst = Some agent" "0 \<le> or_strategy st agent t"
      and eq: "balance_task us src task_id (moves, st) =
        (moves @ [\<lparr>ra_task_id = task_id, ra_from_agent = src, ra_to_agent = dst, ra_reason = ''load balancing''\<rparr>],
         move_task task_id src dst st)"
    have ok: "work_ok (move_task task_id src dst st)"
      using assms Pair h by (intro work_ok_move [where t = t]) (simp_all add: balanced_from_def)
    have tasks: "or_tasks (move_task task_id src dst st) =
        dict_upd task_id (\<lambda>t. t\<lparr>tk_assignee := Some dst, tk_status := ASSIGNED\<rparr>) (or_tasks st)"
      by (simp add: move_task_def)
    have each: "(if tk_status t' = ASSIGNED
        then \<exists>k. dict_get (or_tasks (move_task task_id src dst st)) tid = Some (t'\<lparr>tk_assignee := Some k\<rparr>)
        else dict_get (or_tasks (move_task task_id src dst st)) tid = Some t')"
      if t': "dict_get (or_tasks st0) tid = Some t'" for tid t'
    proof -
      have kept: "if tk_status t' = ASSIGNED then \<exists>k. dict_get (or_tasks st) tid = Some (t'\<lparr>tk_assignee := Some k\<rparr>)
          else dict_get (or_tasks st) tid = Some t'"
        using assms t' unfolding balanced_from_def Pair snd_conv by blast
      show ?thesis
      proof (cases "tid = task_id")
      case True
      have st': "tk_status t' = ASSIGNED" using kept h(2,3) True by (auto simp: held_by_def split: if_splits)
      with kept h(2) True obtain k where "t = t'\<lparr>tk_assignee := Some k\<rparr>" by auto
      then have "t\<lparr>tk_assignee := Some dst, tk_status := ASSIGNED\<rparr> = t'\<lparr>tk_assignee := Some dst\<rparr>"
        using st' by (cases t') simp
      with True st' h(2) show ?thesis by (simp add: tasks) blast
    next
      case False
      with kept show ?thesis by (simp add: tasks)
      qed
    qed
    have base: "dict_keys (or_tasks st) = dict_keys (or_tasks st0)" "dict_keys (or_agents st) = dict_keys (or_agents st0)"
      "pcount (\<lambda>t. tk_status t = ASSIGNED) (or_tasks st) = pcount (\<lambda>t. tk_status t = ASSIGNED) (or_tasks st0)"
      using assms unfolding balanced_from_def Pair snd_conv by blast+
    have keys: "dict_keys (or_agents (move_task task_id src dst st)) = dict_keys (or_agents st)"
      by (simp add: move_task_def)
    have cnt: "pcount (\<lambda>t. tk_status t = ASSIGNED) (or_tasks (move_task task_id src dst st)) = pcount (\<lambda>t. tk_status t = ASSIGNED) (or_tasks st)"
      using h(2,3) by (simp add: tasks pcount_upd held_by_def)
    show "balanced_from st0 (balance_task us src task_id (moves, st))"
      unfolding balanced_from_def eq fst_conv snd_conv
    proof (intro conjI allI impI)
      show "dict_keys (or_tasks (move_task task_id src dst st)) = dict_keys (or_tasks st0)"
        by (simp add: tasks base)
    qed (use ok h(1) keys cnt base each in auto)
  qed
qed

lemma fold_inv: "P acc \<Longrightarrow> (\<And>x acc. P acc \<Longrightarrow> P (f x acc)) \<Longrightarrow> P (fold f xs acc)"
  by (induction xs arbitrary: acc) auto

text \<open>
  A balancing pass makes at most three moves. It changes nothing of a task except the assignee
  of assigned ones, neither loses nor duplicates a task or an agent, and keeps every queue depth
  equal to the number of tasks its agent holds.
\<close>
theorem balance_conserves:
  assumes "work_ok st"
  shows "balanced_from st (balance high_threshold low_threshold st)"
  unfolding balance_def Let_def
  using balanced_from_refl [OF assms] by (auto intro!: fold_inv [where P = "balanced_from st"] balanced_from_step)

lemma balance_conserves_witness: "balanced_from sample_pool (balance (8 / 10) (2 / 10) sample_pool)"
  by (rule balance_conserves) (simp add: sample_pool_def work_ok_new)

section \<open>Termination\<close>

definition expired :: "env \<Rightarrow> orchestrator \<Rightarrow> agent_spec \<Rightarrow> bool" where
  "expired env st a \<longleftrightarrow> ag_status a = IDLE \<and> env_time env - ag_last_heartbeat a > or_idle_ttl_s st"

lemma fold_terminate_get:
  "dict_get (or_agents (fold (\<lambda>p. upd_agent (fst p) (\<lambda>a. a\<lparr>ag_status := TERMINATED\<rparr>)) ps st)) k =
     (if k \<in> fst ` set ps then map_option (\<lambda>a. a\<lparr>ag_status := TERMINATED\<rparr>) (dict_get (or_agents st) k)
      else dict_get (or_agents st) k)"
proof (induction ps arbitrary: st)
  case (Cons p ps)
  have "map_option (\<lambda>a. a\<lparr>ag_status := TERMINATED\<rparr>) (map_option (\<lambda>a. a\<lparr>ag_status := TERMINATED\<rparr>) x) =
      map_option (\<lambda>a. a\<lparr>ag_status := TERMINATED\<rparr>) x" for x :: "agent_spec option"
    by (cases x) simp_all
  with Cons show ?case by auto
qed simp

lemma idle_expired_set: "set (idle_expired env st) = {p \<in> set (or_agents st). expired env st (snd p)}"
  by (auto simp: idle_expired_def expired_def)

text \<open>
  Termination keeps a warm pool: of the idle agents past their time to live, all but
  \<open>keep_min_idle\<close> are terminated, every other agent is left alone, and the ones that are kept are
  those silent for longest: no terminated agent has an older heartbeat than a kept one.
\<close>
theorem terminate_idle_effect:
  assumes "pool_ok st" "terminate_idle env st = (ids, st')"
  shows "length ids = length (filter (\<lambda>a. expired env st a) (agents st)) - nat (or_keep_min_idle st) \<and>
    (\<forall>k. get_agent k st' = (if k \<in> set ids then map_option (\<lambda>a. a\<lparr>ag_status := TERMINATED\<rparr>) (get_agent k st) else get_agent k st)) \<and>
    (\<forall>k a. k \<in> set ids \<and> get_agent k st = Some a \<longrightarrow> expired env st a \<and>
       (\<forall>j b. j \<notin> set ids \<and> get_agent j st = Some b \<and> expired env st b \<longrightarrow> ag_last_heartbeat b \<le> ag_last_heartbeat a))"
proof -
  let ?e = "idle_expired env st"
  define keep where "keep = nat (or_keep_min_idle st)"
  have d: "distinct (dict_keys (or_agents st))" using assms(1) unfolding pool_ok_def by blast
  have get: "dict_get (or_agents st) k = Some a \<longleftrightarrow> (k, a) \<in> set (or_agents st)" for k a
    using dict_get_in [OF d] by blast
  have id: "ag_id a = k" if "(k, a) \<in> set (or_agents st)" for k a
    using assms(1) that get unfolding pool_ok_def by blast
  have ids: "ids = map fst (drop keep ?e)"
  proof -
    have "set (drop keep ?e) \<subseteq> set (or_agents st)" using set_drop_subset idle_expired_set by fast
    with id have "map (\<lambda>p. ag_id (snd p)) (drop keep ?e) = map fst (drop keep ?e)" by (auto intro!: map_cong)
    with assms(2) show ?thesis by (simp add: terminate_idle_def Let_def keep_def)
  qed
  have st': "st' = fold (\<lambda>p. upd_agent (fst p) (\<lambda>a. a\<lparr>ag_status := TERMINATED\<rparr>)) (drop keep ?e) st"
    using assms(2) by (simp add: terminate_idle_def Let_def keep_def)
  have len: "length ?e = length (filter (\<lambda>a. expired env st a) (agents st))"
    by (simp add: idle_expired_def agents_def filter_map comp_def expired_def)
  have sorted: "sorted (map (\<lambda>p. ag_last_heartbeat (snd p)) ?e)" by (simp add: idle_expired_def)
  have order: "ag_last_heartbeat b \<le> ag_last_heartbeat a"
    if "(k, a) \<in> set (drop keep ?e)" "(j, b) \<in> set ?e" "(j, b) \<notin> set (drop keep ?e)" for k a j b
  proof -
    have "(j, b) \<in> set (take keep ?e)" using that(2,3) by (metis Un_iff append_take_drop_id set_append)
    with that(1) sorted show ?thesis
      by (subst (asm) append_take_drop_id [of keep ?e, symmetric], unfold map_append sorted_append) fastforce
  qed
  have mem: "(j, b) \<in> set (drop keep ?e)" if j: "j \<in> set ids" and b: "(j, b) \<in> set (or_agents st)" for j b
  proof -
    obtain b' where b': "(j, b') \<in> set (drop keep ?e)" using j unfolding ids by force
    then have "(j, b') \<in> set (or_agents st)" using set_drop_subset idle_expired_set by fast
    with b d b' show ?thesis by (metis get option.inject)
  qed
  show ?thesis
  proof (intro conjI allI impI)
    show "length ids = length (filter (\<lambda>a. expired env st a) (agents st)) - nat (or_keep_min_idle st)"
      by (simp add: ids len keep_def)
  next
    fix k show "get_agent k st' = (if k \<in> set ids then map_option (\<lambda>a. a\<lparr>ag_status := TERMINATED\<rparr>) (get_agent k st) else get_agent k st)"
      unfolding get_agent_def st' fold_terminate_get by (simp add: ids)
  next
    fix k a assume ka: "k \<in> set ids \<and> get_agent k st = Some a"
    then have m: "(k, a) \<in> set (drop keep ?e)" using mem get by (simp add: get_agent_def)
    then show "expired env st a" using set_drop_subset idle_expired_set by fastforce
    fix j b assume "j \<notin> set ids \<and> get_agent j st = Some b \<and> expired env st b"
    then have "(j, b) \<in> set ?e" "(j, b) \<notin> set (drop keep ?e)"
      using idle_expired_set get ids by (auto simp: get_agent_def image_iff)
    with order [OF m] show "ag_last_heartbeat b \<le> ag_last_heartbeat a" by blast
  qed
qed

lemma terminate_idle_effect_witness:
  "let (ids, st') = terminate_idle (pool_env 1000 []) (busy_pool\<lparr>or_keep_min_idle := 0\<rparr>)
   in length ids = length (filter (expired (pool_env 1000 []) (busy_pool\<lparr>or_keep_min_idle := 0\<rparr>)) (agents (busy_pool\<lparr>or_keep_min_idle := 0\<rparr>)))"
proof -
  have ok: "pool_ok (busy_pool\<lparr>or_keep_min_idle := 0\<rparr>)" using busy_pool_ok by (simp add: pool_ok_def)
  obtain ids st' where "terminate_idle (pool_env 1000 []) (busy_pool\<lparr>or_keep_min_idle := 0\<rparr>) = (ids, st')" by fastforce
  with terminate_idle_effect [OF ok this] show ?thesis by simp
qed

section \<open>Duplicates and models\<close>

definition live :: "task_spec \<Rightarrow> bool" where
  "live t \<longleftrightarrow> tk_status t \<in> {QUEUED, ASSIGNED, TASK_RUNNING} \<and> tk_signature t \<noteq> []"

lemma duplicate_groups_get:
  "dict_get (duplicate_groups ts) s =
     (let ids = map tk_id (filter (\<lambda>t. live t \<and> tk_signature t = s) ts) in if ids = [] then None else Some ids)"
proof (induction ts rule: rev_induct)
  case (snoc t ts)
  have step: "duplicate_groups (ts @ [t]) = (if live t then dict_append (tk_signature t) (tk_id t) (duplicate_groups ts) else duplicate_groups ts)"
    by (simp add: duplicate_groups_def live_def)
  show ?case
    unfolding step using snoc by (auto simp: dict_append_def Let_def split: option.splits if_splits)
qed (simp add: duplicate_groups_def)

lemma duplicate_groups_distinct: "distinct (dict_keys (duplicate_groups ts))"
proof (induction ts rule: rev_induct)
  case (snoc t ts)
  have "duplicate_groups (ts @ [t]) = (if live t then dict_append (tk_signature t) (tk_id t) (duplicate_groups ts) else duplicate_groups ts)"
    by (simp add: duplicate_groups_def live_def)
  with snoc show ?case by (simp add: dict_append_def)
qed (simp add: duplicate_groups_def)

text \<open>
  Duplicate detection is exact: a list of task ids is reported exactly when it lists, in
  submission order, all live tasks of some signature and there are at least two of them.
\<close>
theorem detect_duplicates_exact:
  "g \<in> set (detect_duplicates st) \<longleftrightarrow>
     (\<exists>s. g = map tk_id (filter (\<lambda>t. live t \<and> tk_signature t = s) (tasks st)) \<and> length g > 1)"
proof -
  have "g \<in> set (dict_values (duplicate_groups (tasks st))) \<longleftrightarrow> (\<exists>s. dict_get (duplicate_groups (tasks st)) s = Some g)"
    using dict_get_in [OF duplicate_groups_distinct] by force
  then have "g \<in> set (detect_duplicates st) \<longleftrightarrow>
      (\<exists>s. dict_get (duplicate_groups (tasks st)) s = Some g \<and> length g > 1)"
    by (auto simp: detect_duplicates_def)
  moreover have "dict_get (duplicate_groups (tasks st)) s = Some g \<and> length g > 1 \<longleftrightarrow>
      g = map tk_id (filter (\<lambda>t. live t \<and> tk_signature t = s) (tasks st)) \<and> length g > 1" for s
    by (auto simp: duplicate_groups_get Let_def)
  ultimately show ?thesis by (simp only:)
qed

text \<open>
  \<open>choose_model\<close> fails for an unknown mode only, and otherwise returns the first model of the
  catalogue whose key for that mode is minimal, on every orchestrator that is constructed.
\<close>
theorem choose_model_minimal:
  "let st = new_orchestrator env strategy max_agents spawn_threshold idle_ttl keep catalog in
   (case mode_key mode of
      None \<Rightarrow> choose_model mode st = Inl (KeyError mode)
    | Some f \<Rightarrow> \<exists>m. choose_model mode st = Inr m \<and> first_best f (\<lambda>_. True) (or_model_catalog st) m)"
proof (cases "mode_key mode")
  case (Some f)
  let ?st = "new_orchestrator env strategy max_agents spawn_threshold idle_ttl keep catalog"
  have "or_model_catalog ?st \<noteq> []" by (simp add: new_orchestrator_def default_model_catalog_def)
  then obtain m ms where m: "sort_key f (or_model_catalog ?st) = m # ms"
    by (cases "sort_key f (or_model_catalog ?st)") (metis length_0_conv length_sort, auto)
  then have "first_best f (\<lambda>_. True) (or_model_catalog ?st) m"
    using find_sort_key_Some [of "\<lambda>_. True" f "or_model_catalog ?st" m] by simp
  with Some m show ?thesis by (simp add: choose_model_def Let_def)
qed (simp add: choose_model_def)

end
