(* ===== verification/Fleet_Roster.thy ===== *)
theory Fleet_Roster
  imports Orchestrator_Control Py_Text
begin

text \<open>
  \<open>omni/agents/fleet_seed.py\<close> and \<open>omni/agents/router.py\<close>: the standing roster of forty agents,
  its idempotent registration, and the routing of a prompt to the skills it mentions. Every
  registration draws its own identifier: \<open>envs\<close> gives the environment of the one for a name.
\<close>

section \<open>The roster\<close>

definition LEADER_NAME :: string where
  "LEADER_NAME = ''Atlas''"

definition SEED_ROSTER :: "(string \<times> agent_type \<times> string list) list" where
  "SEED_ROSTER =
     [(LEADER_NAME, SUPERVISOR, [''coordination'', ''task-routing'', ''fleet-leadership'']),
      (''Research Agent'', SPECIALIST, [''research'', ''web-search'', ''fact-checking'']),
      (''Writer Agent'', SPECIALIST, [''writing'', ''editing'', ''copywriting'']),
      (''Code Agent'', SPECIALIST, [''coding'', ''code-review'', ''debugging'']),
      (''Planner Agent'', SPECIALIST, [''planning'', ''task-breakdown'', ''scheduling'']),
      (''Memory Curator'', WORKER, [''memory'', ''curation'', ''indexing'']),
      (''Policy Auditor'', SPECIALIST, [''policy'', ''compliance'', ''audit'']),
      (''Security Monitor'', SPECIALIST, [''security'', ''threat-detection'', ''monitoring'']),
      (''DevOps Agent'', WORKER, [''deployment'', ''infrastructure'', ''ci-cd'']),
      (''Marketplace Curator'', WORKER, [''marketplace'', ''skill-review'', ''curation'']),
      (''QA Agent'', WORKER, [''testing'', ''qa'', ''validation'']),
      (''Support Agent'', WORKER, [''customer-support'', ''triage'', ''communication'']),
      (''Docs Agent'', WORKER, [''documentation'', ''technical-writing'']),
      (''Translator'', SPECIALIST, [''translation'', ''localization'']),
      (''Data Analyst'', SPECIALIST, [''data-analysis'', ''statistics'', ''reporting'']),
      (''Performance Monitor'', WORKER, [''performance'', ''monitoring'', ''alerting'']),
      (''Billing Agent'', WORKER, [''billing'', ''credits'', ''accounting'']),
      (''Notification Agent'', WORKER, [''notifications'', ''messaging'']),
      (''Search Agent'', WORKER, [''search'', ''retrieval'', ''ranking'']),
      (''Summarizer'', WORKER, [''summarization'', ''compression'']),
      (''Integration Agent'', SPECIALIST, [''api-integration'', ''webhooks'']),
      (''Incident Responder'', SPECIALIST, [''incident-response'', ''on-call'', ''triage'']),
      (''Knowledge Graph Curator'', SPECIALIST, [''knowledge-graph'', ''relationships'', ''curation'']),
      (''Task Triage Agent'', WORKER, [''triage'', ''prioritization'']),
      (''Load Balancer Agent'', WORKER, [''load-balancing'', ''scaling'']),
      (''Backup Agent'', WORKER, [''backup'', ''recovery'', ''snapshots'']),
      (''Audit Logger'', WORKER, [''audit'', ''logging'', ''compliance'']),
      (''Model Evaluator'', SPECIALIST, [''evaluation'', ''benchmarking'', ''quality'']),
      (''Prompt Engineer'', SPECIALIST, [''prompt-engineering'', ''optimization'']),
      (''Voice Agent'', SPECIALIST, [''voice'', ''transcription'', ''speech'']),
      (''Localization Agent'', WORKER, [''localization'', ''i18n'']),
      (''Analytics Agent'', WORKER, [''analytics'', ''metrics'', ''dashboards'']),
      (''Reporting Agent'', WORKER, [''reporting'', ''summaries'']),
      (''Escalation Agent'', WORKER, [''escalation'', ''routing'']),
      (''Onboarding Agent'', WORKER, [''onboarding'', ''user-guidance'']),
      (''Simulation Agent'', SPECIALIST, [''simulation'', ''what-if-analysis'']),
      (''Learning Agent'', SPECIALIST, [''learning'', ''evaluation'', ''trends'']),
      (''Fleet Health Agent'', WORKER, [''health-check'', ''diagnostics'']),
      (''Cost Optimizer'', WORKER, [''cost-optimization'', ''budgeting'']),
      (''Compliance Officer'', SPECIALIST, [''compliance'', ''legal'', ''policy''])]"

definition seed_step :: "(string \<Rightarrow> env) \<Rightarrow> string set \<Rightarrow> string \<times> agent_type \<times> string list \<Rightarrow>
    agent_spec list \<times> orchestrator \<Rightarrow> agent_spec list \<times> orchestrator" where
  "seed_step envs existing_names = (\<lambda>(name, typ, skills) (created, st).
     if name \<in> existing_names then (created, st)
     else (let (agent, st') = register_agent (envs name) name skills typ st in (created @ [agent], st')))"

definition seed_fleet :: "(string \<Rightarrow> env) \<Rightarrow> orchestrator \<Rightarrow> agent_spec list \<times> orchestrator" where
  "seed_fleet envs st = fold (seed_step envs (set (map ag_name (agents st)))) SEED_ROSTER ([], st)"

definition leader_id :: "orchestrator \<Rightarrow> string option" where
  "leader_id st = map_option ag_id (find (\<lambda>a. ag_name a = LEADER_NAME) (agents st))"

section \<open>Routing\<close>

text \<open>
  A pattern of the code is a text between word boundaries, or one that only starts at a word
  boundary; the optional letters and the alternatives of the regular expressions are written out.
  Word characters are the ASCII letters, the digits and the underscore.
\<close>

datatype word_pattern = whole string | stem string

definition word_char :: "char \<Rightarrow> bool" where
  "word_char c \<longleftrightarrow> (let n = of_char c :: nat in (48 \<le> n \<and> n \<le> 57) \<or> (65 \<le> n \<and> n \<le> 90) \<or> (97 \<le> n \<and> n \<le> 122) \<or> n = 95)"

fun word_before :: "bool \<Rightarrow> string \<Rightarrow> bool" where
  \<comment> \<open>\<open>\b\<close> between a character, a word character or not, and the text after it\<close>
  "word_before w [] = w"
| "word_before w (c # cs) = (w \<noteq> word_char c)"

definition matches_here :: "word_pattern \<Rightarrow> bool \<Rightarrow> string \<Rightarrow> bool" where
  "matches_here p w s = (case p of
     whole t \<Rightarrow> word_before w s \<and> startswith t s \<and> word_before (word_char (last t)) (drop (length t) s)
   | stem t \<Rightarrow> word_before w s \<and> startswith t s)"

fun pattern_search :: "word_pattern \<Rightarrow> bool \<Rightarrow> string \<Rightarrow> bool" where
  "pattern_search p w [] = matches_here p w []"
| "pattern_search p w (c # cs) = (matches_here p w (c # cs) \<or> pattern_search p (word_char c) cs)"

definition SKILL_PATTERNS :: "(string \<times> word_pattern list) list" where
  "SKILL_PATTERNS =
     [(''coding'', [whole ''code'', whole ''function'', stem ''debug'', whole ''python'', whole ''javascript'', whole ''typescript'', whole ''sql'', whole ''api'', whole ''regex'', whole ''stack trace'', whole ''exception'', stem ''refactor'', stem ''compile'', stem ''unit test'', whole ''write a script'']),
      (''code-review'', [whole ''code review'', whole ''review this code'', whole ''review my code'', whole ''pull request'']),
      (''research'', [whole ''research'', whole ''look up'', whole ''find out'', whole ''source'', whole ''sources'', whole ''citation'', whole ''citations'', whole ''who is'', whole ''who was'', whole ''what is'', whole ''what are'', whole ''what was'', whole ''history of'', whole ''fact about'', whole ''facts about'']),
      (''writing'', [whole ''write'', whole ''draft'', whole ''essay'', whole ''blog post'', whole ''article'', whole ''story'', whole ''poem'', whole ''copy for'', whole ''tagline'', whole ''slogan'']),
      (''translation'', [whole ''translate'', whole ''in spanish'', whole ''in french'', whole ''in greek'', whole ''in german'', whole ''in chinese'', whole ''in japanese'', whole ''in italian'', whole ''into english'']),
      (''planning'', [whole ''plan'', whole ''roadmap'', whole ''schedule'', whole ''itinerary'', whole ''timeline'', whole ''steps to'', whole ''how do i start'']),
      (''data-analysis'', [whole ''analyze this data'', whole ''analyze the data'', whole ''dataset'', whole ''csv'', whole ''spreadsheet'', whole ''correlation'', whole ''trend'', whole ''average of'']),
      (''summarization'', [whole ''summarize'', whole ''summary of'', whole ''tldr'', whole ''tl;dr'', whole ''shorten this''])]"

definition classify_skills :: "string \<Rightarrow> string list" where
  "classify_skills prompt =
     (let txt = map to_lower prompt
      in map fst (filter (\<lambda>(skill, ps). list_ex (\<lambda>p. pattern_search p False txt) ps) SKILL_PATTERNS))"

section \<open>Seeding\<close>

lemma roster_length: "length SEED_ROSTER = 40"
  by (simp add: SEED_ROSTER_def)

lemma roster_distinct: "distinct (map fst SEED_ROSTER)"
  by (simp add: SEED_ROSTER_def LEADER_NAME_def)

lemma roster_supervisor: "filter (\<lambda>r. fst (snd r) = SUPERVISOR) SEED_ROSTER =
    [(LEADER_NAME, SUPERVISOR, [''coordination'', ''task-routing'', ''fleet-leadership''])]"
  by (simp add: SEED_ROSTER_def)

definition fresh_envs :: "(string \<Rightarrow> env) \<Rightarrow> orchestrator \<Rightarrow> bool" where
  \<comment> \<open>the identifiers drawn are new and differ from each other\<close>
  "fresh_envs envs st \<longleftrightarrow> inj (\<lambda>n. env_uuid (envs n)) \<and>
     (\<forall>n. new_id ''agt'' (envs n) \<notin> set (dict_keys (or_agents st)))"

lemma seed_step_frame:
  "seed_step envs ex (name, typ, skills) (created, st) =
     (if name \<in> ex then (created, st)
      else (created @ [new_agent (envs name) name skills typ],
            st\<lparr>or_agents := dict_set (new_id ''agt'' (envs name)) (new_agent (envs name) name skills typ) (or_agents st)\<rparr>))"
  by (simp add: seed_step_def register_agent_def new_agent_def Let_def)

lemma new_id_inj: "inj (\<lambda>n. env_uuid (envs n)) \<Longrightarrow> new_id pre (envs a) = new_id pre (envs b) \<longleftrightarrow> a = b"
  by (auto simp: new_id_def dest: injD)

lemma seed_fold:
  assumes "inj (\<lambda>n. env_uuid (envs n))" "distinct (map fst rs)"
    and "\<forall>r \<in> set rs. new_id ''agt'' (envs (fst r)) \<notin> set (dict_keys (or_agents st))"
  shows "\<exists>st'. fold (seed_step envs ex) rs (created, st) =
      (created @ map (\<lambda>(n, t, s). new_agent (envs n) n s t) (filter (\<lambda>r. fst r \<notin> ex) rs), st') \<and>
    or_agents st' = or_agents st @ map (\<lambda>(n, t, s). (new_id ''agt'' (envs n), new_agent (envs n) n s t)) (filter (\<lambda>r. fst r \<notin> ex) rs) \<and>
    or_tasks st' = or_tasks st"
  using assms(2,3)
proof (induction rs arbitrary: created st)
  case (Cons r rs)
  obtain n t s where r: "r = (n, t, s)" by (cases r)
  show ?case
  proof (cases "n \<in> ex")
    case True
    with Cons r show ?thesis by (simp add: seed_step_frame)
  next
    case False
    let ?a = "new_agent (envs n) n s t"
    let ?st = "st\<lparr>or_agents := dict_set (new_id ''agt'' (envs n)) ?a (or_agents st)\<rparr>"
    have new: "new_id ''agt'' (envs n) \<notin> set (dict_keys (or_agents st))" using Cons.prems(2) r by simp
    have "\<forall>r \<in> set rs. new_id ''agt'' (envs (fst r)) \<notin> set (dict_keys (or_agents ?st))"
      using Cons.prems r new_id_inj [OF assms(1)] by (auto simp: dict_set_new [OF new] rev_image_eqI)
    from Cons.IH [OF _ this, of "created @ [?a]"] Cons.prems(1) r False show ?thesis
      by (auto simp: seed_step_frame dict_set_new [OF new])
  qed
qed simp

lemma seed_fold_all_present:
  "\<forall>r \<in> set rs. fst r \<in> ex \<Longrightarrow> fold (seed_step envs ex) rs acc = acc"
proof (induction rs)
  case (Cons r rs)
  then show ?case by (cases r; cases acc) (simp add: seed_step_frame)
qed simp

text \<open>
  Seeding the fleet is idempotent: whatever agents there are, with fresh identifiers one call
  adds exactly the missing members of the roster of forty, in roster order, after the existing
  agents, and a second call, with any identifiers, adds nobody and changes nothing.
\<close>
theorem seed_fleet_idempotent:
  assumes "fresh_envs envs st" "seed_fleet envs st = (created, st')"
  shows "map ag_name created = filter (\<lambda>n. n \<notin> ag_name ` set (agents st)) (map fst SEED_ROSTER) \<and>
    agents st' = agents st @ created \<and> seed_fleet envs' st' = ([], st')"
proof -
  let ?ex = "set (map ag_name (agents st))"
  let ?new = "filter (\<lambda>r. fst r \<notin> ?ex) SEED_ROSTER"
  have inj: "inj (\<lambda>n. env_uuid (envs n))" using assms(1) by (simp add: fresh_envs_def)
  have "\<forall>r \<in> set SEED_ROSTER. new_id ''agt'' (envs (fst r)) \<notin> set (dict_keys (or_agents st))"
    using assms(1) by (simp add: fresh_envs_def)
  from seed_fold [OF inj roster_distinct this, of ?ex "[]"] assms(2)
  have created: "created = map (\<lambda>(n, t, s). new_agent (envs n) n s t) ?new"
    and ags: "or_agents st' = or_agents st @ map (\<lambda>(n, t, s). (new_id ''agt'' (envs n), new_agent (envs n) n s t)) ?new"
    unfolding seed_fleet_def by auto
  have names: "map ag_name created = map fst ?new"
    unfolding created by (auto simp: new_agent_def)
  have st': "agents st' = agents st @ created"
    unfolding agents_def ags created by auto
  have "set (map fst SEED_ROSTER) \<subseteq> set (map ag_name (agents st'))"
  proof
    fix n assume "n \<in> set (map fst SEED_ROSTER)"
    then have "n \<in> ?ex \<or> n \<in> set (map fst ?new)" by auto
    then show "n \<in> set (map ag_name (agents st'))" unfolding st' map_append set_append names [symmetric] by blast
  qed
  then have "fold (seed_step envs' (set (map ag_name (agents st')))) SEED_ROSTER ([], st') = ([], st')"
    by (intro seed_fold_all_present) auto
  then have "seed_fleet envs' st' = ([], st')" by (simp only: seed_fleet_def)
  moreover have "map fst ?new = filter (\<lambda>n. n \<notin> ag_name ` set (agents st)) (map fst SEED_ROSTER)"
    by (simp add: filter_map comp_def)
  ultimately show ?thesis using names st' by (simp only:)
qed

lemma seed_fleet_idempotent_witness:
  "let envs = (\<lambda>n. pool_env 0 n); (created, st') = seed_fleet envs sample_pool
   in map ag_name created = map fst SEED_ROSTER \<and> seed_fleet envs st' = ([], st')"
proof -
  have "fresh_envs (\<lambda>n. pool_env 0 n) sample_pool"
    by (simp add: fresh_envs_def pool_env_def sample_pool_def new_orchestrator_def)
  moreover obtain created st' where "seed_fleet (\<lambda>n. pool_env 0 n) sample_pool = (created, st')" by fastforce
  ultimately show ?thesis
    using seed_fleet_idempotent [of "\<lambda>n. pool_env 0 n" sample_pool created st' "\<lambda>n. pool_env 0 n"]
    by (simp add: sample_pool_def new_orchestrator_def agents_def)
qed

text \<open>
  A prompt that asks for a code review lists \<open>coding\<close> before \<open>code-review\<close>, so a caller that
  routes on the first tag treats it as plain coding.
\<close>
theorem code_review_routed_to_coding:
  "classify_skills ''Please do a code review'' = [''coding'', ''code-review'']"
  by (simp add: classify_skills_def SKILL_PATTERNS_def to_lower_def matches_here_def startswith_def word_char_def Let_def)

end
