(* ===== verification/Dry_Run.thy ===== *)
theory Dry_Run
  imports Render Append_Log
begin

text \<open>
  \<open>omni/simulation/runner.py\<close>: the dry-run sandbox. A plan is its decoded JSON: a missing key is
  \<open>None\<close>, an empty or absent \<open>error\<close> is no error. The \<open>NoopEffectBackend\<close> is its log, and applying an
  effect appends to it.
\<close>

section \<open>Plans and results\<close>

record plan_step =
  ps_name :: "string option"
  ps_duration_ms :: "real option"
  ps_error :: "string option"
  ps_effects :: "string list option"

record dry_plan =
  dp_name :: "string option"
  dp_steps :: "plan_step list option"

record effect_entry =
  ee_effect_type :: string
  ee_step :: int
  ee_plan :: string

definition DEFAULT_ALLOWED_EFFECTS :: "string list" where
  "DEFAULT_ALLOWED_EFFECTS =
     [''plan.validate'', ''plan.run'', ''config.write'', ''migration.apply'', ''migration.backfill'', ''index.create'',
      ''traffic.shift'', ''caches.invalidate'', ''files.write'', ''files.delete_staged'', ''script.echo'', ''infra.apply'',
      ''infra.simulate'', ''refactor.apply'', ''payment.authorize_stub'', ''email.preview'', ''logs.write'', ''state.write'',
      ''feature.flag'']"

definition backend_apply :: "string \<Rightarrow> int \<Rightarrow> string \<Rightarrow> effect_entry list \<Rightarrow> effect_entry list" where
  "backend_apply effect step plan entries = entries @ [\<lparr>ee_effect_type = effect, ee_step = step, ee_plan = plan\<rparr>]"

record step_result =
  sr_step :: int
  sr_name :: string
  sr_status :: string
  sr_effects_applied :: "string list"
  sr_duration_ms :: real
  sr_error :: "string option"
  sr_reason :: "string option"

record dry_result =
  dr_run_id :: string
  dr_domain :: string
  dr_verdict :: string
  dr_steps_total :: int
  dr_steps_ok :: int
  dr_steps_failed :: int
  dr_steps_skipped :: int
  dr_effects_total :: int
  dr_rejected_effects :: "string list"
  dr_timeout_hit :: bool
  dr_budget_reasons :: "string list"
  dr_simulated_duration_ms :: real
  dr_steps :: "step_result list"

record dry_executor =
  de_log :: "effect_entry list"
  de_allowed :: "string list"
  de_max_steps :: int
  de_timeout_s :: real
  de_max_effects :: int

definition new_dry_executor :: "string list option \<Rightarrow> int \<Rightarrow> real \<Rightarrow> int \<Rightarrow> dry_executor" where
  "new_dry_executor allowed max_steps timeout_s max_effects =
     \<lparr>de_log = [], de_allowed = (case allowed of None \<Rightarrow> DEFAULT_ALLOWED_EFFECTS | Some a \<Rightarrow> a),
      de_max_steps = max_steps, de_timeout_s = timeout_s, de_max_effects = max_effects\<rparr>"

section \<open>The run\<close>

record run_state =
  rs_clock :: real
  rs_effects_total :: int
  rs_rejected :: "string list"
  rs_reasons :: "string list"
  rs_timeout :: bool
  rs_exceeded :: bool
  rs_results :: "step_result list"
  rs_log :: "effect_entry list"

definition step_name :: "int \<Rightarrow> plan_step \<Rightarrow> string" where
  "step_name idx step = (case ps_name step of None \<Rightarrow> ''step-'' @ show_int (idx + 1) | Some n \<Rightarrow> n)"

definition step_result_of :: "int \<Rightarrow> plan_step \<Rightarrow> string \<Rightarrow> string list \<Rightarrow> real \<Rightarrow> string option \<Rightarrow> string option \<Rightarrow> step_result" where
  "step_result_of idx step status effects duration error reason =
     \<lparr>sr_step = idx, sr_name = step_name idx step, sr_status = status, sr_effects_applied = effects,
      sr_duration_ms = duration, sr_error = error, sr_reason = reason\<rparr>"

definition skip :: "int \<Rightarrow> plan_step \<Rightarrow> string \<Rightarrow> step_result" where
  "skip idx step reason = step_result_of idx step ''skipped'' [] 0 None (Some reason)"

definition add_result :: "step_result \<Rightarrow> run_state \<Rightarrow> run_state" where
  "add_result r s = s\<lparr>rs_results := rs_results s @ [r]\<rparr>"

fun apply_effects :: "int \<Rightarrow> int \<Rightarrow> string \<Rightarrow> string list \<Rightarrow> run_state \<Rightarrow> bool \<times> run_state" where
  \<comment> \<open>the loop over a step's effects: whether the effect budget stopped it\<close>
  "apply_effects max_effects idx plan [] s = (False, s)"
| "apply_effects max_effects idx plan (effect # effects) s =
     (if rs_effects_total s \<ge> max_effects
      then (True, s\<lparr>rs_exceeded := True, rs_reasons := rs_reasons s @ [''effect budget ('' @ show_int max_effects @ '') exceeded'']\<rparr>)
      else apply_effects max_effects idx plan effects
        (s\<lparr>rs_log := backend_apply effect idx plan (rs_log s), rs_effects_total := rs_effects_total s + 1\<rparr>))"

fun skip_rest :: "int \<Rightarrow> plan_step list \<Rightarrow> run_state \<Rightarrow> run_state" where
  "skip_rest idx [] s = s"
| "skip_rest idx (step # steps) s = skip_rest (idx + 1) steps (add_result (skip idx step ''effect budget exceeded'') s)"

definition bad_effects :: "string list \<Rightarrow> string list \<Rightarrow> string list" where
  "bad_effects allowed effects = sort (remdups (filter (\<lambda>e. e \<notin> set allowed) effects))"

definition run_effects :: "dry_executor \<Rightarrow> string \<Rightarrow> int \<Rightarrow> plan_step \<Rightarrow> plan_step list \<Rightarrow> real \<Rightarrow> run_state \<Rightarrow> bool \<times> run_state" where
  \<comment> \<open>a step without a declared error: its effects, and whether the loop over the steps ends here\<close>
  "run_effects ex plan idx step rest duration s =
     (let effects = (case ps_effects step of None \<Rightarrow> [] | Some es \<Rightarrow> es);
          bad = bad_effects (de_allowed ex) effects in
      if bad \<noteq> []
      then (False, add_result (step_result_of idx step ''failed'' [] duration
              (Some (''effect type(s) not allowed: '' @ join_with '', '' bad)) None) (s\<lparr>rs_rejected := rs_rejected s @ bad\<rparr>))
      else (let (abort, s') = apply_effects (de_max_effects ex) idx plan effects s in
        if abort then (True, skip_rest (idx + 1) rest (add_result (skip idx step ''effect budget exceeded'') s'))
        else (False, add_result (step_result_of idx step ''ok'' effects duration None None) s')))"

definition run_step :: "dry_executor \<Rightarrow> string \<Rightarrow> int \<Rightarrow> plan_step \<Rightarrow> plan_step list \<Rightarrow> run_state \<Rightarrow> bool \<times> run_state" where
  "run_step ex plan idx step rest s =
     (if idx \<ge> de_max_steps ex
      then (False, add_result (skip idx step ''step limit exceeded'')
        (s\<lparr>rs_exceeded := True, rs_reasons := rs_reasons s @ [''step limit ('' @ show_int (de_max_steps ex) @ '') exceeded'']\<rparr>))
      else
       (let duration = (case ps_duration_ms step of None \<Rightarrow> 0 | Some d \<Rightarrow> d); budget_ms = de_timeout_s ex * 1000 in
        if rs_clock s + duration > budget_ms
        then (True, add_result (skip idx step ''timeout'')
          (s\<lparr>rs_timeout := True, rs_reasons := rs_reasons s @
             [''simulated timeout at '' @ show_fixed 0 (rs_clock s) @ ''ms (budget '' @ show_fixed 0 budget_ms @ ''ms)'']\<rparr>))
        else
         (let s1 = s\<lparr>rs_clock := rs_clock s + duration\<rparr> in
          if (case ps_error step of None \<Rightarrow> False | Some err \<Rightarrow> err \<noteq> [])
          then (False, add_result (step_result_of idx step ''failed'' [] duration (ps_error step) None) s1)
          else run_effects ex plan idx step rest duration s1)))"

fun run_steps :: "dry_executor \<Rightarrow> string \<Rightarrow> int \<Rightarrow> plan_step list \<Rightarrow> run_state \<Rightarrow> run_state" where
  "run_steps ex plan idx [] s = s"
| "run_steps ex plan idx (step # steps) s =
     (let (stop, s') = run_step ex plan idx step steps s
      in if stop then s' else run_steps ex plan (idx + 1) steps s')"

definition start_run :: "dry_executor \<Rightarrow> run_state" where
  "start_run ex = \<lparr>rs_clock = 0, rs_effects_total = 0, rs_rejected = [], rs_reasons = [], rs_timeout = False,
     rs_exceeded = False, rs_results = [], rs_log = de_log ex\<rparr>"

definition count_status :: "string \<Rightarrow> step_result list \<Rightarrow> int" where
  "count_status status rs = int (length (filter (\<lambda>r. sr_status r = status) rs))"

definition verdict_of :: "run_state \<Rightarrow> string" where
  "verdict_of s =
     (if count_status ''failed'' (rs_results s) > 0 \<or> rs_rejected s \<noteq> [] then ''has_failures''
      else if rs_exceeded s \<or> rs_timeout s then ''budget_exceeded'' else ''clean'')"

definition dry_run :: "env \<Rightarrow> dry_plan \<Rightarrow> string \<Rightarrow> dry_executor \<Rightarrow> (dry_result \<times> dry_executor) result" where
  "dry_run env plan domain ex =
     (case dp_steps plan of
        None \<Rightarrow> Inl (ValueError ''plan must contain a non-empty steps list'')
      | Some steps \<Rightarrow>
          if steps = [] then Inl (ValueError ''plan must contain a non-empty steps list'')
          else (let s = run_steps ex (case dp_name plan of None \<Rightarrow> [] | Some n \<Rightarrow> n) 0 steps (start_run ex) in
            Inr (\<lparr>dr_run_id = new_id ''dryrun'' env, dr_domain = domain, dr_verdict = verdict_of s,
              dr_steps_total = int (length steps), dr_steps_ok = count_status ''ok'' (rs_results s),
              dr_steps_failed = count_status ''failed'' (rs_results s), dr_steps_skipped = count_status ''skipped'' (rs_results s),
              dr_effects_total = rs_effects_total s, dr_rejected_effects = rs_rejected s, dr_timeout_hit = rs_timeout s,
              dr_budget_reasons = rs_reasons s, dr_simulated_duration_ms = rs_clock s, dr_steps = rs_results s\<rparr>,
             ex\<lparr>de_log := rs_log s\<rparr>)))"

section \<open>Reports\<close>

definition dump_step :: "step_result \<Rightarrow> pyval" where
  "dump_step r = PDict
     [(''step'', PInt (sr_step r)), (''name'', PStr (sr_name r)), (''status'', PStr (sr_status r)),
      (''effects_applied'', PList (map PStr (sr_effects_applied r))), (''duration_ms'', PFloat (py_round (sr_duration_ms r) 2)),
      (''error'', case sr_error r of None \<Rightarrow> PNone | Some e \<Rightarrow> PStr e),
      (''reason'', case sr_reason r of None \<Rightarrow> PNone | Some e \<Rightarrow> PStr e)]"

definition dump_dry_result :: "dry_result \<Rightarrow> pyval" where
  "dump_dry_result d = PDict
     [(''run_id'', PStr (dr_run_id d)), (''domain'', PStr (dr_domain d)), (''verdict'', PStr (dr_verdict d)),
      (''steps_total'', PInt (dr_steps_total d)), (''steps_ok'', PInt (dr_steps_ok d)), (''steps_failed'', PInt (dr_steps_failed d)),
      (''steps_skipped'', PInt (dr_steps_skipped d)), (''effects_total'', PInt (dr_effects_total d)),
      (''rejected_effects'', PList (map PStr (dr_rejected_effects d))), (''timeout_hit'', PBool (dr_timeout_hit d)),
      (''budget_reasons'', PList (map PStr (dr_budget_reasons d))),
      (''simulated_duration_ms'', PFloat (py_round (dr_simulated_duration_ms d) 2)), (''steps'', PList (map dump_step (dr_steps d)))]"

end
