(* ===== verification/Simulation.thy ===== *)
theory Simulation
  imports Policy_Contracts
begin

text \<open>
  \<open>omni/contracts/simulation.py\<close> and \<open>omni/simulation/engine.py\<close>: the risk model of a domain, the
  confidence and risk level of an action, and the approval of paused actions. The results are
  objects that \<open>approve\<close> mutates; the model keeps them in the list of the sandbox.
\<close>

record simulation_result =
  sm_id :: string
  sm_action :: string
  sm_domain :: string
  sm_risk_score :: real
  sm_risk_level :: risk_level
  sm_predicted_failures :: "string list"
  sm_side_effects :: "string list"
  sm_rollback_plan :: "string list"
  sm_alternatives :: "string list"
  sm_confidence :: real
  sm_recommended_plan :: string
  sm_needs_approval :: bool
  sm_approval_reason :: string
  sm_approved_by :: "string option"
  sm_created_at :: string
  sm_params :: "(string, pyval) dict"

record domain_model =
  dm_base_risk :: real
  dm_blast_radius :: real
  dm_failures :: "string list"
  dm_side_effects :: "string list"
  dm_rollback :: "string list"
  dm_always_approve :: bool

definition domain_model_of :: "real \<Rightarrow> real \<Rightarrow> string list \<Rightarrow> string list \<Rightarrow> string list \<Rightarrow> bool \<Rightarrow> domain_model" where
  "domain_model_of base blast failures side_effects rollback always =
     \<lparr>dm_base_risk = base, dm_blast_radius = blast, dm_failures = failures, dm_side_effects = side_effects,
      dm_rollback = rollback, dm_always_approve = always\<rparr>"

definition SIMULATION_DOMAINS :: "(string, domain_model) dict" where
  "SIMULATION_DOMAINS =
     [(''deploy'', domain_model_of (1 / 4) 1
        [''config drift between environments'', ''container image pull failure'', ''partial rollout exposing incompatible schema'']
        [''traffic shifted to new pods'', ''caches invalidated'', ''observability dashboards refresh'']
        [''scale previous release back up'', ''re-point ingress to previous canary'', ''restore manifest snapshot''] False),
      (''db_migration'', domain_model_of (9 / 20) (7 / 5)
        [''locking contention on the target table'', ''row count mismatch after backfill'', ''index build timeout'']
        [''schema lock held'', ''WAL growth'', ''replication lag'']
        [''apply compensating migration'', ''restore from pre-migration backup'', ''feature-flag off the new path''] False),
      (''file_delete'', domain_model_of (1 / 5) (3 / 5)
        [''undeleted references still pointing at the files'', ''backup lag means no viable copy'']
        [''disk space freed'', ''search index entries orphaned'']
        [''restore from trash/backup'', ''re-link references from manifest''] True),
      (''script_run'', domain_model_of (3 / 20) (1 / 2)
        [''unhandled exception mid-run leaves partial state'', ''environment variables missing'']
        [''logs written'', ''temp files created'', ''shared cache mutated'']
        [''re-run from checkpoint'', ''delete produced artifacts''] False),
      (''infra_change'', domain_model_of (7 / 20) (6 / 5)
        [''capacity re-sizing drops below burst demand'', ''firewall rule typo interrupts ingress'']
        [''instances recycled'', ''DNS propagation'', ''public IP changes'']
        [''apply previous terraform state'', ''revert security-group diff''] False),
      (''refactor'', domain_model_of (1 / 5) (7 / 10)
        [''behavioral drift in edge cases'', ''public API signature breakage'']
        [''coverage report changes'', ''dependency graph rewritten'']
        [''git revert of the refactor commit'', ''restore previous package artifact''] False),
      (''payment'', domain_model_of (7 / 10) (8 / 5)
        [''double charge on idempotency miss'', ''gateway timeout after authorization'', ''currency conversion mismatch'']
        [''ledger entries created'', ''invoice emailed'', ''bank reconciliation affected'']
        [''issue refund transaction'', ''void authorization'', ''flag for manual reconciliation''] True),
      (''email_campaign'', domain_model_of (3 / 10) 1
        [''template variable renders empty'', ''segment filter over-includes'', ''deliverability warm-up exceeded'']
        [''campaign metric dashboards update'', ''unsubscribe list changes'']
        [''pause send pipeline'', ''send corrective email'', ''adjust segment definition''] False)]"

record sandbox =
  sb_confidence_threshold :: real
  sb_domains :: "(string, domain_model) dict"
  sb_results :: "simulation_result list"

definition new_sandbox :: "real \<Rightarrow> (string, domain_model) dict \<Rightarrow> sandbox" where
  "new_sandbox threshold domains =
     \<lparr>sb_confidence_threshold = threshold, sb_domains = (if domains = [] then SIMULATION_DOMAINS else domains), sb_results = []\<rparr>"

definition py_float :: "(string \<Rightarrow> real option) \<Rightarrow> pyval \<Rightarrow> real result" where
  \<comment> \<open>\<open>float(v)\<close>; the parsing of a text is an argument\<close>
  "py_float parse v = (case v of
     PStr s \<Rightarrow> (case parse s of None \<Rightarrow> Inl (ValueError ''could not convert string to float'') | Some x \<Rightarrow> Inr x)
   | _ \<Rightarrow> (case py_num v of None \<Rightarrow> Inl TypeError | Some x \<Rightarrow> Inr x))"

definition risk_of :: "domain_model \<Rightarrow> real \<Rightarrow> bool \<Rightarrow> bool \<Rightarrow> real" where
  "risk_of model sz reversible sensitive =
     (let r0 = min (95 / 100) (dm_base_risk model * dm_blast_radius model * (6 / 10 + 4 / 10 * sz));
          r1 = (if \<not> reversible then min (95 / 100) (r0 + 15 / 100) else r0)
      in if sensitive then min (95 / 100) (r1 + 1 / 10) else r1)"

definition level_of :: "real \<Rightarrow> risk_level" where
  "level_of confidence =
     (if confidence \<ge> 85 / 100 then LOW else if confidence \<ge> 7 / 10 then MEDIUM
      else if confidence \<ge> 5 / 10 then HIGH else CRITICAL)"

definition alternatives_of :: "string \<Rightarrow> string list" where
  "alternatives_of domain =
     (let s0 = [''run inside isolated staging environment'', ''execute with feature flag off for 24h observation'',
                ''limit blast radius to 1% canary first''];
          s1 = (if domain = ''payment'' then s0[1 := ''process a $1 micro-transaction end-to-end first''] else s0);
          s2 = (if domain = ''db_migration'' then s1[2 := ''expand-contract: add new column, backfill, then swap read path''] else s1)
      in if domain = ''file_delete'' then s2[1 := ''move to trash with 30-day retention instead of hard delete''] else s2)"

definition simulate :: "(string \<Rightarrow> real option) \<Rightarrow> env \<Rightarrow> string \<Rightarrow> string \<Rightarrow> (string, pyval) dict \<Rightarrow> sandbox \<Rightarrow>
    (simulation_result \<times> sandbox) result" where
  "simulate parse env action domain params sb =
     (case dict_get (sb_domains sb) domain of
        None \<Rightarrow> Inl (KeyError (''unknown simulation domain '' @ quoted domain))
      | Some model \<Rightarrow>
          (case py_float parse (get_or params ''size'' (PInt 1)) of
             Inl err \<Rightarrow> Inl err
           | Inr sz \<Rightarrow>
               (let risk = risk_of model sz (truthy (get_or params ''reversible'' (PBool True)))
                      (truthy (get_or params ''sensitive_data'' (PBool False)));
                    confidence = py_round (max 0 (1 - risk)) 3;
                    needs = dm_always_approve model \<or> confidence < sb_confidence_threshold sb;
                    res = \<lparr>sm_id = new_id ''sim'' env, sm_action = action, sm_domain = domain, sm_risk_score = py_round risk 3,
                      sm_risk_level = level_of confidence, sm_predicted_failures = dm_failures model,
                      sm_side_effects = dm_side_effects model, sm_rollback_plan = dm_rollback model,
                      sm_alternatives = alternatives_of domain, sm_confidence = confidence,
                      sm_recommended_plan = (if needs then ''pause_for_approval'' else ''proceed''), sm_needs_approval = needs,
                      sm_approval_reason = (if dm_always_approve model
                        then ''payment/file-delete domain requires human approval by policy''
                        else ''confidence '' @ show_fixed 2 confidence @ '' below threshold '' @ show_fixed 2 (sb_confidence_threshold sb)),
                      sm_approved_by = None, sm_created_at = env_stamp env, sm_params = params\<rparr>
                in Inr (res, sb\<lparr>sb_results := sb_results sb @ [res]\<rparr>))))"

definition sim_approve :: "string \<Rightarrow> string \<Rightarrow> sandbox \<Rightarrow> (simulation_result \<times> sandbox) result" where
  "sim_approve simulation_id approver sb =
     (case find (\<lambda>r. sm_id r = simulation_id) (sb_results sb) of
        None \<Rightarrow> Inl (KeyError (''no simulation '' @ quoted simulation_id))
      | Some r \<Rightarrow>
          if \<not> sm_needs_approval r then Inl (ValueError ''simulation did not request approval'')
          else (let r' = r\<lparr>sm_needs_approval := False, sm_approved_by := Some approver,
                  sm_recommended_plan := ''proceed (human approved)''\<rparr>
                in Inr (r', sb\<lparr>sb_results := replace_first (\<lambda>r. sm_id r = simulation_id) (\<lambda>_. r') (sb_results sb)\<rparr>)))"

definition sim_history :: "sandbox \<Rightarrow> simulation_result list" where
  "sim_history sb = sb_results sb"

end
