(* ===== verification/Simulation_Properties.thy ===== *)
theory Simulation_Properties
  imports Dry_Run Simulation
begin

text \<open>
  The properties of the dry-run sandbox and of the simulation sandbox (\<open>omni/simulation\<close>).
\<close>

section \<open>The dry run's invariant\<close>

definition statuses_ok :: "run_state \<Rightarrow> bool" where
  \<comment> \<open>a step is skipped exactly when a budget was hit, and an effect is rejected only in a failed step\<close>
  "statuses_ok s \<longleftrightarrow> (\<forall>r \<in> set (rs_results s). sr_status r \<in> {''ok'', ''failed'', ''skipped''}) \<and>
     ((\<exists>r \<in> set (rs_results s). sr_status r = ''skipped'') \<longleftrightarrow> rs_exceeded s \<or> rs_timeout s) \<and>
     (rs_rejected s \<noteq> [] \<longrightarrow> (\<exists>r \<in> set (rs_results s). sr_status r = ''failed''))"

definition effects_ok :: "dry_executor \<Rightarrow> run_state \<Rightarrow> bool" where
  "effects_ok ex s \<longleftrightarrow> 0 \<le> rs_effects_total s \<and> rs_effects_total s \<le> max 0 (de_max_effects ex) \<and>
     (\<exists>es. rs_log s = de_log ex @ es \<and> int (length es) = rs_effects_total s \<and>
        (\<forall>e \<in> set es. ee_effect_type e \<in> set (de_allowed ex) \<and> ee_step e < de_max_steps ex)) \<and>
     rs_clock s \<le> max 0 (de_timeout_s ex * 1000)"

definition run_inv :: "dry_executor \<Rightarrow> int \<Rightarrow> run_state \<Rightarrow> bool" where
  \<comment> \<open>the first \<open>n\<close> steps have their result\<close>
  "run_inv ex n s \<longleftrightarrow> map sr_step (rs_results s) = [0..n - 1] \<and> statuses_ok s \<and> effects_ok ex s"

lemma step_result_of_simps [simp]:
  "sr_step (step_result_of idx step status effects duration err reason) = idx"
  "sr_status (step_result_of idx step status effects duration err reason) = status"
  "sr_step (skip idx step why) = idx" "sr_status (skip idx step why) = ''skipped''"
  by (simp_all add: step_result_of_def skip_def)

lemma add_result_frame [simp]:
  "rs_clock (add_result r s) = rs_clock s" "rs_effects_total (add_result r s) = rs_effects_total s"
  "rs_rejected (add_result r s) = rs_rejected s" "rs_timeout (add_result r s) = rs_timeout s"
  "rs_exceeded (add_result r s) = rs_exceeded s" "rs_log (add_result r s) = rs_log s"
  "rs_results (add_result r s) = rs_results s @ [r]"
  by (simp_all add: add_result_def)

lemma effects_ok_cong:
  "effects_ok ex s \<Longrightarrow> rs_log s' = rs_log s \<Longrightarrow> rs_effects_total s' = rs_effects_total s \<Longrightarrow>
   rs_clock s' \<le> max 0 (de_timeout_s ex * 1000) \<Longrightarrow> effects_ok ex s'"
  by (simp add: effects_ok_def)

lemma effects_ok_clock: "effects_ok ex s \<Longrightarrow> rs_clock s \<le> max 0 (de_timeout_s ex * 1000)"
  by (simp add: effects_ok_def)

lemma run_inv_add:
  assumes "run_inv ex n s" "0 \<le> n" "rs_results s' = rs_results s @ [r]" "sr_step r = n" "effects_ok ex s'"
    and "sr_status r = ''ok'' \<and> rs_exceeded s' = rs_exceeded s \<and> rs_timeout s' = rs_timeout s \<and> rs_rejected s' = rs_rejected s \<or>
      sr_status r = ''failed'' \<and> rs_exceeded s' = rs_exceeded s \<and> rs_timeout s' = rs_timeout s \<or>
      sr_status r = ''skipped'' \<and> (rs_exceeded s' \<or> rs_timeout s') \<and> rs_rejected s' = rs_rejected s"
  shows "run_inv ex (n + 1) s'"
proof -
  have "[0..n] = [0..n - 1] @ [n]" using assms(2) by (subst upto_rec2) simp_all
  moreover have "statuses_ok s'"
    using assms(1,3,6) by (auto simp: run_inv_def statuses_ok_def)
  ultimately show ?thesis using assms by (simp add: run_inv_def)
qed

lemma apply_effects_ok:
  assumes "effects_ok ex s" "idx < de_max_steps ex" "\<forall>e \<in> set effects. e \<in> set (de_allowed ex)"
    and "apply_effects (de_max_effects ex) idx plan effects s = (abort, s')"
  shows "effects_ok ex s' \<and> rs_results s' = rs_results s \<and> rs_timeout s' = rs_timeout s \<and>
    rs_rejected s' = rs_rejected s \<and> rs_exceeded s' = (rs_exceeded s \<or> abort)"
  using assms(1,3,4)
proof (induction effects arbitrary: s)
  case (Cons e effects)
  show ?case
  proof (cases "rs_effects_total s \<ge> de_max_effects ex")
    case True
    with Cons.prems show ?thesis by (auto intro: effects_ok_cong [of ex s] simp: effects_ok_clock)
  next
    case False
    let ?s = "s\<lparr>rs_log := backend_apply e idx plan (rs_log s), rs_effects_total := rs_effects_total s + 1\<rparr>"
    have "effects_ok ex ?s"
      using Cons.prems(1,2) False assms(2) by (force simp: effects_ok_def backend_apply_def)
    with Cons.IH [of ?s] Cons.prems False show ?thesis by simp
  qed
qed simp

lemma skip_rest_inv:
  "run_inv ex n s \<Longrightarrow> 0 \<le> n \<Longrightarrow> rs_exceeded s \<Longrightarrow> run_inv ex (n + int (length steps)) (skip_rest n steps s) \<and>
     rs_timeout (skip_rest n steps s) = rs_timeout s"
proof (induction steps arbitrary: n s)
  case (Cons step steps)
  let ?s = "add_result (skip n step ''effect budget exceeded'') s"
  have "run_inv ex (n + 1) ?s"
    using Cons.prems by (intro run_inv_add [OF Cons.prems(1,2), of _ "skip n step ''effect budget exceeded''"])
      (auto simp: run_inv_def effects_ok_clock intro: effects_ok_cong [of ex s])
  with Cons.IH [of "n + 1" ?s] Cons.prems show ?case by (simp add: add.assoc)
qed simp

lemma run_step_inv:
  assumes "run_inv ex idx s" "0 \<le> idx" "run_step ex plan idx step rest s = (stop, s')" "\<not> rs_timeout s"
  shows "if \<not> stop then run_inv ex (idx + 1) s' \<and> \<not> rs_timeout s'
    else if rs_timeout s' then run_inv ex (idx + 1) s' else run_inv ex (idx + 1 + int (length rest)) s'"
proof -
  have ok: "effects_ok ex s" using assms(1) by (simp add: run_inv_def)
  define duration where "duration = (case ps_duration_ms step of None \<Rightarrow> 0 | Some d \<Rightarrow> d)"
  define s1 where "s1 = s\<lparr>rs_clock := rs_clock s + duration\<rparr>"
  consider (limit) "de_max_steps ex \<le> idx" | (timeout) "idx < de_max_steps ex" "rs_clock s + duration > de_timeout_s ex * 1000"
    | (go) "idx < de_max_steps ex" "rs_clock s + duration \<le> de_timeout_s ex * 1000" by linarith
  then show ?thesis
  proof cases
    case limit
    then have "\<not> stop" "s' = add_result (skip idx step ''step limit exceeded'')
        (s\<lparr>rs_exceeded := True, rs_reasons := rs_reasons s @ [''step limit ('' @ show_int (de_max_steps ex) @ '') exceeded'']\<rparr>)"
      using assms(3) by (simp_all add: run_step_def)
    moreover from this(2) ok have "run_inv ex (idx + 1) s'"
      by (intro run_inv_add [OF assms(1,2), of _ "skip idx step ''step limit exceeded''"])
        (auto simp: effects_ok_clock intro: effects_ok_cong [of ex s])
    ultimately show ?thesis using assms(4) by simp
  next
    case timeout
    then have "stop" "rs_timeout s'" "rs_results s' = rs_results s @ [skip idx step ''timeout'']"
        "rs_rejected s' = rs_rejected s" "rs_log s' = rs_log s" "rs_effects_total s' = rs_effects_total s" "rs_clock s' = rs_clock s"
      using assms(3) by (auto simp: run_step_def Let_def duration_def)
    moreover from this ok have "run_inv ex (idx + 1) s'"
      by (intro run_inv_add [OF assms(1,2), of _ "skip idx step ''timeout''"])
        (auto simp: effects_ok_clock intro: effects_ok_cong [of ex s])
    ultimately show ?thesis by simp
  next
    case go
    have ok1: "effects_ok ex s1" and inv1: "run_inv ex idx s1"
      using ok go assms(1) by (auto simp: s1_def run_inv_def statuses_ok_def intro: effects_ok_cong [of ex s])
    show ?thesis
    proof (cases "case ps_error step of None \<Rightarrow> False | Some err \<Rightarrow> err \<noteq> []")
      case True
      then have eq: "\<not> stop" "s' = add_result (step_result_of idx step ''failed'' [] duration (ps_error step) None) s1"
        using assms(3) go by (simp_all add: run_step_def Let_def duration_def s1_def)
      then have "run_inv ex (idx + 1) s'"
        using ok1 by (intro run_inv_add [OF inv1 assms(2), of _ "step_result_of idx step ''failed'' [] duration (ps_error step) None"])
          (auto simp: effects_ok_clock intro: effects_ok_cong [of ex s1])
      with eq assms(4) show ?thesis by (simp add: s1_def)
    next
      case False
      then have run: "run_effects ex plan idx step rest duration s1 = (stop, s')"
        using assms(3) go by (simp add: run_step_def Let_def duration_def s1_def)
      define effects where "effects = (case ps_effects step of None \<Rightarrow> [] | Some es \<Rightarrow> es)"
      show ?thesis
      proof (cases "bad_effects (de_allowed ex) effects = []")
        case False
        define r where "r = step_result_of idx step ''failed'' [] duration
          (Some (''effect type(s) not allowed: '' @ join_with '', '' (bad_effects (de_allowed ex) effects))) None"
        have eq: "\<not> stop" "s' = add_result r (s1\<lparr>rs_rejected := rs_rejected s1 @ bad_effects (de_allowed ex) effects\<rparr>)"
          using run False by (simp_all add: run_effects_def Let_def effects_def r_def)
        then have "run_inv ex (idx + 1) s'"
          using ok1 by (intro run_inv_add [OF inv1 assms(2), of _ r])
            (auto simp: r_def effects_ok_clock intro: effects_ok_cong [of ex s1])
        with eq assms(4) show ?thesis by (simp add: s1_def)
      next
        case True
        then have allowed: "\<forall>e \<in> set effects. e \<in> set (de_allowed ex)"
          by (auto simp: bad_effects_def filter_empty_conv dest: arg_cong [where f = set])
        obtain abort s2 where s2: "apply_effects (de_max_effects ex) idx plan effects s1 = (abort, s2)" by fastforce
        note e = apply_effects_ok [OF ok1 go(1) allowed s2]
        show ?thesis
        proof (cases abort)
          case True
          with run s2 \<open>bad_effects (de_allowed ex) effects = []\<close>
          have eq: "stop" "s' = skip_rest (idx + 1) rest (add_result (skip idx step ''effect budget exceeded'') s2)"
            by (simp_all add: run_effects_def Let_def effects_def)
          have "run_inv ex (idx + 1) (add_result (skip idx step ''effect budget exceeded'') s2)"
            using e True by (intro run_inv_add [OF inv1 assms(2), of _ "skip idx step ''effect budget exceeded''"])
              (auto simp: effects_ok_clock intro: effects_ok_cong [of ex s2])
          from skip_rest_inv [OF this, of rest] eq e True assms(2,4) show ?thesis by (simp add: s1_def)
        next
          case False
          with run s2 \<open>bad_effects (de_allowed ex) effects = []\<close>
          have eq: "\<not> stop" "s' = add_result (step_result_of idx step ''ok'' effects duration None None) s2"
            by (simp_all add: run_effects_def Let_def effects_def)
          then have "run_inv ex (idx + 1) s'"
            using e False by (intro run_inv_add [OF inv1 assms(2), of _ "step_result_of idx step ''ok'' effects duration None None"])
              (auto simp: effects_ok_clock intro: effects_ok_cong [of ex s2])
          with eq e assms(4) show ?thesis by (simp add: s1_def)
        qed
      qed
    qed
  qed
qed

lemma run_steps_inv:
  assumes "run_inv ex idx s" "0 \<le> idx" "\<not> rs_timeout s"
  shows "\<exists>n. run_inv ex n (run_steps ex plan idx steps s) \<and> 0 \<le> n \<and> n \<le> idx + int (length steps) \<and>
    (\<not> rs_timeout (run_steps ex plan idx steps s) \<longrightarrow> n = idx + int (length steps))"
  using assms
proof (induction steps arbitrary: idx s)
  case (Cons step steps)
  obtain stop s' where s': "run_step ex plan idx step steps s = (stop, s')" by fastforce
  note step = run_step_inv [OF Cons.prems(1,2) s' Cons.prems(3)]
  show ?case
  proof (cases stop)
    case True
    define n where "n = (if rs_timeout s' then idx + 1 else idx + 1 + int (length steps))"
    have "run_inv ex n s'" using step True by (simp add: n_def split: if_splits)
    with True s' Cons.prems(2) show ?thesis by (intro exI [of _ n]) (simp add: n_def)
  next
    case False
    with step Cons.IH [of "idx + 1" s'] Cons.prems(2) s' show ?thesis by (auto simp: add.assoc)
  qed
qed (use assms in auto)

lemma start_run_inv: "run_inv ex 0 (start_run ex) \<and> \<not> rs_timeout (start_run ex)"
  by (simp add: run_inv_def statuses_ok_def effects_ok_def start_run_def)

section \<open>Dry runs\<close>

definition sim_env :: "string \<Rightarrow> env" where
  "sim_env uuid = \<lparr>env_time = 0, env_stamp = [], env_uuid = uuid\<rparr>"

definition sample_executor :: dry_executor where
  "sample_executor = new_dry_executor None 50 30 250"

definition sample_plan :: dry_plan where
  "sample_plan = \<lparr>dp_name = Some ''p'', dp_steps = Some
     [\<lparr>ps_name = None, ps_duration_ms = Some 10, ps_error = None, ps_effects = Some [''logs.write'']\<rparr>,
      \<lparr>ps_name = None, ps_duration_ms = None, ps_error = None, ps_effects = Some [''rm'']\<rparr>]\<rparr>"

lemma dry_run_state:
  assumes "dry_run env plan domain ex = Inr (res, ex')"
  obtains steps s n where "dp_steps plan = Some steps" "run_inv ex n s" "0 \<le> n" "n \<le> int (length steps)"
    "\<not> rs_timeout s \<longrightarrow> n = int (length steps)" "de_log ex' = rs_log s" "dr_effects_total res = rs_effects_total s"
    "dr_simulated_duration_ms res = rs_clock s" "dr_steps res = rs_results s" "dr_timeout_hit res = rs_timeout s"
    "dr_verdict res = verdict_of s" "dr_steps_total res = int (length steps)"
    "dr_steps_ok res = count_status ''ok'' (rs_results s)" "dr_steps_failed res = count_status ''failed'' (rs_results s)"
    "dr_steps_skipped res = count_status ''skipped'' (rs_results s)"
proof -
  obtain steps where steps: "dp_steps plan = Some steps" "steps \<noteq> []"
    using assms by (auto simp: dry_run_def split: option.splits if_splits)
  let ?s = "run_steps ex (case dp_name plan of None \<Rightarrow> [] | Some n \<Rightarrow> n) 0 steps (start_run ex)"
  obtain n where "run_inv ex n ?s" "0 \<le> n" "n \<le> int (length steps)" "\<not> rs_timeout ?s \<longrightarrow> n = int (length steps)"
    using run_steps_inv [of ex 0 "start_run ex" "case dp_name plan of None \<Rightarrow> [] | Some n \<Rightarrow> n" steps] start_run_inv by auto
  then show ?thesis
    using assms steps by (intro that [of steps n ?s]) (auto simp: dry_run_def Let_def)
qed

lemma count_status_total:
  "(\<forall>r \<in> set rs. sr_status r \<in> {''ok'', ''failed'', ''skipped''}) \<Longrightarrow>
     count_status ''ok'' rs + count_status ''failed'' rs + count_status ''skipped'' rs = int (length rs)"
  by (induction rs) (auto simp: count_status_def)

lemma count_status_zero: "count_status st rs = 0 \<longleftrightarrow> (\<forall>r \<in> set rs. sr_status r \<noteq> st)"
  by (auto simp: count_status_def filter_empty_conv)

lemma count_status_pos: "0 < count_status st rs \<longleftrightarrow> count_status st rs \<noteq> 0"
  by (simp add: count_status_def)

lemma count_status_nonneg: "0 \<le> count_status st rs"
  by (simp add: count_status_def)

text \<open>
  C32. A dry run stays inside its sandbox: it appends to the backend's log exactly the effects it
  counts, each of an allowed type and from a step below the step limit, at most \<open>max_effects\<close> of
  them, and its simulated clock stays within the time budget.
\<close>
theorem dry_run_sandboxed:
  assumes "dry_run env plan domain ex = Inr (res, ex')"
  shows "\<exists>es. de_log ex' = de_log ex @ es \<and> int (length es) = dr_effects_total res \<and>
    (\<forall>e \<in> set es. ee_effect_type e \<in> set (de_allowed ex) \<and> ee_step e < de_max_steps ex) \<and>
    dr_effects_total res \<le> max 0 (de_max_effects ex) \<and> dr_simulated_duration_ms res \<le> max 0 (de_timeout_s ex * 1000)"
  using assms
proof (rule dry_run_state)
  fix steps s n
  assume "run_inv ex n s" "de_log ex' = rs_log s" "dr_effects_total res = rs_effects_total s"
    "dr_simulated_duration_ms res = rs_clock s"
  then show ?thesis by (auto simp: run_inv_def effects_ok_def)
qed

lemma dry_run_sandboxed_witness:
  "\<exists>res ex'. dry_run (sim_env []) sample_plan ''generic'' sample_executor = Inr (res, ex') \<and> dr_effects_total res \<le> 250"
proof -
  obtain res ex' where r: "dry_run (sim_env []) sample_plan ''generic'' sample_executor = Inr (res, ex')"
    by (simp add: dry_run_def sample_plan_def Let_def)
  then show ?thesis using dry_run_sandboxed [OF r] by (auto simp: sample_executor_def new_dry_executor_def)
qed

text \<open>
  The report accounts for the steps: it lists one result per step from the first on, without
  gaps, the three counts add up to its length, it lists all steps unless the simulated time ran
  out, and the verdict is \<open>clean\<close> exactly when every step of the plan is \<open>ok\<close>.
\<close>
theorem dry_run_accounts:
  assumes "dry_run env plan domain ex = Inr (res, ex')"
  shows "map sr_step (dr_steps res) = [0..int (length (dr_steps res)) - 1] \<and>
    dr_steps_ok res + dr_steps_failed res + dr_steps_skipped res = int (length (dr_steps res)) \<and>
    int (length (dr_steps res)) \<le> dr_steps_total res \<and>
    (\<not> dr_timeout_hit res \<longrightarrow> int (length (dr_steps res)) = dr_steps_total res) \<and>
    (dr_verdict res = ''clean'' \<longleftrightarrow> dr_steps_ok res = dr_steps_total res)"
  using assms
proof (rule dry_run_state)
  fix steps s n
  assume n: "run_inv ex n s" "0 \<le> n" "n \<le> int (length steps)" "\<not> rs_timeout s \<longrightarrow> n = int (length steps)"
    and res: "dr_steps res = rs_results s" "dr_timeout_hit res = rs_timeout s" "dr_verdict res = verdict_of s"
      "dr_steps_total res = int (length steps)" "dr_steps_ok res = count_status ''ok'' (rs_results s)"
      "dr_steps_failed res = count_status ''failed'' (rs_results s)"
      "dr_steps_skipped res = count_status ''skipped'' (rs_results s)"
  have len: "int (length (rs_results s)) = n"
  proof -
    have "length (map sr_step (rs_results s)) = length [0..n - 1]" using n(1) by (simp only: run_inv_def)
    with n(2) show ?thesis by simp
  qed
  have st: "statuses_ok s" using n(1) by (simp add: run_inv_def)
  then have tot: "count_status ''ok'' (rs_results s) + count_status ''failed'' (rs_results s) + count_status ''skipped'' (rs_results s) = n"
    using count_status_total [of "rs_results s"] len by (simp add: statuses_ok_def)
  have skip: "count_status ''skipped'' (rs_results s) = 0 \<longleftrightarrow> \<not> (rs_exceeded s \<or> rs_timeout s)"
    using st by (auto simp: statuses_ok_def count_status_zero)
  have fail: "rs_rejected s \<noteq> [] \<Longrightarrow> count_status ''failed'' (rs_results s) \<noteq> 0"
    using st by (auto simp: statuses_ok_def count_status_zero)
  have "verdict_of s = ''clean'' \<longleftrightarrow> count_status ''failed'' (rs_results s) = 0 \<and> \<not> (rs_exceeded s \<or> rs_timeout s)"
    using fail by (auto simp: verdict_of_def count_status_pos)
  moreover have "0 \<le> count_status ''failed'' (rs_results s)" "0 \<le> count_status ''skipped'' (rs_results s)"
    by (rule count_status_nonneg)+
  ultimately have "verdict_of s = ''clean'' \<longleftrightarrow> count_status ''ok'' (rs_results s) = int (length steps)"
    using skip tot n by linarith
  with n res len tot show ?thesis by (auto simp: run_inv_def)
qed

lemma dry_run_accounts_witness:
  "\<exists>res ex'. dry_run (sim_env []) sample_plan ''generic'' sample_executor = Inr (res, ex') \<and>
     dr_steps_ok res + dr_steps_failed res + dr_steps_skipped res = int (length (dr_steps res))"
proof -
  obtain res ex' where r: "dry_run (sim_env []) sample_plan ''generic'' sample_executor = Inr (res, ex')"
    by (simp add: dry_run_def sample_plan_def Let_def)
  then show ?thesis using dry_run_accounts [OF r] by blast
qed

section \<open>The simulation sandbox\<close>

datatype sim_cmd =
    Simulate env string string "(string, pyval) dict"
  | ApproveSim string string

fun sim_step :: "(string \<Rightarrow> real option) \<Rightarrow> sim_cmd \<Rightarrow> sandbox \<Rightarrow> sandbox" where
  "sim_step parse (Simulate env action domain params) sb =
     (case simulate parse env action domain params sb of Inl _ \<Rightarrow> sb | Inr (_, sb') \<Rightarrow> sb')"
| "sim_step parse (ApproveSim simulation_id approver) sb =
     (case sim_approve simulation_id approver sb of Inl _ \<Rightarrow> sb | Inr (_, sb') \<Rightarrow> sb')"

definition gated :: "sandbox \<Rightarrow> simulation_result \<Rightarrow> bool" where
  \<comment> \<open>what did not need an approval, or no longer needs it, and why\<close>
  "gated sb r \<longleftrightarrow>
     (if sm_needs_approval r then sm_recommended_plan r = ''pause_for_approval'' \<and> sm_approved_by r = None
      else (\<exists>who. sm_approved_by r = Some who \<and> sm_recommended_plan r = ''proceed (human approved)'') \<or>
        sm_approved_by r = None \<and> sm_recommended_plan r = ''proceed'' \<and> sb_confidence_threshold sb \<le> sm_confidence r \<and>
        (\<exists>m. dict_get (sb_domains sb) (sm_domain r) = Some m \<and> \<not> dm_always_approve m))"

definition sandbox_ok :: "sandbox \<Rightarrow> bool" where
  "sandbox_ok sb \<longleftrightarrow> (\<forall>r \<in> set (sb_results sb). gated sb r \<and> sm_risk_level r = level_of (sm_confidence r))"

lemma gated_results [simp]: "gated (sb\<lparr>sb_results := rs\<rparr>) r = gated sb r"
  by (simp add: gated_def)

lemma simulate_fields:
  assumes "simulate parse env action domain params sb = Inr (r, sb')"
  shows "\<exists>m. dict_get (sb_domains sb) domain = Some m \<and> sb' = sb\<lparr>sb_results := sb_results sb @ [r]\<rparr> \<and>
    sm_domain r = domain \<and> sm_approved_by r = None \<and>
    sm_needs_approval r = (dm_always_approve m \<or> sm_confidence r < sb_confidence_threshold sb) \<and>
    sm_recommended_plan r = (if sm_needs_approval r then ''pause_for_approval'' else ''proceed'') \<and>
    sm_risk_level r = level_of (sm_confidence r)"
  using assms unfolding simulate_def Let_def by (clarsimp split: option.splits sum.splits)

lemma simulate_ok:
  assumes "sandbox_ok sb" "simulate parse env action domain params sb = Inr (r, sb')"
  shows "sandbox_ok sb'"
proof -
  obtain m where m: "dict_get (sb_domains sb) domain = Some m" "sb' = sb\<lparr>sb_results := sb_results sb @ [r]\<rparr>"
    "sm_domain r = domain" "sm_approved_by r = None"
    "sm_needs_approval r = (dm_always_approve m \<or> sm_confidence r < sb_confidence_threshold sb)"
    "sm_recommended_plan r = (if sm_needs_approval r then ''pause_for_approval'' else ''proceed'')"
    "sm_risk_level r = level_of (sm_confidence r)"
    using simulate_fields [OF assms(2)] by blast
  have "gated sb r"
    unfolding gated_def using m by (cases "sm_needs_approval r") auto
  with assms(1) m(2,7) show ?thesis by (auto simp: sandbox_ok_def)
qed

lemma sim_approve_ok:
  assumes "sandbox_ok sb" "sim_approve simulation_id approver sb = Inr (r, sb')"
  shows "sandbox_ok sb'"
proof -
  obtain r0 where r0: "find (\<lambda>r. sm_id r = simulation_id) (sb_results sb) = Some r0" "sm_needs_approval r0"
    using assms(2) by (auto simp: sim_approve_def split: option.splits if_splits)
  define r1 where "r1 = r0\<lparr>sm_needs_approval := False, sm_approved_by := Some approver,
    sm_recommended_plan := ''proceed (human approved)''\<rparr>"
  have sb': "sb' = sb\<lparr>sb_results := replace_first (\<lambda>r. sm_id r = simulation_id) (\<lambda>_. r1) (sb_results sb)\<rparr>"
    using assms(2) r0 by (auto simp: sim_approve_def Let_def r1_def)
  have "r0 \<in> set (sb_results sb)" using find_Some_in [OF r0(1)] by simp
  then have "gated sb r1 \<and> sm_risk_level r1 = level_of (sm_confidence r1)"
    using assms(1) by (auto simp: sandbox_ok_def gated_def r1_def)
  then show ?thesis
    using assms(1) set_replace_first [of "\<lambda>r. sm_id r = simulation_id" "\<lambda>_. r1" "sb_results sb"]
    unfolding sandbox_ok_def sb' by auto
qed

interpretation sim_machine: machine "sim_step parse" sandbox_ok
proof
  fix sb c assume "sandbox_ok sb"
  then show "sandbox_ok (sim_step parse c sb)"
    by (cases c) (auto split: sum.splits dest: simulate_ok sim_approve_ok)
qed

text \<open>
  Approval gating: in every reachable sandbox, a simulated action that is not paused either was
  approved by a named human, or had a confidence of at least the threshold in a domain that does
  not always require approval; a paused one has no approver.
\<close>
theorem simulation_gated:
  "list_all (gated (fold (sim_step parse) cs (new_sandbox threshold domains)))
     (sim_history (fold (sim_step parse) cs (new_sandbox threshold domains)))"
proof -
  have "sandbox_ok (fold (sim_step parse) cs (new_sandbox threshold domains))"
    by (rule sim_machine.run_ok) (simp add: sandbox_ok_def new_sandbox_def)
  then show ?thesis by (simp add: sandbox_ok_def sim_history_def list_all_iff)
qed

lemma py_round_bounds: "a \<le> x \<Longrightarrow> x \<le> b \<Longrightarrow> py_round a n \<le> py_round x n \<and> py_round x n \<le> py_round b n"
  by (simp add: py_round_mono)

text \<open>
  For a domain with non-negative base risk and blast radius and a size of at least -3/2, the
  reported risk and confidence lie in [0, 0.95] and [0.05, 1]; the built-in domains all qualify.
\<close>
theorem simulation_bounds:
  assumes "simulate parse env action domain params sb = Inr (r, sb')" "dict_get (sb_domains sb) domain = Some m"
    and "0 \<le> dm_base_risk m" "0 \<le> dm_blast_radius m"
    and "py_float parse (get_or params ''size'' (PInt 1)) = Inr sz" "- 3 / 2 \<le> sz"
  shows "0 \<le> sm_risk_score r \<and> sm_risk_score r \<le> 95 / 100 \<and> 5 / 100 \<le> sm_confidence r \<and> sm_confidence r \<le> 1"
proof -
  define risk where "risk = risk_of m sz (truthy (get_or params ''reversible'' (PBool True))) (truthy (get_or params ''sensitive_data'' (PBool False)))"
  have "0 \<le> dm_base_risk m * dm_blast_radius m * (6 / 10 + 4 / 10 * sz)"
    using assms(3,4,6) by (intro mult_nonneg_nonneg) auto
  then have risk: "0 \<le> risk" "risk \<le> 95 / 100"
    by (auto simp: risk_def risk_of_def Let_def min_def)
  have c: "py_round (95 / 100) 3 = 95 / 100" "py_round (5 / 100) 3 = 5 / 100"
    by (simp_all add: py_round_def round_half_even_def)
  have "0 \<le> py_round risk 3" "py_round risk 3 \<le> 95 / 100"
    using py_round_bounds [OF risk, of 3] c by simp_all
  moreover have "5 / 100 \<le> py_round (max 0 (1 - risk)) 3" "py_round (max 0 (1 - risk)) 3 \<le> 1"
    using py_round_bounds [of "5 / 100" "max 0 (1 - risk)" 1 3] risk c by auto
  moreover have "sm_risk_score r = py_round risk 3 \<and> sm_confidence r = py_round (max 0 (1 - risk)) 3"
    using assms(1,2,5) by (auto simp: simulate_def Let_def risk_def)
  ultimately show ?thesis by simp
qed

lemma simulation_bounds_witness:
  "\<exists>r sb'. simulate (\<lambda>_. None) (sim_env []) ''ship'' ''deploy'' [] (new_sandbox (7 / 10) []) = Inr (r, sb') \<and> sm_confidence r \<le> 1"
proof -
  define m where "m = snd (hd SIMULATION_DOMAINS)"
  have m: "dict_get (sb_domains (new_sandbox (7 / 10) [])) ''deploy'' = Some m" "0 \<le> dm_base_risk m" "0 \<le> dm_blast_radius m"
    by (simp_all add: new_sandbox_def SIMULATION_DOMAINS_def m_def domain_model_of_def)
  have sz: "py_float (\<lambda>_. None) (get_or [] ''size'' (PInt 1)) = Inr 1" by (simp add: py_float_def get_or_def)
  from m sz obtain r sb' where r: "simulate (\<lambda>_. None) (sim_env []) ''ship'' ''deploy'' [] (new_sandbox (7 / 10) []) = Inr (r, sb')"
    by (auto simp: simulate_def Let_def)
  from simulation_bounds [OF r m sz] r show ?thesis by auto
qed

end
