(* ===== verification/Learning.thy ===== *)
theory Learning
  imports Render
begin

text \<open>
  \<open>omni/contracts/evaluation.py\<close> and \<open>omni/learning\<close>: the metrics of a finished task, their
  aggregation and trends, the in-memory window of the pipeline and the SQLite table behind it.
  Arithmetic is over the reals, so a trend carries no rounding error but that of its \<open>round\<close>.
\<close>

section \<open>Contracts\<close>

record metric_bundle =
  mb_execution_time_ms :: real
  mb_cost :: real
  mb_accuracy :: real
  mb_reasoning_quality :: real
  mb_user_satisfaction :: real
  mb_code_quality :: real
  mb_architecture_quality :: real
  mb_documentation_quality :: real
  mb_bug_density :: real
  mb_security_score :: real
  mb_performance :: real
  mb_maintainability :: real

definition dump_metrics :: "metric_bundle \<Rightarrow> (string, real) dict" where
  \<comment> \<open>\<open>model_dump()\<close>: the fields in their order\<close>
  "dump_metrics m =
     [(''execution_time_ms'', mb_execution_time_ms m), (''cost'', mb_cost m), (''accuracy'', mb_accuracy m),
      (''reasoning_quality'', mb_reasoning_quality m), (''user_satisfaction'', mb_user_satisfaction m),
      (''code_quality'', mb_code_quality m), (''architecture_quality'', mb_architecture_quality m),
      (''documentation_quality'', mb_documentation_quality m), (''bug_density'', mb_bug_density m),
      (''security_score'', mb_security_score m), (''performance'', mb_performance m),
      (''maintainability'', mb_maintainability m)]"

definition default_metrics :: metric_bundle where
  "default_metrics =
     \<lparr>mb_execution_time_ms = 0, mb_cost = 0, mb_accuracy = 0, mb_reasoning_quality = 0, mb_user_satisfaction = 0,
      mb_code_quality = 0, mb_architecture_quality = 0, mb_documentation_quality = 0, mb_bug_density = 0,
      mb_security_score = 0, mb_performance = 0, mb_maintainability = 0\<rparr>"

record evaluation =
  ev_id :: string
  ev_task_id :: string
  ev_agent_id :: string
  ev_task_type :: string
  ev_metrics :: metric_bundle
  ev_summary :: string
  ev_completed_at :: string

section \<open>Aggregation and trends\<close>

definition METRIC_FIELDS :: "string list" where
  "METRIC_FIELDS = dict_keys (dump_metrics default_metrics)"

definition metric_of :: "string \<Rightarrow> evaluation \<Rightarrow> real" where
  \<comment> \<open>\<open>getattr(e.metrics, field)\<close>, used for the fields only\<close>
  "metric_of field e = (case dict_get (dump_metrics (ev_metrics e)) field of None \<Rightarrow> 0 | Some x \<Rightarrow> x)"

definition of_type :: "string option \<Rightarrow> evaluation list \<Rightarrow> evaluation list" where
  "of_type task_type evs = filter (\<lambda>e. case task_type of None \<Rightarrow> True | Some t \<Rightarrow> ev_task_type e = t) evs"

definition fmean :: "real list \<Rightarrow> real" where
  "fmean xs = sum_list xs / real (length xs)"

definition aggregate :: "evaluation list \<Rightarrow> string option \<Rightarrow> (string, real) dict" where
  "aggregate evs task_type =
     (let series = of_type task_type evs in
      if series = [] then []
      else map (\<lambda>field. (field, py_round (fmean (map (metric_of field) series)) 4)) METRIC_FIELDS)"

definition trend :: "real list \<Rightarrow> real" where
  "trend ys =
     (let n = length ys in
      if n < 3 then 0
      else
        (let xs = map real [0..<n];
             mx = sum_list xs / real n;
             my = sum_list ys / real n;
             denom = sum_list (map (\<lambda>x. (x - mx) ^ 2) xs)
         in if denom = 0 then 0
            else
              (let slope = sum_list (map (\<lambda>(x, y). (x - mx) * (y - my)) (zip xs ys)) / denom
               in py_round (max (- 1) (min 1 (slope / max my (1 / 100)))) 4)))"

definition trends :: "evaluation list \<Rightarrow> string option \<Rightarrow> (string, real) dict" where
  "trends evs task_type =
     (let series = of_type task_type evs
      in map (\<lambda>field. (field, trend (map (metric_of field) series))) METRIC_FIELDS)"

section \<open>The persistent store\<close>

type_synonym evaluation_store = "evaluation list"
  \<comment> \<open>the rows in the order of their \<open>rowid\<close>\<close>

definition store_ingest :: "evaluation \<Rightarrow> evaluation_store \<Rightarrow> evaluation_store" where
  \<comment> \<open>\<open>INSERT OR REPLACE\<close>: a row of the same identifier goes, the new one has the next \<open>rowid\<close>\<close>
  "store_ingest e rows = filter (\<lambda>r. ev_id r \<noteq> ev_id e) rows @ [e]"

definition store_evaluations :: "env \<Rightarrow> evaluation_store \<Rightarrow> evaluation list" where
  \<comment> \<open>the completion time is read for the order only: the rebuilt object gets the current time\<close>
  "store_evaluations env rows = map (\<lambda>e. e\<lparr>ev_completed_at := env_stamp env\<rparr>) (sort_key ev_completed_at rows)"

definition store_aggregate :: "env \<Rightarrow> string option \<Rightarrow> evaluation_store \<Rightarrow> (string, real) dict" where
  "store_aggregate env task_type rows = aggregate (store_evaluations env rows) task_type"

definition store_trends :: "env \<Rightarrow> string option \<Rightarrow> evaluation_store \<Rightarrow> (string, real) dict" where
  "store_trends env task_type rows = trends (store_evaluations env rows) task_type"

definition store_count :: "evaluation_store \<Rightarrow> nat" where
  "store_count rows = length rows"

section \<open>The pipeline\<close>

record learning_pipeline =
  lp_window :: int
  lp_evaluations :: "evaluation list"
  lp_store :: "evaluation_store option"

definition new_pipeline :: "int \<Rightarrow> evaluation_store option \<Rightarrow> learning_pipeline" where
  "new_pipeline window st = \<lparr>lp_window = window, lp_evaluations = [], lp_store = st\<rparr>"

definition lp_ingest :: "evaluation \<Rightarrow> learning_pipeline \<Rightarrow> learning_pipeline" where
  "lp_ingest e lp =
     (let evs = lp_evaluations lp @ [e] in
      lp\<lparr>lp_evaluations := (if int (length evs) > lp_window lp then last_n (lp_window lp) evs else evs),
         lp_store := map_option (store_ingest e) (lp_store lp)\<rparr>)"

definition lp_read :: "env \<Rightarrow> learning_pipeline \<Rightarrow> evaluation list" where
  "lp_read env lp = (case lp_store lp of Some rows \<Rightarrow> store_evaluations env rows | None \<Rightarrow> lp_evaluations lp)"

definition lp_aggregate :: "env \<Rightarrow> string option \<Rightarrow> learning_pipeline \<Rightarrow> (string, real) dict" where
  "lp_aggregate env task_type lp = aggregate (lp_read env lp) task_type"

definition lp_trends :: "env \<Rightarrow> string option \<Rightarrow> learning_pipeline \<Rightarrow> (string, real) dict" where
  "lp_trends env task_type lp = trends (lp_read env lp) task_type"

definition ADVICE :: "(string \<times> string) list" where
  "ADVICE =
     [(''execution_time_ms'', ''reroute high-latency tasks to faster model tier''),
      (''cost'', ''apply CostOptimizedScoring for this task class''),
      (''accuracy'', ''raise confidence threshold / add human review for low-accuracy tasks''),
      (''bug_density'', ''add static analysis + simulation gate before merge''),
      (''user_satisfaction'', ''collect structured feedback on failed tasks'')]"

definition no_advice :: string where
  \<comment> \<open>with the UTF-8 bytes of the dash\<close>
  "no_advice = ''no regressing trends detected '' @ [CHR 0xE2, CHR 0x80, CHR 0x94] @ '' maintain current routing''"

definition advice_text :: "string \<Rightarrow> real \<Rightarrow> string \<Rightarrow> string" where
  \<comment> \<open>\<open>f"{metric} trending down ({slope:+.3f}): {advice}"\<close>\<close>
  "advice_text metric slope advice =
     metric @ '' trending down ('' @ (if slope < 0 then [] else ''+'') @ show_fixed 3 slope @ ''): '' @ advice"

definition build_recommendations :: "(string \<times> real) list \<Rightarrow> string list" where
  "build_recommendations regressing =
     (let by_metric = dict_merge [] regressing;
          out = concat (map (\<lambda>(metric, advice). case dict_get by_metric metric of
            None \<Rightarrow> [] | Some slope \<Rightarrow> [advice_text metric slope advice]) ADVICE)
      in if out = [] then [no_advice] else out)"

record improvement_report =
  ir_samples :: int
  ir_aggregate :: "(string, real) dict"
  ir_trends :: "(string, real) dict"
  ir_top_regressions :: "(string \<times> real) list"
  ir_top_improvements :: "(string \<times> real) list"
  ir_recommendations :: "string list"

definition lp_report :: "env \<Rightarrow> learning_pipeline \<Rightarrow> improvement_report" where
  "lp_report env lp =
     (let all_trends = lp_trends env None lp;
          regressing = py_sorted snd (filter (\<lambda>(m, s). s < 0) all_trends);
          improving = py_sorted_desc snd (filter (\<lambda>(m, s). s > 0) all_trends)
      in \<lparr>ir_samples = int (length (lp_read env lp)), ir_aggregate = lp_aggregate env None lp,
          ir_trends = all_trends, ir_top_regressions = take 3 regressing,
          ir_top_improvements = take 3 improving,
          ir_recommendations = build_recommendations regressing\<rparr>)"

end
