(* ===== verification/Evolution.thy ===== *)
theory Evolution
  imports Learning
begin

text \<open>
  \<open>omni/evolution/engine.py\<close>: proposals, the measurement of an experiment against the aggregate
  of the learning pipeline and the adoption gate. A proposal is an object that \<open>evaluate\<close> and
  \<open>adopt_if_gain\<close> mutate; the model replaces it in the list of the engine.
\<close>

definition DOMAINS :: "string list" where
  "DOMAINS =
     [''architecture'', ''workflow'', ''prompt'', ''memory_organization'', ''routing'', ''agent'',
      ''plugin'', ''ui'', ''api'', ''infrastructure'', ''documentation'']"

record evolution_proposal =
  ep_id :: string
  ep_domain :: string
  ep_title :: pyval
  ep_description :: pyval
  ep_hypothesis :: pyval
  ep_status :: string
  ep_before :: "(string, real) dict"
  ep_after :: "(string, real) dict"
  ep_delta :: "(string, real) dict"
  ep_adopted_at :: pyval

record evolution_engine =
  evo_min_gain :: real
  evo_proposals :: "evolution_proposal list"
  evo_learning :: "learning_pipeline option"

definition new_evolution_engine :: "real \<Rightarrow> learning_pipeline option \<Rightarrow> evolution_engine" where
  "new_evolution_engine min_gain learning =
     \<lparr>evo_min_gain = min_gain, evo_proposals = [], evo_learning = learning\<rparr>"

definition default_hypothesis :: "string \<Rightarrow> string result" where
  "default_hypothesis domain =
     (case map_of
        [(''architecture'', ''modularizing the execution graph reduces average latency''),
         (''workflow'', ''parallelizing independent steps reduces wall-clock time''),
         (''prompt'', ''more specific task framing improves accuracy''),
         (''memory_organization'', ''branching by project reduces cross-project interference''),
         (''routing'', ''cost-optimized routing lowers spend without accuracy loss''),
         (''agent'', ''specialist agents outperform generalists per domain''),
         (''plugin'', ''replacing the slowest plugin improves throughput''),
         (''ui'', ''reduced latency in the twin view improves operator decision speed''),
         (''api'', ''batching policy decisions cuts decision latency''),
         (''infrastructure'', ''horizontal scaling reduces queue backlog''),
         (''documentation'', ''structured docs lower onboarding time'')] domain of
        None \<Rightarrow> Inl (KeyError domain)
      | Some h \<Rightarrow> Inr h)"

definition known_domain :: "pyval \<Rightarrow> string option" where
  \<comment> \<open>\<open>domain in DOMAINS\<close>: only an equal text is\<close>
  "known_domain v = (case v of PStr d \<Rightarrow> if d \<in> set DOMAINS then Some d else None | _ \<Rightarrow> None)"

definition evo_propose :: "env \<Rightarrow> pyval \<Rightarrow> pyval \<Rightarrow> pyval \<Rightarrow> pyval \<Rightarrow> evolution_engine \<Rightarrow>
    (evolution_proposal \<times> evolution_engine) result" where
  \<comment> \<open>the annotations say \<open>str\<close>, but the reflection passes whatever JSON holds\<close>
  "evo_propose env domain title description hypothesis eng =
     (case known_domain domain of
        None \<Rightarrow> Inl (KeyError (''unknown evolution domain '' @ quoted (py_str domain) @ '' (known: '' @ repr_str_list DOMAINS @ '')''))
      | Some d \<Rightarrow>
        (case (if truthy hypothesis then Inr hypothesis else map_sum (\<lambda>err. err) PStr (default_hypothesis d)) of
           Inl err \<Rightarrow> Inl err
         | Inr h \<Rightarrow>
             (let p = \<lparr>ep_id = new_id ''ev'' env, ep_domain = d, ep_title = title,
                ep_description = description, ep_hypothesis = h, ep_status = ''proposed'',
                ep_before = [], ep_after = [], ep_delta = [], ep_adopted_at = PNone\<rparr>
              in Inr (p, eng\<lparr>evo_proposals := evo_proposals eng @ [p]\<rparr>))))"

definition evo_by_id :: "string \<Rightarrow> evolution_engine \<Rightarrow> evolution_proposal result" where
  "evo_by_id proposal_id eng =
     (case find (\<lambda>p. ep_id p = proposal_id) (evo_proposals eng) of
        None \<Rightarrow> Inl (KeyError (''unknown proposal '' @ quoted proposal_id))
      | Some p \<Rightarrow> Inr p)"

definition evo_get :: "string \<Rightarrow> evolution_engine \<Rightarrow> evolution_proposal result" where
  "evo_get = evo_by_id"

definition upd_proposal :: "string \<Rightarrow> (evolution_proposal \<Rightarrow> evolution_proposal) \<Rightarrow> evolution_engine \<Rightarrow> evolution_engine" where
  \<comment> \<open>mutation of the object \<open>_by_id\<close> returns\<close>
  "upd_proposal proposal_id f eng =
     eng\<lparr>evo_proposals := replace_first (\<lambda>p. ep_id p = proposal_id) f (evo_proposals eng)\<rparr>"

definition measured :: "(string, real) dict \<Rightarrow> metric_bundle \<Rightarrow> evolution_proposal \<Rightarrow> evolution_proposal" where
  "measured before after p =
     (let after_d = dump_metrics after in
      p\<lparr>ep_before := before,
        ep_after := filter (\<lambda>(k, v). k \<in> set (dict_keys before)) after_d,
        ep_delta := map (\<lambda>(m, b). (m, py_round ((case dict_get after_d m of None \<Rightarrow> 0 | Some a \<Rightarrow> a) - b) 4))
          (filter (\<lambda>(m, b). m \<in> set (dict_keys after_d)) before),
        ep_status := ''running''\<rparr>)"

definition evo_evaluate :: "env \<Rightarrow> string \<Rightarrow> metric_bundle \<Rightarrow> evolution_engine \<Rightarrow>
    (evolution_proposal \<times> evolution_engine) result" where
  "evo_evaluate env proposal_id after eng =
     (case evo_by_id proposal_id eng of
        Inl err \<Rightarrow> Inl err
      | Inr p \<Rightarrow>
          (let before = (case evo_learning eng of None \<Rightarrow> [] | Some lp \<Rightarrow> lp_aggregate env None lp);
               p' = measured before after p
           in Inr (p', upd_proposal proposal_id (\<lambda>_. p') eng)))"

definition total_gain :: "evolution_proposal \<Rightarrow> real" where
  "total_gain p = sum_list (filter (\<lambda>d. d > 0) (dict_values (ep_delta p)))"

definition evo_adopt_if_gain :: "string \<Rightarrow> evolution_engine \<Rightarrow> (evolution_proposal \<times> evolution_engine) result" where
  "evo_adopt_if_gain proposal_id eng =
     (case evo_by_id proposal_id eng of
        Inl err \<Rightarrow> Inl err
      | Inr p \<Rightarrow>
          if ep_status p \<noteq> ''running''
          then Inl (ValueError (''proposal '' @ quoted proposal_id @ '' is not running (status='' @ ep_status p @ '')''))
          else
            (let p' = (if total_gain p \<ge> evo_min_gain eng
                then p\<lparr>ep_status := ''adopted'', ep_adopted_at := (if truthy (ep_adopted_at p) then ep_adopted_at p else PBool True)\<rparr>
                else p\<lparr>ep_status := ''rejected''\<rparr>)
             in Inr (p', upd_proposal proposal_id (\<lambda>_. p') eng)))"

definition evo_ledger :: "evolution_engine \<Rightarrow> evolution_proposal list" where
  "evo_ledger eng = evo_proposals eng"

end
