(* ===== verification/Evolution_Executor.thy ===== *)
theory Evolution_Executor
  imports Evolution Policy Memory_Store
begin

text \<open>
  \<open>omni/evolution/executor.py\<close>: applying an adopted proposal to a live target and reverting it.
  The executor's collaborators are values of its record; the ledger it records to may be its own
  or the one its policy engine writes to, as in the deployed control plane. Values set in the
  configuration are copied, where Python shares the object: no difference for a mutation none of
  whose paths is a prefix of another.
\<close>

definition MUTATION_TARGETS :: "string list" where
  "MUTATION_TARGETS = [''routing'', ''prompt'', ''memory_layout'', ''orchestrator_config'']"

type_synonym config = "(string, pyval) dict"

definition get_dotted :: "config \<Rightarrow> string \<Rightarrow> pyval" where
  "get_dotted data path = get_path (PDict data) (split_on CHR ''.'' path) PNone"

definition as_dict :: "pyval option \<Rightarrow> config" where
  \<comment> \<open>\<open>nxt if isinstance(nxt, dict) else {}\<close>\<close>
  "as_dict v = (case v of Some (PDict d) \<Rightarrow> d | _ \<Rightarrow> [])"

fun set_path :: "config \<Rightarrow> string list \<Rightarrow> pyval \<Rightarrow> config" where
  "set_path data [] v = data"
| "set_path data [part] v = dict_set part v data"
| "set_path data (part # p # parts) v =
     dict_set part (PDict (set_path (as_dict (dict_get data part)) (p # parts) v)) data"

definition set_dotted :: "string \<Rightarrow> pyval \<Rightarrow> config \<Rightarrow> config" where
  "set_dotted path v data = set_path data (split_on CHR ''.'' path) v"

record mutation_record =
  mu_mutation_id :: string
  mu_proposal_id :: string
  mu_target :: string
  mu_mutation :: "(string, pyval) dict"
  mu_before :: "(string, pyval) dict"
  mu_after :: "(string, pyval) dict"
  mu_status :: string
  mu_revertible :: bool
  mu_note :: string
  mu_applied_at :: string
  mu_reverted_at :: "string option"

datatype ledger_link =
    No_ledger
  | Own_ledger ledger
  | Policy_ledger \<comment> \<open>the ledger the policy engine writes to\<close>

record evolution_executor =
  xe_evolution :: "evolution_engine option"
  xe_config :: config
  xe_memory :: "memory_store option"
  xe_ledger :: ledger_link
  xe_policy :: "policy_state option"
  xe_approver_role :: string
  xe_records :: "mutation_record list"

definition new_executor :: "evolution_engine option \<Rightarrow> config option \<Rightarrow> memory_store option \<Rightarrow> ledger_link \<Rightarrow>
    policy_state option \<Rightarrow> string \<Rightarrow> evolution_executor" where
  "new_executor evolution config memory ledger policy approver_role =
     \<lparr>xe_evolution = evolution, xe_config = (case config of None \<Rightarrow> [] | Some c \<Rightarrow> c), xe_memory = memory,
      xe_ledger = ledger, xe_policy = policy, xe_approver_role = approver_role, xe_records = []\<rparr>"

definition executor_log :: "env \<Rightarrow> string \<Rightarrow> string \<Rightarrow> pyval \<Rightarrow> string \<Rightarrow> evolution_executor \<Rightarrow> evolution_executor" where
  \<comment> \<open>\<open>self._ledger.record(subsystem="evolution", ...)\<close>\<close>
  "executor_log env subject event payload decision_id ex =
     (case xe_ledger ex of
        No_ledger \<Rightarrow> ex
      | Own_ledger lg \<Rightarrow>
          ex\<lparr>xe_ledger := Own_ledger (snd (ledger_record env ''evolution'' subject event (Some payload) (Some decision_id) lg))\<rparr>
      | Policy_ledger \<Rightarrow>
          ex\<lparr>xe_policy := map_option (\<lambda>st. (fst st,
               map_option (\<lambda>lg. snd (ledger_record env ''evolution'' subject event (Some payload) (Some decision_id) lg)) (snd st)))
             (xe_policy ex)\<rparr>)"

definition new_record :: "env \<Rightarrow> string \<Rightarrow> string \<Rightarrow> (string, pyval) dict \<Rightarrow> mutation_record" where
  "new_record env proposal_id target mutation =
     \<lparr>mu_mutation_id = new_id ''mut'' env, mu_proposal_id = proposal_id, mu_target = target, mu_mutation = mutation,
      mu_before = [], mu_after = [], mu_status = ''applied'', mu_revertible = True, mu_note = [],
      mu_applied_at = env_stamp env, mu_reverted_at = None\<rparr>"

section \<open>Applying\<close>

definition readings :: "config \<Rightarrow> (string, pyval) dict \<Rightarrow> pyval" where
  \<comment> \<open>\<open>{k: _get_dotted(self._config, k) for k in sets}\<close>\<close>
  "readings data sets = PDict (map (\<lambda>k. (k, get_dotted data k)) (dict_keys sets))"

definition set_all :: "(string, pyval) dict \<Rightarrow> config \<Rightarrow> config" where
  "set_all sets data = fold (\<lambda>(k, v). set_dotted k v) sets data"

definition need_sets :: "pyval \<Rightarrow> (string, pyval) dict result" where
  \<comment> \<open>the loop over the keys of \<open>sets\<close> comes before \<open>sets.items()\<close>, so a value that cannot be iterated is a \<open>TypeError\<close>\<close>
  "need_sets v = (case v of PDict d \<Rightarrow> Inr d | _ \<Rightarrow> Inl (case py_iter v of None \<Rightarrow> TypeError | Some _ \<Rightarrow> AttributeError))"

definition need_str :: "pyval \<Rightarrow> string result" where
  \<comment> \<open>the validation of a string field by the request model\<close>
  "need_str v = (case v of PStr s \<Rightarrow> Inr s | _ \<Rightarrow> Inl (ValueError ''Input should be a valid string''))"

definition apply_config :: "mutation_record \<Rightarrow> evolution_executor \<Rightarrow> (mutation_record \<times> evolution_executor) result" where
  "apply_config r ex =
     (case need_sets (get_or (mu_mutation r) ''set'' (PDict [])) of
        Inl err \<Rightarrow> Inl err
      | Inr sets \<Rightarrow>
          (let config' = set_all sets (xe_config ex)
           in Inr (r\<lparr>mu_before := [(''values'', readings (xe_config ex) sets)],
                     mu_after := [(''values'', readings config' sets)]\<rparr>,
                   ex\<lparr>xe_config := config'\<rparr>)))"

definition prompt_key :: "(string, pyval) dict \<Rightarrow> string" where
  "prompt_key prompt = ''prompts.'' @ py_str (get_or prompt ''task_type'' (PStr ''generic''))"

definition apply_prompt :: "(doc \<Rightarrow> string) \<Rightarrow> env \<Rightarrow> mutation_record \<Rightarrow> evolution_executor \<Rightarrow>
    (mutation_record \<times> evolution_executor) result" where
  "apply_prompt h env r ex =
     (case need_dict (get_or (mu_mutation r) ''prompt'' (PDict [])) of
        Inl err \<Rightarrow> Inl err
      | Inr prompt \<Rightarrow>
          (let task_type = get_or prompt ''task_type'' (PStr ''generic''); key = prompt_key prompt;
               template = get_or prompt ''template'' PNone
           in case xe_memory ex of
                Some rows \<Rightarrow>
                  (case mem_write h env key [(''task_type'', task_type), (''template'', template)] ''evolution''
                     (''adopted proposal '' @ mu_proposal_id r) ''main'' rows of
                     Inl err \<Rightarrow> Inl err
                   | Inr (entry, rows') \<Rightarrow>
                       Inr (r\<lparr>mu_before := [(''template'', case mem_read key ''main'' None rows of
                                 None \<Rightarrow> PNone | Some e \<Rightarrow> get_or (me_value e) ''template'' PNone)],
                              mu_after := [(''template'', template)]\<rparr>,
                            ex\<lparr>xe_memory := Some rows'\<rparr>))
              | None \<Rightarrow>
                  (let config' = set_dotted key template (xe_config ex)
                   in Inr (r\<lparr>mu_before := [(''template'', get_dotted (xe_config ex) key)],
                             mu_after := [(''template'', get_dotted config' key)]\<rparr>,
                           ex\<lparr>xe_config := config'\<rparr>))))"

definition branch_of :: "string \<Rightarrow> (string, pyval) dict \<Rightarrow> branch_request result" where
  \<comment> \<open>\<open>BranchRequest(...)\<close>, its fields validated in order\<close>
  "branch_of proposal_id req =
     (case need_str (get_or req ''key'' (PStr ''knowledge'')) of Inl err \<Rightarrow> Inl err
      | Inr key \<Rightarrow> (case need_str (get_or req ''source_branch'' (PStr ''main'')) of Inl err \<Rightarrow> Inl err
      | Inr source \<Rightarrow> (case need_str (get_or req ''new_branch'' (PStr (''exp-'' @ take 6 proposal_id))) of Inl err \<Rightarrow> Inl err
      | Inr new \<Rightarrow> Inr \<lparr>br_key = key, br_source_branch = source, br_source_version = None, br_new_branch = new,
          br_agent_id = ''evolution'',
          br_reason = ''adopted proposal '' @ proposal_id @ '': '' @ py_str (get_or req ''reason'' (PStr []))\<rparr>)))"

definition apply_branch :: "env \<Rightarrow> mutation_record \<Rightarrow> evolution_executor \<Rightarrow>
    (mutation_record \<times> evolution_executor) result" where
  "apply_branch env r ex =
     (case xe_memory ex of
        None \<Rightarrow> Inl (ValueError ''memory_layout mutation requires a Versioned Memory store'')
      | Some rows \<Rightarrow>
          (case need_dict (get_or (mu_mutation r) ''branch'' (PDict [])) of
             Inl err \<Rightarrow> Inl err
           | Inr req \<Rightarrow>
               (case branch_of (mu_proposal_id r) req of
                  Inl err \<Rightarrow> Inl err
                | Inr breq \<Rightarrow>
                    (case mem_branch env breq rows of
                       Inl err \<Rightarrow> Inl err
                     | Inr (entry, rows') \<Rightarrow>
                         Inr (r\<lparr>mu_before := [(''branches'', PList [PStr (me_branch entry)])],
                                mu_after := [(''branches'', PList [PStr (me_branch entry)]), (''version'', PInt (me_version entry))],
                                mu_note := ''created branch '' @ quoted (me_branch entry) @
                                  '' (immutable memory; retained on revert)'',
                                mu_revertible := False\<rparr>,
                              ex\<lparr>xe_memory := Some rows'\<rparr>)))))"

definition apply_locked :: "(doc \<Rightarrow> string) \<Rightarrow> env \<Rightarrow> string \<Rightarrow> string \<Rightarrow> (string, pyval) dict \<Rightarrow> evolution_executor \<Rightarrow>
    (mutation_record \<times> evolution_executor) result" where
  "apply_locked h env proposal_id target mutation ex =
     (let r = new_record env proposal_id target mutation in
      if target = ''routing'' \<or> target = ''orchestrator_config'' then apply_config r ex
      else if target = ''prompt'' then apply_prompt h env r ex
      else if target = ''memory_layout'' then apply_branch env r ex
      else Inr (r, ex))"

definition check_adopted :: "string \<Rightarrow> evolution_executor \<Rightarrow> unit result" where
  "check_adopted proposal_id ex =
     (case xe_evolution ex of
        None \<Rightarrow> Inr ()
      | Some eng \<Rightarrow>
          (case evo_get proposal_id eng of
             Inl err \<Rightarrow> Inl err
           | Inr p \<Rightarrow> if ep_status p \<noteq> ''adopted''
               then Inl (ValueError (''proposal '' @ quoted proposal_id @ '' is not adopted (status='' @ ep_status p @ '')''))
               else Inr ()))"

definition check_policy :: "env \<Rightarrow> string \<Rightarrow> evolution_executor \<Rightarrow> unit result \<times> evolution_executor" where
  \<comment> \<open>a denial raises after the decision has been logged, so the state is returned beside it\<close>
  "check_policy env target ex =
     (case xe_policy ex of
        None \<Rightarrow> (Inr (), ex)
      | Some st \<Rightarrow>
          (case evaluate env \<lparr>pr_id = ''evolution'', pr_roles = [xe_approver_role ex], pr_groups = [], pr_attributes = []\<rparr>
              ''evolution.apply'' (Some \<lparr>rs_type = ''evolution'', rs_attributes = [(''target'', PStr target)]\<rparr>) 0 1 st of
             Inl err \<Rightarrow> (Inl err, ex)
           | Inr (d, st') \<Rightarrow>
               ((if \<not> pd_allowed d then Inl (PermissionError (''policy denied evolution mutation: '' @ pd_reason d)) else Inr ()),
                ex\<lparr>xe_policy := Some st'\<rparr>)))"

definition apply_mutation :: "(doc \<Rightarrow> string) \<Rightarrow> env \<Rightarrow> string \<Rightarrow> string \<Rightarrow> (string, pyval) dict \<Rightarrow> evolution_executor \<Rightarrow>
    mutation_record result \<times> evolution_executor" where
  "apply_mutation h env proposal_id target mutation ex =
     (if target \<notin> set MUTATION_TARGETS
      then (Inl (KeyError (''unknown mutation target '' @ quoted target @ '' (known: ('' @
             join_with '', '' (map repr_str MUTATION_TARGETS) @ ''))'')), ex)
      else
        (case check_adopted proposal_id ex of
           Inl err \<Rightarrow> (Inl err, ex)
         | Inr _ \<Rightarrow>
             (case check_policy env target ex of
                (Inl err, ex1) \<Rightarrow> (Inl err, ex1)
              | (Inr _, ex1) \<Rightarrow>
                  (case apply_locked h env proposal_id target mutation ex1 of
                     Inl err \<Rightarrow> (Inl err, ex1)
                   | Inr (r, ex2) \<Rightarrow>
                       (Inr r, executor_log env proposal_id (''mutation.'' @ mu_status r)
                          (PDict [(''mutation_id'', PStr (mu_mutation_id r)), (''target'', PStr target),
                             (''mutation'', PDict mutation)])
                          (mu_mutation_id r) (ex2\<lparr>xe_records := xe_records ex2 @ [r]\<rparr>))))))"

section \<open>Reverting\<close>

definition mark_reverted :: "env \<Rightarrow> mutation_record \<Rightarrow> mutation_record" where
  "mark_reverted env r = r\<lparr>mu_status := ''reverted'', mu_reverted_at := Some (env_stamp env)\<rparr>"

definition undo :: "(doc \<Rightarrow> string) \<Rightarrow> env \<Rightarrow> mutation_record \<Rightarrow> evolution_executor \<Rightarrow> evolution_executor result" where
  "undo h env r ex =
     (if mu_target r = ''routing'' \<or> mu_target r = ''orchestrator_config''
      then (case need_dict (get_or (mu_before r) ''values'' (PDict [])) of
              Inl err \<Rightarrow> Inl err
            | Inr old \<Rightarrow> Inr (ex\<lparr>xe_config := set_all old (xe_config ex)\<rparr>))
      else if mu_target r = ''prompt''
      then (case need_dict (get_or (mu_mutation r) ''prompt'' (PDict [])) of
              Inl err \<Rightarrow> Inl err
            | Inr prompt \<Rightarrow>
                (case xe_memory ex of
                   Some rows \<Rightarrow>
                     (case mem_write h env (prompt_key prompt)
                        [(''task_type'', get_or prompt ''task_type'' (PStr ''generic'')),
                         (''template'', get_or (mu_before r) ''template'' PNone)]
                        ''evolution'' (''revert mutation '' @ mu_mutation_id r) ''main'' rows of
                        Inl err \<Rightarrow> Inl err
                      | Inr (entry, rows') \<Rightarrow> Inr (ex\<lparr>xe_memory := Some rows'\<rparr>))
                 | None \<Rightarrow> Inr (ex\<lparr>xe_config := set_dotted (prompt_key prompt) (get_or (mu_before r) ''template'' PNone) (xe_config ex)\<rparr>)))
      else Inr ex)"

definition revert_mutation :: "(doc \<Rightarrow> string) \<Rightarrow> env \<Rightarrow> string \<Rightarrow> evolution_executor \<Rightarrow>
    (mutation_record \<times> evolution_executor) result" where
  "revert_mutation h env mutation_id ex =
     (case find (\<lambda>r. mu_mutation_id r = mutation_id) (xe_records ex) of
        None \<Rightarrow> Inl (KeyError (''no mutation '' @ quoted mutation_id))
      | Some r \<Rightarrow>
          if mu_status r = ''reverted'' then Inr (r, ex)
          else
            (case (if mu_revertible r then undo h env r ex else Inr ex) of
               Inl err \<Rightarrow> Inl err
             | Inr ex' \<Rightarrow>
                 (let r' = mark_reverted env r
                  in Inr (r', ex'\<lparr>xe_records := replace_first (\<lambda>r. mu_mutation_id r = mutation_id) (\<lambda>_. r') (xe_records ex')\<rparr>))))"

definition mutation_records :: "evolution_executor \<Rightarrow> mutation_record list" where
  "mutation_records ex = xe_records ex"

end
