(* ===== verification/Path_Map.thy ===== *)
theory Path_Map
  imports Prelude
begin

text \<open>
  The contract of a store read and written at places, some of which overlap: writing a place is
  read back there, and leaves the places apart from it alone. Writing several places that are
  pairwise apart, and writing back what was read before, follow from the two laws.
\<close>

locale path_map =
  fixes rd :: "'s \<Rightarrow> 'k \<Rightarrow> 'v"
    and wr :: "'k \<Rightarrow> 'v \<Rightarrow> 's \<Rightarrow> 's"
    and apart :: "'k \<Rightarrow> 'k \<Rightarrow> bool"
  assumes rd_wr: "rd (wr k v s) k = v"
    and rd_wr_apart: "apart k k' \<Longrightarrow> rd (wr k v s) k' = rd s k'"
    and apart_sym: "apart k k' \<Longrightarrow> apart k' k"
begin

definition wr_all :: "('k \<times> 'v) list \<Rightarrow> 's \<Rightarrow> 's" where
  "wr_all kvs s = fold (\<lambda>(k, v). wr k v) kvs s"

lemma wr_all_Cons: "wr_all (kv # kvs) s = wr_all kvs (wr (fst kv) (snd kv) s)"
  by (simp add: wr_all_def case_prod_unfold)

lemma rd_wr_all_apart: "\<forall>k \<in> fst ` set kvs. apart k k' \<Longrightarrow> rd (wr_all kvs s) k' = rd s k'"
  by (induction kvs arbitrary: s) (simp_all add: wr_all_Cons rd_wr_apart, simp add: wr_all_def)

lemma rd_wr_all:
  assumes "sorted_wrt apart (map fst kvs)" "(k, v) \<in> set kvs"
  shows "rd (wr_all kvs s) k = v"
  using assms
proof (induction kvs arbitrary: s)
  case (Cons kv kvs)
  show ?case
  proof (cases "(k, v) = kv")
    case True
    with Cons.prems(1) have "\<forall>k' \<in> fst ` set kvs. apart k k'" by auto
    then have "\<forall>k' \<in> fst ` set kvs. apart k' k" by (blast intro: apart_sym)
    with True rd_wr_all_apart [of kvs k "wr k v s"] show ?thesis by (auto simp: wr_all_Cons rd_wr)
  next
    case False
    with Cons show ?thesis by (auto simp: wr_all_Cons)
  qed
qed simp

lemma write_back:
  assumes "sorted_wrt apart ks" "k \<in> set ks"
  shows "rd (wr_all (map (\<lambda>k. (k, rd s k)) ks) s') k = rd s k"
  using assms by (intro rd_wr_all) (auto simp: comp_def)

end

end
