(* ===== verification/Evolution_Properties.thy ===== *)
theory Evolution_Properties
  imports Evolution_Executor Seed_Rules Path_Map
begin

text \<open>
  The properties of self evolution: what the adoption gate guarantees of the proposals of any run,
  that a mutation is applied only for an adopted proposal under an allowing policy decision and
  leaves everything alone otherwise, and that reverting one restores what it changed.
\<close>

section \<open>Dotted paths as a store\<close>








section \<open>The adoption gate\<close>

datatype evo_cmd =
    Propose env pyval pyval pyval pyval
  | Measure env string metric_bundle
  | Adopt string
  | Learn evaluation

fun evo_step :: "evo_cmd \<Rightarrow> evolution_engine \<Rightarrow> evolution_engine" where
  "evo_step (Propose env domain title description hypothesis) eng =
     (case evo_propose env domain title description hypothesis eng of Inl _ \<Rightarrow> eng | Inr (_, eng') \<Rightarrow> eng')"
| "evo_step (Measure env proposal_id after) eng =
     (case evo_evaluate env proposal_id after eng of Inl _ \<Rightarrow> eng | Inr (_, eng') \<Rightarrow> eng')"
| "evo_step (Adopt proposal_id) eng =
     (case evo_adopt_if_gain proposal_id eng of Inl _ \<Rightarrow> eng | Inr (_, eng') \<Rightarrow> eng')"
| "evo_step (Learn e) eng = eng\<lparr>evo_learning := map_option (lp_ingest e) (evo_learning eng)\<rparr>"

definition proposal_ok :: "real \<Rightarrow> evolution_proposal \<Rightarrow> bool" where
  "proposal_ok min_gain p \<longleftrightarrow>
     ep_domain p \<in> set DOMAINS \<and> truthy (ep_hypothesis p) \<and>
     ep_status p \<in> {''proposed'', ''running'', ''adopted'', ''rejected''} \<and>
     (ep_status p = ''adopted'' \<longrightarrow> min_gain \<le> total_gain p) \<and>
     (ep_status p = ''rejected'' \<longrightarrow> total_gain p < min_gain) \<and>
     (ep_status p = ''proposed'' \<longrightarrow> ep_delta p = [])"

definition engine_ok :: "evolution_engine \<Rightarrow> bool" where
  "engine_ok eng \<longleftrightarrow> (\<forall>p \<in> set (evo_proposals eng). proposal_ok (evo_min_gain eng) p)"

lemma default_hypothesis_known: "domain \<in> set DOMAINS \<Longrightarrow> \<exists>h. default_hypothesis domain = Inr h \<and> h \<noteq> []"
  by (auto simp: DOMAINS_def default_hypothesis_def)

lemma evo_by_id_in: "evo_by_id proposal_id eng = Inr p \<Longrightarrow> p \<in> set (evo_proposals eng) \<and> ep_id p = proposal_id"
  by (auto simp: evo_by_id_def dest: find_Some_in split: option.splits)

lemma upd_proposal_ok:
  "engine_ok eng \<Longrightarrow> proposal_ok (evo_min_gain eng) p' \<Longrightarrow> engine_ok (upd_proposal proposal_id (\<lambda>_. p') eng)"
  using set_replace_first [of "\<lambda>p. ep_id p = proposal_id" "\<lambda>_. p'" "evo_proposals eng"]
  by (auto simp: engine_ok_def upd_proposal_def)

lemma evo_propose_Inr:
  assumes "evo_propose env domain title description hypothesis eng = Inr (p, eng')"
  shows "eng' = eng\<lparr>evo_proposals := evo_proposals eng @ [p]\<rparr>" "ep_id p = new_id ''ev'' env" "ep_status p = ''proposed''"
    "ep_domain p \<in> set DOMAINS" "truthy (ep_hypothesis p)" "ep_delta p = []"
proof -
  obtain d where d: "known_domain domain = Some d"
    using assms by (auto simp: evo_propose_def split: option.splits)
  then have dom: "d \<in> set DOMAINS" by (auto simp: known_domain_def split: pyval.splits if_splits)
  then obtain h0 where h0: "default_hypothesis d = Inr h0" "h0 \<noteq> []" using default_hypothesis_known by blast
  define h where "h = (if truthy hypothesis then hypothesis else PStr h0)"
  have "truthy h" using h0 by (simp add: h_def)
  moreover have "p = \<lparr>ep_id = new_id ''ev'' env, ep_domain = d, ep_title = title, ep_description = description, ep_hypothesis = h,
      ep_status = ''proposed'', ep_before = [], ep_after = [], ep_delta = [], ep_adopted_at = PNone\<rparr> \<and>
      eng' = eng\<lparr>evo_proposals := evo_proposals eng @ [p]\<rparr>"
    using assms d h0 by (auto simp: evo_propose_def Let_def h_def split: if_splits)
  ultimately show "eng' = eng\<lparr>evo_proposals := evo_proposals eng @ [p]\<rparr>" "ep_id p = new_id ''ev'' env" "ep_status p = ''proposed''"
    "ep_domain p \<in> set DOMAINS" "truthy (ep_hypothesis p)" "ep_delta p = []"
    using dom by auto
qed

lemma evo_propose_ok:
  assumes "engine_ok eng" "evo_propose env domain title description hypothesis eng = Inr (p, eng')"
  shows "engine_ok eng'"
  using assms(1) evo_propose_Inr [OF assms(2)] by (simp add: engine_ok_def proposal_ok_def)

lemma evo_evaluate_ok:
  assumes "engine_ok eng" "evo_evaluate env proposal_id after eng = Inr (p, eng')"
  shows "engine_ok eng'"
proof -
  obtain q before where q: "evo_by_id proposal_id eng = Inr q" "eng' = upd_proposal proposal_id (\<lambda>_. measured before after q) eng"
    using assms(2) by (auto simp: evo_evaluate_def Let_def split: sum.splits)
  have "proposal_ok (evo_min_gain eng) q" using evo_by_id_in [OF q(1)] assms(1) by (simp add: engine_ok_def)
  then have "proposal_ok (evo_min_gain eng) (measured before after q)"
    by (simp add: proposal_ok_def measured_def Let_def)
  with assms(1) q(2) show ?thesis by (simp add: upd_proposal_ok)
qed

lemma evo_adopt_ok:
  assumes "engine_ok eng" "evo_adopt_if_gain proposal_id eng = Inr (p, eng')"
  shows "engine_ok eng'"
proof -
  obtain q where q: "evo_by_id proposal_id eng = Inr q"
    using assms(2) by (auto simp: evo_adopt_if_gain_def split: sum.splits)
  then have p: "eng' = upd_proposal proposal_id (\<lambda>_. p) eng"
    "p = (if total_gain q \<ge> evo_min_gain eng
       then q\<lparr>ep_status := ''adopted'', ep_adopted_at := (if truthy (ep_adopted_at q) then ep_adopted_at q else PBool True)\<rparr>
       else q\<lparr>ep_status := ''rejected''\<rparr>)"
    using assms(2) by (auto simp: evo_adopt_if_gain_def Let_def split: if_splits)
  have "proposal_ok (evo_min_gain eng) q" using evo_by_id_in [OF q] assms(1) by (simp add: engine_ok_def)
  then have "proposal_ok (evo_min_gain eng) p" by (auto simp: p(2) proposal_ok_def total_gain_def)
  with assms(1) p(1) show ?thesis by (simp add: upd_proposal_ok)
qed

interpretation evolution: machine evo_step engine_ok
proof
  fix c eng assume "engine_ok eng"
  then show "engine_ok (evo_step c eng)"
    by (cases c)
      (auto intro: evo_propose_ok evo_evaluate_ok evo_adopt_ok split: sum.splits, simp add: engine_ok_def)
qed

section \<open>Applying and reverting\<close>

lemma executor_log_frame [frame_simps]:
  "xe_config (executor_log env subject event payload decision_id ex) = xe_config ex"
  "xe_memory (executor_log env subject event payload decision_id ex) = xe_memory ex"
  "xe_records (executor_log env subject event payload decision_id ex) = xe_records ex"
  "xe_evolution (executor_log env subject event payload decision_id ex) = xe_evolution ex"
  by (simp_all add: executor_log_def split: ledger_link.splits)

lemma check_policy_frame [frame_simps]:
  "xe_config (snd (check_policy env target ex)) = xe_config ex"
  "xe_memory (snd (check_policy env target ex)) = xe_memory ex"
  "xe_records (snd (check_policy env target ex)) = xe_records ex"
  "xe_evolution (snd (check_policy env target ex)) = xe_evolution ex"
  "xe_ledger (snd (check_policy env target ex)) = xe_ledger ex"
  by (auto simp: check_policy_def split: option.splits sum.splits prod.splits)

lemma check_policy_allowed:
  assumes "check_policy env target ex = (Inr u, ex1)" "xe_policy ex = Some st"
  shows "\<exists>d st'. evaluate env \<lparr>pr_id = ''evolution'', pr_roles = [xe_approver_role ex], pr_groups = [], pr_attributes = []\<rparr>
      ''evolution.apply'' (Some \<lparr>rs_type = ''evolution'', rs_attributes = [(''target'', PStr target)]\<rparr>) 0 1 st = Inr (d, st') \<and>
    pd_allowed d"
  using assms by (auto simp: check_policy_def split: sum.splits if_splits)

lemma apply_locked_records:
  assumes "apply_locked h env proposal_id target mutation ex = Inr (r, ex')"
  shows "xe_records ex' = xe_records ex"
  using assms
  by (auto simp: apply_locked_def apply_config_def apply_prompt_def apply_branch_def Let_def
    split: if_splits sum.splits option.splits)

lemma apply_mutation_Inr:
  assumes "apply_mutation h env proposal_id target mutation ex = (Inr r, ex')"
  shows "\<exists>u ex1 ex2. target \<in> set MUTATION_TARGETS \<and> check_adopted proposal_id ex = Inr () \<and>
    check_policy env target ex = (Inr u, ex1) \<and> apply_locked h env proposal_id target mutation ex1 = Inr (r, ex2) \<and>
    ex' = executor_log env proposal_id (''mutation.'' @ mu_status r)
      (PDict [(''mutation_id'', PStr (mu_mutation_id r)), (''target'', PStr target), (''mutation'', PDict mutation)])
      (mu_mutation_id r) (ex2\<lparr>xe_records := xe_records ex2 @ [r]\<rparr>)"
  using assms by (auto simp: apply_mutation_def split: if_splits sum.splits prod.splits)

lemma apply_mutation_Inl:
  assumes "apply_mutation h env proposal_id target mutation ex = (Inl err, ex')"
  shows "ex' = ex \<or> ex' = snd (check_policy env target ex)"
  using assms by (auto simp: apply_mutation_def split: if_splits sum.splits prod.splits)


section \<open>The properties\<close>


definition sample_env2 :: "string \<Rightarrow> env" where
  "sample_env2 ident = \<lparr>env_time = 0, env_stamp = ''s'', env_uuid = ident\<rparr>"




text \<open>
  C18. Applying a mutation: it succeeds only for a known target, a proposal that exists and is
  adopted, and a policy decision that allows \<open>evolution.apply\<close>, and then appends exactly its record;
  when it raises, the configuration, the memory, the records and the proposals are as before.
\<close>
theorem apply_gated:
  assumes "apply_mutation h env proposal_id target mutation ex = (res, ex')"
  shows "case res of
      Inr r \<Rightarrow> target \<in> set MUTATION_TARGETS \<and> xe_records ex' = xe_records ex @ [r] \<and>
        (\<forall>eng. xe_evolution ex = Some eng \<longrightarrow> (\<exists>p. evo_get proposal_id eng = Inr p \<and> ep_status p = ''adopted'')) \<and>
        (\<forall>st. xe_policy ex = Some st \<longrightarrow> (\<exists>d st'.
          evaluate env \<lparr>pr_id = ''evolution'', pr_roles = [xe_approver_role ex], pr_groups = [], pr_attributes = []\<rparr>
            ''evolution.apply'' (Some \<lparr>rs_type = ''evolution'', rs_attributes = [(''target'', PStr target)]\<rparr>) 0 1 st = Inr (d, st') \<and>
          pd_allowed d))
    | Inl err \<Rightarrow> xe_config ex' = xe_config ex \<and> xe_memory ex' = xe_memory ex \<and> xe_records ex' = xe_records ex \<and>
        xe_evolution ex' = xe_evolution ex"
proof (cases res)
  case (Inl err)
  with assms apply_mutation_Inl [of h env proposal_id target mutation ex err ex'] show ?thesis
    by (auto simp: check_policy_frame)
next
  case (Inr r)
  then obtain u ex1 ex2 where a: "target \<in> set MUTATION_TARGETS" "check_adopted proposal_id ex = Inr ()"
      "check_policy env target ex = (Inr u, ex1)" "apply_locked h env proposal_id target mutation ex1 = Inr (r, ex2)"
    and ex': "xe_records ex' = xe_records ex2 @ [r]"
    using assms apply_mutation_Inr [of h env proposal_id target mutation ex r ex'] by (auto simp: executor_log_frame)
  have "xe_records ex2 = xe_records ex"
    using apply_locked_records [OF a(4)] check_policy_frame(3) [of env target ex] a(3) by simp
  moreover have "\<exists>p. evo_get proposal_id eng = Inr p \<and> ep_status p = ''adopted''" if "xe_evolution ex = Some eng" for eng
    using a(2) that by (auto simp: check_adopted_def split: sum.splits if_splits)
  ultimately show ?thesis using Inr a(1) ex' check_policy_allowed [OF a(3)] by simp
qed

definition sample_executor2 :: "(string, pyval) dict \<Rightarrow> evolution_executor" where
  "sample_executor2 config =
     new_executor (Some \<lparr>evo_min_gain = 0, evo_proposals =
       [\<lparr>ep_id = ''p'', ep_domain = ''routing'', ep_title = PStr [], ep_description = PStr [], ep_hypothesis = PStr ''h'',
         ep_status = ''adopted'', ep_before = [], ep_after = [], ep_delta = [], ep_adopted_at = PBool True\<rparr>],
       evo_learning = None\<rparr>) (Some config) None (Own_ledger new_ledger) None ''system.admin''"

lemma apply_gated_witness:
  "\<exists>r ex'. apply_mutation (\<lambda>_. []) (sample_env2 ''1'') ''p'' ''routing'' [(''set'', PDict [(''a'', PInt 1)])]
     (sample_executor2 []) = (Inr r, ex') \<and> xe_records ex' = [r]"
proof -
  obtain r ex' where r: "apply_mutation (\<lambda>_. []) (sample_env2 ''1'') ''p'' ''routing'' [(''set'', PDict [(''a'', PInt 1)])]
      (sample_executor2 []) = (Inr r, ex')"
    by (simp add: apply_mutation_def sample_executor2_def new_executor_def MUTATION_TARGETS_def check_adopted_def evo_get_def
      evo_by_id_def check_policy_def apply_locked_def apply_config_def get_or_def need_sets_def new_record_def Let_def)
  with apply_gated [OF r] show ?thesis by (simp add: sample_executor2_def new_executor_def)
qed



text \<open>
  A path below a value that is not a dictionary is outside the scope of the previous property: the
  value is overwritten with a dictionary and reverting does not bring it back.
\<close>
lemma revert_loses_parent:
  "\<exists>r ex1 r2 ex2. apply_mutation (\<lambda>_. []) (sample_env2 ''1'') ''p'' ''routing''
       [(''set'', PDict [(''a.b'', PInt 1)])] (sample_executor2 [(''a'', PInt 5)]) = (Inr r, ex1) \<and>
     revert_mutation (\<lambda>_. []) (sample_env2 ''2'') (mu_mutation_id r) ex1 = Inr (r2, ex2) \<and>
     get_dotted (xe_config ex2) ''a'' = PDict [(''b'', PNone)]"
  by (simp add: apply_mutation_def sample_executor2_def new_executor_def MUTATION_TARGETS_def check_adopted_def evo_get_def
      evo_by_id_def check_policy_def apply_locked_def apply_config_def get_or_def need_sets_def new_record_def Let_def
      executor_log_def revert_mutation_def undo_def readings_def need_dict_def set_all_def set_dotted_def get_dotted_def
      as_dict_def new_id_def)

end
