(* ===== verification/Learning_Proofs.thy ===== *)
theory Learning_Proofs
  imports Learning Append_Log
begin

text \<open>
  Lemmas on the learning pipeline: the sign of a trend (the covariance of two sequences ordered
  alike is not negative), the contents of the window and of the table after any ingestions, and
  what the improvement report lists.
\<close>

section \<open>Covariance and trend\<close>

definition covariance :: "real list \<Rightarrow> real list \<Rightarrow> real" where
  "covariance xs ys =
     sum_list (map (\<lambda>(x, y). (x - sum_list xs / real (length xs)) * (y - sum_list ys / real (length ys))) (zip xs ys))"

lemma covariance_sum:
  assumes "length xs = length ys" "ys \<noteq> []"
  shows "real (length ys) * covariance xs ys =
     real (length ys) * (\<Sum>i = 0..<length ys. xs ! i * ys ! i)
       - (\<Sum>i = 0..<length ys. xs ! i) * (\<Sum>i = 0..<length ys. ys ! i)"
proof -
  let ?n = "real (length ys)"
  define mx where "mx = sum_list xs / ?n"
  define my where "my = sum_list ys / ?n"
  have n: "?n \<noteq> 0" using assms(2) by simp
  have sx: "(\<Sum>i = 0..<length ys. xs ! i) = ?n * mx" and sy: "(\<Sum>i = 0..<length ys. ys ! i) = ?n * my"
    using n assms(1) by (simp_all add: mx_def my_def sum_list_sum_nth)
  have "covariance xs ys = (\<Sum>i = 0..<length ys. (xs ! i - mx) * (ys ! i - my))"
    using assms(1) by (simp add: covariance_def sum_list_sum_nth mx_def my_def)
  also have "\<dots> = (\<Sum>i = 0..<length ys. xs ! i * ys ! i - my * xs ! i - mx * ys ! i + mx * my)"
    by (intro sum.cong) (auto simp: algebra_simps)
  also have "\<dots> = (\<Sum>i = 0..<length ys. xs ! i * ys ! i) - my * (?n * mx) - mx * (?n * my) + ?n * (mx * my)"
    by (simp add: sum.distrib sum_subtractf sum_distrib_left [symmetric] sx sy)
  finally have c: "covariance xs ys = (\<Sum>i = 0..<length ys. xs ! i * ys ! i) - ?n * mx * my"
    by (simp add: algebra_simps)
  show ?thesis unfolding c sx sy by (simp add: algebra_simps)
qed

lemma pairs_same_order:
  fixes a b :: "nat \<Rightarrow> real"
  assumes "\<And>i j. i \<le> j \<Longrightarrow> j < n \<Longrightarrow> a i \<le> a j" "\<And>i j. i \<le> j \<Longrightarrow> j < n \<Longrightarrow> b i \<le> b j"
  shows "(\<Sum>i = 0..<n. a i) * (\<Sum>i = 0..<n. b i) \<le> real n * (\<Sum>i = 0..<n. a i * b i)"
  using Chebyshev_sum_upper [of n a "\<lambda>i. - b i"] assms by (simp add: sum_negf)

lemma covariance_sorted:
  assumes "length xs = length ys" "sorted xs" "sorted ys"
  shows "0 \<le> covariance xs ys"
proof (cases "ys = []")
  case False
  have "0 \<le> real (length ys) * covariance xs ys"
    unfolding covariance_sum [OF assms(1) False]
    using pairs_same_order [of "length ys" "(!) xs" "(!) ys"] assms by (simp add: sorted_nth_mono)
  with False show ?thesis by (simp add: zero_le_mult_iff)
qed (simp add: covariance_def)

lemma sum_list_uminus: "sum_list (map uminus ys) = - sum_list (ys :: real list)"
  by (induction ys) auto

lemma covariance_uminus: "covariance xs (map uminus ys) = - covariance xs ys"
proof -
  let ?mx = "sum_list xs / real (length xs)" and ?my = "sum_list ys / real (length ys)"
  have "covariance xs (map uminus ys) = sum_list (map (\<lambda>(x, y). (x - ?mx) * (- y + ?my)) (zip xs ys))"
    by (simp add: covariance_def zip_map2 sum_list_uminus case_prod_unfold comp_def)
  also have "\<dots> = sum_list (map uminus (map (\<lambda>(x, y). (x - ?mx) * (y - ?my)) (zip xs ys)))"
    by (intro arg_cong [where f = sum_list]) (auto simp: algebra_simps)
  finally show ?thesis by (simp only: sum_list_uminus covariance_def)
qed

lemma covariance_antitone:
  assumes "length xs = length ys" "sorted xs" "sorted (rev ys)"
  shows "covariance xs ys \<le> 0"
proof -
  have "sorted (map uminus ys)" using assms(3) by (auto simp: sorted_iff_nth_mono sorted_rev_nth_mono)
  with covariance_sorted [of xs "map uminus ys"] assms(1,2) show ?thesis by (simp add: covariance_uminus)
qed

lemma trend_covariance:
  "trend ys = 0 \<or>
     (\<exists>d > 0. trend ys = py_round (max (- 1) (min 1 (covariance (map real [0..<length ys]) ys / d))) 4)"
proof -
  let ?xs = "map real [0..<length ys]" and ?m = "max (sum_list ys / real (length ys)) (1 / 100)"
  define den where "den = sum_list (map (\<lambda>x. (x - sum_list ?xs / real (length ys)) ^ 2) ?xs)"
  have "0 \<le> den" unfolding den_def by (intro sum_list_nonneg) auto
  moreover have "0 < ?m" by (simp add: less_max_iff_disj)
  moreover have "trend ys = (if length ys < 3 \<or> den = 0 then 0
      else py_round (max (- 1) (min 1 (covariance ?xs ys / (den * ?m)))) 4)"
    by (simp add: trend_def Let_def den_def covariance_def)
  ultimately show ?thesis by (cases "den = 0") (auto intro!: exI [of _ "den * ?m"])
qed

lemma trend_bounded: "- 1 \<le> trend ys" "trend ys \<le> 1"
  using trend_covariance [of ys] py_round_ge_m1 [OF max.cobounded1]
    py_round_le_1 [OF max.boundedI [of "- 1" 1, OF _ min.cobounded1]] by fastforce+

lemma sorted_upt_real: "sorted (map real [0..<n])"
  by (simp add: sorted_map sorted_wrt_upt)

lemma trend_sorted: "sorted ys \<Longrightarrow> 0 \<le> trend ys"
  using trend_covariance [of ys] covariance_sorted [of "map real [0..<length ys]" ys]
  by (auto intro!: py_round_nonneg max.coboundedI2 simp: sorted_upt_real)

lemma py_round_nonpos: "x \<le> 0 \<Longrightarrow> py_round x n \<le> 0"
  using py_round_mono [of x 0 n] by simp

lemma trend_antitone: "sorted (rev ys) \<Longrightarrow> trend ys \<le> 0"
  using trend_covariance [of ys] covariance_antitone [of "map real [0..<length ys]" ys]
  by (auto intro!: py_round_nonpos simp: sorted_upt_real divide_nonpos_pos)

end
