(* ===== verification/Learning_Properties.thy ===== *)
theory Learning_Properties
  imports Learning_Proofs
begin

declare map_of_eq_Some_iff [simp del] Some_eq_map_of_iff [simp del]

text \<open>
  The properties of the learning pipeline: the meaning of a trend, the contents of the window and
  of the table after any ingestions, and the improvement report.
\<close>

section \<open>The window\<close>

lemma lp_window_run [frame_simps]: "lp_window (fold lp_ingest es lp) = lp_window lp"
  by (induction es arbitrary: lp) (simp_all add: lp_ingest_def Let_def)

lemma lp_store_run [frame_simps]: "lp_store (fold lp_ingest es lp) = map_option (fold store_ingest es) (lp_store lp)"
  by (induction es arbitrary: lp) (simp_all add: lp_ingest_def Let_def option.map_comp comp_def option.map_id)

lemma lp_ingest_evaluations:
  "lp_evaluations (lp_ingest e lp) =
     (if int (length (lp_evaluations lp @ [e])) > lp_window lp then last_n (lp_window lp) (lp_evaluations lp @ [e])
      else lp_evaluations lp @ [e])"
  by (simp add: lp_ingest_def Let_def)

lemma lp_evaluations_run:
  "0 < w \<Longrightarrow> lp_evaluations (fold lp_ingest es (new_pipeline w st)) = last_n w es"
proof (induction es rule: rev_induct)
  case Nil
  then show ?case by (simp add: new_pipeline_def last_n_drop)
next
  case (snoc e es)
  let ?lp = "fold lp_ingest es (new_pipeline w st)" and ?evs = "last_n w es @ [e]"
  have "lp_window ?lp = w" by (simp add: lp_window_run new_pipeline_def)
  then have "lp_evaluations (lp_ingest e ?lp) = (if int (length ?evs) > w then last_n w ?evs else ?evs)"
    using snoc.IH [OF snoc.prems] by (simp only: lp_ingest_evaluations)
  also have "\<dots> = last_n w ?evs" using snoc.prems last_n_all [of w ?evs] by simp
  also have "\<dots> = last_n w (es @ [e])" using snoc.prems by (rule last_n_snoc)
  finally show ?case by simp
qed

section \<open>The table\<close>

definition store_ok :: "evaluation_store \<Rightarrow> bool" where
  "store_ok rows \<longleftrightarrow> distinct (map ev_id rows)"

interpretation eval_table: machine store_ingest store_ok
  by unfold_locales (auto simp: store_ok_def store_ingest_def distinct_map inj_on_def)

lemma store_rows_run:
  "r \<in> set (fold store_ingest es []) \<longleftrightarrow> find (\<lambda>e. ev_id e = ev_id r) (rev es) = Some r"
proof (induction es rule: rev_induct)
  case (snoc e es)
  then show ?case by (auto simp: store_ingest_def)
qed simp

lemma store_ids_run: "ev_id ` set (fold store_ingest es []) = ev_id ` set es"
proof (induction es rule: rev_induct)
  case (snoc e es)
  have "ev_id ` set (fold store_ingest (es @ [e]) []) = insert (ev_id e) (ev_id ` set (fold store_ingest es []))"
    by (auto simp: store_ingest_def)
  with snoc.IH show ?case by simp
qed simp

lemma store_run_distinct: "distinct (map ev_id (fold store_ingest es []))"
  using eval_table.run_ok [of "[]" es] by (simp add: store_ok_def)

section \<open>The report\<close>

lemma take_sorted_rest:
  assumes "sorted_wrt R xs" "x \<in> set (take n xs)" "y \<in> set xs" "y \<notin> set (take n xs)"
  shows "R x y"
proof -
  have "y \<in> set (drop n xs)" using assms(3,4) by (metis UnE append_take_drop_id set_append)
  moreover have "sorted_wrt R (take n xs @ drop n xs)" using assms(1) by simp
  ultimately show ?thesis using assms(2) by (auto simp only: sorted_wrt_append)
qed

lemma sorted_wrt_take: "sorted_wrt R xs \<Longrightarrow> sorted_wrt R (take n xs)"
  by (metis append_take_drop_id sorted_wrt_append)

lemma trends_keys: "dict_keys (trends evs task_type) = METRIC_FIELDS"
  by (simp add: trends_def Let_def comp_def)

lemma METRIC_FIELDS_distinct: "distinct METRIC_FIELDS"
  by code_simp

lemma regressing_get:
  assumes "distinct (dict_keys d)"
  shows "dict_get (py_sorted snd (filter (\<lambda>(m, s). s < (0::real)) d)) k = Some s \<longleftrightarrow> dict_get d k = Some s \<and> s < 0"
    and "distinct (dict_keys (py_sorted snd (filter (\<lambda>(m, s). s < (0::real)) d)))"
proof -
  let ?f = "filter (\<lambda>(m, s). s < (0::real)) d"
  have f: "distinct (dict_keys ?f)" using assms by (rule distinct_map_filter)
  have "mset (map fst (py_sorted snd ?f)) = mset (map fst ?f)" by simp
  then show g: "distinct (dict_keys (py_sorted snd ?f))"
    using f mset_eq_imp_distinct_iff by blast
  have "(k, s) \<in> set (py_sorted snd ?f) \<longleftrightarrow> (k, s) \<in> set d \<and> s < 0" by auto
  then show "dict_get (py_sorted snd ?f) k = Some s \<longleftrightarrow> dict_get d k = Some s \<and> s < 0"
    using g assms by (simp only: dict_get_in)
qed

lemma build_recommendations_get:
  "distinct (dict_keys reg) \<Longrightarrow> build_recommendations reg =
     (let out = concat (map (\<lambda>(metric, advice). case dict_get reg metric of
            None \<Rightarrow> [] | Some slope \<Rightarrow> [advice_text metric slope advice]) ADVICE)
      in if out = [] then [no_advice] else out)"
proof -
  assume "distinct (dict_keys reg)"
  then have "dict_get (dict_merge [] reg) k = dict_get reg k" for k
    by (simp add: dict_merge_get split: option.splits)
  then show ?thesis by (simp only: build_recommendations_def Let_def)
qed

lemma no_advice_other: "advice_text m s a \<noteq> no_advice" if "(m, a) \<in> set ADVICE"
  using that by (auto simp: ADVICE_def advice_text_def no_advice_def)

lemma advice_lines:
  "set (concat (map (\<lambda>(metric, advice). case f metric of
      None \<Rightarrow> [] | Some slope \<Rightarrow> [advice_text metric slope advice]) ADVICE)) =
   {advice_text m s a |m s a. (m, a) \<in> set ADVICE \<and> f m = Some s}"
  "no_advice \<notin> {advice_text m s a |m s a. (m, a) \<in> set ADVICE \<and> f m = Some s}"
proof -
  have "set (case f m of None \<Rightarrow> [] | Some s \<Rightarrow> [advice_text m s a]) = {advice_text m s a |s. f m = Some s}" for m a
    by (auto split: option.splits)
  then show "set (concat (map (\<lambda>(metric, advice). case f metric of
      None \<Rightarrow> [] | Some slope \<Rightarrow> [advice_text metric slope advice]) ADVICE)) =
    {advice_text m s a |m s a. (m, a) \<in> set ADVICE \<and> f m = Some s}"
    by (auto simp: case_prod_unfold) blast
  show "no_advice \<notin> {advice_text m s a |m s a. (m, a) \<in> set ADVICE \<and> f m = Some s}"
    using no_advice_other by (auto dest: sym)
qed

lemma recommendations_set:
  assumes "distinct (dict_keys reg)"
  shows "set (build_recommendations reg) - {no_advice} =
    {advice_text m s a |m s a. (m, a) \<in> set ADVICE \<and> dict_get reg m = Some s}"
proof -
  define out where "out = concat (map (\<lambda>(metric, advice). case dict_get reg metric of
            None \<Rightarrow> [] | Some slope \<Rightarrow> [advice_text metric slope advice]) ADVICE)"
  have "build_recommendations reg = (if out = [] then [no_advice] else out)"
    by (simp add: build_recommendations_get [OF assms] out_def Let_def)
  moreover have "set out = {advice_text m s a |m s a. (m, a) \<in> set ADVICE \<and> dict_get reg m = Some s}"
    "no_advice \<notin> set out"
    using advice_lines [of "dict_get reg"] by (simp_all only: out_def simp_thms)
  ultimately show ?thesis by (cases "out = []") auto
qed

section \<open>The properties\<close>

text \<open>
  A trend is between -1 and 1; it is not negative for a series that never falls and not
  positive for one that never rises, so a constant series has trend 0.
\<close>
theorem trend_sound:
  "- 1 \<le> trend ys \<and> trend ys \<le> 1 \<and> (sorted ys \<longrightarrow> 0 \<le> trend ys) \<and> (sorted (rev ys) \<longrightarrow> trend ys \<le> 0)"
  by (simp add: trend_bounded trend_sorted trend_antitone)

lemma trend_sound_witness: "0 \<le> trend [1, 2, 2, 5] \<and> trend [3, 3, 3] = 0 \<and> trend [4, 2, 1 / 2] \<le> 0"
  using trend_sound [of "[1, 2, 2, 5]"] trend_sound [of "[3, 3, 3]"] trend_sound [of "[4, 2, 1 / 2]"] by simp

text \<open>
  After any ingestions into a new pipeline: without a store, reading gives exactly the last
  \<open>window\<close> evaluations in order; with an empty store it gives each identifier once, with the
  evaluation ingested last under it, and no other.
\<close>
theorem pipeline_contents:
  assumes "0 < w"
  shows "lp_read env (fold lp_ingest es (new_pipeline w None)) = drop (length es - nat w) es \<and>
    (let rs = lp_read env (fold lp_ingest es (new_pipeline w (Some []))) in
      distinct (map ev_id rs) \<and> set (map ev_id rs) = set (map ev_id es) \<and>
      (\<forall>r \<in> set rs. \<exists>e. find (\<lambda>e. ev_id e = ev_id r) (rev es) = Some e \<and> r = e\<lparr>ev_completed_at := env_stamp env\<rparr>))"
proof -
  let ?rows = "fold store_ingest es []"
  have w: "lp_read env (fold lp_ingest es (new_pipeline w None)) = drop (length es - nat w) es"
    using lp_evaluations_run [OF assms, of es None] assms
    by (simp add: lp_read_def lp_store_run new_pipeline_def last_n_drop)
  have s: "lp_read env (fold lp_ingest es (new_pipeline w (Some []))) = store_evaluations env ?rows"
    by (simp add: lp_read_def lp_store_run new_pipeline_def)
  have ids: "map ev_id (store_evaluations env ?rows) = map ev_id (sort_key ev_completed_at ?rows)"
    by (simp add: store_evaluations_def)
  have "mset (map ev_id (sort_key ev_completed_at ?rows)) = mset (map ev_id ?rows)" by simp
  then have d: "distinct (map ev_id (store_evaluations env ?rows))"
    using store_run_distinct [of es] mset_eq_imp_distinct_iff ids by metis
  have i: "set (map ev_id (store_evaluations env ?rows)) = set (map ev_id es)"
    using store_ids_run [of es] by (simp add: ids)
  have f: "\<exists>e. find (\<lambda>e. ev_id e = ev_id r) (rev es) = Some e \<and> r = e\<lparr>ev_completed_at := env_stamp env\<rparr>"
    if r: "r \<in> set (store_evaluations env ?rows)" for r
  proof -
    from r obtain e where e: "e \<in> set ?rows" "r = e\<lparr>ev_completed_at := env_stamp env\<rparr>"
      by (auto simp: store_evaluations_def)
    with store_rows_run [of e es] show ?thesis by auto
  qed
  show ?thesis unfolding Let_def s using w d i f by blast
qed

definition sample_evaluation :: "string \<Rightarrow> real \<Rightarrow> evaluation" where
  "sample_evaluation ident cost =
     \<lparr>ev_id = ident, ev_task_id = ''t'', ev_agent_id = ''a'', ev_task_type = ''generic'',
      ev_metrics = default_metrics\<lparr>mb_cost := cost\<rparr>, ev_summary = [], ev_completed_at = ident\<rparr>"

definition sample_env :: env where
  "sample_env = \<lparr>env_time = 0, env_stamp = ''2025-01-01T00:00:00+00:00'', env_uuid = ''00''\<rparr>"

lemma pipeline_contents_witness:
  "lp_read sample_env (fold lp_ingest (map (\<lambda>i. sample_evaluation [i] 1) ''abc'') (new_pipeline 2 None)) =
     map (\<lambda>i. sample_evaluation [i] 1) ''bc''"
  using pipeline_contents [of 2 sample_env "map (\<lambda>i. sample_evaluation [i] 1) ''abc''"] by simp

text \<open>
  The improvement report: the listed regressions are among the metrics of negative trend,
  steepest first, and no other metric is steeper; the recommendations are the advice of exactly
  the metrics with advice and negative trend, or the one line that there is nothing to do.
\<close>
theorem report_sound:
  "let report = lp_report env lp in
    length (ir_top_regressions report) \<le> 3 \<and>
    sorted (map snd (ir_top_regressions report)) \<and>
    set (ir_top_regressions report) \<subseteq> {(m, s) \<in> set (ir_trends report). s < 0} \<and>
    (\<forall>(m, s) \<in> set (ir_trends report). s < 0 \<longrightarrow>
      (m, s) \<in> set (ir_top_regressions report) \<or> (\<forall>(m', s') \<in> set (ir_top_regressions report). s' \<le> s)) \<and>
    set (ir_recommendations report) - {no_advice} =
      {advice_text m s a |m s a. (m, a) \<in> set ADVICE \<and> dict_get (ir_trends report) m = Some s \<and> s < 0} \<and>
    ir_recommendations report \<noteq> []"
proof -
  let ?tr = "lp_trends env None lp"
  let ?reg = "py_sorted snd (filter (\<lambda>(m, s). s < 0) ?tr)"
  have tr: "ir_trends (lp_report env lp) = ?tr" "ir_top_regressions (lp_report env lp) = take 3 ?reg"
    "ir_recommendations (lp_report env lp) = build_recommendations ?reg"
    by (simp_all add: lp_report_def Let_def)
  have dt: "distinct (dict_keys ?tr)"
    using METRIC_FIELDS_distinct by (simp only: lp_trends_def trends_keys)
  note reg = regressing_get [OF dt]
  have s: "sorted_wrt (\<lambda>p q. snd p \<le> snd q) ?reg"
    using sorted_sort_key [of snd "filter (\<lambda>(m, s). s < 0) ?tr"] by (simp only: sorted_map)
  have sub: "set (take 3 ?reg) \<subseteq> {(m, s) \<in> set ?tr. s < 0}"
    using set_take_subset [of 3 ?reg] by auto
  have best: "(m, x) \<in> set (take 3 ?reg) \<or> (\<forall>(m', x') \<in> set (take 3 ?reg). x' \<le> x)"
    if "(m, x) \<in> set ?tr" "x < 0" for m x
    using take_sorted_rest [OF s, of _ 3 "(m, x)"] that by auto
  have srt: "sorted (map snd (take 3 ?reg))"
    using sorted_wrt_take [OF s] by (simp add: sorted_map)
  have rec: "set (build_recommendations ?reg) - {no_advice} =
      {advice_text m s a |m s a. (m, a) \<in> set ADVICE \<and> dict_get ?tr m = Some s \<and> s < 0}"
    by (simp only: recommendations_set [OF reg(2)] reg(1))
  have ne: "build_recommendations reg \<noteq> []" for reg
    by (simp add: build_recommendations_def Let_def)
  have best': "\<forall>(m, x) \<in> set ?tr. x < 0 \<longrightarrow> (m, x) \<in> set (take 3 ?reg) \<or> (\<forall>(m', x') \<in> set (take 3 ?reg). x' \<le> x)"
    using best by blast
  show ?thesis unfolding Let_def tr
    by (intro conjI srt sub best' rec ne) simp
qed

lemma report_sound_witness:
  "ir_recommendations (lp_report sample_env (fold lp_ingest
     [sample_evaluation ''a'' 3, sample_evaluation ''b'' 2, sample_evaluation ''c'' 1] (new_pipeline 200 None))) \<noteq> []"
  using report_sound [of sample_env "fold lp_ingest
     [sample_evaluation ''a'' 3, sample_evaluation ''b'' 2, sample_evaluation ''c'' 1] (new_pipeline 200 None)"]
  by (simp add: Let_def)

end
