(* ===== verification/Fleet_Storage.thy ===== *)
theory Fleet_Storage
  imports Render
begin

text \<open>
  \<open>omni/fleet/protocol.py\<close> and \<open>omni/fleet/storage.py\<close>: what nodes post about themselves, and the
  two stores of the registry, the leader and the task queue: the in-process one and the tables of
  the Postgres one. A posted announcement is the record its JSON dump encodes. How the database
  driver hands a \<open>JSONB\<close> column to \<open>json.loads\<close> is the argument \<open>decode\<close>: as text, which
  decodes, or as the object already, which makes \<open>json.loads\<close> raise a \<open>TypeError\<close>.
\<close>

section \<open>Contracts\<close>

datatype node_role = LEADER | FOLLOWER

fun role_value :: "node_role \<Rightarrow> string" where
  "role_value LEADER = ''leader''"
| "role_value FOLLOWER = ''follower''"

record node_health =
  nh_node :: string
  nh_role :: node_role
  nh_agents_running :: int
  nh_agents_total :: int
  nh_avg_load :: real
  nh_queue_depth :: int
  nh_cost_spent :: real
  nh_ewma_rate :: real
  nh_uptime_s :: real
  nh_ts :: string

record workload_stats =
  ws_total_agents :: int
  ws_total_queued :: int
  ws_average_load :: real
  ws_total_cost :: real
  ws_arrival_rate :: real

record node_announcement =
  na_announcement_id :: string
  na_node :: string
  na_fqdn :: string
  na_version :: string
  na_capacity :: int
  na_role :: node_role
  na_health :: "node_health option"
  na_ts :: string

definition dump_health :: "node_health \<Rightarrow> pyval" where
  "dump_health h = PDict
     [(''node'', PStr (nh_node h)), (''role'', PStr (role_value (nh_role h))),
      (''agents_running'', PInt (nh_agents_running h)), (''agents_total'', PInt (nh_agents_total h)),
      (''avg_load'', PFloat (nh_avg_load h)), (''queue_depth'', PInt (nh_queue_depth h)),
      (''cost_spent'', PFloat (nh_cost_spent h)), (''ewma_rate'', PFloat (nh_ewma_rate h)),
      (''uptime_s'', PFloat (nh_uptime_s h)), (''ts'', PStr (nh_ts h))]"

definition dump_announcement :: "node_announcement \<Rightarrow> (string, pyval) dict" where
  "dump_announcement a =
     [(''announcement_id'', PStr (na_announcement_id a)), (''node'', PStr (na_node a)), (''fqdn'', PStr (na_fqdn a)),
      (''version'', PStr (na_version a)), (''capacity'', PInt (na_capacity a)), (''role'', PStr (role_value (na_role a))),
      (''health'', case na_health a of None \<Rightarrow> PNone | Some h \<Rightarrow> dump_health h), (''ts'', PStr (na_ts a))]"

type_synonym task_doc = "(string, pyval) dict"
type_synonym leader_row = "string \<times> int" \<comment> \<open>leader and term\<close>

section \<open>The in-process store\<close>

record mem_storage =
  ms_leader :: "leader_row option"
  ms_announcements :: "(string, node_announcement) dict"
  ms_queue :: "task_doc list"

definition new_mem_storage :: mem_storage where
  "new_mem_storage = \<lparr>ms_leader = None, ms_announcements = [], ms_queue = []\<rparr>"

definition ms_set_leader :: "string \<Rightarrow> int \<Rightarrow> mem_storage \<Rightarrow> leader_row \<times> mem_storage" where
  "ms_set_leader leader term st = ((leader, term), st\<lparr>ms_leader := Some (leader, term)\<rparr>)"

definition ms_get_leader :: "mem_storage \<Rightarrow> leader_row option" where
  "ms_get_leader st = ms_leader st"

definition ms_announce :: "string \<Rightarrow> node_announcement \<Rightarrow> mem_storage \<Rightarrow> node_announcement \<times> mem_storage" where
  "ms_announce key payload st = (payload, st\<lparr>ms_announcements := dict_set key payload (ms_announcements st)\<rparr>)"

definition ms_nodes :: "mem_storage \<Rightarrow> node_announcement list" where
  "ms_nodes st = dict_values (ms_announcements st)"

definition ms_enqueue :: "task_doc \<Rightarrow> mem_storage \<Rightarrow> task_doc \<times> mem_storage" where
  "ms_enqueue task st = (task, st\<lparr>ms_queue := ms_queue st @ [task]\<rparr>)"

definition ms_lease_task :: "mem_storage \<Rightarrow> task_doc option \<times> mem_storage" where
  "ms_lease_task st = (case ms_queue st of [] \<Rightarrow> (None, st) | task # rest \<Rightarrow> (Some task, st\<lparr>ms_queue := rest\<rparr>))"

section \<open>The Postgres tables\<close>

record queue_row =
  qr_id :: int
  qr_payload :: task_doc
  qr_status :: string
  qr_leased_by :: "string option"
  qr_leased_until :: "real option"

record node_row =
  nr_key :: string
  nr_payload :: node_announcement
  nr_updated_at :: real

record pg_storage =
  pg_leader :: "leader_row option"
  pg_nodes_table :: "node_row list"
  pg_task_queue :: "queue_row list"
  pg_seq :: int

definition new_pg_storage :: pg_storage where
  "new_pg_storage = \<lparr>pg_leader = None, pg_nodes_table = [], pg_task_queue = [], pg_seq = 0\<rparr>"

datatype 'a column = Column_text 'a | Column_object 'a

fun load_column :: "'a column \<Rightarrow> 'a result" where
  "load_column (Column_text v) = Inr v"
| "load_column (Column_object v) = Inl TypeError"

fun all_loaded :: "'a column list \<Rightarrow> 'a list result" where
  "all_loaded [] = Inr []"
| "all_loaded (c # cs) =
     (case load_column c of Inl err \<Rightarrow> Inl err
      | Inr v \<Rightarrow> (case all_loaded cs of Inl err \<Rightarrow> Inl err | Inr vs \<Rightarrow> Inr (v # vs)))"

definition pg_set_leader :: "string \<Rightarrow> int \<Rightarrow> pg_storage \<Rightarrow> leader_row \<times> pg_storage" where
  \<comment> \<open>\<open>ON CONFLICT (singleton) DO UPDATE\<close>: the table holds one row\<close>
  "pg_set_leader leader term st = ((leader, term), st\<lparr>pg_leader := Some (leader, term)\<rparr>)"

definition pg_get_leader :: "pg_storage \<Rightarrow> leader_row option" where
  "pg_get_leader st = pg_leader st"

definition pg_announce :: "real \<Rightarrow> string \<Rightarrow> node_announcement \<Rightarrow> pg_storage \<Rightarrow> node_announcement \<times> pg_storage" where
  "pg_announce now key payload st =
     (payload,
      st\<lparr>pg_nodes_table :=
        (if list_ex (\<lambda>r. nr_key r = key) (pg_nodes_table st)
         then map (\<lambda>r. if nr_key r = key then r\<lparr>nr_payload := payload, nr_updated_at := now\<rparr> else r) (pg_nodes_table st)
         else pg_nodes_table st @ [\<lparr>nr_key = key, nr_payload = payload, nr_updated_at = now\<rparr>])\<rparr>)"

definition pg_nodes :: "(node_announcement \<Rightarrow> node_announcement column) \<Rightarrow> pg_storage \<Rightarrow> node_announcement list result" where
  \<comment> \<open>\<open>ORDER BY updated_at DESC\<close>; rows of one time, whose order SQL leaves open, keep the table's\<close>
  "pg_nodes decode st = all_loaded (map (\<lambda>r. decode (nr_payload r)) (py_sorted_desc nr_updated_at (pg_nodes_table st)))"

definition with_id :: "int \<Rightarrow> task_doc \<Rightarrow> task_doc" where
  \<comment> \<open>\<open>{"id": str(task_id), **task}\<close>\<close>
  "with_id i task = dict_merge [(''id'', PStr (show_int i))] task"

definition pg_enqueue :: "task_doc \<Rightarrow> pg_storage \<Rightarrow> task_doc \<times> pg_storage" where
  "pg_enqueue task st =
     (let i = pg_seq st + 1 in
      (with_id i task,
       st\<lparr>pg_task_queue := pg_task_queue st @
            [\<lparr>qr_id = i, qr_payload = task, qr_status = ''queued'', qr_leased_by = None, qr_leased_until = None\<rparr>],
          pg_seq := i\<rparr>))"

definition available :: "real \<Rightarrow> queue_row \<Rightarrow> bool" where
  \<comment> \<open>\<open>status = 'queued' OR leased_until < NOW()\<close>; a comparison with null is not true\<close>
  "available now r \<longleftrightarrow> qr_status r = ''queued'' \<or> (case qr_leased_until r of None \<Rightarrow> False | Some t \<Rightarrow> t < now)"

definition pg_lease_task :: "(task_doc \<Rightarrow> task_doc column) \<Rightarrow> real \<Rightarrow> string \<Rightarrow> int \<Rightarrow> pg_storage \<Rightarrow>
    task_doc option result \<times> pg_storage" where
  \<comment> \<open>the update is committed before the payload is decoded\<close>
  "pg_lease_task decode now node lease_s st =
     (case sort_key qr_id (filter (available now) (pg_task_queue st)) of
        [] \<Rightarrow> (Inr None, st)
      | row # _ \<Rightarrow>
          ((case load_column (decode (qr_payload row)) of
              Inl err \<Rightarrow> Inl err
            | Inr task \<Rightarrow> Inr (Some (with_id (qr_id row) task))),
           st\<lparr>pg_task_queue := map (\<lambda>r. if qr_id r = qr_id row
                then r\<lparr>qr_status := ''leased'', qr_leased_by := Some node, qr_leased_until := Some (now + of_int lease_s)\<rparr>
                else r) (pg_task_queue st)\<rparr>))"

section \<open>The interface\<close>

datatype fleet_storage = In_memory mem_storage | Postgres pg_storage

fun storage_set_leader :: "string \<Rightarrow> int \<Rightarrow> fleet_storage \<Rightarrow> leader_row \<times> fleet_storage" where
  "storage_set_leader leader term (In_memory st) = (case ms_set_leader leader term st of (r, st') \<Rightarrow> (r, In_memory st'))"
| "storage_set_leader leader term (Postgres st) = (case pg_set_leader leader term st of (r, st') \<Rightarrow> (r, Postgres st'))"

fun storage_get_leader :: "fleet_storage \<Rightarrow> leader_row option" where
  "storage_get_leader (In_memory st) = ms_get_leader st"
| "storage_get_leader (Postgres st) = pg_get_leader st"

fun storage_announce :: "real \<Rightarrow> string \<Rightarrow> node_announcement \<Rightarrow> fleet_storage \<Rightarrow> node_announcement \<times> fleet_storage" where
  "storage_announce now key payload (In_memory st) = (case ms_announce key payload st of (r, st') \<Rightarrow> (r, In_memory st'))"
| "storage_announce now key payload (Postgres st) = (case pg_announce now key payload st of (r, st') \<Rightarrow> (r, Postgres st'))"

fun storage_nodes :: "(node_announcement \<Rightarrow> node_announcement column) \<Rightarrow> fleet_storage \<Rightarrow> node_announcement list result" where
  "storage_nodes decode (In_memory st) = Inr (ms_nodes st)"
| "storage_nodes decode (Postgres st) = pg_nodes decode st"

fun storage_enqueue :: "task_doc \<Rightarrow> fleet_storage \<Rightarrow> task_doc \<times> fleet_storage" where
  "storage_enqueue task (In_memory st) = (case ms_enqueue task st of (r, st') \<Rightarrow> (r, In_memory st'))"
| "storage_enqueue task (Postgres st) = (case pg_enqueue task st of (r, st') \<Rightarrow> (r, Postgres st'))"

fun storage_lease_task :: "(task_doc \<Rightarrow> task_doc column) \<Rightarrow> real \<Rightarrow> string \<Rightarrow> int \<Rightarrow> fleet_storage \<Rightarrow>
    task_doc option result \<times> fleet_storage" where
  "storage_lease_task decode now node lease_s (In_memory st) = (case ms_lease_task st of (r, st') \<Rightarrow> (Inr r, In_memory st'))"
| "storage_lease_task decode now node lease_s (Postgres st) =
     (case pg_lease_task decode now node lease_s st of (r, st') \<Rightarrow> (r, Postgres st'))"

end
