(* ===== verification/Fleet_Bus.thy ===== *)
theory Fleet_Bus
  imports Render Append_Log
begin

text \<open>
  \<open>omni/fleet/bus.py\<close>: subject matching and the synchronous in-process bus. A handler is an
  abstract value; what calling it does to the state the handlers share (the bus included) is the
  argument \<open>act\<close> of \<open>publish\<close>, which may raise. The bus over a NATS
  server is in \<open>Nats_Bus\<close>.
\<close>

section \<open>Subject matching\<close>

fun match_parts :: "string list \<Rightarrow> string list \<Rightarrow> bool" where
  \<comment> \<open>the loop of \<open>_matches\<close> over the tokens of the pattern\<close>
  "match_parts [] ss = (ss = [])"
| "match_parts (p # ps) ss =
     (if p = ''>'' then True
      else (case ss of [] \<Rightarrow> False
            | s # ss' \<Rightarrow> if p \<noteq> ''*'' \<and> p \<noteq> s then False else match_parts ps ss'))"

definition matches :: "string \<Rightarrow> string \<Rightarrow> bool" where
  "matches pattern subject \<longleftrightarrow>
     pattern = subject \<or> match_parts (split_on CHR ''.'' pattern) (split_on CHR ''.'' subject)"

section \<open>The bus\<close>

type_synonym payload = "(string, pyval) dict"

record 'h bus =
  bus_subs :: "(string, (int \<times> 'h) list) dict"
  bus_next_id :: int
  bus_published :: "(string \<times> payload) list"

definition new_bus :: "'h bus" where
  "new_bus = \<lparr>bus_subs = [], bus_next_id = 0, bus_published = []\<rparr>"

record subscription =
  sn_subject :: string
  sn_id :: int

definition bus_subscribe :: "string \<Rightarrow> 'h \<Rightarrow> 'h bus \<Rightarrow> subscription \<times> 'h bus" where
  "bus_subscribe subject handler b =
     (\<lparr>sn_subject = subject, sn_id = bus_next_id b\<rparr>,
      b\<lparr>bus_next_id := bus_next_id b + 1,
        bus_subs := dict_append subject (bus_next_id b, handler) (bus_subs b)\<rparr>)"

definition bus_unsubscribe :: "subscription \<Rightarrow> 'h bus \<Rightarrow> 'h bus" where
  "bus_unsubscribe sub b =
     (let subs = (case dict_get (bus_subs b) (sn_subject sub) of None \<Rightarrow> [] | Some xs \<Rightarrow> xs)
      in b\<lparr>bus_subs := dict_set (sn_subject sub) (filter (\<lambda>(i, h). i \<noteq> sn_id sub) subs) (bus_subs b)\<rparr>)"

definition receivers :: "string \<Rightarrow> ('h, 'z) bus_scheme \<Rightarrow> (int \<times> 'h) list" where
  \<comment> \<open>the subscriptions a publication reaches, in the order it calls them\<close>
  "receivers subject b = concat (map (\<lambda>(pattern, subs). if matches pattern subject then subs else []) (bus_subs b))"

fun deliver :: "('h \<Rightarrow> string \<Rightarrow> payload \<Rightarrow> 's \<Rightarrow> unit result \<times> 's) \<Rightarrow> 'h list \<Rightarrow> string \<Rightarrow> payload \<Rightarrow> 's \<Rightarrow> unit result \<times> 's" where
  "deliver act [] subject payload s = (Inr (), s)"
| "deliver act (h # hs) subject payload s =
     (case act h subject payload s of
        (Inl err, s') \<Rightarrow> (Inl err, s')
      | (Inr _, s') \<Rightarrow> deliver act hs subject payload s')"

type_synonym ('h, 'z) handler_effect = "'h \<Rightarrow> string \<Rightarrow> payload \<Rightarrow> ('h, 'z) bus_scheme \<Rightarrow> unit result \<times> ('h, 'z) bus_scheme"

definition bus_publish :: "('h, 'z) handler_effect \<Rightarrow> string \<Rightarrow> payload \<Rightarrow> ('h, 'z) bus_scheme \<Rightarrow>
    unit result \<times> ('h, 'z) bus_scheme" where
  \<comment> \<open>the receivers are collected before the first one runs; what else the handlers share extends the record\<close>
  "bus_publish act subject payload b =
     deliver act (map snd (receivers subject b)) subject payload
       (b\<lparr>bus_published := bus_published b @ [(subject, payload)]\<rparr>)"

section \<open>Handlers that do not raise\<close>

definition quiet :: "('h, 'z) handler_effect \<Rightarrow> bool" where
  \<comment> \<open>no handler raises\<close>
  "quiet act \<longleftrightarrow> (\<forall>h subject payload b. fst (act h subject payload b) = Inr ())"

lemma deliver_quiet: "quiet act \<Longrightarrow> fst (deliver act hs subject payload b) = Inr ()"
  by (induction hs arbitrary: b) (auto simp: quiet_def split: prod.splits sum.splits, metis fst_conv sum.distinct(1))

lemma bus_publish_quiet: "quiet act \<Longrightarrow> fst (bus_publish act subject payload b) = Inr ()"
  by (simp add: bus_publish_def deliver_quiet)

section \<open>Matching against its meaning\<close>

definition token_ok :: "string \<Rightarrow> string \<Rightarrow> bool" where
  "token_ok p s \<longleftrightarrow> p = ''*'' \<or> p = s"

lemma match_parts_no_rest:
  "''>'' \<notin> set ps \<Longrightarrow> match_parts ps ss \<longleftrightarrow> list_all2 token_ok ps ss"
  by (induction ps ss rule: match_parts.induct) (auto simp: token_ok_def list_all2_Cons1 split: list.splits)

lemma match_parts_rest:
  "''>'' \<notin> set ps \<Longrightarrow>
     match_parts (ps @ ''>'' # qs) ss \<longleftrightarrow> length ps \<le> length ss \<and> list_all2 token_ok ps (take (length ps) ss)"
  by (induction ps arbitrary: ss) (auto simp: token_ok_def split: list.splits)

section \<open>Who receives\<close>

definition entries :: "'h bus \<Rightarrow> (int \<times> string \<times> 'h) set" where
  "entries b = {(i, pattern, h). \<exists>subs. (pattern, subs) \<in> set (bus_subs b) \<and> (i, h) \<in> set subs}"

definition bus_ok :: "'h bus \<Rightarrow> bool" where
  \<comment> \<open>one list per pattern, identifiers below the counter, none used twice\<close>
  "bus_ok b \<longleftrightarrow> distinct (dict_keys (bus_subs b)) \<and>
     (\<forall>pattern subs. (pattern, subs) \<in> set (bus_subs b) \<longrightarrow> distinct (map fst subs)) \<and>
     (\<forall>i pattern h. (i, pattern, h) \<in> entries b \<longrightarrow> i < bus_next_id b) \<and>
     (\<forall>i pattern h pattern' h'. (i, pattern, h) \<in> entries b \<longrightarrow> (i, pattern', h') \<in> entries b \<longrightarrow> pattern = pattern')"

lemma bus_okD:
  assumes "bus_ok b"
  shows "distinct (dict_keys (bus_subs b))"
    and "(pattern, subs) \<in> set (bus_subs b) \<Longrightarrow> distinct (map fst subs)"
    and "(i, pattern, h) \<in> entries b \<Longrightarrow> i < bus_next_id b"
    and "(i, pattern, h) \<in> entries b \<Longrightarrow> (i, pattern', h') \<in> entries b \<Longrightarrow> pattern = pattern'"
  using assms unfolding bus_ok_def by blast+

lemma entries_in: "(pattern, subs) \<in> set (bus_subs b) \<Longrightarrow> (i, h) \<in> set subs \<Longrightarrow> (i, pattern, h) \<in> entries b"
  by (auto simp: entries_def)

lemma receivers_entries:
  "set (receivers subject b) = {(i, h). \<exists>pattern. (i, pattern, h) \<in> entries b \<and> matches pattern subject}"
  by (fastforce simp: receivers_def entries_def split: if_splits)

lemma distinct_ids_concat:
  assumes "distinct (dict_keys d)" "\<And>k xs. (k, xs) \<in> set d \<Longrightarrow> distinct (map fst xs)"
    "\<And>k xs k' ys i v w. (k, xs) \<in> set d \<Longrightarrow> (k', ys) \<in> set d \<Longrightarrow> (i, v) \<in> set xs \<Longrightarrow> (i, w) \<in> set ys \<Longrightarrow> k = k'"
  shows "distinct (map fst (concat (map (\<lambda>(k, xs). if P k then xs else []) d)))"
  using assms
proof (induction d)
  case (Cons kx d)
  obtain k xs where kx: "kx = (k, xs)" by (cases kx)
  define rest where "rest = concat (map (\<lambda>(k, xs). if P k then xs else []) d)"
  have "distinct (dict_keys d)" using Cons.prems(1) by simp
  moreover have "\<And>k xs. (k, xs) \<in> set d \<Longrightarrow> distinct (map fst xs)" using Cons.prems(2) by (meson list.set_intros(2))
  moreover have "\<And>k xs k' ys i v w. (k, xs) \<in> set d \<Longrightarrow> (k', ys) \<in> set d \<Longrightarrow> (i, v) \<in> set xs \<Longrightarrow> (i, w) \<in> set ys \<Longrightarrow> k = k'"
    using Cons.prems(3) by (meson list.set_intros(2))
  ultimately have ih: "distinct (map fst rest)" unfolding rest_def by (rule Cons.IH)
  have "fst p \<notin> fst ` set xs" if "p \<in> set rest" for p
  proof
    assume "fst p \<in> fst ` set xs"
    then obtain v where v: "(fst p, v) \<in> set xs" by force
    from that obtain k' ys where ys: "(k', ys) \<in> set d" "(fst p, snd p) \<in> set ys"
      by (auto simp: rest_def split: if_splits)
    have "k = k'" by (rule Cons.prems(3) [of k xs k' ys "fst p" v "snd p"]) (use kx v ys in auto)
    then show False using Cons.prems(1) kx ys(1) by force
  qed
  then have "set (map fst xs) \<inter> set (map fst rest) = {}" by (metis disjoint_iff imageE list.set_map)
  moreover have "distinct (map fst xs)" using Cons.prems(2) [of k xs] kx by simp
  ultimately show ?case using ih kx by (simp add: rest_def)
qed simp

lemma receivers_distinct:
  assumes "bus_ok b"
  shows "distinct (map fst (receivers subject b))"
  unfolding receivers_def
proof (rule distinct_ids_concat)
  note ok = bus_okD [OF assms]
  show "distinct (dict_keys (bus_subs b))" by (rule ok(1))
  show "distinct (map fst subs)" if "(pattern, subs) \<in> set (bus_subs b)" for pattern subs
    using that by (rule ok(2))
  show "pattern = pattern'" if "(pattern, subs) \<in> set (bus_subs b)" "(pattern', subs') \<in> set (bus_subs b)"
      "(i, v) \<in> set subs" "(i, w) \<in> set subs'" for pattern subs pattern' subs' i v w
    using entries_in [OF that(1,3)] entries_in [OF that(2,4)] by (rule ok(4))
qed

lemma entries_get:
  "distinct (dict_keys (bus_subs b)) \<Longrightarrow>
     (i, pattern, h) \<in> entries b \<longleftrightarrow> (\<exists>subs. dict_get (bus_subs b) pattern = Some subs \<and> (i, h) \<in> set subs)"
  by (simp only: entries_def dict_get_in mem_Collect_eq case_prod_conv)

lemma bus_subscribe_entries:
  assumes "distinct (dict_keys (bus_subs b))"
  shows "entries (snd (bus_subscribe subject handler b)) = insert (bus_next_id b, subject, handler) (entries b)"
    and "distinct (dict_keys (bus_subs (snd (bus_subscribe subject handler b))))"
proof -
  show d: "distinct (dict_keys (bus_subs (snd (bus_subscribe subject handler b))))"
    using assms by (simp add: bus_subscribe_def dict_append_def)
  show "entries (snd (bus_subscribe subject handler b)) = insert (bus_next_id b, subject, handler) (entries b)"
    by (auto simp: entries_get [OF assms] entries_get [OF d])
      (auto simp: bus_subscribe_def dict_append_def split: if_splits option.splits simp del: map_of_eq_Some_iff)
qed

lemma bus_unsubscribe_entries:
  assumes "distinct (dict_keys (bus_subs b))"
  shows "entries (bus_unsubscribe sub b) = entries b - {(i, pattern, h). i = sn_id sub \<and> pattern = sn_subject sub}"
    and "distinct (dict_keys (bus_subs (bus_unsubscribe sub b)))"
proof -
  show d: "distinct (dict_keys (bus_subs (bus_unsubscribe sub b)))"
    using assms by (simp add: bus_unsubscribe_def Let_def)
  show "entries (bus_unsubscribe sub b) = entries b - {(i, pattern, h). i = sn_id sub \<and> pattern = sn_subject sub}"
    by (auto simp: entries_get [OF assms] entries_get [OF d])
      (auto simp: bus_unsubscribe_def Let_def split: if_splits option.splits simp del: map_of_eq_Some_iff)
qed

lemma dict_set_in_values: "(k, v) \<in> set (dict_set k' v' d) \<Longrightarrow> (k, v) = (k', v') \<or> (k, v) \<in> set d"
  using set_dict_set [of k' v' d] by auto

lemma bus_okI:
  assumes "distinct (dict_keys (bus_subs b))"
    "\<And>pattern subs. (pattern, subs) \<in> set (bus_subs b) \<Longrightarrow> distinct (map fst subs)"
    "\<And>i pattern h. (i, pattern, h) \<in> entries b \<Longrightarrow> i < bus_next_id b"
    "\<And>i pattern h pattern' h'. (i, pattern, h) \<in> entries b \<Longrightarrow> (i, pattern', h') \<in> entries b \<Longrightarrow> pattern = pattern'"
  shows "bus_ok b"
  using assms unfolding bus_ok_def by blast

lemma bus_subscribe_ok [inv_intros]:
  assumes "bus_ok b"
  shows "bus_ok (snd (bus_subscribe subject handler b))"
proof -
  let ?b = "snd (bus_subscribe subject handler b)"
  note ok = bus_okD [OF assms]
  note e = bus_subscribe_entries [OF ok(1), of subject handler]
  have n: "bus_next_id ?b = bus_next_id b + 1" by (simp add: bus_subscribe_def)
  show ?thesis
  proof (rule bus_okI)
    show "distinct (dict_keys (bus_subs ?b))" by (rule e(2))
    show "i < bus_next_id ?b" if "(i, pattern, h) \<in> entries ?b" for i pattern h
      using that ok(3) [of i pattern h] e(1) n by auto
    show "pattern = pattern'" if "(i, pattern, h) \<in> entries ?b" "(i, pattern', h') \<in> entries ?b" for i pattern h pattern' h'
      using that ok(4) [of i pattern h pattern' h'] ok(3) [of i pattern h] ok(3) [of i pattern' h'] e(1) by auto
    show "distinct (map fst subs)" if "(pattern, subs) \<in> set (bus_subs ?b)" for pattern subs
    proof (cases "(pattern, subs) \<in> set (bus_subs b)")
      case False
      with that have subs: "subs = (case dict_get (bus_subs b) subject of None \<Rightarrow> [] | Some vs \<Rightarrow> vs) @ [(bus_next_id b, handler)]"
        by (auto simp: bus_subscribe_def dict_append_def dest: dict_set_in_values)
      show ?thesis
      proof (cases "dict_get (bus_subs b) subject")
        case (Some vs)
        then have vs: "(subject, vs) \<in> set (bus_subs b)" by (rule map_of_SomeD)
        then have "bus_next_id b \<notin> fst ` set vs" using ok(3) entries_in [OF vs] by force
        with subs Some vs ok(2) show ?thesis by simp
      qed (use subs in simp)
    qed (rule ok(2))
  qed
qed

lemma bus_unsubscribe_ok [inv_intros]:
  assumes "bus_ok b"
  shows "bus_ok (bus_unsubscribe sub b)"
proof -
  let ?b = "bus_unsubscribe sub b"
  note ok = bus_okD [OF assms]
  note e = bus_unsubscribe_entries [OF ok(1), of sub]
  have n: "bus_next_id ?b = bus_next_id b" by (simp add: bus_unsubscribe_def Let_def)
  show ?thesis
  proof (rule bus_okI)
    show "distinct (dict_keys (bus_subs ?b))" by (rule e(2))
    show "i < bus_next_id ?b" if "(i, pattern, h) \<in> entries ?b" for i pattern h
      using that ok(3) [of i pattern h] e(1) n by auto
    show "pattern = pattern'" if "(i, pattern, h) \<in> entries ?b" "(i, pattern', h') \<in> entries ?b" for i pattern h pattern' h'
      using that ok(4) [of i pattern h pattern' h'] e(1) by auto
    show "distinct (map fst subs)" if "(pattern, subs) \<in> set (bus_subs ?b)" for pattern subs
    proof (cases "(pattern, subs) \<in> set (bus_subs b)")
      case False
      with that have subs: "subs = filter (\<lambda>(i, h). i \<noteq> sn_id sub)
          (case dict_get (bus_subs b) (sn_subject sub) of None \<Rightarrow> [] | Some xs \<Rightarrow> xs)"
        by (auto simp: bus_unsubscribe_def Let_def dest: dict_set_in_values)
      show ?thesis
      proof (cases "dict_get (bus_subs b) (sn_subject sub)")
        case (Some xs)
        then have "distinct (map fst xs)" by (intro ok(2) map_of_SomeD)
        with subs Some show ?thesis by (simp add: distinct_map_filter)
      qed (use subs in simp)
    qed (rule ok(2))
  qed
qed

end
