(* ===== verification/Fleet_Node.thy ===== *)
theory Fleet_Node
  imports Fleet_Storage Fleet_Bus Orchestrator "HOL-Library.Product_Lexorder"
begin

text \<open>
  \<open>omni/fleet/node.py\<close> and \<open>omni/fleet/scheduler.py\<close>: a member of the fleet over the shared store
  and the optional bus, and one tick of the scheduler. The store and the bus are shared by the
  nodes, so they form the world the operations are passed and return.
\<close>

record ('h, 'z) fleet_world =
  fw_storage :: fleet_storage
  fw_bus :: "('h, 'z) bus_scheme option"

record fleet_node =
  fn_id :: string
  fn_capacity :: int
  fn_version :: string
  fn_fqdn :: string \<comment> \<open>what the host's resolver returns\<close>


definition announcement_key :: "fleet_node \<Rightarrow> string" where
  "announcement_key n = ''fleet.node.'' @ fn_id n"

definition node_publish :: "('h, 'z) handler_effect \<Rightarrow> string \<Rightarrow> payload \<Rightarrow> ('h, 'z) fleet_world \<Rightarrow> unit result \<times> ('h, 'z) fleet_world" where
  "node_publish act subject payload w =
     (case fw_bus w of
        None \<Rightarrow> (Inr (), w)
      | Some b \<Rightarrow> (case bus_publish act subject payload b of (r, b') \<Rightarrow> (r, w\<lparr>fw_bus := Some b'\<rparr>)))"

section \<open>Registry\<close>

definition node_announce :: "('h, 'z) handler_effect \<Rightarrow> env \<Rightarrow> node_health option \<Rightarrow> fleet_node \<Rightarrow> ('h, 'z) fleet_world \<Rightarrow>
    node_announcement result \<times> ('h, 'z) fleet_world" where
  "node_announce act env health n w =
     (let a = \<lparr>na_announcement_id = new_id ''ann'' env, na_node = fn_id n, na_fqdn = fn_fqdn n, na_version = fn_version n,
            na_capacity = fn_capacity n, na_role = FOLLOWER, na_health = health, na_ts = env_stamp env\<rparr>;
          (stored, storage') = storage_announce (env_time env) (announcement_key n) a (fw_storage w)
      in case node_publish act (''fleet.'' @ fn_id n @ ''.announce'') (dump_announcement stored) (w\<lparr>fw_storage := storage'\<rparr>) of
           (Inl err, w') \<Rightarrow> (Inl err, w')
         | (Inr _, w') \<Rightarrow> (Inr stored, w'))"

definition node_peers :: "(node_announcement \<Rightarrow> node_announcement column) \<Rightarrow> fleet_node \<Rightarrow> ('h, 'z) fleet_world \<Rightarrow> node_announcement list result" where
  "node_peers decode n w =
     (case storage_nodes decode (fw_storage w) of Inl err \<Rightarrow> Inl err
      | Inr ns \<Rightarrow> Inr (filter (\<lambda>a. na_node a \<noteq> fn_id n) ns))"

definition is_registered :: "(node_announcement \<Rightarrow> node_announcement column) \<Rightarrow> fleet_node \<Rightarrow> ('h, 'z) fleet_world \<Rightarrow> bool result" where
  "is_registered decode n w =
     (case storage_nodes decode (fw_storage w) of Inl err \<Rightarrow> Inl err
      | Inr ns \<Rightarrow> Inr (list_ex (\<lambda>a. na_node a = fn_id n) ns))"

section \<open>Election\<close>

definition candidate_key :: "node_announcement \<Rightarrow> int \<times> string" where
  "candidate_key a = (na_capacity a, na_node a)"

definition dump_leader :: "leader_row \<Rightarrow> payload" where
  "dump_leader l = [(''leader'', PStr (fst l)), (''term'', PInt (snd l))]"

definition elect :: "('h, 'z) handler_effect \<Rightarrow> (node_announcement \<Rightarrow> node_announcement column) \<Rightarrow> env \<Rightarrow> fleet_node \<Rightarrow>
    ('h, 'z) fleet_world \<Rightarrow> (string option \<times> int) result \<times> ('h, 'z) fleet_world" where
  "elect act decode env n w =
     (case node_announce act env None n w of
        (Inl err, w1) \<Rightarrow> (Inl err, w1)
      | (Inr _, w1) \<Rightarrow>
          (case storage_nodes decode (fw_storage w1) of
             Inl err \<Rightarrow> (Inl err, w1)
           | Inr [] \<Rightarrow> (Inr (None, 0), w1)
           | Inr (c # cs) \<Rightarrow>
               (let best = py_max candidate_key c cs; current = storage_get_leader (fw_storage w1) in
                if na_node best = fn_id n
                then
                  (let term = (case current of None \<Rightarrow> 1 | Some l \<Rightarrow> snd l + 1);
                       (l, storage') = storage_set_leader (fn_id n) term (fw_storage w1)
                   in case node_publish act ''fleet.leader.elected'' (dump_leader l) (w1\<lparr>fw_storage := storage'\<rparr>) of
                        (Inl err, w2) \<Rightarrow> (Inl err, w2)
                      | (Inr _, w2) \<Rightarrow> (Inr (Some (fst l), snd l), w2))
                else
                  (Inr (Some (na_node best),
                        case current of None \<Rightarrow> 0 | Some l \<Rightarrow> if fst l = na_node best then snd l else 0), w1))))"

definition is_leader :: "fleet_node \<Rightarrow> ('h, 'z) fleet_world \<Rightarrow> bool" where
  "is_leader n w = (case storage_get_leader (fw_storage w) of None \<Rightarrow> False | Some l \<Rightarrow> fst l = fn_id n)"

section \<open>Workload\<close>

definition report_int :: "string \<Rightarrow> pyval \<Rightarrow> int" where
  \<comment> \<open>\<open>report[k]\<close> of a counter of the report\<close>
  "report_int k r = (case r of PDict d \<Rightarrow> (case dict_get d k of Some (PInt i) \<Rightarrow> i | _ \<Rightarrow> 0) | _ \<Rightarrow> 0)"

definition report_float :: "string \<Rightarrow> pyval \<Rightarrow> real" where
  "report_float k r = (case r of PDict d \<Rightarrow> (case dict_get d k of Some (PFloat x) \<Rightarrow> x | _ \<Rightarrow> 0) | _ \<Rightarrow> 0)"

definition workload :: "orchestrator \<Rightarrow> workload_stats" where
  "workload orch =
     (let report = orchestrator_report orch in
      \<lparr>ws_total_agents = report_int ''agents_total'' report, ws_total_queued = report_int ''tasks_queued'' report,
       ws_average_load = report_float ''avg_load'' report, ws_total_cost = total_cost orch,
       ws_arrival_rate = arrival_rate orch\<rparr>)"

section \<open>Tasks\<close>

definition node_enqueue :: "('h, 'z) handler_effect \<Rightarrow> task_doc \<Rightarrow> ('h, 'z) fleet_world \<Rightarrow> task_doc result \<times> ('h, 'z) fleet_world" where
  "node_enqueue act task w =
     (case storage_enqueue task (fw_storage w) of (stored, storage') \<Rightarrow>
        (case node_publish act ''fleet.queue.enqueued'' stored (w\<lparr>fw_storage := storage'\<rparr>) of
           (Inl err, w') \<Rightarrow> (Inl err, w')
         | (Inr _, w') \<Rightarrow> (Inr stored, w')))"

definition adopt_task :: "('h, 'z) handler_effect \<Rightarrow> (task_doc \<Rightarrow> task_doc column) \<Rightarrow> env \<Rightarrow> fleet_node \<Rightarrow> ('h, 'z) fleet_world \<Rightarrow>
    task_doc option result \<times> ('h, 'z) fleet_world" where
  "adopt_task act decode env n w =
     (case storage_lease_task decode (env_time env) (fn_id n) 60 (fw_storage w) of
        (Inl err, storage') \<Rightarrow> (Inl err, w\<lparr>fw_storage := storage'\<rparr>)
      | (Inr None, storage') \<Rightarrow> (Inr None, w\<lparr>fw_storage := storage'\<rparr>)
      | (Inr (Some task), storage') \<Rightarrow>
          (case node_publish act ''fleet.queue.leased'' (dict_merge [(''node'', PStr (fn_id n))] task) (w\<lparr>fw_storage := storage'\<rparr>) of
             (Inl err, w') \<Rightarrow> (Inl err, w')
           | (Inr _, w') \<Rightarrow> (Inr (Some task), w')))"

section \<open>The scheduler\<close>

definition scheduler_tick :: "('h, 'z) handler_effect \<Rightarrow> env \<Rightarrow> orchestrator \<times> ('h, 'z) bus_scheme \<Rightarrow>
    payload result \<times> (orchestrator \<times> ('h, 'z) bus_scheme)" where
  "scheduler_tick act env st =
     (let (moves, orch) = balance (8 / 10) (2 / 10) (fst st);
          payload = [(''moved'', PInt (int (length moves))), (''report'', orchestrator_report orch), (''at'', PFloat (env_time env))]
      in case bus_publish act ''fleet.scheduler.tick'' payload (snd st) of
           (Inl err, b) \<Rightarrow> (Inl err, (orch, b))
         | (Inr _, b) \<Rightarrow> (Inr payload, (orch, b)))"

end
