(* ===== verification/Fleet_Contracts.thy ===== *)
theory Fleet_Contracts
  imports Fleet_Node
begin

text \<open>
  What the fleet relies on in a store, as two contracts: a registry with a leader, and a queue
  that leases its waiting tasks oldest first. Both stores provide both, and so does the interface
  that dispatches to them.
\<close>

section \<open>Registry\<close>

locale fleet_registry =
  fixes inv :: "'s \<Rightarrow> bool"
    and nodes :: "'s \<Rightarrow> 'a list"
    and announce :: "real \<Rightarrow> string \<Rightarrow> 'a \<Rightarrow> 's \<Rightarrow> 'a \<times> 's"
    and posted :: "'s \<Rightarrow> string \<Rightarrow> 'a option"
    and set_leader :: "string \<Rightarrow> int \<Rightarrow> 's \<Rightarrow> (string \<times> int) \<times> 's"
    and get_leader :: "'s \<Rightarrow> (string \<times> int) option"
  assumes nodes_posted: "inv s \<Longrightarrow> set (nodes s) = ran (posted s)"
    and announce_inv: "inv s \<Longrightarrow> inv (snd (announce now k a s))"
    and announce_posted: "inv s \<Longrightarrow> posted (snd (announce now k a s)) = (posted s)(k \<mapsto> a)"
    and announce_result: "fst (announce now k a s) = a"
    and announce_leader: "get_leader (snd (announce now k a s)) = get_leader s"
    and leader_inv: "inv s \<Longrightarrow> inv (snd (set_leader l t s))"
    and leader_posted: "posted (snd (set_leader l t s)) = posted s"
    and leader_result: "fst (set_leader l t s) = (l, t)"
    and leader_get: "get_leader (snd (set_leader l t s)) = Some (l, t)"
begin

lemma announced: "inv s \<Longrightarrow> a \<in> set (nodes (snd (announce now k a s)))"
  using nodes_posted [OF announce_inv] by (auto simp: announce_posted intro: ranI)

lemma announce_again:
  "inv s \<Longrightarrow> posted (snd (announce now' k a' (snd (announce now k a s)))) = (posted s)(k \<mapsto> a')"
  by (simp add: announce_posted announce_inv)

end

section \<open>Queue\<close>

locale fleet_queue =
  fixes inv :: "'s \<Rightarrow> bool"
    and waiting :: "real \<Rightarrow> 's \<Rightarrow> 't list"
    and enqueue :: "'t \<Rightarrow> 's \<Rightarrow> 't \<times> 's"
    and lease :: "real \<Rightarrow> string \<Rightarrow> 's \<Rightarrow> 't option result \<times> 's"
  assumes enqueue_inv: "inv s \<Longrightarrow> inv (snd (enqueue t s))"
    and enqueue_waiting: "inv s \<Longrightarrow> waiting now (snd (enqueue t s)) = waiting now s @ [fst (enqueue t s)]"
    and lease_none: "inv s \<Longrightarrow> waiting now s = [] \<Longrightarrow> lease now node s = (Inr None, s)"
    and lease_some: "inv s \<Longrightarrow> waiting now s = t # ts \<Longrightarrow>
      fst (lease now node s) = Inr (Some t) \<and> waiting now (snd (lease now node s)) = ts \<and> inv (snd (lease now node s))"
begin

primrec lease_many :: "real \<Rightarrow> string list \<Rightarrow> 's \<Rightarrow> 't option result list" where
  "lease_many now [] s = []"
| "lease_many now (node # ns) s = fst (lease now node s) # lease_many now ns (snd (lease now node s))"

lemma lease_many_fifo:
  "inv s \<Longrightarrow> lease_many now ns s =
     map (\<lambda>t. Inr (Some t)) (take (length ns) (waiting now s)) @ replicate (length ns - length (waiting now s)) (Inr None)"
proof (induction ns arbitrary: s)
  case (Cons node ns)
  show ?case
  proof (cases "waiting now s")
    case Nil
    with Cons lease_none [of s now node] show ?thesis by simp
  next
    case (Cons t ts)
    with lease_some [OF Cons.prems, of now t ts node] Cons.IH show ?thesis by simp
  qed
qed simp

end

section \<open>The in-process store provides both\<close>

definition ms_ok :: "mem_storage \<Rightarrow> bool" where
  "ms_ok st \<longleftrightarrow> distinct (dict_keys (ms_announcements st))"

interpretation mem_registry: fleet_registry ms_ok ms_nodes "\<lambda>now. ms_announce" "\<lambda>st. dict_get (ms_announcements st)"
    ms_set_leader ms_get_leader
  by unfold_locales
    (auto simp: ms_ok_def ms_nodes_def ms_announce_def ms_set_leader_def ms_get_leader_def ran_distinct update_conv')

interpretation mem_queue: fleet_queue "\<lambda>_. True" "\<lambda>now. ms_queue" ms_enqueue
    "\<lambda>now node st. (Inr (fst (ms_lease_task st)), snd (ms_lease_task st))"
  by unfold_locales (auto simp: ms_enqueue_def ms_lease_task_def split: list.splits)

section \<open>The Postgres tables provide both\<close>

definition pg_ok :: "pg_storage \<Rightarrow> bool" where
  "pg_ok st \<longleftrightarrow> distinct (map nr_key (pg_nodes_table st)) \<and>
     sorted_wrt (<) (map qr_id (pg_task_queue st)) \<and> (\<forall>r \<in> set (pg_task_queue st). qr_id r \<le> pg_seq st)"

definition pg_posted :: "pg_storage \<Rightarrow> string \<Rightarrow> node_announcement option" where
  "pg_posted st key = map_option nr_payload (find (\<lambda>r. nr_key r = key) (pg_nodes_table st))"

definition pg_waiting :: "real \<Rightarrow> pg_storage \<Rightarrow> task_doc list" where
  "pg_waiting now st = map (\<lambda>r. with_id (qr_id r) (qr_payload r)) (filter (available now) (pg_task_queue st))"

lemma all_loaded_text [simp]: "all_loaded (map (\<lambda>r. Column_text (f r)) rs) = Inr (map f rs)"
  by (induction rs) simp_all

lemma pg_nodes_text: "pg_nodes Column_text st = Inr (map nr_payload (py_sorted_desc nr_updated_at (pg_nodes_table st)))"
  by (simp add: pg_nodes_def)

lemma find_key:
  "distinct (map nr_key rows) \<Longrightarrow> find (\<lambda>r. nr_key r = key) rows = Some r \<longleftrightarrow> r \<in> set rows \<and> nr_key r = key"
  by (induction rows) auto

lemma pg_posted_ran: "distinct (map nr_key (pg_nodes_table st)) \<Longrightarrow> ran (pg_posted st) = nr_payload ` set (pg_nodes_table st)"
  by (auto simp: ran_def pg_posted_def find_key)

lemma find_update_key:
  "find (\<lambda>r. nr_key r = key) (map (\<lambda>r. if nr_key r = k then r\<lparr>nr_payload := a, nr_updated_at := now\<rparr> else r) rows) =
     (if key = k then map_option (\<lambda>r. r\<lparr>nr_payload := a, nr_updated_at := now\<rparr>) (find (\<lambda>r. nr_key r = k) rows)
      else find (\<lambda>r. nr_key r = key) rows)"
  by (induction rows) auto

lemma pg_announce_posted: "pg_posted (snd (pg_announce now k a st)) = (pg_posted st)(k \<mapsto> a)"
proof
  fix key
  show "pg_posted (snd (pg_announce now k a st)) key = ((pg_posted st)(k \<mapsto> a)) key"
  proof (cases "list_ex (\<lambda>r. nr_key r = k) (pg_nodes_table st)")
    case True
    then obtain r where "find (\<lambda>r. nr_key r = k) (pg_nodes_table st) = Some r"
      by (cases "find (\<lambda>r. nr_key r = k) (pg_nodes_table st)") (auto simp: find_None_not list_ex_iff)
    with True show ?thesis by (simp add: pg_posted_def pg_announce_def find_update_key)
  next
    case False
    then have "find (\<lambda>r. nr_key r = k) (pg_nodes_table st) = None" by (simp add: find_None_not list_ex_iff)
    with False show ?thesis by (auto simp: pg_posted_def pg_announce_def find_append split: option.splits)
  qed
qed

lemma map_update_key:
  "map nr_key (map (\<lambda>r. if nr_key r = k then r\<lparr>nr_payload := a, nr_updated_at := now\<rparr> else r) rows) = map nr_key rows"
  by (induction rows) auto

lemma pg_announce_ok: "pg_ok st \<Longrightarrow> pg_ok (snd (pg_announce now k a st))"
  by (cases "list_ex (\<lambda>r. nr_key r = k) (pg_nodes_table st)")
    (auto simp: pg_ok_def pg_announce_def map_update_key list_ex_iff simp del: map_map)

interpretation pg_registry: fleet_registry pg_ok "\<lambda>st. map nr_payload (py_sorted_desc nr_updated_at (pg_nodes_table st))"
    pg_announce pg_posted pg_set_leader pg_get_leader
  by unfold_locales
    (auto simp: pg_posted_ran pg_ok_def pg_announce_posted pg_announce_ok [unfolded pg_ok_def],
      auto simp: pg_announce_def pg_set_leader_def pg_get_leader_def pg_posted_def pg_ok_def)

lemma pg_enqueue_ok: "pg_ok st \<Longrightarrow> pg_ok (snd (pg_enqueue t st))"
  by (auto simp: pg_ok_def pg_enqueue_def Let_def sorted_wrt_append)

lemma pg_sorted: "pg_ok st \<Longrightarrow> sort_key qr_id (filter P (pg_task_queue st)) = filter P (pg_task_queue st)"
  by (rule py_sorted_id) (simp add: pg_ok_def sorted_wrt_map sorted_wrt_filter)

lemma not_available_leased:
  "\<not> available now (r\<lparr>qr_status := ''leased'', qr_leased_by := Some node, qr_leased_until := Some (now + 60)\<rparr>)"
  by (simp add: available_def)

lemma filter_lease_head:
  assumes "sorted_wrt (<) (map qr_id rows)" "filter (available now) rows = row # rest"
  shows "filter (available now) (map (\<lambda>r. if qr_id r = qr_id row
      then r\<lparr>qr_status := ''leased'', qr_leased_by := Some node, qr_leased_until := Some (now + 60)\<rparr> else r) rows) = rest"
  using assms
proof (induction rows)
  case (Cons r rows)
  let ?upd = "\<lambda>r. if qr_id r = qr_id row
      then r\<lparr>qr_status := ''leased'', qr_leased_by := Some node, qr_leased_until := Some (now + 60)\<rparr> else r"
  show ?case
  proof (cases "available now r")
    case True
    with Cons.prems(2) have r: "r = row" "filter (available now) rows = rest" by simp_all
    have "map ?upd rows = rows" using Cons.prems(1) r(1) by (intro map_idI) force
    with r True show ?thesis by (simp add: not_available_leased)
  next
    case False
    with Cons.prems(2) have "filter (available now) rows = row # rest" by simp
    then have "row \<in> set rows" by (metis filter_is_subset in_mono list.set_intros(1))
    with Cons.prems(1) have "qr_id r \<noteq> qr_id row" by force
    with Cons False show ?thesis by simp
  qed
qed simp

lemma pg_lease_text:
  assumes "pg_ok st"
  shows "pg_lease_task Column_text now node 60 st =
    (case filter (available now) (pg_task_queue st) of
       [] \<Rightarrow> (Inr None, st)
     | row # _ \<Rightarrow> (Inr (Some (with_id (qr_id row) (qr_payload row))),
         st\<lparr>pg_task_queue := map (\<lambda>r. if qr_id r = qr_id row
           then r\<lparr>qr_status := ''leased'', qr_leased_by := Some node, qr_leased_until := Some (now + 60)\<rparr> else r) (pg_task_queue st)\<rparr>))"
  by (simp add: pg_lease_task_def pg_sorted [OF assms] split: list.splits)

interpretation pg_queue: fleet_queue pg_ok pg_waiting pg_enqueue "\<lambda>now node. pg_lease_task Column_text now node 60"
proof
  fix st now t assume ok: "pg_ok st"
  show "pg_ok (snd (pg_enqueue t st))" using ok by (rule pg_enqueue_ok)
  show "pg_waiting now (snd (pg_enqueue t st)) = pg_waiting now st @ [fst (pg_enqueue t st)]"
    by (simp add: pg_waiting_def pg_enqueue_def Let_def available_def)
next
  fix st now node assume ok: "pg_ok st" and "pg_waiting now st = []"
  then show "pg_lease_task Column_text now node 60 st = (Inr None, st)"
    by (simp add: pg_lease_text pg_waiting_def)
next
  fix st now node t ts assume ok: "pg_ok st" and w: "pg_waiting now st = t # ts"
  then obtain row rest where r: "filter (available now) (pg_task_queue st) = row # rest"
      "t = with_id (qr_id row) (qr_payload row)" "ts = map (\<lambda>r. with_id (qr_id r) (qr_payload r)) rest"
    by (auto simp: pg_waiting_def map_eq_Cons_conv)
  let ?upd = "\<lambda>r. if qr_id r = qr_id row
      then r\<lparr>qr_status := ''leased'', qr_leased_by := Some node, qr_leased_until := Some (now + 60)\<rparr> else r"
  have l: "pg_lease_task Column_text now node 60 st =
      (Inr (Some t), st\<lparr>pg_task_queue := map ?upd (pg_task_queue st)\<rparr>)"
    using r by (simp add: pg_lease_text [OF ok])
  have ids: "map qr_id (map ?upd rows) = map qr_id rows" for rows by (induction rows) auto
  have "pg_ok (st\<lparr>pg_task_queue := map ?upd (pg_task_queue st)\<rparr>)"
    using ok ids [of "pg_task_queue st"] by (auto simp: pg_ok_def simp del: map_map)
  moreover have "pg_waiting now (st\<lparr>pg_task_queue := map ?upd (pg_task_queue st)\<rparr>) = ts"
    using ok r filter_lease_head [of "pg_task_queue st" now row rest node] by (simp add: pg_waiting_def pg_ok_def)
  ultimately show "fst (pg_lease_task Column_text now node 60 st) = Inr (Some t) \<and>
      pg_waiting now (snd (pg_lease_task Column_text now node 60 st)) = ts \<and>
      pg_ok (snd (pg_lease_task Column_text now node 60 st))"
    by (simp add: l)
qed

section \<open>So does the interface\<close>

fun storage_ok :: "fleet_storage \<Rightarrow> bool" where
  "storage_ok (In_memory st) = ms_ok st"
| "storage_ok (Postgres st) = pg_ok st"

fun storage_posted :: "fleet_storage \<Rightarrow> string \<Rightarrow> node_announcement option" where
  "storage_posted (In_memory st) = dict_get (ms_announcements st)"
| "storage_posted (Postgres st) = pg_posted st"

fun storage_waiting :: "real \<Rightarrow> fleet_storage \<Rightarrow> task_doc list" where
  "storage_waiting now (In_memory st) = ms_queue st"
| "storage_waiting now (Postgres st) = pg_waiting now st"

definition nodes_listed :: "fleet_storage \<Rightarrow> node_announcement list" where
  \<comment> \<open>what \<open>nodes()\<close> returns when the columns are text\<close>
  "nodes_listed st = (case storage_nodes Column_text st of Inl _ \<Rightarrow> [] | Inr ns \<Rightarrow> ns)"

lemma storage_nodes_text: "storage_nodes Column_text st = Inr (nodes_listed st)"
  by (cases st) (simp_all add: nodes_listed_def pg_nodes_text)

interpretation storage_registry: fleet_registry storage_ok nodes_listed storage_announce storage_posted
    storage_set_leader storage_get_leader
proof
  fix s now k a l t
  show "storage_ok s \<Longrightarrow> set (nodes_listed s) = ran (storage_posted s)"
    using mem_registry.nodes_posted pg_registry.nodes_posted by (cases s) (simp_all add: nodes_listed_def pg_nodes_text)
  show "storage_ok s \<Longrightarrow> storage_ok (snd (storage_announce now k a s))"
    using mem_registry.announce_inv pg_registry.announce_inv by (cases s) (simp_all add: case_prod_unfold)
  show "storage_ok s \<Longrightarrow> storage_posted (snd (storage_announce now k a s)) = (storage_posted s)(k \<mapsto> a)"
    using mem_registry.announce_posted pg_registry.announce_posted by (cases s) (simp_all add: case_prod_unfold)
  show "fst (storage_announce now k a s) = a"
    using mem_registry.announce_result pg_registry.announce_result by (cases s) (simp_all add: case_prod_unfold)
  show "storage_get_leader (snd (storage_announce now k a s)) = storage_get_leader s"
    using mem_registry.announce_leader pg_registry.announce_leader by (cases s) (simp_all add: case_prod_unfold)
  show "storage_ok s \<Longrightarrow> storage_ok (snd (storage_set_leader l t s))"
    using mem_registry.leader_inv pg_registry.leader_inv by (cases s) (simp_all add: case_prod_unfold)
  show "storage_posted (snd (storage_set_leader l t s)) = storage_posted s"
    using mem_registry.leader_posted pg_registry.leader_posted by (cases s) (simp_all add: case_prod_unfold)
  show "fst (storage_set_leader l t s) = (l, t)"
    using mem_registry.leader_result pg_registry.leader_result by (cases s) (simp_all add: case_prod_unfold)
  show "storage_get_leader (snd (storage_set_leader l t s)) = Some (l, t)"
    using mem_registry.leader_get pg_registry.leader_get by (cases s) (simp_all add: case_prod_unfold)
qed

interpretation storage_queue: fleet_queue storage_ok storage_waiting storage_enqueue
    "\<lambda>now node. storage_lease_task Column_text now node 60"
proof
  fix s now node t ts
  show "storage_ok s \<Longrightarrow> storage_ok (snd (storage_enqueue t s))"
    using pg_queue.enqueue_inv by (cases s) (simp_all add: case_prod_unfold ms_enqueue_def ms_ok_def)
  show "storage_ok s \<Longrightarrow> storage_waiting now (snd (storage_enqueue t s)) = storage_waiting now s @ [fst (storage_enqueue t s)]"
    using mem_queue.enqueue_waiting pg_queue.enqueue_waiting by (cases s) (simp_all add: case_prod_unfold)
  show "storage_ok s \<Longrightarrow> storage_waiting now s = [] \<Longrightarrow> storage_lease_task Column_text now node 60 s = (Inr None, s)"
    using mem_queue.lease_none pg_queue.lease_none by (cases s) (simp_all add: case_prod_unfold)
  show "storage_ok s \<Longrightarrow> storage_waiting now s = t # ts \<Longrightarrow>
      fst (storage_lease_task Column_text now node 60 s) = Inr (Some t) \<and>
      storage_waiting now (snd (storage_lease_task Column_text now node 60 s)) = ts \<and>
      storage_ok (snd (storage_lease_task Column_text now node 60 s))"
    using mem_queue.lease_some pg_queue.lease_some
    by (cases s) (simp_all add: case_prod_unfold ms_lease_task_def ms_ok_def)
qed

end
