(* ===== verification/Fleet_Properties.thy ===== *)
theory Fleet_Properties
  imports Fleet_Contracts
begin

text \<open>
  The properties of the fleet: who a publication reaches, that two nodes elect the same leader and
  only the winner writes a new term, and that the queue leases oldest first, no task twice.
\<close>

section \<open>The bus refines a set of subscriptions\<close>











text \<open>
  Matching by tokens: without a rest wildcard the tokens match one by one, and with one, only the
  tokens before it do; a pattern whose rest wildcard stands for no token matches too.
\<close>
lemma rest_matches_nothing: "matches ''fleet.>'' ''fleet''"
  by (simp add: matches_def)

section \<open>Election\<close>


lemma publish_quiet:
  assumes "quiet act"
  shows "\<exists>w'. node_publish act subject payload w = (Inr (), w') \<and> fw_storage w' = fw_storage w"
proof (cases "fw_bus w")
  case (Some b)
  obtain r b' where p: "bus_publish act subject payload b = (r, b')" by (cases "bus_publish act subject payload b")
  then have "r = Inr ()"
    using deliver_quiet [OF assms] unfolding bus_publish_def by (metis fst_conv)
  with Some p show ?thesis by (simp add: node_publish_def)
qed (simp add: node_publish_def)








definition sample_world :: "(unit, unit) fleet_world" where
  "sample_world = \<lparr>fw_storage = In_memory new_mem_storage, fw_bus = Some new_bus\<rparr>"

definition sample_node :: "string \<Rightarrow> int \<Rightarrow> fleet_node" where
  "sample_node ident capacity = \<lparr>fn_id = ident, fn_capacity = capacity, fn_version = ''0.4.0'', fn_fqdn = ''host''\<rparr>"

definition fleet_env :: env where
  "fleet_env = \<lparr>env_time = 0, env_stamp = ''s'', env_uuid = ''1''\<rparr>"

definition no_effect :: "(unit, unit) handler_effect" where
  "no_effect h subject payload b = (Inr (), b)"


section \<open>The queue\<close>

primrec adopt_all :: "('h, 'z) handler_effect \<Rightarrow> env \<Rightarrow> fleet_node list \<Rightarrow> ('h, 'z) fleet_world \<Rightarrow> task_doc option result list" where
  \<comment> \<open>nodes that adopt one after the other, at one time\<close>
  "adopt_all act env [] w = []"
| "adopt_all act env (n # ns) w =
     fst (adopt_task act Column_text env n w) # adopt_all act env ns (snd (adopt_task act Column_text env n w))"

lemma adopt_task_quiet:
  assumes "quiet act"
  shows "fst (adopt_task act Column_text env n w) = fst (storage_lease_task Column_text (env_time env) (fn_id n) 60 (fw_storage w))"
    and "fw_storage (snd (adopt_task act Column_text env n w)) =
      snd (storage_lease_task Column_text (env_time env) (fn_id n) 60 (fw_storage w))"
proof -
  obtain r st where l: "storage_lease_task Column_text (env_time env) (fn_id n) 60 (fw_storage w) = (r, st)" by fastforce
  have "fst (adopt_task act Column_text env n w) = r \<and> fw_storage (snd (adopt_task act Column_text env n w)) = st"
  proof (cases r)
    case (Inr t)
    show ?thesis
    proof (cases t)
      case (Some task)
      obtain w' where "node_publish act ''fleet.queue.leased'' (dict_merge [(''node'', PStr (fn_id n))] task) (w\<lparr>fw_storage := st\<rparr>) =
          (Inr (), w')" "fw_storage w' = st"
        using publish_quiet [OF assms, of "''fleet.queue.leased''" "dict_merge [(''node'', PStr (fn_id n))] task" "w\<lparr>fw_storage := st\<rparr>"]
        by auto
      with l Inr Some show ?thesis by (simp add: adopt_task_def)
    qed (use l Inr in \<open>simp add: adopt_task_def\<close>)
  qed (use l in \<open>simp add: adopt_task_def\<close>)
  with l show "fst (adopt_task act Column_text env n w) = fst (storage_lease_task Column_text (env_time env) (fn_id n) 60 (fw_storage w))"
    "fw_storage (snd (adopt_task act Column_text env n w)) =
      snd (storage_lease_task Column_text (env_time env) (fn_id n) 60 (fw_storage w))" by simp_all
qed

lemma adopt_all_lease_many:
  "quiet act \<Longrightarrow> adopt_all act env ns w = storage_queue.lease_many (env_time env) (map fn_id ns) (fw_storage w)"
  by (induction ns arbitrary: w) (simp_all add: adopt_task_quiet)

text \<open>
  The task queue, with handlers that do not raise: an enqueued task goes behind the waiting
  ones, and nodes that adopt at one time get the waiting tasks oldest first, each once, and then
  none; on both stores.
\<close>
theorem queue_fifo:
  assumes "quiet act" "storage_ok (fw_storage w)"
  shows "(\<exists>stored w'. node_enqueue act task w = (Inr stored, w') \<and> storage_ok (fw_storage w') \<and>
      storage_waiting (env_time env) (fw_storage w') = storage_waiting (env_time env) (fw_storage w) @ [stored]) \<and>
    adopt_all act env ns w =
      map (\<lambda>t. Inr (Some t)) (take (length ns) (storage_waiting (env_time env) (fw_storage w))) @
      replicate (length ns - length (storage_waiting (env_time env) (fw_storage w))) (Inr None)"
proof
  let ?st = "snd (storage_enqueue task (fw_storage w))" and ?t = "fst (storage_enqueue task (fw_storage w))"
  obtain w' where w': "node_publish act ''fleet.queue.enqueued'' ?t (w\<lparr>fw_storage := ?st\<rparr>) = (Inr (), w')" "fw_storage w' = ?st"
    using publish_quiet [OF assms(1), of "''fleet.queue.enqueued''" ?t "w\<lparr>fw_storage := ?st\<rparr>"] by auto
  then have "node_enqueue act task w = (Inr ?t, w')" by (simp add: node_enqueue_def case_prod_unfold)
  then show "\<exists>stored w'. node_enqueue act task w = (Inr stored, w') \<and> storage_ok (fw_storage w') \<and>
      storage_waiting (env_time env) (fw_storage w') = storage_waiting (env_time env) (fw_storage w) @ [stored]"
    using w'(2) storage_queue.enqueue_inv [OF assms(2)] storage_queue.enqueue_waiting [OF assms(2)] by auto
  show "adopt_all act env ns w =
      map (\<lambda>t. Inr (Some t)) (take (length ns) (storage_waiting (env_time env) (fw_storage w))) @
      replicate (length ns - length (storage_waiting (env_time env) (fw_storage w))) (Inr None)"
    using storage_queue.lease_many_fifo [OF assms(2), of "env_time env" "map fn_id ns"]
    by (simp add: adopt_all_lease_many [OF assms(1)])
qed

lemma queue_fifo_witness:
  "\<exists>stored w'. node_enqueue no_effect [(''name'', PStr ''t'')] sample_world = (Inr stored, w') \<and>
     adopt_all no_effect fleet_env [sample_node ''a'' 1, sample_node ''b'' 1] w' = [Inr (Some stored), Inr None]"
proof -
  have q: "quiet no_effect" by (simp add: quiet_def no_effect_def)
  have ok: "storage_ok (fw_storage sample_world)" by (simp add: sample_world_def new_mem_storage_def ms_ok_def)
  obtain stored w' where w': "node_enqueue no_effect [(''name'', PStr ''t'')] sample_world = (Inr stored, w')"
      "storage_ok (fw_storage w')" "storage_waiting (env_time fleet_env) (fw_storage w') = [stored]"
    using queue_fifo [OF q ok, of "[(''name'', PStr ''t'')]" fleet_env "[]"]
    by (auto simp: sample_world_def new_mem_storage_def)
  show ?thesis
    using queue_fifo [OF q w'(2), of "[]" fleet_env "[sample_node ''a'' 1, sample_node ''b'' 1]"] w'(1,3) by simp
qed

text \<open>
  No operation of the store completes a leased task: once its lease has expired it waits again.
\<close>
lemma leased_task_returns:
  assumes "pg_ok st" "pg_lease_task Column_text now node 60 st = (Inr (Some t), st')" "now + 60 < later"
  shows "t \<in> set (pg_waiting later st')"
proof -
  obtain row rest where r: "filter (available now) (pg_task_queue st) = row # rest"
      "t = with_id (qr_id row) (qr_payload row)"
      "pg_task_queue st' = map (\<lambda>r. if qr_id r = qr_id row
           then r\<lparr>qr_status := ''leased'', qr_leased_by := Some node, qr_leased_until := Some (now + 60)\<rparr> else r) (pg_task_queue st)"
    using assms(2) by (auto simp: pg_lease_text [OF assms(1)] split: list.splits)
  let ?row = "row\<lparr>qr_status := ''leased'', qr_leased_by := Some node, qr_leased_until := Some (now + 60)\<rparr>"
  have "row \<in> set (pg_task_queue st)" using r(1) by (metis filter_is_subset in_mono list.set_intros(1))
  then have "?row \<in> set (filter (available later) (pg_task_queue st'))"
    using r(3) assms(3) by (force simp: available_def)
  then show ?thesis unfolding pg_waiting_def set_map by (rule rev_image_eqI) (simp add: r(2))
qed

text \<open>
  With a driver that decodes \<open>JSONB\<close> columns itself, listing the nodes of a table that has any raises.
\<close>
lemma decoded_columns_raise: "pg_nodes_table st \<noteq> [] \<Longrightarrow> pg_nodes Column_object st = Inl TypeError"
  by (cases "py_sorted_desc nr_updated_at (pg_nodes_table st)")
    (auto simp: pg_nodes_def dest: arg_cong [where f = length])

end
