(* ===== verification/Marketplace.thy ===== *)
theory Marketplace
  imports Py_Text Render "HOL-Library.Product_Lexorder"
begin

text \<open>
  \<open>omni/contracts/skill.py\<close> and \<open>omni/marketplace/catalog.py\<close>: skills with their version history,
  installations, ratings, and the sharing of manifests. A manifest is an object the catalog
  mutates in place, so an operation that raises half-way returns the catalog it leaves behind. The
  set of skills an agent has installed is a list without duplicates; Python leaves its order open.
\<close>

section \<open>Contracts\<close>

datatype skill_kind = OFFICIAL | COMMUNITY | PRIVATE | ENTERPRISE | LOCAL | REMOTE

fun kind_value :: "skill_kind \<Rightarrow> string" where
  "kind_value OFFICIAL = ''official''"
| "kind_value COMMUNITY = ''community''"
| "kind_value PRIVATE = ''private''"
| "kind_value ENTERPRISE = ''enterprise''"
| "kind_value LOCAL = ''local''"
| "kind_value REMOTE = ''remote''"

definition kind_of_value :: "string \<Rightarrow> skill_kind option" where
  \<comment> \<open>\<open>SkillKind(s)\<close>, \<open>None\<close> for its \<open>ValueError\<close>\<close>
  "kind_of_value s = find (\<lambda>k. kind_value k = s) [OFFICIAL, COMMUNITY, PRIVATE, ENTERPRISE, LOCAL, REMOTE]"

record skill_interface =
  si_actions :: "string list"
  si_events :: "string list"
  si_permissions :: "string list"
  si_config_schema :: "(string, pyval) dict"
  si_documentation :: string
  si_tests :: "string list"
  si_ui_components :: "string list"
  si_api :: "string list"

definition empty_interface :: skill_interface where
  "empty_interface =
     \<lparr>si_actions = [], si_events = [], si_permissions = [], si_config_schema = [], si_documentation = [],
      si_tests = [], si_ui_components = [], si_api = []\<rparr>"

record skill_version =
  sv_version :: string
  sv_changelog :: string
  sv_interface :: skill_interface
  sv_published_at :: string

record skill_manifest =
  sk_id :: string
  sk_name :: string
  sk_description :: string
  sk_kind :: skill_kind
  sk_author :: string
  sk_tags :: "string list"
  sk_versions :: "skill_version list"
  sk_latest_version :: string
  sk_installs :: int
  sk_rating_sum :: int
  sk_rating_count :: int
  sk_source_url :: string
  sk_last_synced :: "string option"
  sk_created_at :: string

definition skill_rating :: "skill_manifest \<Rightarrow> real" where
  "skill_rating s = (if sk_rating_count s = 0 then 0 else py_round (of_int (sk_rating_sum s) / of_int (sk_rating_count s)) 2)"

definition skill_latest :: "skill_manifest \<Rightarrow> skill_version option" where
  "skill_latest s = (case rev (sk_versions s) of [] \<Rightarrow> None | v # _ \<Rightarrow> Some v)"

section \<open>Versions\<close>

fun all_ints :: "string list \<Rightarrow> int list result" where
  "all_ints [] = Inr []"
| "all_ints (p # ps) =
     (case read_int p of
        None \<Rightarrow> Inl (ValueError (''invalid literal for int() with base 10: '' @ repr_str p))
      | Some i \<Rightarrow> (case all_ints ps of Inl err \<Rightarrow> Inl err | Inr is \<Rightarrow> Inr (i # is)))"

definition materialize :: "string \<Rightarrow> int list result" where
  "materialize version = all_ints (take 3 (split_on CHR ''.'' version))"

section \<open>The catalog\<close>

record catalog =
  ct_skills :: "(string, skill_manifest) dict"
  ct_installations :: "(string, string list) dict"

definition new_catalog :: catalog where
  "new_catalog = \<lparr>ct_skills = [], ct_installations = []\<rparr>"

definition put_skill :: "skill_manifest \<Rightarrow> catalog \<Rightarrow> catalog" where
  \<comment> \<open>mutation of a manifest the catalog holds, or its registration\<close>
  "put_skill s c = c\<lparr>ct_skills := dict_set (sk_id s) s (ct_skills c)\<rparr>"

definition find_by_name :: "string \<Rightarrow> catalog \<Rightarrow> skill_manifest option" where
  "find_by_name name c = find (\<lambda>s. sk_name s = name) (dict_values (ct_skills c))"

definition add_version :: "env \<Rightarrow> string \<Rightarrow> skill_interface option \<Rightarrow> skill_manifest \<Rightarrow> skill_manifest result" where
  "add_version env version interface s =
     (case materialize (sk_latest_version s) of
        Inl err \<Rightarrow> Inl err
      | Inr old \<Rightarrow>
          (case materialize version of
             Inl err \<Rightarrow> Inl err
           | Inr new \<Rightarrow>
               if old \<ge> new
               then Inl (ValueError (''version '' @ quoted version @ '' is not newer than '' @ quoted (sk_latest_version s)))
               else Inr (s\<lparr>sk_versions := sk_versions s @
                      [\<lparr>sv_version = version, sv_changelog = [],
                        sv_interface = (case interface of None \<Rightarrow> empty_interface | Some i \<Rightarrow> i),
                        sv_published_at = env_stamp env\<rparr>],
                    sk_latest_version := version\<rparr>)))"

definition or_text :: "string \<Rightarrow> string \<Rightarrow> string" where
  \<comment> \<open>\<open>a or b\<close>\<close>
  "or_text a b = (if a \<noteq> [] then a else b)"

definition described :: "env \<Rightarrow> string \<Rightarrow> string \<Rightarrow> skill_kind \<Rightarrow> string \<Rightarrow> string list \<Rightarrow> catalog \<Rightarrow> skill_manifest" where
  \<comment> \<open>the manifest \<open>publish\<close> adds the version to: a new one, or the existing one with its metadata updated\<close>
  "described env name description kind author tags c =
     (case find_by_name name c of
        None \<Rightarrow> \<lparr>sk_id = new_id ''skill'' env, sk_name = name, sk_description = description, sk_kind = kind,
          sk_author = author, sk_tags = tags, sk_versions = [], sk_latest_version = ''0.0.0'', sk_installs = 0,
          sk_rating_sum = 0, sk_rating_count = 0, sk_source_url = [], sk_last_synced = None, sk_created_at = env_stamp env\<rparr>
      | Some s \<Rightarrow> s\<lparr>sk_description := or_text description (sk_description s), sk_kind := kind,
          sk_author := or_text author (sk_author s),
          sk_tags := (if tags \<noteq> [] then sort (remdups (sk_tags s @ tags)) else sk_tags s)\<rparr>)"

definition publish :: "env \<Rightarrow> string \<Rightarrow> string \<Rightarrow> skill_kind \<Rightarrow> string \<Rightarrow> string \<Rightarrow> skill_interface option \<Rightarrow> string list \<Rightarrow>
    catalog \<Rightarrow> skill_manifest result \<times> catalog" where
  \<comment> \<open>the manifest is registered, or its metadata changed, before the version is checked\<close>
  "publish env name description kind author version interface tags c =
     (let s = described env name description kind author tags c; c1 = put_skill s c in
      case add_version env version interface s of
        Inl err \<Rightarrow> (Inl err, c1)
      | Inr s' \<Rightarrow> (Inr s', put_skill s' c1))"

definition installed_ids :: "string \<Rightarrow> catalog \<Rightarrow> string list" where
  "installed_ids agent_id c = (case dict_get (ct_installations c) agent_id of None \<Rightarrow> [] | Some ids \<Rightarrow> ids)"

definition install :: "string \<Rightarrow> string \<Rightarrow> string option \<Rightarrow> catalog \<Rightarrow> skill_manifest option result \<times> catalog" where
  "install skill_id agent_id version c =
     (case dict_get (ct_skills c) skill_id of
        None \<Rightarrow> (Inr None, c)
      | Some s \<Rightarrow>
          (case filter (\<lambda>v. \<not> list_ex (\<lambda>sv. sv_version sv = v) (sk_versions s)) (case version of None \<Rightarrow> [] | Some v \<Rightarrow> [v]) of
             v # _ \<Rightarrow> (Inl (KeyError (''skill '' @ quoted (sk_name s) @ '' has no version '' @ quoted v)), c)
           | [] \<Rightarrow>
               (let s' = s\<lparr>sk_installs := sk_installs s + 1\<rparr> in
                (Inr (Some s'),
                 c\<lparr>ct_skills := dict_set skill_id s' (ct_skills c),
                   ct_installations := dict_set agent_id (List.insert skill_id (installed_ids agent_id c)) (ct_installations c)\<rparr>))))"

definition remove_skill :: "string \<Rightarrow> string \<Rightarrow> catalog \<Rightarrow> bool \<times> catalog" where
  "remove_skill skill_id agent_id c =
     (if skill_id \<notin> set (installed_ids agent_id c) then (False, c)
      else (True, c\<lparr>ct_installations := dict_set agent_id (removeAll skill_id (installed_ids agent_id c)) (ct_installations c)\<rparr>))"

fun all_skills_of :: "catalog \<Rightarrow> string list \<Rightarrow> skill_manifest list result" where
  "all_skills_of c [] = Inr []"
| "all_skills_of c (sid # sids) =
     (case dict_get (ct_skills c) sid of
        None \<Rightarrow> Inl (KeyError sid)
      | Some s \<Rightarrow> (case all_skills_of c sids of Inl err \<Rightarrow> Inl err | Inr ss \<Rightarrow> Inr (s # ss)))"

definition upgrade :: "string \<Rightarrow> catalog \<Rightarrow> skill_manifest list result" where
  "upgrade agent_id c = all_skills_of c (installed_ids agent_id c)"

section \<open>Sharing\<close>

definition export_manifest :: "string \<Rightarrow> catalog \<Rightarrow> skill_manifest result" where
  \<comment> \<open>the JSON of a manifest decodes to the manifest\<close>
  "export_manifest skill_id c =
     (case dict_get (ct_skills c) skill_id of
        None \<Rightarrow> Inl (KeyError (''no skill '' @ quoted skill_id))
      | Some s \<Rightarrow> Inr s)"

fun all_materialized :: "skill_version list \<Rightarrow> int list list result" where
  "all_materialized [] = Inr []"
| "all_materialized (v # vs) =
     (case materialize (sv_version v) of Inl err \<Rightarrow> Inl err
      | Inr k \<Rightarrow> (case all_materialized vs of Inl err \<Rightarrow> Inl err | Inr ks \<Rightarrow> Inr (k # ks)))"

definition import_manifest :: "skill_manifest \<Rightarrow> catalog \<Rightarrow> (skill_manifest \<times> catalog) result" where
  "import_manifest s c =
     (if dict_get (ct_skills c) (sk_id s) \<noteq> None
      then Inl (ValueError (''skill '' @ quoted (sk_name s) @ '' already exists in this catalog''))
      else (case all_materialized (sk_versions s) of
              Inl err \<Rightarrow> Inl err
            | Inr versions \<Rightarrow>
                if versions \<noteq> sort versions then Inl (ValueError ''skill versions are not in ascending order'')
                else Inr (s, put_skill s c)))"

section \<open>Queries, ratings, recommendation\<close>

definition get_skill :: "string \<Rightarrow> catalog \<Rightarrow> skill_manifest option" where
  "get_skill skill_id c = dict_get (ct_skills c) skill_id"

definition all_skills :: "catalog \<Rightarrow> skill_manifest list" where
  "all_skills c = dict_values (ct_skills c)"

definition search :: "string \<Rightarrow> skill_kind option \<Rightarrow> catalog \<Rightarrow> skill_manifest list" where
  "search query kind c =
     (let q = lower query in
      filter (\<lambda>s. (case kind of None \<Rightarrow> True | Some k \<Rightarrow> sk_kind s = k) \<and>
        (q = [] \<or> contains_sub q (lower (sk_name s)) \<or> contains_sub q (lower (sk_description s)) \<or>
         list_ex (\<lambda>t. contains_sub q (lower t)) (sk_tags s))) (all_skills c))"

definition installed_by :: "string \<Rightarrow> catalog \<Rightarrow> skill_manifest list" where
  "installed_by agent_id c = List.map_filter (dict_get (ct_skills c)) (installed_ids agent_id c)"

definition rate :: "string \<Rightarrow> int \<Rightarrow> catalog \<Rightarrow> (real \<times> catalog) result" where
  "rate skill_id stars c =
     (case dict_get (ct_skills c) skill_id of
        None \<Rightarrow> Inl (KeyError skill_id)
      | Some s \<Rightarrow>
          (let s' = s\<lparr>sk_rating_sum := sk_rating_sum s + max 1 (min 5 stars), sk_rating_count := sk_rating_count s + 1\<rparr>
           in Inr (skill_rating s', c\<lparr>ct_skills := dict_set skill_id s' (ct_skills c)\<rparr>)))"

definition recommend :: "string \<Rightarrow> int \<Rightarrow> catalog \<Rightarrow> skill_manifest list" where
  "recommend agent_id limit c =
     slice_to limit (py_sorted_desc (\<lambda>s. (skill_rating s, sk_installs s))
       (filter (\<lambda>s. sk_id s \<notin> set (installed_ids agent_id c) \<and> sk_rating_count s > 0) (all_skills c)))"

end
