(* ===== verification/Marketplace_Remote.thy ===== *)
theory Marketplace_Remote
  imports Marketplace Policy
begin

text \<open>
  \<open>omni/marketplace/remote.py\<close> and \<open>omni/marketplace/security.py\<close>: the synchronisation of a remote
  registry into the catalog, and the guard that checks a skill's declared permissions. What the
  fetcher returns for a URL is an argument: the decoded manifest, whose fields have the types of
  the documented format, a missing one being \<open>None\<close>, or what it raises.
\<close>

section \<open>Remote registries\<close>

record remote_version =
  rv_version :: "string option"
  rv_interface :: "skill_interface option"

record remote_manifest =
  rm_name :: "string option"
  rm_description :: "string option"
  rm_kind :: "string option"
  rm_author :: "string option"
  rm_tags :: "string list option"
  rm_versions :: "remote_version list option"

record remote_registry =
  rr_catalog :: catalog
  rr_sources :: "string list"
  rr_synced :: "(string, string) dict"

definition new_remote_registry :: "catalog \<Rightarrow> remote_registry" where
  "new_remote_registry c = \<lparr>rr_catalog = c, rr_sources = [], rr_synced = []\<rparr>"

definition version_key :: "string \<Rightarrow> int list" where
  "version_key version = (case materialize version of Inl _ \<Rightarrow> [0, 0, 0] | Inr k \<Rightarrow> k)"

definition register_source :: "string \<Rightarrow> remote_registry \<Rightarrow> remote_registry" where
  "register_source url g = (if url \<notin> set (rr_sources g) then g\<lparr>rr_sources := rr_sources g @ [url]\<rparr> else g)"

definition last_synced :: "string \<Rightarrow> remote_registry \<Rightarrow> string option" where
  "last_synced url g = dict_get (rr_synced g) url"

definition text_or :: "string option \<Rightarrow> string \<Rightarrow> string" where
  \<comment> \<open>\<open>raw.get(k, d)\<close>\<close>
  "text_or x d = (case x of None \<Rightarrow> d | Some s \<Rightarrow> s)"

definition publish_remote :: "env \<Rightarrow> string \<Rightarrow> string \<Rightarrow> remote_manifest \<Rightarrow> string \<Rightarrow> skill_interface \<Rightarrow> catalog \<Rightarrow>
    skill_manifest result \<times> catalog" where
  \<comment> \<open>the \<open>try\<close> block: an unknown kind is a \<open>ValueError\<close> too\<close>
  "publish_remote env url name raw version interface c =
     (case kind_of_value (text_or (rm_kind raw) ''remote'') of
        None \<Rightarrow> (Inl (ValueError (quoted (text_or (rm_kind raw) ''remote'') @ '' is not a valid SkillKind'')), c)
      | Some kind \<Rightarrow>
          publish env name (text_or (rm_description raw) []) kind (text_or (rm_author raw) ''remote'') version (Some interface)
            (case rm_tags raw of None \<Rightarrow> [] | Some ts \<Rightarrow> ts) c)"

definition stamped :: "env \<Rightarrow> string \<Rightarrow> skill_manifest \<Rightarrow> skill_manifest" where
  "stamped env url s = s\<lparr>sk_source_url := url, sk_last_synced := Some (env_stamp env)\<rparr>"

definition sync_version :: "env \<Rightarrow> string \<Rightarrow> string \<Rightarrow> remote_manifest \<Rightarrow> remote_version \<Rightarrow>
    skill_manifest option \<times> catalog \<Rightarrow> skill_manifest option \<times> catalog" where
  \<comment> \<open>one round of the loop: no version, or one that is rejected, is skipped\<close>
  "sync_version env url name raw meta st =
     (case rv_version meta of
        None \<Rightarrow> st
      | Some version \<Rightarrow>
          if version = [] then st
          else
            (case publish_remote env url name raw version
                (case rv_interface meta of None \<Rightarrow> empty_interface | Some i \<Rightarrow> i) (snd st) of
               (Inl _, c) \<Rightarrow> (fst st, c)
             | (Inr s, c) \<Rightarrow> (Some (stamped env url s), put_skill (stamped env url s) c)))"

definition sync :: "(string \<Rightarrow> remote_manifest result) \<Rightarrow> env \<Rightarrow> string \<Rightarrow> remote_registry \<Rightarrow>
    skill_manifest result \<times> remote_registry" where
  "sync fetch env url g =
     (case fetch url of
        Inl err \<Rightarrow> (Inl err, g)
      | Inr raw \<Rightarrow>
          (let name = text_or (rm_name raw) []; versions = (case rm_versions raw of None \<Rightarrow> [] | Some vs \<Rightarrow> vs) in
           if name = [] then (Inl (RuntimeError (''registry at '' @ quoted url @ '' has no '' @ quoted ''name'')), g)
           else if versions = [] then (Inl (RuntimeError (''registry at '' @ quoted url @ '' has no versions'')), g)
           else
             (let (published, c) = fold (sync_version env url name raw)
                    (sort_key (\<lambda>v. version_key (text_or (rv_version v) ''0.0.0'')) versions) (None, rr_catalog g);
                  g' = g\<lparr>rr_catalog := c\<rparr>
              in case published of
                   None \<Rightarrow> (Inl (RuntimeError (''no new versions at '' @ quoted url)), g')
                 | Some s \<Rightarrow>
                     (Inr s, g'\<lparr>rr_synced := dict_set url
                        (case sk_last_synced s of None \<Rightarrow> env_stamp env | Some t \<Rightarrow> t) (rr_synced g)\<rparr>))))"

fun sync_urls :: "(string \<Rightarrow> remote_manifest result) \<Rightarrow> env \<Rightarrow> string list \<Rightarrow> remote_registry \<Rightarrow>
    skill_manifest list result \<times> remote_registry" where
  "sync_urls fetch env [] g = (Inr [], g)"
| "sync_urls fetch env (url # urls) g =
     (case sync fetch env url g of
        (Inl err, g') \<Rightarrow> (Inl err, g')
      | (Inr s, g') \<Rightarrow>
          (case sync_urls fetch env urls g' of
             (Inl err, g'') \<Rightarrow> (Inl err, g'')
           | (Inr ss, g'') \<Rightarrow> (Inr (s # ss), g'')))"

definition sync_all :: "(string \<Rightarrow> remote_manifest result) \<Rightarrow> env \<Rightarrow> remote_registry \<Rightarrow>
    skill_manifest list result \<times> remote_registry" where
  "sync_all fetch env g = sync_urls fetch env (rr_sources g) g"

section \<open>The permission guard\<close>

record authorization =
  au_allowed :: bool
  au_reason :: string
  au_missing :: "string list option"

definition missing_grants :: "string list \<Rightarrow> string list \<Rightarrow> string list" where
  "missing_grants agent_grants required = filter (\<lambda>p. p \<notin> set agent_grants) required"

definition check_grants :: "string list \<Rightarrow> string list \<Rightarrow> bool \<times> string list" where
  "check_grants agent_grants required = (missing_grants agent_grants required = [], missing_grants agent_grants required)"

definition required_permissions :: "skill_manifest option \<Rightarrow> string list" where
  "required_permissions skill =
     (case skill of None \<Rightarrow> []
      | Some s \<Rightarrow> (case skill_latest s of None \<Rightarrow> [] | Some v \<Rightarrow> si_permissions (sv_interface v)))"

definition authorize :: "env \<Rightarrow> bool \<Rightarrow> principal \<Rightarrow> string \<Rightarrow> skill_manifest option \<Rightarrow> string list option \<Rightarrow>
    policy_state option \<Rightarrow> authorization result \<times> policy_state option" where
  "authorize env allow_without_policy p action skill agent_grants pol =
     (let required = required_permissions skill in
      if (case agent_grants of None \<Rightarrow> False | Some gs \<Rightarrow> \<not> fst (check_grants gs required))
      then (Inr \<lparr>au_allowed = False, au_reason = ''agent lacks required skill permissions'',
              au_missing = map_option (\<lambda>gs. snd (check_grants gs required)) agent_grants\<rparr>, pol)
      else
        (case pol of
           None \<Rightarrow>
             (Inr (if allow_without_policy
                   then \<lparr>au_allowed = True, au_reason = ''authorized'', au_missing = None\<rparr>
                   else \<lparr>au_allowed = False, au_reason = ''no policy engine and no grant set provided'', au_missing = None\<rparr>), None)
         | Some st \<Rightarrow>
             (case evaluate env p (''skill.'' @ action)
                (Some \<lparr>rs_type = ''skill'', rs_attributes = [(''skill'', PStr (case skill of None \<Rightarrow> ''unknown'' | Some s \<Rightarrow> sk_name s))]\<rparr>)
                0 1 st of
                Inl err \<Rightarrow> (Inl err, pol)
              | Inr (d, st') \<Rightarrow>
                  (Inr (if \<not> pd_allowed d then \<lparr>au_allowed = False, au_reason = pd_reason d, au_missing = None\<rparr>
                        else \<lparr>au_allowed = True, au_reason = ''authorized'', au_missing = None\<rparr>), Some st'))))"

end
