(* ===== verification/Marketplace_Proofs.thy ===== *)
theory Marketplace_Proofs
  imports Marketplace_Remote Append_Log
begin

text \<open>
  The invariant of the catalog: every skill is stored under its identifier, its versions ascend
  strictly, its latest version is the last of them and its rating is between one and five stars;
  and what a publication does to the history of the skill of a name.
\<close>

declare map_of_eq_Some_iff [simp del] Some_eq_map_of_iff [simp del]

definition manifest_ok :: "skill_manifest \<Rightarrow> bool" where
  "manifest_ok s \<longleftrightarrow>
     (\<exists>ks. all_materialized (sk_versions s) = Inr ks \<and> sorted_wrt (<) ks) \<and>
     sk_latest_version s = (case skill_latest s of None \<Rightarrow> ''0.0.0'' | Some v \<Rightarrow> sv_version v) \<and>
     0 \<le> sk_rating_count s \<and> sk_rating_count s \<le> sk_rating_sum s \<and> sk_rating_sum s \<le> 5 * sk_rating_count s"

definition catalog_ok :: "catalog \<Rightarrow> bool" where
  "catalog_ok c \<longleftrightarrow> distinct (dict_keys (ct_skills c)) \<and>
     (\<forall>k s. dict_get (ct_skills c) k = Some s \<longrightarrow> sk_id s = k \<and> manifest_ok s)"

lemma materialize_zero [simp]: "materialize ''0.0.0'' = Inr [0, 0, 0]"
  by (simp add: materialize_def read_int_def strip_def is_space_def digit_of_def)

lemma all_materialized_snoc:
  "all_materialized (vs @ [v]) =
     (case all_materialized vs of Inl err \<Rightarrow> Inl err
      | Inr ks \<Rightarrow> (case materialize (sv_version v) of Inl err \<Rightarrow> Inl err | Inr k \<Rightarrow> Inr (ks @ [k])))"
  by (induction vs) (auto split: sum.splits)

lemma skill_latest_snoc: "sk_versions s = vs @ [v] \<Longrightarrow> skill_latest s = Some v"
  by (simp add: skill_latest_def)

lemma manifest_ok_keys:
  assumes "manifest_ok s"
  obtains ks where "all_materialized (sk_versions s) = Inr ks" "sorted_wrt (<) ks"
    "materialize (sk_latest_version s) = Inr (if ks = [] then [0, 0, 0] else last ks)"
proof -
  obtain ks where ks: "all_materialized (sk_versions s) = Inr ks" "sorted_wrt (<) ks"
    using assms by (auto simp: manifest_ok_def)
  have "materialize (sk_latest_version s) = Inr (if ks = [] then [0, 0, 0] else last ks)"
  proof (cases "sk_versions s" rule: rev_cases)
    case Nil
    then show ?thesis using assms ks(1) by (simp add: manifest_ok_def skill_latest_def)
  next
    case (snoc vs v)
    then show ?thesis using assms ks(1) skill_latest_snoc [OF snoc]
      by (auto simp: manifest_ok_def all_materialized_snoc split: sum.splits)
  qed
  with ks that show thesis by blast
qed

lemma add_version_cases:
  assumes "manifest_ok s"
  shows "case add_version env version interface s of
      Inl err \<Rightarrow> (\<exists>e. materialize version = Inl e) \<or> version_key version \<le> version_key (sk_latest_version s)
    | Inr s' \<Rightarrow> materialize version = Inr (version_key version) \<and> version_key (sk_latest_version s) < version_key version \<and>
        manifest_ok s' \<and> sk_id s' = sk_id s \<and> sk_name s' = sk_name s \<and> sk_latest_version s' = version \<and>
        (\<exists>v. sv_version v = version \<and> sk_versions s' = sk_versions s @ [v])"
proof -
  obtain ks where ks: "all_materialized (sk_versions s) = Inr ks" "sorted_wrt (<) ks"
      "materialize (sk_latest_version s) = Inr (if ks = [] then [0, 0, 0] else last ks)"
    using assms by (rule manifest_ok_keys)
  let ?old = "if ks = [] then [0, 0, 0] else last ks"
  show ?thesis
  proof (cases "materialize version")
    case (Inr new)
    show ?thesis
    proof (cases "?old \<ge> new")
      case False
      let ?v = "\<lparr>sv_version = version, sv_changelog = [],
        sv_interface = (case interface of None \<Rightarrow> empty_interface | Some i \<Rightarrow> i), sv_published_at = env_stamp env\<rparr>"
      have "sorted_wrt (<) (ks @ [new])"
      proof (cases ks rule: rev_cases)
        case (snoc ks' k)
        with ks(2) False show ?thesis by (auto simp: sorted_wrt_append intro: less_trans)
      qed simp
      with False ks assms Inr show ?thesis
        by (auto simp: add_version_def version_key_def manifest_ok_def all_materialized_snoc skill_latest_def)
    qed (use ks(3) Inr in \<open>simp add: add_version_def version_key_def\<close>)
  qed (use ks(3) in \<open>simp add: add_version_def\<close>)
qed

section \<open>The catalog's invariant\<close>

lemma put_skill_ok [inv_intros]: "catalog_ok c \<Longrightarrow> manifest_ok s \<Longrightarrow> catalog_ok (put_skill s c)"
  by (simp add: catalog_ok_def put_skill_def)

lemma find_by_name_Some:
  assumes "catalog_ok c" "find_by_name name c = Some s"
  shows "dict_get (ct_skills c) (sk_id s) = Some s" "sk_name s = name" "manifest_ok s"
proof -
  have "s \<in> set (dict_values (ct_skills c))" "sk_name s = name"
    using find_Some_in [OF assms(2) [unfolded find_by_name_def]] by auto
  then obtain k where "(k, s) \<in> set (ct_skills c)" by auto
  then have "dict_get (ct_skills c) k = Some s" using assms(1) dict_get_in [of "ct_skills c" k s] by (simp add: catalog_ok_def)
  with assms(1) show "dict_get (ct_skills c) (sk_id s) = Some s" "manifest_ok s" by (auto simp: catalog_ok_def)
  show "sk_name s = name" by fact
qed

lemma manifest_ok_upd [inv_intros]:
  "manifest_ok s \<Longrightarrow> manifest_ok (s\<lparr>sk_description := d, sk_kind := k, sk_author := a, sk_tags := ts\<rparr>)"
  "manifest_ok s \<Longrightarrow> manifest_ok (s\<lparr>sk_installs := n\<rparr>)"
  "manifest_ok s \<Longrightarrow> manifest_ok (s\<lparr>sk_source_url := u, sk_last_synced := t\<rparr>)"
  by (simp_all add: manifest_ok_def skill_latest_def)

lemma described_ok:
  assumes "catalog_ok c"
  shows "manifest_ok (described env name description kind author tags c)"
    and "sk_name (described env name description kind author tags c) = name"
    and "sk_versions (described env name description kind author tags c) =
      (case find_by_name name c of None \<Rightarrow> [] | Some s \<Rightarrow> sk_versions s)"
    and "sk_latest_version (described env name description kind author tags c) =
      (case find_by_name name c of None \<Rightarrow> ''0.0.0'' | Some s \<Rightarrow> sk_latest_version s)"
  using find_by_name_Some [OF assms, of name]
  by (auto simp: described_def manifest_ok_upd split: option.splits)
    (simp add: manifest_ok_def skill_latest_def)

lemma publish_ok [inv_intros]:
  assumes "catalog_ok c"
  shows "catalog_ok (snd (publish env name description kind author version interface tags c))"
proof -
  let ?s = "described env name description kind author tags c"
  have "manifest_ok ?s" by (rule described_ok(1) [OF assms])
  with add_version_cases [OF this, where env = env and version = version and interface = interface] show ?thesis
    using assms by (auto simp: publish_def Let_def put_skill_ok split: sum.splits)
qed

lemma install_ok [inv_intros]: "catalog_ok c \<Longrightarrow> catalog_ok (snd (install skill_id agent_id version c))"
  by (auto simp: install_def Let_def catalog_ok_def manifest_ok_upd split: option.splits list.splits)

lemma remove_ok [inv_intros]: "catalog_ok c \<Longrightarrow> catalog_ok (snd (remove_skill skill_id agent_id c))"
  by (simp add: remove_skill_def catalog_ok_def)

lemma rate_ok [inv_intros]:
  assumes "catalog_ok c" "rate skill_id stars c = Inr (x, c')"
  shows "catalog_ok c'"
proof -
  obtain s where s: "dict_get (ct_skills c) skill_id = Some s"
      "c' = c\<lparr>ct_skills := dict_set skill_id (s\<lparr>sk_rating_sum := sk_rating_sum s + max 1 (min 5 stars),
        sk_rating_count := sk_rating_count s + 1\<rparr>) (ct_skills c)\<rparr>"
    using assms(2) by (auto simp: rate_def Let_def split: option.splits)
  have "manifest_ok s" "sk_id s = skill_id" using assms(1) s(1) by (auto simp: catalog_ok_def)
  then have "manifest_ok (s\<lparr>sk_rating_sum := sk_rating_sum s + max 1 (min 5 stars), sk_rating_count := sk_rating_count s + 1\<rparr>)"
    by (auto simp: manifest_ok_def skill_latest_def)
  with assms(1) s(2) \<open>sk_id s = skill_id\<close> show ?thesis by (simp add: catalog_ok_def)
qed

lemma sort_ascending: "sorted_wrt (<) (ks :: int list list) \<Longrightarrow> sort ks = ks"
  by (simp add: sorted_wrt_mono_rel [of _ "(<)" "(\<le>)"] sort_key_id_if_sorted)

lemma import_accepts:
  assumes "manifest_ok s" "dict_get (ct_skills c) (sk_id s) = None"
  shows "import_manifest s c = Inr (s, put_skill s c)"
  using assms by (auto simp: import_manifest_def manifest_ok_def sort_ascending)

lemma import_ok [inv_intros]:
  "catalog_ok c \<Longrightarrow> manifest_ok s \<Longrightarrow> import_manifest s c = Inr (s', c') \<Longrightarrow> catalog_ok c'"
  by (auto simp: import_manifest_def put_skill_ok split: if_splits sum.splits)

section \<open>The history of a name\<close>

definition level :: "string \<Rightarrow> catalog \<Rightarrow> int list" where
  "level name c = (case find_by_name name c of None \<Rightarrow> [0, 0, 0] | Some s \<Rightarrow> version_key (sk_latest_version s))"

definition history_of :: "string \<Rightarrow> catalog \<Rightarrow> skill_version list" where
  "history_of name c = (case find_by_name name c of None \<Rightarrow> [] | Some s \<Rightarrow> sk_versions s)"

lemma find_dict_set:
  assumes "distinct (dict_keys d)" "P v" "\<forall>u. find P (dict_values d) = Some u \<longrightarrow> dict_get d k = Some u"
    "\<forall>j u. dict_get d j = Some u \<longrightarrow> ident u = j"
  shows "find P (dict_values (dict_set k v d)) = Some v"
  using assms
proof (induction d)
  case (Cons p d)
  obtain j u where p: "p = (j, u)" by (cases p)
  show ?case
  proof (cases "j = k")
    case False
    have "ident u = j" using Cons.prems(4) p by simp
    have nu: "\<not> P u"
    proof
      assume "P u"
      with Cons.prems(3) p have "dict_get (p # d) k = Some u" by simp
      with Cons.prems(4) have "ident u = k" by blast
      with \<open>ident u = j\<close> False show False by simp
    qed
    have "distinct (dict_keys d)" using Cons.prems(1) by simp
    moreover have "\<forall>u. find P (dict_values d) = Some u \<longrightarrow> dict_get d k = Some u"
      using Cons.prems(3) nu p False by simp
    moreover have "\<forall>i w. dict_get d i = Some w \<longrightarrow> ident w = i"
    proof (intro allI impI)
      fix i w assume w: "dict_get d i = Some w"
      have "dict_get d j = None" using Cons.prems(1) p by (simp add: dict_get_None_keys)
      with w have "i \<noteq> j" by auto
      with w Cons.prems(4) p show "ident w = i" by simp
    qed
    ultimately have "find P (dict_values (dict_set k v d)) = Some v" using Cons.IH Cons.prems(2) by blast
    with p False nu show ?thesis by simp
  qed (use Cons.prems p in simp)
qed simp

lemma find_put_skill:
  assumes "catalog_ok c" "sk_name s = name" "\<forall>u. find_by_name name c = Some u \<longrightarrow> sk_id u = sk_id s"
  shows "find_by_name name (put_skill s c) = Some s"
  unfolding find_by_name_def put_skill_def
proof (simp, rule find_dict_set [where ident = sk_id])
  show "distinct (dict_keys (ct_skills c))" using assms(1) by (simp add: catalog_ok_def)
  show "sk_name s = name" by fact
  show "\<forall>u. find (\<lambda>s. sk_name s = name) (dict_values (ct_skills c)) = Some u \<longrightarrow> dict_get (ct_skills c) (sk_id s) = Some u"
    using assms(1,3) find_by_name_Some(1) [OF assms(1), of name] by (metis find_by_name_def)
  show "\<forall>j u. dict_get (ct_skills c) j = Some u \<longrightarrow> sk_id u = j" using assms(1) by (simp add: catalog_ok_def)
qed

lemma publish_history:
  assumes "catalog_ok c"
  shows "case publish env name description kind author version interface tags c of
      (Inl err, c') \<Rightarrow> history_of name c' = history_of name c \<and> level name c' = level name c \<and>
        ((\<exists>e. materialize version = Inl e) \<or> version_key version \<le> level name c)
    | (Inr s', c') \<Rightarrow> find_by_name name c' = Some s' \<and> materialize version = Inr (version_key version) \<and>
        level name c < version_key version \<and> level name c' = version_key version \<and>
        (\<exists>v. sv_version v = version \<and> history_of name c' = history_of name c @ [v])"
proof -
  let ?s = "described env name description kind author tags c"
  note d = described_ok [OF assms, of env name description kind author tags]
  have same: "\<forall>u. find_by_name name c = Some u \<longrightarrow> sk_id u = sk_id ?s" by (simp add: described_def)
  have c1: "find_by_name name (put_skill ?s c) = Some ?s" by (rule find_put_skill [OF assms d(2) same])
  have h: "history_of name (put_skill ?s c) = history_of name c" "level name (put_skill ?s c) = level name c"
    "version_key (sk_latest_version ?s) = level name c" "sk_versions ?s = history_of name c"
    using d(3,4) by (simp_all add: history_of_def level_def c1 version_key_def split: option.splits)
  note av = add_version_cases [OF d(1), where env = env and version = version and interface = interface]
  show ?thesis
  proof (cases "add_version env version interface ?s")
    case (Inl err)
    with av h show ?thesis by (simp add: publish_def Let_def)
  next
    case (Inr s')
    with av have a: "materialize version = Inr (version_key version)" "version_key (sk_latest_version ?s) < version_key version"
        "sk_id s' = sk_id ?s" "sk_name s' = sk_name ?s" "sk_latest_version s' = version"
        "\<exists>v. sv_version v = version \<and> sk_versions s' = sk_versions ?s @ [v]" by simp_all
    have "catalog_ok (put_skill ?s c)" by (rule put_skill_ok [OF assms d(1)])
    then have f: "find_by_name name (put_skill s' (put_skill ?s c)) = Some s'"
      by (rule find_put_skill) (use a d(2) c1 in simp_all)
    with Inr a h show ?thesis by (simp add: publish_def Let_def history_of_def [of name "put_skill s' _"] level_def [of name "put_skill s' _"])
  qed
qed

end
