(* ===== verification/Marketplace_Properties.thy ===== *)
theory Marketplace_Properties
  imports Marketplace_Proofs
begin

text \<open>
  The properties of the marketplace: the version history of every skill of every reachable
  catalog, the sharing of manifests between catalogs, the synchronisation with a remote registry
  and the permission guard.
\<close>

section \<open>Runs of a catalog\<close>

datatype market_cmd =
    Publish_skill env string string skill_kind string string "skill_interface option" "string list"
  | Install_skill string string "string option"
  | Remove_skill string string
  | Rate_skill string int
  | Import_skill skill_manifest

fun market_step :: "market_cmd \<Rightarrow> catalog \<Rightarrow> catalog" where
  "market_step (Publish_skill env name description kind author version interface tags) c =
     snd (publish env name description kind author version interface tags c)"
| "market_step (Install_skill skill_id agent_id version) c = snd (install skill_id agent_id version c)"
| "market_step (Remove_skill skill_id agent_id) c = snd (remove_skill skill_id agent_id c)"
| "market_step (Rate_skill skill_id stars) c = (case rate skill_id stars c of Inl _ \<Rightarrow> c | Inr (_, c') \<Rightarrow> c')"
| "market_step (Import_skill s) c = (case import_manifest s c of Inl _ \<Rightarrow> c | Inr (_, c') \<Rightarrow> c')"

fun market_valid :: "market_cmd \<Rightarrow> bool" where
  \<comment> \<open>what is imported was shared by a catalog; nothing checks the other fields of foreign data\<close>
  "market_valid (Import_skill s) = manifest_ok s"
| "market_valid _ = True"

interpretation market: guarded_machine market_step catalog_ok market_valid
proof
  fix c cmd assume "catalog_ok c" "market_valid cmd"
  then show "catalog_ok (market_step cmd c)"
    by (cases cmd) (auto intro: publish_ok install_ok remove_ok rate_ok import_ok split: sum.splits)
qed

lemma new_catalog_ok [inv_intros]: "catalog_ok new_catalog"
  by (simp add: catalog_ok_def new_catalog_def)

lemma market_run_ok: "\<forall>cmd \<in> set cmds. market_valid cmd \<Longrightarrow> catalog_ok (fold market_step cmds new_catalog)"
  by (rule market.valid_run_ok) (rule new_catalog_ok)

lemma rating_bounds: "manifest_ok s \<Longrightarrow> skill_rating s = 0 \<or> (1 \<le> skill_rating s \<and> skill_rating s \<le> 5)"
proof (cases "sk_rating_count s = 0")
  case False
  assume ok: "manifest_ok s"
  let ?q = "of_int (sk_rating_sum s) / of_int (sk_rating_count s) :: real"
  have "0 < sk_rating_count s" using ok False by (simp add: manifest_ok_def)
  moreover have "of_int (sk_rating_count s) \<le> (of_int (sk_rating_sum s) :: real)"
      "(of_int (sk_rating_sum s) :: real) \<le> of_int (5 * sk_rating_count s)"
    using ok by (simp_all only: manifest_ok_def of_int_le_iff)
  ultimately have q: "of_int 1 \<le> ?q" "?q \<le> of_int 5" by (simp_all add: field_simps)
  have "of_int 1 \<le> py_round ?q 2" "py_round ?q 2 \<le> of_int 5"
    using py_round_mono [OF q(1), of 2] py_round_mono [OF q(2), of 2] by (simp_all only: py_round_int)
  then show ?thesis using False by (simp add: skill_rating_def)
qed (simp add: skill_rating_def)

text \<open>
  After any publications, installations, removals, ratings and imports of shared manifests,
  rejected ones included, every stored skill has strictly ascending versions, its latest version is
  the last of them, it is stored under its identifier, and its rating is 0 or from 1 to 5.
\<close>
theorem catalog_versions:
  assumes "\<forall>cmd \<in> set cmds. market_valid cmd" "get_skill skill_id (fold market_step cmds new_catalog) = Some s"
  shows "sk_id s = skill_id \<and>
    (\<exists>ks. all_materialized (sk_versions s) = Inr ks \<and> sorted_wrt (<) ks) \<and>
    sk_latest_version s = (case skill_latest s of None \<Rightarrow> ''0.0.0'' | Some v \<Rightarrow> sv_version v) \<and>
    (skill_rating s = 0 \<or> (1 \<le> skill_rating s \<and> skill_rating s \<le> 5))"
proof -
  have "sk_id s = skill_id" "manifest_ok s"
    using market_run_ok [OF assms(1)] assms(2) by (auto simp: get_skill_def catalog_ok_def)
  with rating_bounds [of s] show ?thesis by (simp add: manifest_ok_def)
qed

definition sample_publish :: "string \<Rightarrow> market_cmd" where
  "sample_publish version =
     Publish_skill \<lparr>env_time = 0, env_stamp = ''s'', env_uuid = ''1''\<rparr> ''code-gen'' ''generate code'' COMMUNITY ''a'' version None []"

lemma sample_publish_run:
  "map (\<lambda>s. map sv_version (sk_versions s))
     (all_skills (fold market_step [sample_publish ''1.0.0'', sample_publish ''0.9.0'', sample_publish ''1.1.0''] new_catalog)) =
   [[''1.0.0'', ''1.1.0'']]"
  "map fst (ct_skills (fold market_step [sample_publish ''1.0.0'', sample_publish ''0.9.0'', sample_publish ''1.1.0''] new_catalog)) =
   [''skill_1'']"
  by (simp_all add: sample_publish_def publish_def described_def find_by_name_def add_version_def put_skill_def new_catalog_def
    all_skills_def materialize_def read_int_def strip_def is_space_def digit_of_def new_id_def or_text_def Let_def)

lemma catalog_versions_witness:
  "\<exists>s. get_skill ''skill_1'' (fold market_step [sample_publish ''1.0.0'', sample_publish ''0.9.0'', sample_publish ''1.1.0''] new_catalog) = Some s \<and>
     sk_id s = ''skill_1'' \<and> skill_latest s \<noteq> None \<and> sk_latest_version s = ''1.1.0''"
proof -
  let ?cmds = "[sample_publish ''1.0.0'', sample_publish ''0.9.0'', sample_publish ''1.1.0'']"
  let ?c = "fold market_step ?cmds new_catalog"
  obtain s where s: "ct_skills ?c = [(''skill_1'', s)]" "map sv_version (sk_versions s) = [''1.0.0'', ''1.1.0'']"
    using sample_publish_run by (auto simp: all_skills_def map_eq_Cons_conv simp del: fold_simps)
  then have g: "get_skill ''skill_1'' ?c = Some s" by (simp add: get_skill_def del: fold_simps)
  have "\<forall>cmd \<in> set ?cmds. market_valid cmd" by (simp add: sample_publish_def)
  from catalog_versions [OF this g] have "sk_id s = ''skill_1''"
      "sk_latest_version s = (case skill_latest s of None \<Rightarrow> ''0.0.0'' | Some v \<Rightarrow> sv_version v)" by blast+
  moreover obtain v1 v2 where "sk_versions s = [v1, v2]" "sv_version v2 = ''1.1.0''" using s(2) by (auto simp: map_eq_Cons_conv)
  ultimately show ?thesis using g by (auto simp: skill_latest_def simp del: fold_simps)
qed



text \<open>
  A rejected publication of a new name leaves a skill without versions behind.
\<close>
lemma rejected_publish_leaves_skill:
  "map (\<lambda>s. (sk_name s, sk_versions s)) (all_skills (market_step (sample_publish ''latest'') new_catalog)) = [(''code-gen'', [])]"
  by (simp add: sample_publish_def publish_def described_def find_by_name_def add_version_def put_skill_def new_catalog_def
    all_skills_def materialize_def read_int_def strip_def is_space_def digit_of_def new_id_def Let_def)

end
