(* ===== verification/Marketplace_Sync.thy ===== *)
theory Marketplace_Sync
  imports Marketplace_Properties
begin

text \<open>
  The synchronisation of a remote registry: what one round and the whole loop do to the history of
  the skill, that a successful synchronisation takes over every newer version and leaves nothing
  for the next one, and what an authorization of the permission guard rests on.
\<close>

definition usable :: "remote_version \<Rightarrow> bool" where
  \<comment> \<open>the loop does not skip it and its version is one\<close>
  "usable meta \<longleftrightarrow> (case rv_version meta of None \<Rightarrow> False | Some v \<Rightarrow> v \<noteq> [] \<and> (\<exists>k. materialize v = Inr k))"

definition meta_key :: "remote_version \<Rightarrow> int list" where
  "meta_key meta = version_key (text_or (rv_version meta) ''0.0.0'')"

definition history_keys :: "string \<Rightarrow> catalog \<Rightarrow> int list set" where
  "history_keys name c = (\<lambda>v. version_key (sv_version v)) ` set (history_of name c)"

definition unchanged :: "string \<Rightarrow> skill_manifest option \<times> catalog \<Rightarrow> skill_manifest option \<times> catalog \<Rightarrow> bool" where
  "unchanged name st st' \<longleftrightarrow> fst st' = fst st \<and> catalog_ok (snd st') \<and>
     history_of name (snd st') = history_of name (snd st) \<and> level name (snd st') = level name (snd st)"

definition extended :: "string \<Rightarrow> remote_version \<Rightarrow> skill_manifest option \<times> catalog \<Rightarrow> skill_manifest option \<times> catalog \<Rightarrow> bool" where
  "extended name meta st st' \<longleftrightarrow> fst st' \<noteq> None \<and> catalog_ok (snd st') \<and> level name (snd st) < meta_key meta \<and>
     level name (snd st') = meta_key meta \<and>
     (\<exists>v. version_key (sv_version v) = meta_key meta \<and> history_of name (snd st') = history_of name (snd st) @ [v])"

lemma prefix_keys: "prefix (history_of name c) (history_of name c') \<Longrightarrow> history_keys name c \<subseteq> history_keys name c'"
  by (auto simp: history_keys_def prefix_def)

lemma stamped_put:
  assumes "catalog_ok c" "find_by_name name c = Some s"
  shows "catalog_ok (put_skill (stamped env url s) c)"
    and "history_of name (put_skill (stamped env url s) c) = history_of name c"
    and "level name (put_skill (stamped env url s) c) = level name c"
proof -
  note s = find_by_name_Some [OF assms]
  have ok: "manifest_ok (stamped env url s)" using s(3) by (simp add: stamped_def manifest_ok_upd)
  then show "catalog_ok (put_skill (stamped env url s) c)" by (rule put_skill_ok [OF assms(1)])
  have "find_by_name name (put_skill (stamped env url s) c) = Some (stamped env url s)"
    by (rule find_put_skill [OF assms(1)]) (use s assms(2) in \<open>simp_all add: stamped_def\<close>)
  then show "history_of name (put_skill (stamped env url s) c) = history_of name c"
    "level name (put_skill (stamped env url s) c) = level name c"
    using assms(2) by (simp_all add: history_of_def level_def stamped_def)
qed

lemma sync_version_outcome:
  assumes "catalog_ok (snd st)"
  shows "unchanged name st (sync_version env url name raw meta st) \<and>
      (usable meta \<longrightarrow> kind_of_value (text_or (rm_kind raw) ''remote'') = None \<or> meta_key meta \<le> level name (snd st)) \<or>
    extended name meta st (sync_version env url name raw meta st) \<and> usable meta \<and>
      kind_of_value (text_or (rm_kind raw) ''remote'') \<noteq> None"
proof -
  obtain p c where st: "st = (p, c)" by (cases st)
  show ?thesis
  proof (cases "\<exists>v. rv_version meta = Some v \<and> v \<noteq> []")
    case True
    then obtain v where v: "rv_version meta = Some v" "v \<noteq> []" by blast
    show ?thesis
    proof (cases "kind_of_value (text_or (rm_kind raw) ''remote'')")
      case None
      with v assms st show ?thesis by (simp add: sync_version_def publish_remote_def unchanged_def)
    next
      case (Some kind)
      define interface where "interface = (case rv_interface meta of None \<Rightarrow> empty_interface | Some i \<Rightarrow> i)"
      define tags where "tags = (case rm_tags raw of None \<Rightarrow> [] | Some ts \<Rightarrow> ts)"
      obtain r c' where pub: "publish env name (text_or (rm_description raw) []) kind (text_or (rm_author raw) ''remote'') v
          (Some interface) tags c = (r, c')" by fastforce
      have c: "catalog_ok c" using assms st by simp
      have c': "catalog_ok c'"
        using publish_ok [OF c, where env = env and name = name and description = "text_or (rm_description raw) []" and
          kind = kind and author = "text_or (rm_author raw) ''remote''" and version = v and interface = "Some interface" and
          tags = tags] pub by simp
      have k: "meta_key meta = version_key v" using v by (simp add: meta_key_def text_or_def)
      note h = publish_history [OF c, where env = env and name = name and description = "text_or (rm_description raw) []" and
          kind = kind and author = "text_or (rm_author raw) ''remote''" and version = v and interface = "Some interface" and
          tags = tags, unfolded pub]
      have sv: "sync_version env url name raw meta st =
          (case r of Inl _ \<Rightarrow> (p, c') | Inr s \<Rightarrow> (Some (stamped env url s), put_skill (stamped env url s) c'))"
        using v st Some pub by (simp add: sync_version_def publish_remote_def interface_def tags_def split: sum.splits)
      show ?thesis
      proof (cases r)
        case (Inl err)
        with h sv c' st v k show ?thesis
          by (auto simp: unchanged_def usable_def)
      next
        case (Inr s)
        with h have f: "find_by_name name c' = Some s" by simp
        note sp = stamped_put [OF c' f, of env url]
        from Inr h sv sp st v k Some show ?thesis
          by (auto simp: extended_def usable_def)
      qed
    qed
  next
    case False
    then have "sync_version env url name raw meta st = st"
      by (auto simp: sync_version_def split: option.splits)
    with False assms show ?thesis by (auto simp: unchanged_def usable_def split: option.splits)
  qed
qed

lemma sync_loop_nothing_new:
  assumes "catalog_ok (snd st)" "\<forall>meta \<in> set metas. usable meta \<longrightarrow> meta_key meta \<le> level name (snd st)"
  shows "unchanged name st (fold (sync_version env url name raw) metas st)"
  using assms
proof (induction metas arbitrary: st)
  case Nil
  then show ?case by (simp add: unchanged_def)
next
  case (Cons meta metas)
  have "\<not> extended name meta st (sync_version env url name raw meta st) \<or> \<not> usable meta"
    using Cons.prems(2) by (auto simp: extended_def)
  with sync_version_outcome [OF Cons.prems(1), of name env url raw meta]
  have u: "unchanged name st (sync_version env url name raw meta st)" by blast
  with Cons.prems(2) have "unchanged name (sync_version env url name raw meta st)
      (fold (sync_version env url name raw) metas (sync_version env url name raw meta st))"
    by (intro Cons.IH) (auto simp: unchanged_def)
  with u show ?case by (simp add: unchanged_def)
qed

lemma sync_loop_all_new:
  assumes "catalog_ok (snd st)" "sorted_wrt (\<lambda>a b. meta_key a \<le> meta_key b) metas"
    and "kind_of_value (text_or (rm_kind raw) ''remote'') \<noteq> None"
    and "l \<le> level name (snd st)"
    and "level name (snd st) = l \<or> level name (snd st) \<in> history_keys name (snd st) \<and>
      (\<forall>meta \<in> set metas. level name (snd st) \<le> meta_key meta)"
  shows "let st' = fold (sync_version env url name raw) metas st in
    catalog_ok (snd st') \<and> prefix (history_of name (snd st)) (history_of name (snd st')) \<and>
    (\<forall>meta \<in> set metas. usable meta \<longrightarrow> meta_key meta \<le> level name (snd st') \<and>
      (l < meta_key meta \<longrightarrow> meta_key meta \<in> history_keys name (snd st'))) \<and>
    level name (snd st) \<le> level name (snd st')"
  using assms
proof (induction metas arbitrary: st)
  case (Cons meta metas)
  let ?st1 = "sync_version env url name raw meta st"
  let ?st2 = "fold (sync_version env url name raw) metas ?st1"
  have sorted: "sorted_wrt (\<lambda>a b. meta_key a \<le> meta_key b) metas" "\<forall>m \<in> set metas. meta_key meta \<le> meta_key m"
    using Cons.prems(2) by simp_all
  from sync_version_outcome [OF Cons.prems(1), of name env url raw meta] Cons.prems(3)
  consider (same) "unchanged name st ?st1" "usable meta \<longrightarrow> meta_key meta \<le> level name (snd st)"
    | (new) "extended name meta st ?st1" by blast
  then show ?case
  proof cases
    case same
    then have s1: "catalog_ok (snd ?st1)" "history_of name (snd ?st1) = history_of name (snd st)"
        "level name (snd ?st1) = level name (snd st)" by (simp_all add: unchanged_def)
    then have hk: "history_keys name (snd ?st1) = history_keys name (snd st)" by (simp add: history_keys_def)
    have ih: "let st' = ?st2 in catalog_ok (snd st') \<and> prefix (history_of name (snd ?st1)) (history_of name (snd st')) \<and>
        (\<forall>meta \<in> set metas. usable meta \<longrightarrow> meta_key meta \<le> level name (snd st') \<and>
          (l < meta_key meta \<longrightarrow> meta_key meta \<in> history_keys name (snd st'))) \<and> level name (snd ?st1) \<le> level name (snd st')"
      by (rule Cons.IH [OF s1(1) sorted(1) Cons.prems(3)]) (use Cons.prems(4,5) s1 hk in auto)
    have "meta_key meta \<in> history_keys name (snd ?st2)" if "usable meta" "l < meta_key meta"
    proof -
      have "level name (snd st) = meta_key meta" "level name (snd st) \<in> history_keys name (snd st)"
        using same(2) that Cons.prems(5) by auto
      moreover have "history_keys name (snd st) \<subseteq> history_keys name (snd ?st2)"
        using ih hk prefix_keys [of name "snd ?st1" "snd ?st2"] by (simp add: Let_def)
      ultimately show ?thesis by auto
    qed
    with ih same(2) s1 show ?thesis by (auto simp: Let_def)
  next
    case new
    then obtain v where s1: "catalog_ok (snd ?st1)" "level name (snd st) < meta_key meta" "level name (snd ?st1) = meta_key meta"
        "version_key (sv_version v) = meta_key meta" "history_of name (snd ?st1) = history_of name (snd st) @ [v]"
      by (auto simp: extended_def)
    then have hk: "meta_key meta \<in> history_keys name (snd ?st1)" by (force simp: history_keys_def)
    have ih: "let st' = ?st2 in catalog_ok (snd st') \<and> prefix (history_of name (snd ?st1)) (history_of name (snd st')) \<and>
        (\<forall>meta \<in> set metas. usable meta \<longrightarrow> meta_key meta \<le> level name (snd st') \<and>
          (l < meta_key meta \<longrightarrow> meta_key meta \<in> history_keys name (snd st'))) \<and> level name (snd ?st1) \<le> level name (snd st')"
      by (rule Cons.IH [OF s1(1) sorted(1) Cons.prems(3)]) (use Cons.prems(4) s1 hk sorted(2) in auto)
    have "meta_key meta \<in> history_keys name (snd ?st2)"
      using ih hk prefix_keys [of name "snd ?st1" "snd ?st2"] by (auto simp: Let_def)
    with ih s1 show ?thesis by (auto simp: Let_def prefix_def)
  qed
qed simp

section \<open>The properties\<close>

lemma sync_unfold:
  assumes "fetch url = Inr raw" "name = text_or (rm_name raw) []"
    "versions = (case rm_versions raw of None \<Rightarrow> [] | Some vs \<Rightarrow> vs)" "name \<noteq> []" "versions \<noteq> []"
    "fold (sync_version env url name raw) (sort_key meta_key versions) (None, rr_catalog g) = (published, c)"
  shows "sync fetch env url g =
    (case published of
       None \<Rightarrow> (Inl (RuntimeError (''no new versions at '' @ quoted url)), g\<lparr>rr_catalog := c\<rparr>)
     | Some s \<Rightarrow> (Inr s, g\<lparr>rr_catalog := c, rr_synced := dict_set url
         (case sk_last_synced s of None \<Rightarrow> env_stamp env | Some t \<Rightarrow> t) (rr_synced g)\<rparr>))"
proof -
  have k: "(\<lambda>v. version_key (text_or (rv_version v) ''0.0.0'')) = meta_key" by (simp add: meta_key_def fun_eq_iff)
  show ?thesis
    unfolding sync_def Let_def k assms(1) sum.case assms(2,3) [symmetric] assms(6) using assms(4,5)
    by (simp split: option.splits)
qed

lemma sync_nonempty:
  assumes "fetch url = Inr raw" "name = text_or (rm_name raw) []"
    "versions = (case rm_versions raw of None \<Rightarrow> [] | Some vs \<Rightarrow> vs)" "sync fetch env url g = (Inr s, g')"
  shows "name \<noteq> []" "versions \<noteq> []"
  using assms(4) unfolding sync_def Let_def assms(1) sum.case assms(2,3) [symmetric] by (auto split: if_splits)

text \<open>
  C35. Synchronisation with a remote registry: when it succeeds, the history of the skill is
  extended, by a version for every published one newer than what the catalog had, and the catalog
  stays well-formed; synchronising again with the same registry raises and leaves the history.
\<close>
theorem sync_complete:
  assumes "catalog_ok (rr_catalog g)" "fetch url = Inr raw" "sync fetch env url g = (Inr s, g')"
    and "name = text_or (rm_name raw) []" "versions = (case rm_versions raw of None \<Rightarrow> [] | Some vs \<Rightarrow> vs)"
  shows "catalog_ok (rr_catalog g') \<and>
    prefix (history_of name (rr_catalog g)) (history_of name (rr_catalog g')) \<and>
    (\<forall>meta \<in> set versions. usable meta \<and> level name (rr_catalog g) < meta_key meta \<longrightarrow>
      meta_key meta \<in> history_keys name (rr_catalog g')) \<and>
    (\<exists>err g''. sync fetch env2 url g' = (Inl (RuntimeError err), g'') \<and>
      history_of name (rr_catalog g'') = history_of name (rr_catalog g'))"
proof -
  let ?metas = "sort_key meta_key versions"
  note ne = sync_nonempty [where fetch = fetch and url = url, OF assms(2,4,5,3)]
  obtain published c1 where l1: "fold (sync_version env url name raw) ?metas (None, rr_catalog g) = (published, c1)"
    by fastforce
  have l: "fold (sync_version env url name raw) ?metas (None, rr_catalog g) = (Some s, rr_catalog g')"
    using assms(3) sync_unfold [where fetch = fetch and url = url, OF assms(2,4,5) ne l1] l1 by (auto split: option.splits)
  have kind: "kind_of_value (text_or (rm_kind raw) ''remote'') \<noteq> None"
  proof
    assume "kind_of_value (text_or (rm_kind raw) ''remote'') = None"
    then have "sync_version env url name raw meta (None, c) = (None, c)" for meta c
      by (simp add: sync_version_def publish_remote_def split: option.splits)
    then have "fold (sync_version env url name raw) metas (None, c) = (None, c)" for metas c
      by (induction metas) simp_all
    with l show False by simp
  qed
  have "sorted_wrt (\<lambda>a b. meta_key a \<le> meta_key b) ?metas"
    using sorted_sort_key [of meta_key versions] by (simp only: sorted_map)
  note first = sync_loop_all_new [OF _ this kind, of "(None, rr_catalog g)" "level name (rr_catalog g)" name env url,
      unfolded l Let_def snd_conv, OF assms(1) order_refl disjI1 [OF refl]]
  have "\<forall>meta \<in> set ?metas. usable meta \<longrightarrow> meta_key meta \<le> level name (snd (None, rr_catalog g'))"
    using first by simp
  then have un: "unchanged name (None, rr_catalog g') (fold (sync_version env2 url name raw) ?metas (None, rr_catalog g'))"
    by (intro sync_loop_nothing_new) (use first in simp_all)
  then obtain c where c: "fold (sync_version env2 url name raw) ?metas (None, rr_catalog g') = (None, c)"
      "history_of name c = history_of name (rr_catalog g')"
    by (cases "fold (sync_version env2 url name raw) ?metas (None, rr_catalog g')") (auto simp: unchanged_def)
  from sync_unfold [where fetch = fetch and url = url, OF assms(2,4,5) ne c(1)]
  have "sync fetch env2 url g' = (Inl (RuntimeError (''no new versions at '' @ quoted url)), g'\<lparr>rr_catalog := c\<rparr>)" by simp
  with c(2) have "\<exists>err g''. sync fetch env2 url g' = (Inl (RuntimeError err), g'') \<and>
      history_of name (rr_catalog g'') = history_of name (rr_catalog g')" by auto
  with first show ?thesis by simp
qed

definition sample_remote :: "string \<Rightarrow> remote_manifest result" where
  "sample_remote url = Inr
     \<lparr>rm_name = Some ''code-gen'', rm_description = None, rm_kind = None, rm_author = None, rm_tags = None,
      rm_versions = Some [\<lparr>rv_version = Some ''2.0.0'', rv_interface = None\<rparr>, \<lparr>rv_version = Some ''1.0.0'', rv_interface = None\<rparr>]\<rparr>"

definition sync_env :: env where
  "sync_env = \<lparr>env_time = 0, env_stamp = ''s'', env_uuid = ''1''\<rparr>"

lemma sync_complete_witness:
  "\<exists>s g'. sync sample_remote sync_env ''u'' (new_remote_registry new_catalog) = (Inr s, g') \<and>
     {[1, 0, 0], [2, 0, 0]} \<subseteq> history_keys ''code-gen'' (rr_catalog g') \<and>
     (\<exists>err g''. sync sample_remote sync_env ''u'' g' = (Inl (RuntimeError err), g''))"
proof -
  let ?g = "new_remote_registry new_catalog"
  obtain s g' where s: "sync sample_remote sync_env ''u'' ?g = (Inr s, g')"
    by (simp add: sync_def sample_remote_def new_remote_registry_def new_catalog_def sync_version_def publish_remote_def
      publish_def described_def find_by_name_def add_version_def put_skill_def version_key_def text_or_def kind_of_value_def
      materialize_def read_int_def strip_def is_space_def digit_of_def stamped_def or_text_def new_id_def sync_env_def Let_def)
  have ok: "catalog_ok (rr_catalog ?g)" using new_catalog_ok by (simp add: new_remote_registry_def)
  obtain raw where raw: "sample_remote ''u'' = Inr raw" "text_or (rm_name raw) [] = ''code-gen''"
      "rm_versions raw = Some [\<lparr>rv_version = Some ''2.0.0'', rv_interface = None\<rparr>, \<lparr>rv_version = Some ''1.0.0'', rv_interface = None\<rparr>]"
    by (simp add: sample_remote_def text_or_def)
  have u: "usable \<lparr>rv_version = Some ''2.0.0'', rv_interface = None\<rparr>" "meta_key \<lparr>rv_version = Some ''2.0.0'', rv_interface = None\<rparr> = [2, 0, 0]"
    "usable \<lparr>rv_version = Some ''1.0.0'', rv_interface = None\<rparr>" "meta_key \<lparr>rv_version = Some ''1.0.0'', rv_interface = None\<rparr> = [1, 0, 0]"
    by (simp_all add: usable_def meta_key_def text_or_def version_key_def materialize_def read_int_def strip_def is_space_def digit_of_def)
  have lv: "level ''code-gen'' (rr_catalog ?g) = [0, 0, 0]"
    by (simp add: level_def find_by_name_def new_remote_registry_def new_catalog_def)
  from sync_complete [where fetch = sample_remote and url = "''u''" and ?env2.0 = sync_env, OF ok raw(1) s refl refl] raw(2,3) u lv s show ?thesis
    by auto
qed



end
