(* ===== verification/Twin.thy ===== *)
theory Twin
  imports Orchestrator Marketplace Memory_Store Simulation Learning Ledger
begin

text \<open>
  \<open>omni/twin/builder.py\<close>: the snapshot graph of the running system, the window of recent errors and
  the replay of the ledger. The builder holds references to the subsystems; the model passes their
  current states, each an option as in the constructor.
\<close>

record twin_sources =
  ts_orchestrator :: "orchestrator option"
  ts_marketplace :: "catalog option"
  ts_memory :: "memory_store option"
  ts_simulation :: "sandbox option"
  ts_learning :: "learning_pipeline option"
  ts_ledger :: "ledger option"

record twin_builder =
  tw_tick :: int
  tw_errors :: "(string, pyval) dict list"

definition new_twin :: twin_builder where
  "new_twin = \<lparr>tw_tick = 0, tw_errors = []\<rparr>"

definition twin_replay :: "string option \<Rightarrow> string option \<Rightarrow> int \<Rightarrow> twin_sources \<Rightarrow> ledger_row list" where
  "twin_replay subject subsystem limit src =
     (case ts_ledger src of None \<Rightarrow> [] | Some lg \<Rightarrow> ledger_replay subject subsystem limit lg)"

definition error_entry :: "env \<Rightarrow> string \<Rightarrow> string \<Rightarrow> (string, pyval) dict" where
  "error_entry env source message =
     [(''at'', PFloat (env_time env)), (''source'', PStr source), (''message'', PStr message)]"

definition record_error :: "env \<Rightarrow> string \<Rightarrow> string \<Rightarrow> twin_builder \<Rightarrow> twin_builder" where
  "record_error env source message tw =
     tw\<lparr>tw_errors := last_n 200 (tw_errors tw @ [error_entry env source message])\<rparr>"

section \<open>The parts of a snapshot\<close>

definition twin_agent :: "agent_spec \<Rightarrow> pyval" where
  "twin_agent a = PDict
     [(''id'', PStr (ag_id a)), (''name'', PStr (ag_name a)), (''type'', PStr (agent_type_value (ag_type a))),
      (''status'', PStr (agent_status_value (ag_status a))), (''load'', PFloat (ag_load a)),
      (''queue_depth'', PInt (ag_queue_depth a)), (''model'', opt_str (ag_model a)),
      (''cost_spent'', PFloat (ag_cost_spent a))]"

definition twin_task :: "task_spec \<Rightarrow> pyval" where
  "twin_task t = PDict
     [(''id'', PStr (tk_id t)), (''name'', PStr (tk_name t)), (''status'', PStr (task_status_value (tk_status t))),
      (''priority'', PInt (tk_priority t)), (''risk_level'', PStr (tk_risk_level t)),
      (''assignee'', opt_str (tk_assignee t))]"

definition agent_edges :: "task_spec list \<Rightarrow> (string \<times> string) list" where
  \<comment> \<open>assignee and task of the tasks that have an assignee\<close>
  "agent_edges ts = List.map_filter (\<lambda>t. case tk_assignee t of
     None \<Rightarrow> None | Some k \<Rightarrow> if k = [] then None else Some (k, tk_id t)) ts"

definition twin_edge :: "string \<times> string \<Rightarrow> pyval" where
  "twin_edge e = PDict [(''from'', PStr (fst e)), (''to'', PStr (snd e)), (''relation'', PStr ''executes'')]"

definition twin_skill :: "skill_manifest \<Rightarrow> pyval" where
  "twin_skill s = PDict
     [(''id'', PStr (sk_id s)), (''name'', PStr (sk_name s)), (''kind'', PStr (kind_value (sk_kind s))),
      (''version'', PStr (sk_latest_version s)), (''installs'', PInt (sk_installs s)),
      (''rating'', PFloat (skill_rating s))]"

definition twin_memory :: "memory_store \<Rightarrow> pyval list" where
  "twin_memory rows = map (\<lambda>key. PDict [(''key'', PStr key),
     (''branches'', PList (map PStr (case dict_get (mem_snapshot rows) key of None \<Rightarrow> [] | Some d \<Rightarrow> dict_keys d)))])
     (mem_all_keys ''main'' rows)"

definition twin_simulation :: "simulation_result \<Rightarrow> pyval" where
  "twin_simulation s = PDict
     [(''id'', PStr (sm_id s)), (''domain'', PStr (sm_domain s)), (''confidence'', PFloat (sm_confidence s)),
      (''risk_level'', PStr (risk_value (sm_risk_level s))), (''needs_approval'', PBool (sm_needs_approval s))]"

definition twin_learning :: "env \<Rightarrow> learning_pipeline option \<Rightarrow> (string, pyval) dict" where
  "twin_learning env lp =
     (case lp of None \<Rightarrow> []
      | Some p \<Rightarrow> [(''samples'', PInt (int (length (lp_read env p)))),
          (''trends'', PDict (map (\<lambda>(k, x). (k, PFloat x)) (lp_trends env None p)))])"

record status_counts =
  sc_running :: int
  sc_sleeping :: int
  sc_waiting :: int

fun count_statuses :: "agent_spec list \<Rightarrow> status_counts" where
  "count_statuses [] = \<lparr>sc_running = 0, sc_sleeping = 0, sc_waiting = 0\<rparr>"
| "count_statuses (a # ags) =
     (let c = count_statuses ags in
      if ag_status a = RUNNING then c\<lparr>sc_running := sc_running c + 1\<rparr>
      else if ag_status a = WAITING then c\<lparr>sc_waiting := sc_waiting c + 1\<rparr>
      else c\<lparr>sc_sleeping := sc_sleeping c + 1\<rparr>)"

record twin_counters =
  tc_agents_total :: int
  tc_tasks_queued :: int
  tc_tasks_running :: int
  tc_costs_total :: real
  tc_queues_total :: int
  tc_errors_last_window :: int

definition counters_of :: "agent_spec list \<Rightarrow> task_spec list \<Rightarrow> twin_builder \<Rightarrow> twin_counters" where
  "counters_of ags ts tw =
     \<lparr>tc_agents_total = int (length ags),
      tc_tasks_queued = int (length (filter (\<lambda>t. tk_status t = QUEUED) ts)),
      tc_tasks_running = int (length (filter (\<lambda>t. tk_status t = TASK_RUNNING) ts)),
      tc_costs_total = py_round (sum_list (map ag_cost_spent ags)) 4,
      tc_queues_total = sum_list (map ag_queue_depth ags),
      tc_errors_last_window = int (length (tw_errors tw))\<rparr>"

section \<open>The snapshot\<close>

record twin_view =
  tv_tick :: int
  tv_generated_at :: real
  tv_agents :: "pyval list"
  tv_status_counts :: status_counts
  tv_tasks :: "pyval list"
  tv_edges :: "(string \<times> string) list"
  tv_skills :: "pyval list"
  tv_memory_keys :: "pyval list"
  tv_simulations :: "pyval list"
  tv_learning :: "(string, pyval) dict"
  tv_errors :: "(string, pyval) dict list"
  tv_counters :: twin_counters

definition twin_snapshot :: "env \<Rightarrow> twin_sources \<Rightarrow> twin_builder \<Rightarrow> twin_view \<times> twin_builder" where
  "twin_snapshot env src tw =
     (let tw' = tw\<lparr>tw_tick := tw_tick tw + 1\<rparr>;
          ags = (case ts_orchestrator src of None \<Rightarrow> [] | Some st \<Rightarrow> agents st);
          ts = (case ts_orchestrator src of None \<Rightarrow> [] | Some st \<Rightarrow> tasks st)
      in (\<lparr>tv_tick = tw_tick tw', tv_generated_at = env_time env, tv_agents = map twin_agent ags,
           tv_status_counts = count_statuses ags, tv_tasks = map twin_task ts, tv_edges = agent_edges ts,
           tv_skills = map twin_skill (case ts_marketplace src of None \<Rightarrow> [] | Some c \<Rightarrow> all_skills c),
           tv_memory_keys = (case ts_memory src of None \<Rightarrow> [] | Some rows \<Rightarrow> twin_memory rows),
           tv_simulations = map twin_simulation (case ts_simulation src of None \<Rightarrow> [] | Some sb \<Rightarrow> sim_history sb),
           tv_learning = twin_learning env (ts_learning src), tv_errors = tw_errors tw',
           tv_counters = counters_of ags ts tw'\<rparr>, tw'))"

definition twin_json :: "twin_view \<Rightarrow> (string, pyval) dict" where
  \<comment> \<open>the dictionary \<open>snapshot\<close> returns, in its order\<close>
  "twin_json v =
     [(''tick'', PInt (tv_tick v)), (''generated_at'', PFloat (tv_generated_at v)), (''agents'', PList (tv_agents v)),
      (''agent_status_counts'', PDict [(''running'', PInt (sc_running (tv_status_counts v))),
         (''sleeping'', PInt (sc_sleeping (tv_status_counts v))), (''waiting'', PInt (sc_waiting (tv_status_counts v)))]),
      (''tasks'', PList (tv_tasks v)), (''task_dependencies'', PList (map twin_edge (tv_edges v))),
      (''skills'', PList (tv_skills v)), (''memory_keys'', PList (tv_memory_keys v)),
      (''simulations'', PList (tv_simulations v)), (''learning'', PDict (tv_learning v)),
      (''errors'', PList (map PDict (tv_errors v))),
      (''counters'', PDict [(''agents_total'', PInt (tc_agents_total (tv_counters v))),
         (''tasks_queued'', PInt (tc_tasks_queued (tv_counters v))), (''tasks_running'', PInt (tc_tasks_running (tv_counters v))),
         (''costs_total'', PFloat (tc_costs_total (tv_counters v))), (''queues_total'', PInt (tc_queues_total (tv_counters v))),
         (''errors_last_window'', PInt (tc_errors_last_window (tv_counters v)))])]"

end
