(* ===== verification/Twin_Stream.thy ===== *)
theory Twin_Stream
  imports Twin Fleet_Bus
begin

text \<open>
  \<open>omni/twin/stream.py\<close> and the \<open>/twin/stream\<close> route of \<open>omni/api/main.py\<close>: the broadcaster's fan-out
  to its sinks, and the connections of the live feed as a machine whose steps are the ones the event
  loop interleaves. A sink is an abstract value; what calling it does to the state the sinks share,
  which extends the broadcaster's record, is the argument \<open>act\<close>, and it may raise.
\<close>

section \<open>The broadcaster\<close>

record 's broadcaster =
  tb_sinks :: "(int, 's) dict"
  tb_next_id :: int

type_synonym ('s, 'z) sink_effect = "'s \<Rightarrow> payload \<Rightarrow> ('s, 'z) broadcaster_scheme \<Rightarrow> unit result \<times> ('s, 'z) broadcaster_scheme"

definition tb_subscribe :: "'s \<Rightarrow> ('s, 'z) broadcaster_scheme \<Rightarrow> int \<times> ('s, 'z) broadcaster_scheme" where
  "tb_subscribe sink b =
     (tb_next_id b, b\<lparr>tb_next_id := tb_next_id b + 1, tb_sinks := dict_set (tb_next_id b) sink (tb_sinks b)\<rparr>)"

definition tb_unsubscribe :: "int \<Rightarrow> ('s, 'z) broadcaster_scheme \<Rightarrow> ('s, 'z) broadcaster_scheme" where
  "tb_unsubscribe sub_id b = b\<lparr>tb_sinks := dict_del sub_id (tb_sinks b)\<rparr>"

fun fan_out :: "('s, 'z) sink_effect \<Rightarrow> payload \<Rightarrow> (int \<times> 's) list \<Rightarrow> int \<times> int list \<Rightarrow> ('s, 'z) broadcaster_scheme \<Rightarrow>
    (int \<times> int list) \<times> ('s, 'z) broadcaster_scheme" where
  "fan_out act message [] acc b = (acc, b)"
| "fan_out act message ((sub_id, sink) # sinks) (delivered, dead) b =
     (case act sink message b of
        (Inr _, b') \<Rightarrow> fan_out act message sinks (delivered + 1, dead) b'
      | (Inl _, b') \<Rightarrow> fan_out act message sinks (delivered, dead @ [sub_id]) b')"

definition tb_broadcast :: "('s, 'z) sink_effect \<Rightarrow> payload \<Rightarrow> ('s, 'z) broadcaster_scheme \<Rightarrow> int \<times> ('s, 'z) broadcaster_scheme" where
  "tb_broadcast act message b =
     (let ((delivered, dead), b') = fan_out act message (tb_sinks b) (0, []) b
      in (delivered, fold tb_unsubscribe dead b'))"

definition subscriber_count :: "('s, 'z) broadcaster_scheme \<Rightarrow> int" where
  "subscriber_count b = int (length (tb_sinks b))"

section \<open>The live feed\<close>

record client =
  cl_sub :: int
  cl_queue :: "payload list" \<comment> \<open>the connection's \<open>asyncio.Queue\<close>\<close>
  cl_sent :: "payload list" \<comment> \<open>what the web socket was sent\<close>

record feed = "nat broadcaster" +
  fd_clients :: "(nat, client) dict"
  fd_loop_open :: bool \<comment> \<open>\<open>call_soon_threadsafe\<close> raises once the event loop is closed\<close>

definition client_sink :: "(nat, \<lparr>fd_clients :: (nat, client) dict, fd_loop_open :: bool\<rparr>) sink_effect" where
  \<comment> \<open>the closure \<open>sink\<close> of a connection: \<open>loop.call_soon_threadsafe(queue.put_nowait, message)\<close>\<close>
  "client_sink c message w =
     (if \<not> fd_loop_open w then (Inl (RuntimeError ''Event loop is closed''), w)
      else (Inr (), w\<lparr>fd_clients := dict_upd c (\<lambda>cl. cl\<lparr>cl_queue := cl_queue cl @ [message]\<rparr>) (fd_clients w)\<rparr>))"

definition fleet_event :: "string \<Rightarrow> payload \<Rightarrow> payload" where
  \<comment> \<open>what the subscription of the control plane to \<open>">"\<close> broadcasts for a publication\<close>
  "fleet_event subject payload =
     [(''type'', PStr ''fleet_event''), (''subject'', PStr subject), (''payload'', PDict payload)]"

definition snapshot_frame :: "twin_view \<Rightarrow> payload" where
  "snapshot_frame v = [(''type'', PStr ''snapshot''), (''data'', PDict (twin_json v))]"

datatype feed_event =
    Connect nat twin_view \<comment> \<open>a client connects and is sent the first snapshot\<close>
  | Published string payload \<comment> \<open>a bus event is broadcast\<close>
  | Forwarded nat \<comment> \<open>the head of a client's queue is sent\<close>
  | Heartbeat nat twin_view \<comment> \<open>nothing came for two seconds: a snapshot is sent\<close>
  | Disconnected nat \<comment> \<open>a send raised \<open>WebSocketDisconnect\<close>\<close>

fun feed_step :: "feed_event \<Rightarrow> feed \<Rightarrow> feed" where
  "feed_step (Connect c v) w =
     (if c \<in> set (dict_keys (fd_clients w)) then w
      else (let (sub_id, w1) = tb_subscribe c w in
        w1\<lparr>fd_clients := dict_set c \<lparr>cl_sub = sub_id, cl_queue = [], cl_sent = [snapshot_frame v]\<rparr> (fd_clients w1)\<rparr>))"
| "feed_step (Published subject payload) w = snd (tb_broadcast client_sink (fleet_event subject payload) w)"
| "feed_step (Forwarded c) w =
     w\<lparr>fd_clients := dict_upd c (\<lambda>cl. case cl_queue cl of [] \<Rightarrow> cl
         | message # rest \<Rightarrow> cl\<lparr>cl_queue := rest, cl_sent := cl_sent cl @ [message]\<rparr>) (fd_clients w)\<rparr>"
| "feed_step (Heartbeat c v) w =
     w\<lparr>fd_clients := dict_upd c (\<lambda>cl. if cl_queue cl = [] then cl\<lparr>cl_sent := cl_sent cl @ [snapshot_frame v]\<rparr> else cl) (fd_clients w)\<rparr>"
| "feed_step (Disconnected c) w =
     (case dict_get (fd_clients w) c of
        None \<Rightarrow> w
      | Some cl \<Rightarrow> (tb_unsubscribe (cl_sub cl) w)\<lparr>fd_clients := dict_del c (fd_clients w)\<rparr>)"

definition new_feed :: feed where
  "new_feed = \<lparr>tb_sinks = [], tb_next_id = 0, fd_clients = [], fd_loop_open = True\<rparr>"

end
