(* ===== verification/Twin_Properties.thy ===== *)
theory Twin_Properties
  imports Twin_Stream Orchestrator_Control
begin

text \<open>
  The Digital Twin: its counters against the pool it views, its window of errors, and the delivery
  of the live feed, where a dead sink never costs another one a message and every client gets the
  events published while it is connected, in order.
\<close>

section \<open>Snapshots\<close>

lemma agent_edges_iff:
  "(k, tid) \<in> set (agent_edges ts) \<longleftrightarrow> k \<noteq> [] \<and> (\<exists>t \<in> set ts. tk_id t = tid \<and> tk_assignee t = Some k)"
proof (induction ts)
  case (Cons t ts)
  then show ?case by (cases "tk_assignee t") (auto simp: agent_edges_def)
qed (simp add: agent_edges_def)

lemma count_statuses_sum:
  "sc_running (count_statuses ags) + sc_sleeping (count_statuses ags) + sc_waiting (count_statuses ags) = int (length ags)"
  by (induction ags) (auto simp: Let_def)

lemma sum_held_once:
  assumes "distinct ks" "tk_status t = ASSIGNED \<longrightarrow> (\<exists>k \<in> set ks. tk_assignee t = Some k)"
  shows "sum_list (map (\<lambda>k. if held_by k t then 1 else 0) ks) = (if tk_status t = ASSIGNED then 1 else (0 :: int))"
  using assms
proof (induction ks)
  case (Cons k ks)
  have "sum_list (map (\<lambda>j. if held_by j t then 1 else 0) ks) = (0 :: int)" if "held_by k t"
  proof -
    have "map (\<lambda>j. if held_by j t then 1 else 0) ks = map (\<lambda>j. 0 :: int) ks"
      using that Cons.prems(1) by (auto simp: held_by_def)
    then show ?thesis by (simp only: sum_list_0)
  qed
  with Cons show ?case by (auto simp: held_by_def)
qed (simp add: held_by_def)

lemma sum_pcount_held:
  assumes "distinct ks" "\<forall>t \<in> set (dict_values d). tk_status t = ASSIGNED \<longrightarrow> (\<exists>k \<in> set ks. tk_assignee t = Some k)"
  shows "sum_list (map (\<lambda>k. pcount (held_by k) d) ks) = pcount (\<lambda>t. tk_status t = ASSIGNED) d"
  using assms(2)
proof (induction d)
  case (Cons p d)
  have "sum_list (map (\<lambda>k. pcount (held_by k) (p # d)) ks) =
      sum_list (map (\<lambda>k. (if held_by k (snd p) then 1 else 0) + pcount (held_by k) d) ks)"
    by (intro arg_cong [where f = sum_list] map_cong) (simp_all add: pcount_def)
  also have "\<dots> = (if tk_status (snd p) = ASSIGNED then 1 else 0) + pcount (\<lambda>t. tk_status t = ASSIGNED) d"
    using Cons sum_held_once [OF assms(1), of "snd p"] by (simp add: sum_list_addf)
  finally show ?case by (simp add: pcount_def)
qed (simp add: pcount_def)

lemma queues_total_assigned:
  assumes "work_ok st"
  shows "sum_list (map ag_queue_depth (agents st)) = pcount (\<lambda>t. tk_status t = ASSIGNED) (or_tasks st)"
proof -
  have d: "distinct (dict_keys (or_agents st))" "distinct (dict_keys (or_tasks st))"
    using assms by (auto simp: work_ok_def pool_ok_def)
  have "map ag_queue_depth (agents st) = map (\<lambda>k. pcount (held_by k) (or_tasks st)) (dict_keys (or_agents st))"
    using work_queue [OF assms] dict_get_in [OF d(1)] by (auto simp: agents_def)
  moreover have "\<exists>k \<in> set (dict_keys (or_agents st)). tk_assignee t = Some k"
    if t: "t \<in> set (dict_values (or_tasks st))" "tk_status t = ASSIGNED" for t
  proof -
    from t(1) obtain tid where "dict_get (or_tasks st) tid = Some t" using dict_get_in [OF d(2)] by auto
    from work_assigned [OF assms this t(2)] obtain k a where "tk_assignee t = Some k" "dict_get (or_agents st) k = Some a" by blast
    then show ?thesis by (metis dict_get_None_keys option.distinct(1))
  qed
  ultimately show ?thesis using sum_pcount_held [OF d(1), of "or_tasks st"] by metis
qed

text \<open>
  A snapshot accounts for the pool: the status counts add up to the agents it lists, which
  are all the registered ones, the edges are the tasks that have an assignee, and, as long as the
  pool conserves work, the total of the queues is the number of assigned tasks.
\<close>
theorem snapshot_accounts:
  assumes "ts_orchestrator src = Some st" "work_ok st" "twin_snapshot env src tw = (v, tw')"
  shows "sc_running (tv_status_counts v) + sc_sleeping (tv_status_counts v) + sc_waiting (tv_status_counts v) =
      tc_agents_total (tv_counters v) \<and> tc_agents_total (tv_counters v) = int (length (tv_agents v)) \<and>
    length (tv_agents v) = length (or_agents st) \<and>
    (\<forall>k tid. (k, tid) \<in> set (tv_edges v) \<longleftrightarrow> k \<noteq> [] \<and> (\<exists>t \<in> set (tasks st). tk_id t = tid \<and> tk_assignee t = Some k)) \<and>
    tc_queues_total (tv_counters v) = count_tasks ASSIGNED st \<and> tv_tick v = tw_tick tw'"
proof -
  have v: "v = fst (twin_snapshot env src tw)" "tw' = snd (twin_snapshot env src tw)" using assms(3) by simp_all
  show ?thesis
    using queues_total_assigned [OF assms(2)] count_statuses_sum [of "agents st"]
    by (simp add: v agent_edges_iff twin_snapshot_def Let_def assms(1) counters_of_def count_tasks_def pcount_def tasks_def agents_def)
qed

definition assigned_pool :: orchestrator where
  "assigned_pool = fold orch_step (sample_orch_cmds @ [Assign (pool_env 3 []) ''t1'']) sample_pool"

definition pool_sources :: "orchestrator \<Rightarrow> twin_sources" where
  "pool_sources st = \<lparr>ts_orchestrator = Some st, ts_marketplace = None, ts_memory = None, ts_simulation = None,
     ts_learning = None, ts_ledger = None\<rparr>"

lemma assigned_pool_ok: "work_ok assigned_pool"
  unfolding assigned_pool_def
  by (rule orch_work.allowed_run_ok)
    (simp_all add: sample_pool_def work_ok_new, simp add: sample_orch_cmds_def new_orchestrator_def register_agent_def
      new_agent_def sample_task_def Let_def)

lemma snapshot_accounts_witness:
  "let (v, tw') = twin_snapshot (pool_env 4 []) (pool_sources assigned_pool) new_twin
   in length (tv_agents v) = length (or_agents assigned_pool) \<and> tc_queues_total (tv_counters v) = count_tasks ASSIGNED assigned_pool"
proof -
  obtain v tw' where "twin_snapshot (pool_env 4 []) (pool_sources assigned_pool) new_twin = (v, tw')" by fastforce
  then show ?thesis
    using snapshot_accounts [of "pool_sources assigned_pool" assigned_pool "pool_env 4 []" new_twin v tw'] assigned_pool_ok
    by (simp add: pool_sources_def)
qed

text \<open>
  However many errors are recorded, the builder keeps the last 200, oldest first.
\<close>
theorem errors_window:
  "tw_errors (fold (\<lambda>(env, source, message). record_error env source message) reports new_twin) =
     last_n 200 (map (\<lambda>(env, source, message). error_entry env source message) reports)"
proof (induction reports rule: rev_induct)
  case (snoc r reports)
  then show ?case by (cases r) (simp add: record_error_def last_n_snoc)
qed (simp add: new_twin_def last_n_def)

section \<open>Broadcasting\<close>

lemma fan_out_spec:
  assumes "\<And>s b. isl (fst (act s message b)) \<longleftrightarrow> \<not> alive s"
  shows "fan_out act message sinks (n, dead) b =
    ((n + int (length (filter (alive \<circ> snd) sinks)), dead @ map fst (filter (\<lambda>p. \<not> alive (snd p)) sinks)),
     fold (\<lambda>p b. snd (act (snd p) message b)) sinks b)"
proof (induction sinks arbitrary: n dead b)
  case (Cons p sinks)
  obtain i s where p: "p = (i, s)" by (cases p)
  obtain r b' where r: "act s message b = (r, b')" by (cases "act s message b")
  show ?case
    using Cons.IH assms [of s b] by (cases r) (simp_all add: p r)
qed simp

lemma tb_unsubscribe_filter: "tb_unsubscribe i b = b\<lparr>tb_sinks := filter (\<lambda>p. fst p \<noteq> i) (tb_sinks b)\<rparr>"
  by (auto simp: tb_unsubscribe_def AList.delete_eq case_prod_unfold intro!: broadcaster.fold_congs filter_cong)

lemma fold_unsubscribe:
  "fold tb_unsubscribe ids b = b\<lparr>tb_sinks := filter (\<lambda>p. fst p \<notin> set ids) (tb_sinks b)\<rparr>"
  by (induction ids arbitrary: b) (simp_all add: tb_unsubscribe_filter)

text \<open>
  A broadcast calls every sink once, in the order of their subscription, whether or not
  another one raises; it returns how many did not, and of the sinks it drops exactly the others.
\<close>
theorem broadcast_prunes:
  assumes "\<And>s b. isl (fst (act s message b)) \<longleftrightarrow> \<not> alive s" "\<And>s b. tb_sinks (snd (act s message b)) = tb_sinks b"
    and "distinct (dict_keys (tb_sinks b))"
  shows "tb_broadcast act message b =
    (int (length (filter alive (dict_values (tb_sinks b)))),
     (fold (\<lambda>s b. snd (act s message b)) (dict_values (tb_sinks b)) b)
       \<lparr>tb_sinks := filter (\<lambda>p. alive (snd p)) (tb_sinks b)\<rparr>)"
proof -
  have kept: "tb_sinks (fold (\<lambda>p b. snd (act (snd p) message b)) sinks b') = tb_sinks b'" for sinks b'
    by (induction sinks arbitrary: b') (simp_all add: assms(2))
  have same: "fold (\<lambda>p b. snd (act (snd p) message b)) sinks b' = fold (\<lambda>s b. snd (act s message b)) (dict_values sinks) b'"
    for sinks b'
    by (induction sinks arbitrary: b') simp_all
  have "fst p \<notin> fst ` {p \<in> set (tb_sinks b). \<not> alive (snd p)} \<longleftrightarrow> alive (snd p)" if "p \<in> set (tb_sinks b)" for p
    using that assms(3) by (force simp: distinct_map inj_on_def)
  then have "filter (\<lambda>p. fst p \<notin> fst ` {p \<in> set (tb_sinks b). \<not> alive (snd p)}) (tb_sinks b) = filter (\<lambda>p. alive (snd p)) (tb_sinks b)"
    by (rule filter_cong [OF refl])
  moreover have "length (filter (alive \<circ> snd) (tb_sinks b)) = length (filter alive (dict_values (tb_sinks b)))"
    by (simp add: filter_map)
  ultimately show ?thesis
    using kept [of "tb_sinks b" b] by (simp add: tb_broadcast_def fan_out_spec [where alive = alive and act = act and message = message, OF assms(1)] fold_unsubscribe same)
qed

definition odd_sinks :: "nat broadcaster" where
  "odd_sinks = \<lparr>tb_sinks = [(0, 4), (1, 7), (2, 6)], tb_next_id = 3\<rparr>"

lemma broadcast_prunes_witness:
  "tb_broadcast (\<lambda>s m b. (if even s then Inr () else Inl TypeError, b)) [] odd_sinks =
     (2, odd_sinks\<lparr>tb_sinks := [(0, 4), (2, 6)]\<rparr>)"
  using broadcast_prunes [of "\<lambda>s m b. (if even s then Inr () else Inl TypeError, b)" "[]" even odd_sinks]
  by (simp add: odd_sinks_def)

section \<open>The live feed\<close>

declare map_of_eq_Some_iff [simp del] Some_eq_map_of_iff [simp del]

lemma dict_has: "k \<in> set (dict_keys d) \<longleftrightarrow> (\<exists>v. dict_get d k = Some v)"
  by (metis dict_get_None_keys not_None_eq)

definition is_fleet_event :: "payload \<Rightarrow> bool" where
  "is_fleet_event m \<longleftrightarrow> dict_get m ''type'' = Some (PStr ''fleet_event'')"

lemma is_fleet_event_simps [simp]: "is_fleet_event (fleet_event subject payload)" "\<not> is_fleet_event (snapshot_frame v)"
  by (simp_all add: is_fleet_event_def fleet_event_def snapshot_frame_def)

definition enqueue :: "payload \<Rightarrow> nat \<Rightarrow> feed \<Rightarrow> feed" where
  "enqueue m c w = w\<lparr>fd_clients := dict_upd c (\<lambda>cl. cl\<lparr>cl_queue := cl_queue cl @ [m]\<rparr>) (fd_clients w)\<rparr>"

definition feed_ok :: "feed \<Rightarrow> bool" where
  \<comment> \<open>one sink per client, under the identifier the client holds, and only events wait\<close>
  "feed_ok w \<longleftrightarrow> distinct (dict_keys (tb_sinks w)) \<and> distinct (dict_keys (fd_clients w)) \<and> fd_loop_open w \<and>
     (\<forall>i c. (i, c) \<in> set (tb_sinks w) \<longleftrightarrow> (\<exists>cl. dict_get (fd_clients w) c = Some cl \<and> cl_sub cl = i)) \<and>
     (\<forall>c cl. dict_get (fd_clients w) c = Some cl \<longrightarrow> cl_sub cl < tb_next_id w \<and> list_all is_fleet_event (cl_queue cl))"

lemma feed_okD:
  assumes "feed_ok w"
  shows "distinct (dict_keys (tb_sinks w))" "distinct (dict_keys (fd_clients w))" "fd_loop_open w"
    and "(i, c) \<in> set (tb_sinks w) \<longleftrightarrow> (\<exists>cl. dict_get (fd_clients w) c = Some cl \<and> cl_sub cl = i)"
    and "dict_get (fd_clients w) c = Some cl \<Longrightarrow> cl_sub cl < tb_next_id w"
    and "dict_get (fd_clients w) c = Some cl \<Longrightarrow> list_all is_fleet_event (cl_queue cl)"
  using assms unfolding feed_ok_def by blast+

lemma feed_okI:
  assumes "distinct (dict_keys (tb_sinks w))" "distinct (dict_keys (fd_clients w))" "fd_loop_open w"
    and "\<And>i c. (i, c) \<in> set (tb_sinks w) \<longleftrightarrow> (\<exists>cl. dict_get (fd_clients w) c = Some cl \<and> cl_sub cl = i)"
    and "\<And>c cl. dict_get (fd_clients w) c = Some cl \<Longrightarrow> cl_sub cl < tb_next_id w"
    and "\<And>c cl. dict_get (fd_clients w) c = Some cl \<Longrightarrow> list_all is_fleet_event (cl_queue cl)"
  shows "feed_ok w"
  using assms unfolding feed_ok_def by blast

lemma feed_sinks:
  assumes "feed_ok w"
  shows "distinct (dict_values (tb_sinks w))" "set (dict_values (tb_sinks w)) = set (dict_keys (fd_clients w))"
    and "length (tb_sinks w) = length (fd_clients w)"
proof -
  note ok = feed_okD [OF assms]
  have "p = q" if h: "p \<in> set (tb_sinks w)" "q \<in> set (tb_sinks w)" "snd p = snd q" for p q
  proof -
    obtain cl cl' where "dict_get (fd_clients w) (snd p) = Some cl" "cl_sub cl = fst p" "dict_get (fd_clients w) (snd q) = Some cl'" "cl_sub cl' = fst q"
      using h(1,2) ok(4) by (metis prod.collapse)
    with h(3) show ?thesis by (simp add: prod_eq_iff)
  qed
  then show d: "distinct (dict_values (tb_sinks w))"
    using ok(1) by (simp add: distinct_map inj_on_def)
  show e: "set (dict_values (tb_sinks w)) = set (dict_keys (fd_clients w))"
  proof (rule set_eqI)
    fix c
    have "c \<in> set (dict_values (tb_sinks w)) \<longleftrightarrow> (\<exists>i. (i, c) \<in> set (tb_sinks w))" by force
    also have "\<dots> \<longleftrightarrow> c \<in> set (dict_keys (fd_clients w))" using ok(4) dict_has [of c "fd_clients w"] by blast
    finally show "c \<in> set (dict_values (tb_sinks w)) \<longleftrightarrow> c \<in> set (dict_keys (fd_clients w))" .
  qed
  show "length (tb_sinks w) = length (fd_clients w)"
    using d e ok(2) by (metis distinct_card length_map)
qed

lemma fan_out_clients:
  "fd_loop_open w \<Longrightarrow> fan_out client_sink m sinks (n, dead) w =
     ((n + int (length sinks), dead), fold (\<lambda>p. enqueue m (snd p)) sinks w)"
  by (induction sinks arbitrary: n w) (auto simp: client_sink_def enqueue_def)

lemma fold_enqueue:
  "tb_sinks (fold (\<lambda>p. enqueue m (snd p)) ps w) = tb_sinks w" "tb_next_id (fold (\<lambda>p. enqueue m (snd p)) ps w) = tb_next_id w"
  "fd_loop_open (fold (\<lambda>p. enqueue m (snd p)) ps w) = fd_loop_open w"
  "dict_keys (fd_clients (fold (\<lambda>p. enqueue m (snd p)) ps w)) = dict_keys (fd_clients w)"
  "distinct (dict_values ps) \<Longrightarrow> dict_get (fd_clients (fold (\<lambda>p. enqueue m (snd p)) ps w)) c =
     map_option (\<lambda>cl. if c \<in> set (dict_values ps) then cl\<lparr>cl_queue := cl_queue cl @ [m]\<rparr> else cl) (dict_get (fd_clients w) c)"
  by (induction ps arbitrary: w) (auto simp: enqueue_def option.map_comp o_def option.map_ident intro!: option.map_cong0)

lemma published:
  fixes subject payload
  assumes "feed_ok w"
  defines "w' \<equiv> feed_step (Published subject payload) w"
  shows "tb_sinks w' = tb_sinks w" "tb_next_id w' = tb_next_id w" "fd_loop_open w'" "dict_keys (fd_clients w') = dict_keys (fd_clients w)"
    and "dict_get (fd_clients w') c = map_option (\<lambda>cl. cl\<lparr>cl_queue := cl_queue cl @ [fleet_event subject payload]\<rparr>) (dict_get (fd_clients w) c)"
proof -
  note ok = feed_okD [OF assms(1)] and s = feed_sinks [OF assms(1)]
  have w': "w' = fold (\<lambda>p. enqueue (fleet_event subject payload) (snd p)) (tb_sinks w) w"
    by (simp add: w'_def tb_broadcast_def fan_out_clients [OF ok(3)])
  show "dict_get (fd_clients w') c = map_option (\<lambda>cl. cl\<lparr>cl_queue := cl_queue cl @ [fleet_event subject payload]\<rparr>) (dict_get (fd_clients w) c)"
  proof (cases "dict_get (fd_clients w) c")
    case (Some cl)
    then have "c \<in> set (dict_values (tb_sinks w))" by (metis s(2) dict_get_None_keys option.distinct(1))
    with Some show ?thesis by (simp only: w' fold_enqueue(5) [OF s(1)]) simp
  qed (simp only: w' fold_enqueue(5) [OF s(1)], simp)
qed (simp_all add: tb_broadcast_def fan_out_clients feed_okD [OF assms(1)] fold_enqueue w'_def)

lemma feed_ok_touch:
  assumes "feed_ok w" "\<And>cl. cl_sub (f cl) = cl_sub cl"
    "\<And>cl. list_all is_fleet_event (cl_queue cl) \<Longrightarrow> list_all is_fleet_event (cl_queue (f cl))"
  shows "feed_ok (w\<lparr>fd_clients := dict_upd c f (fd_clients w)\<rparr>)"
proof (rule feed_okI)
  note ok = feed_okD [OF assms(1)]
  show "(i, d) \<in> set (tb_sinks (w\<lparr>fd_clients := dict_upd c f (fd_clients w)\<rparr>)) \<longleftrightarrow>
      (\<exists>cl. dict_get (fd_clients (w\<lparr>fd_clients := dict_upd c f (fd_clients w)\<rparr>)) d = Some cl \<and> cl_sub cl = i)" for i d
    using ok(4) [of i d] assms(2) by (cases "dict_get (fd_clients w) d") auto
qed (use feed_okD [OF assms(1)] assms(2,3) in \<open>auto split: if_splits\<close>)

lemma feed_ok_published: "feed_ok w \<Longrightarrow> feed_ok (feed_step (Published subject payload) w)"
proof (rule feed_okI)
  assume a: "feed_ok w"
  note ok = feed_okD [OF a] and p = published [OF a, of subject payload]
  let ?w = "feed_step (Published subject payload) w"
  show "distinct (dict_keys (tb_sinks ?w))" "distinct (dict_keys (fd_clients ?w))" "fd_loop_open ?w"
    using ok p by (simp_all del: feed_step.simps)
  show "(i, c) \<in> set (tb_sinks ?w) \<longleftrightarrow> (\<exists>cl. dict_get (fd_clients ?w) c = Some cl \<and> cl_sub cl = i)" for i c
    using ok(4) [of i c] p(1) p(5) [of c] by (cases "dict_get (fd_clients w) c") (auto simp del: feed_step.simps)
  show "cl_sub cl < tb_next_id ?w" "list_all is_fleet_event (cl_queue cl)" if "dict_get (fd_clients ?w) c = Some cl" for c cl
    using that ok(5,6) p(2) p(5) [of c] by (auto simp del: feed_step.simps)
qed

lemma feed_ok_connect: "feed_ok w \<Longrightarrow> feed_ok (feed_step (Connect c v) w)"
proof (cases "c \<in> set (dict_keys (fd_clients w))")
  case False
  assume a: "feed_ok w"
  note ok = feed_okD [OF a]
  have fresh: "tb_next_id w \<notin> set (dict_keys (tb_sinks w))"
  proof
    assume "tb_next_id w \<in> set (dict_keys (tb_sinks w))"
    then obtain d where "(tb_next_id w, d) \<in> set (tb_sinks w)" by auto
    with ok(4,5) show False by fastforce
  qed
  have none: "dict_get (fd_clients w) c = None" using False by (simp only: dict_get_None_keys) simp
  show ?thesis
  proof (rule feed_okI)
    let ?w = "feed_step (Connect c v) w"
    have w: "set (tb_sinks ?w) = insert (tb_next_id w, c) (set (tb_sinks w))" "tb_next_id ?w = tb_next_id w + 1"
      "dict_get (fd_clients ?w) d = (if d = c then Some \<lparr>cl_sub = tb_next_id w, cl_queue = [], cl_sent = [snapshot_frame v]\<rparr>
         else dict_get (fd_clients w) d)" for d
      using False fresh by (auto simp: tb_subscribe_def dict_set_new [of _ "tb_sinks w"])
    show "distinct (dict_keys (tb_sinks ?w))" "distinct (dict_keys (fd_clients ?w))" "fd_loop_open ?w"
      using False ok by (simp_all add: tb_subscribe_def)
    show "(i, d) \<in> set (tb_sinks ?w) \<longleftrightarrow> (\<exists>cl. dict_get (fd_clients ?w) d = Some cl \<and> cl_sub cl = i)" for i d
      using none ok(4) [of i d] unfolding w by auto
    show "cl_sub cl < tb_next_id ?w" "list_all is_fleet_event (cl_queue cl)" if "dict_get (fd_clients ?w) d = Some cl" for d cl
      using that ok(5) [of d cl] ok(6) [of d cl] unfolding w by (auto split: if_splits)
  qed
qed simp

lemma feed_ok_disconnect: "feed_ok w \<Longrightarrow> feed_ok (feed_step (Disconnected c) w)"
proof (cases "dict_get (fd_clients w) c")
  case (Some cl)
  assume a: "feed_ok w"
  note ok = feed_okD [OF a]
  have own: "(cl_sub cl, d) \<in> set (tb_sinks w) \<longleftrightarrow> d = c" for d
    using ok(1) ok(4) [of "cl_sub cl" c] Some by (metis eq_key_imp_eq_value)
  show ?thesis
  proof (rule feed_okI)
    let ?w = "feed_step (Disconnected c) w"
    have w: "tb_sinks ?w = filter (\<lambda>p. fst p \<noteq> cl_sub cl) (tb_sinks w)" "fd_clients ?w = dict_del c (fd_clients w)"
      "tb_next_id ?w = tb_next_id w" "fd_loop_open ?w = fd_loop_open w"
      using Some by (simp_all add: tb_unsubscribe_filter)
    show "distinct (dict_keys (tb_sinks ?w))" "distinct (dict_keys (fd_clients ?w))" "fd_loop_open ?w"
      using ok by (simp_all only: w distinct_map_filter AList.distinct_delete)
    show "(i, d) \<in> set (tb_sinks ?w) \<longleftrightarrow> (\<exists>cl. dict_get (fd_clients ?w) d = Some cl \<and> cl_sub cl = i)" for i d
      using own [of d] ok(4) [of i d] Some unfolding w by (auto simp: AList.delete_conv')
    show "cl_sub cl < tb_next_id ?w" "list_all is_fleet_event (cl_queue cl)" if "dict_get (fd_clients ?w) d = Some cl" for d cl
      using that ok(5,6) unfolding w by (auto simp: AList.delete_conv' split: if_splits)
  qed
qed simp

lemma feed_step_ok: "feed_ok w \<Longrightarrow> feed_ok (feed_step ev w)"
proof (cases ev)
  case (Forwarded c)
  assume "feed_ok w"
  then show ?thesis unfolding Forwarded feed_step.simps by (rule feed_ok_touch) (auto split: list.splits)
next
  case (Heartbeat c v)
  assume "feed_ok w"
  then show ?thesis unfolding Heartbeat feed_step.simps by (rule feed_ok_touch) auto
qed (simp_all only: feed_ok_published feed_ok_connect feed_ok_disconnect)

lemma new_feed_ok: "feed_ok new_feed"
  by (simp add: feed_ok_def new_feed_def)

interpretation feed_machine: machine feed_step feed_ok
  by unfold_locales (rule feed_step_ok)

fun since_step :: "nat \<Rightarrow> feed_event \<Rightarrow> payload list option \<Rightarrow> payload list option" where
  \<comment> \<open>the events published since a client connected, \<open>None\<close> while it is not\<close>
  "since_step c (Connect d v) x = (if d = c \<and> x = None then Some [] else x)"
| "since_step c (Published subject payload) x = map_option (\<lambda>ms. ms @ [fleet_event subject payload]) x"
| "since_step c (Disconnected d) x = (if d = c then None else x)"
| "since_step c _ x = x"

definition delivered :: "client \<Rightarrow> payload list" where
  \<comment> \<open>the events a client was sent, and those that wait for it\<close>
  "delivered cl = filter is_fleet_event (cl_sent cl) @ cl_queue cl"

lemma delivered_upd:
  "(\<And>cl. dict_get d k = Some cl \<Longrightarrow> delivered (f cl) = delivered cl) \<Longrightarrow>
     map_option delivered (dict_get (dict_upd k f d) c) = map_option delivered (dict_get d c)"
  by (cases "dict_get d k") auto

lemma feed_step_delivered:
  assumes "feed_ok w"
  shows "map_option delivered (dict_get (fd_clients (feed_step ev w)) c) =
    since_step c ev (map_option delivered (dict_get (fd_clients w) c))"
proof (cases ev)
  case (Connect d v)
  then show ?thesis
    using dict_has [of d "fd_clients w"] by (auto simp: tb_subscribe_def delivered_def)
next
  case (Published subject payload)
  then show ?thesis
    by (simp only: published(5) [OF assms] since_step.simps option.map_comp) (simp add: o_def delivered_def)
next
  case (Forwarded d)
  have "delivered (case cl_queue cl of [] \<Rightarrow> cl | m # ms \<Rightarrow> cl\<lparr>cl_queue := ms, cl_sent := cl_sent cl @ [m]\<rparr>) = delivered cl"
    if "dict_get (fd_clients w) d = Some cl" for cl
    using feed_okD(6) [OF assms that] by (cases "cl_queue cl") (simp_all add: delivered_def)
  then show ?thesis by (simp add: Forwarded delivered_upd del: dict_upd_get)
next
  case (Heartbeat d v)
  then show ?thesis by (simp add: delivered_upd delivered_def del: dict_upd_get)
next
  case (Disconnected d)
  then show ?thesis by (cases "dict_get (fd_clients w) d") (auto simp: AList.delete_conv' tb_unsubscribe_def)
qed

text \<open>
  C21. Whatever connects, is published, is sent and disconnects in whatever order, the events a
  connected client was sent, followed by those waiting in its queue, are the events published since
  it connected, in their order; no other event reaches it, and a client that is gone holds no
  subscription.
\<close>
theorem feed_delivers_in_order:
  "map_option delivered (dict_get (fd_clients (fold feed_step evs new_feed)) c) = fold (since_step c) evs None \<and>
   subscriber_count (fold feed_step evs new_feed) = int (length (fd_clients (fold feed_step evs new_feed)))"
proof (rule conjI)
  show "map_option delivered (dict_get (fd_clients (fold feed_step evs new_feed)) c) = fold (since_step c) evs None"
  proof (induction evs rule: rev_induct)
    case (snoc ev evs)
    then show ?case
      using feed_step_delivered [OF feed_machine.run_ok [OF new_feed_ok]] by simp
  qed (simp add: new_feed_def)
  show "subscriber_count (fold feed_step evs new_feed) = int (length (fd_clients (fold feed_step evs new_feed)))"
    using feed_sinks(3) [OF feed_machine.run_ok [OF new_feed_ok]] by (simp add: subscriber_count_def)
qed

end
