(* ===== verification/Json.thy ===== *)
theory Json
  imports Render Py_Text
begin

text \<open>
  The \<open>json\<close> module as the code uses it: \<open>dumps\<close> with its default separators, \<open>dumps\<close> with an
  indent, and \<open>loads\<close>. Text is ASCII, or the UTF-8 bytes of it: an escape outside ASCII decodes to
  the bytes of its code point. \<open>NaN\<close> and the infinities, which \<open>loads\<close> would accept, have no real
  number and are rejected; two escapes of a surrogate pair are not joined.
\<close>

section \<open>Writing\<close>

definition hex_digit :: "nat \<Rightarrow> char" where
  "hex_digit n = (if n < 10 then char_of (48 + n) else char_of (87 + n))"

definition json_escape :: "char \<Rightarrow> string" where
  "json_escape c =
     (let n = of_char c :: nat in
      if c = CHR 0x22 then [CHR 0x5C, CHR 0x22] else if c = CHR 0x5C then [CHR 0x5C, CHR 0x5C]
      else if n = 10 then [CHR 0x5C, CHR ''n''] else if n = 13 then [CHR 0x5C, CHR ''r'']
      else if n = 9 then [CHR 0x5C, CHR ''t''] else if n = 8 then [CHR 0x5C, CHR ''b'']
      else if n = 12 then [CHR 0x5C, CHR ''f'']
      else if n < 32 then CHR 0x5C # ''u00'' @ [hex_digit (n div 16), hex_digit (n mod 16)]
      else [c])"

definition json_string :: "string \<Rightarrow> string" where
  "json_string s = [CHR 0x22] @ concat (map json_escape s) @ [CHR 0x22]"

fun json_dumps :: "pyval \<Rightarrow> string" where
  "json_dumps PNone = ''null''"
| "json_dumps (PBool b) = (if b then ''true'' else ''false'')"
| "json_dumps (PInt i) = show_int i"
| "json_dumps (PFloat x) = show_float x"
| "json_dumps (PStr s) = json_string s"
| "json_dumps (PList xs) = ''['' @ join_with '', '' (map json_dumps xs) @ '']''"
| "json_dumps (PDict d) = ''{'' @ join_with '', '' (map (\<lambda>p. json_string (fst p) @ '': '' @ json_dumps (snd p)) d) @ ''}''"

definition new_line :: "nat \<Rightarrow> string" where
  "new_line n = CHR 0x0A # replicate n CHR '' ''"

fun json_indent :: "nat \<Rightarrow> nat \<Rightarrow> pyval \<Rightarrow> string" where
  \<comment> \<open>\<open>dumps(v, indent=step)\<close> at the given depth of spaces\<close>
  "json_indent step n (PList xs) =
     (if xs = [] then ''[]''
      else ''['' @ new_line (n + step) @ join_with ('','' @ new_line (n + step)) (map (json_indent step (n + step)) xs) @
        new_line n @ '']'')"
| "json_indent step n (PDict d) =
     (if d = [] then ''{}''
      else ''{'' @ new_line (n + step) @
        join_with ('','' @ new_line (n + step)) (map (\<lambda>p. json_string (fst p) @ '': '' @ json_indent step (n + step) (snd p)) d) @
        new_line n @ ''}'')"
| "json_indent step n v = json_dumps v"

section \<open>Reading\<close>

definition json_space :: "char \<Rightarrow> bool" where
  "json_space c \<longleftrightarrow> c = CHR '' '' \<or> c = CHR 0x09 \<or> c = CHR 0x0A \<or> c = CHR 0x0D"

definition skip_ws :: "string \<Rightarrow> string" where
  "skip_ws s = dropWhile json_space s"

definition hex_value :: "char \<Rightarrow> nat option" where
  "hex_value c =
     (let n = of_char c :: nat in
      if 48 \<le> n \<and> n \<le> 57 then Some (n - 48) else if 97 \<le> n \<and> n \<le> 102 then Some (n - 87)
      else if 65 \<le> n \<and> n \<le> 70 then Some (n - 55) else None)"

definition utf8 :: "nat \<Rightarrow> string" where
  "utf8 n =
     (if n < 128 then [char_of n]
      else if n < 2048 then [char_of (192 + n div 64), char_of (128 + n mod 64)]
      else [char_of (224 + n div 4096), char_of (128 + (n div 64) mod 64), char_of (128 + n mod 64)])"

definition unescape :: "char \<Rightarrow> char option" where
  "unescape e = map_of
     [(CHR 0x22, CHR 0x22), (CHR 0x5C, CHR 0x5C), (CHR ''/'', CHR ''/''), (CHR ''b'', CHR 0x08), (CHR ''f'', CHR 0x0C),
      (CHR ''n'', CHR 0x0A), (CHR ''r'', CHR 0x0D), (CHR ''t'', CHR 0x09)] e"

fun json_str_body :: "string \<Rightarrow> string \<Rightarrow> (string \<times> string) option" where
  \<comment> \<open>the characters after the opening quote: the decoded text and what follows the closing quote\<close>
  "json_str_body acc [] = None"
| "json_str_body acc (c # cs) =
     (if c = CHR 0x22 then Some (acc, cs)
      else if c = CHR 0x5C then
        (case cs of
           [] \<Rightarrow> None
         | e # cs1 \<Rightarrow>
             (case unescape e of
                Some ch \<Rightarrow> json_str_body (acc @ [ch]) cs1
              | None \<Rightarrow>
                  if e \<noteq> CHR ''u'' then None
                  else (case cs1 of
                      h1 # h2 # h3 # h4 # cs2 \<Rightarrow>
                        (case (hex_value h1, hex_value h2, hex_value h3, hex_value h4) of
                           (Some a, Some b, Some c, Some d) \<Rightarrow> json_str_body (acc @ utf8 (((a * 16 + b) * 16 + c) * 16 + d)) cs2
                         | _ \<Rightarrow> None)
                    | _ \<Rightarrow> None)))
      else if (of_char c :: nat) < 32 then None
      else json_str_body (acc @ [c]) cs)"

definition is_digit :: "char \<Rightarrow> bool" where
  "is_digit c \<longleftrightarrow> digit_of c \<noteq> None"

definition digits_value :: "string \<Rightarrow> int" where
  "digits_value ds = fold (\<lambda>c acc. acc * 10 + (case digit_of c of None \<Rightarrow> 0 | Some d \<Rightarrow> d)) ds 0"

definition json_exponent :: "string \<Rightarrow> (int \<times> string) option" where
  \<comment> \<open>an exponent, when one follows\<close>
  "json_exponent s =
     (case s of
        c # cs \<Rightarrow>
          if c = CHR ''e'' \<or> c = CHR ''E'' then
            (let neg = (cs \<noteq> [] \<and> hd cs = CHR ''-''); cs1 = (if cs \<noteq> [] \<and> (hd cs = CHR ''-'' \<or> hd cs = CHR ''+'') then tl cs else cs);
                 ds = takeWhile is_digit cs1
             in if ds = [] then None else Some ((if neg then - digits_value ds else digits_value ds), drop (length ds) cs1))
          else None
      | [] \<Rightarrow> None)"

definition json_number :: "string \<Rightarrow> (pyval \<times> string) option" where
  "json_number s =
     (let neg = (s \<noteq> [] \<and> hd s = CHR ''-''); s1 = (if neg then tl s else s);
          ds = (case s1 of c # _ \<Rightarrow> if c = CHR ''0'' then ''0'' else takeWhile is_digit s1 | [] \<Rightarrow> []);
          s2 = drop (length ds) s1;
          frac = (case s2 of c # cs \<Rightarrow> if c = CHR ''.'' then takeWhile is_digit cs else [] | [] \<Rightarrow> []);
          s3 = (if frac = [] then s2 else drop (length frac + 1) s2);
          sign = (if neg then - 1 else 1)
      in if ds = [] then None
         else (case json_exponent s3 of
             None \<Rightarrow>
               if frac = [] then Some (PInt (sign * digits_value ds), s3)
               else Some (PFloat (of_int (sign * digits_value (ds @ frac)) / 10 ^ length frac), s3)
           | Some (ex, s4) \<Rightarrow>
               Some (PFloat (of_int (sign * digits_value (ds @ frac)) * 10 powi (ex - int (length frac))), s4)))"

definition json_literal :: "string \<Rightarrow> (pyval \<times> string) option" where
  "json_literal s =
     (if startswith ''null'' s then Some (PNone, drop 4 s) else if startswith ''true'' s then Some (PBool True, drop 4 s)
      else if startswith ''false'' s then Some (PBool False, drop 5 s) else json_number s)"

fun json_value :: "nat \<Rightarrow> string \<Rightarrow> (pyval \<times> string) option"
  and json_items :: "nat \<Rightarrow> pyval list \<Rightarrow> string \<Rightarrow> (pyval \<times> string) option"
  and json_members :: "nat \<Rightarrow> (string, pyval) dict \<Rightarrow> string \<Rightarrow> (pyval \<times> string) option" where
  "json_value 0 s = None"
| "json_value (Suc n) s =
     (case s of
        [] \<Rightarrow> None
      | c # cs \<Rightarrow>
          if c = CHR 0x22 then map_option (\<lambda>(t, rest). (PStr t, rest)) (json_str_body [] cs)
          else if c = CHR ''['' then
            (case skip_ws cs of [] \<Rightarrow> None
             | d # ds \<Rightarrow> if d = CHR '']'' then Some (PList [], ds) else json_items n [] (d # ds))
          else if c = CHR ''{'' then
            (case skip_ws cs of [] \<Rightarrow> None
             | d # ds \<Rightarrow> if d = CHR ''}'' then Some (PDict [], ds) else json_members n [] (d # ds))
          else json_literal s)"
| "json_items 0 acc s = None"
| "json_items (Suc n) acc s =
     (case json_value n s of
        None \<Rightarrow> None
      | Some (v, rest) \<Rightarrow>
          (case skip_ws rest of
             [] \<Rightarrow> None
           | c # cs \<Rightarrow>
               if c = CHR '']'' then Some (PList (acc @ [v]), cs)
               else if c = CHR '','' then json_items n (acc @ [v]) (skip_ws cs)
               else None))"
| "json_members 0 acc s = None"
| "json_members (Suc n) acc s =
     (case s of
        [] \<Rightarrow> None
      | q # qs \<Rightarrow>
          if q \<noteq> CHR 0x22 then None
          else (case json_str_body [] qs of
              None \<Rightarrow> None
            | Some (k, rest) \<Rightarrow>
                (case skip_ws rest of
                   [] \<Rightarrow> None
                 | c # cs \<Rightarrow>
                     if c \<noteq> CHR '':'' then None
                     else (case json_value n (skip_ws cs) of
                         None \<Rightarrow> None
                       | Some (v, rest2) \<Rightarrow>
                           (case skip_ws rest2 of
                              [] \<Rightarrow> None
                            | d # ds \<Rightarrow>
                                if d = CHR ''}'' then Some (PDict (dict_set k v acc), ds)
                                else if d = CHR '','' then json_members n (dict_set k v acc) (skip_ws ds)
                                else None)))))"

definition json_loads :: "string \<Rightarrow> pyval option" where
  \<comment> \<open>\<open>None\<close> for a \<open>JSONDecodeError\<close>; every second call at least consumes a character\<close>
  "json_loads s =
     (case json_value (2 * length s + 2) (skip_ws s) of
        None \<Rightarrow> None
      | Some (v, rest) \<Rightarrow> if skip_ws rest = [] then Some v else None)"

end
