(* ===== verification/Llm.thy ===== *)
theory Llm
  imports Json
begin

text \<open>
  \<open>omni/agents/llm.py\<close>: which provider answers, the requests sent to it, the reading of its replies
  and of its event streams. The providers and the network are the arguments \<open>http\<close> and \<open>open_stream\<close>;
  a generator is the list of what it yields with the error it ends in, if it does.
\<close>

section \<open>Errors, requests and replies\<close>

datatype llm_error =
    LLMNotConfigured string
  | LLMError string
  | Other_error py_error \<comment> \<open>an exception the callers do not handle\<close>

fun error_text :: "llm_error \<Rightarrow> string" where
  "error_text (LLMNotConfigured s) = s"
| "error_text (LLMError s) = s"
| "error_text (Other_error err) = []"

record llm_env =
  le_anthropic_key :: string \<comment> \<open>empty when the variable is not set\<close>
  le_openai_key :: string
  le_openai_model :: "string option"
  le_anthropic_model :: "string option"

record http_request =
  rq_url :: string
  rq_headers :: "(string, string) dict"
  rq_body :: pyval

datatype http_reply =
    Body string
  | Http_status int string \<comment> \<open>an \<open>HTTPError\<close>: its code and body\<close>
  | Unreachable string \<comment> \<open>a \<open>URLError\<close>\<close>
  | Broken py_error \<comment> \<open>any other exception, such as a time-out while reading\<close>

type_synonym 'a llm_result = "llm_error + 'a"

definition status_error :: "int \<Rightarrow> string \<Rightarrow> llm_error" where
  "status_error code detail = LLMError (''LLM provider returned '' @ show_int code @ '': '' @ take 500 detail)"

definition unreachable_error :: "string \<Rightarrow> llm_error" where
  "unreachable_error e = LLMError (''LLM provider unreachable: '' @ e)"

definition post_json :: "(http_request \<Rightarrow> http_reply) \<Rightarrow> string \<Rightarrow> (string, string) dict \<Rightarrow> pyval \<Rightarrow> pyval llm_result" where
  "post_json http url headers body =
     (case http \<lparr>rq_url = url, rq_headers = dict_set ''Content-Type'' ''application/json'' headers, rq_body = body\<rparr> of
        Body txt \<Rightarrow> (case json_loads txt of None \<Rightarrow> Inl (Other_error (ValueError ''JSONDecodeError'')) | Some v \<Rightarrow> Inr v)
      | Http_status code detail \<Rightarrow> Inl (status_error code detail)
      | Unreachable e \<Rightarrow> Inl (unreachable_error e)
      | Broken err \<Rightarrow> Inl (Other_error err))"

section \<open>Reading a reply\<close>

definition item_at :: "pyval \<Rightarrow> string \<Rightarrow> pyval llm_result" where
  \<comment> \<open>\<open>v["key"]\<close>\<close>
  "item_at v key =
     (case v of PDict d \<Rightarrow> (case dict_get d key of None \<Rightarrow> Inl (Other_error (KeyError key)) | Some x \<Rightarrow> Inr x)
      | _ \<Rightarrow> Inl (Other_error TypeError))"

definition first_item :: "pyval \<Rightarrow> pyval llm_result" where
  \<comment> \<open>\<open>v[0]\<close>\<close>
  "first_item v =
     (case v of
        PList xs \<Rightarrow> (case xs of [] \<Rightarrow> Inl (Other_error IndexError) | x # _ \<Rightarrow> Inr x)
      | PStr s \<Rightarrow> (case s of [] \<Rightarrow> Inl (Other_error IndexError) | c # _ \<Rightarrow> Inr (PStr [c]))
      | PDict d \<Rightarrow> Inl (Other_error (KeyError ''0''))
      | _ \<Rightarrow> Inl (Other_error TypeError))"

definition get_of :: "pyval \<Rightarrow> string \<Rightarrow> pyval \<Rightarrow> pyval llm_result" where
  \<comment> \<open>\<open>v.get(key, dflt)\<close>\<close>
  "get_of v key dflt = (case v of PDict d \<Rightarrow> Inr (get_or d key dflt) | _ \<Rightarrow> Inl (Other_error AttributeError))"

definition and_then :: "'a llm_result \<Rightarrow> ('a \<Rightarrow> 'b llm_result) \<Rightarrow> 'b llm_result" where
  "and_then r f = (case r of Inl err \<Rightarrow> Inl err | Inr x \<Rightarrow> f x)"

definition openai_answer :: "pyval \<Rightarrow> pyval llm_result" where
  \<comment> \<open>\<open>data["choices"][0]["message"]["content"]\<close>\<close>
  "openai_answer data = and_then (and_then (and_then (item_at data ''choices'') first_item)
     (\<lambda>c. item_at c ''message'')) (\<lambda>m. item_at m ''content'')"

fun join_texts :: "pyval list \<Rightarrow> string llm_result" where
  \<comment> \<open>\<open>"".join(part.get("text", "") for part in parts)\<close>; the items are drawn before they are joined\<close>
  "join_texts [] = Inr []"
| "join_texts (part # parts) =
     and_then (get_of part ''text'' (PStr [])) (\<lambda>t. and_then (join_texts parts)
       (\<lambda>rest. case t of PStr s \<Rightarrow> Inr (s @ rest) | _ \<Rightarrow> Inl (Other_error TypeError)))"

definition anthropic_answer :: "pyval \<Rightarrow> pyval llm_result" where
  "anthropic_answer data = and_then (get_of data ''content'' (PList []))
     (\<lambda>content. case py_iter content of
        None \<Rightarrow> Inl (Other_error TypeError)
      | Some parts \<Rightarrow> map_sum (\<lambda>e. e) PStr (join_texts parts))"

section \<open>One complete answer\<close>

definition or_else :: "string option \<Rightarrow> string \<Rightarrow> string" where
  \<comment> \<open>\<open>x or dflt\<close> of an optional text\<close>
  "or_else x dflt = (case x of None \<Rightarrow> dflt | Some s \<Rightarrow> if s = [] then dflt else s)"

definition env_or :: "string option \<Rightarrow> string \<Rightarrow> string" where
  \<comment> \<open>\<open>os.environ.get(name, dflt)\<close>\<close>
  "env_or x dflt = (case x of None \<Rightarrow> dflt | Some s \<Rightarrow> s)"

definition message_of :: "string \<Rightarrow> string \<Rightarrow> pyval" where
  "message_of role content = PDict [(''role'', PStr role), (''content'', PStr content)]"

definition OPENAI_URL :: string where
  "OPENAI_URL = ''https://api.openai.com/v1/chat/completions''"

definition ANTHROPIC_URL :: string where
  "ANTHROPIC_URL = ''https://api.anthropic.com/v1/messages''"

definition openai_headers :: "llm_env \<Rightarrow> string option \<Rightarrow> (string, string) dict" where
  "openai_headers le api_key = [(''Authorization'', ''Bearer '' @ or_else api_key (le_openai_key le))]"

definition openai_body :: "llm_env \<Rightarrow> string \<Rightarrow> string \<Rightarrow> int \<Rightarrow> (string, pyval) dict" where
  "openai_body le prompt system max_tokens =
     [(''model'', PStr (env_or (le_openai_model le) ''gpt-4o'')),
      (''messages'', PList ((if system = [] then [] else [message_of ''system'' system]) @ [message_of ''user'' prompt])),
      (''max_tokens'', PInt max_tokens)]"

definition anthropic_headers :: "llm_env \<Rightarrow> (string, string) dict" where
  "anthropic_headers le = [(''x-api-key'', le_anthropic_key le), (''anthropic-version'', ''2023-06-01'')]"

definition anthropic_body :: "llm_env \<Rightarrow> string \<Rightarrow> string \<Rightarrow> int \<Rightarrow> string option \<Rightarrow> (string, pyval) dict" where
  "anthropic_body le prompt system max_tokens model =
     [(''model'', PStr (or_else model (env_or (le_anthropic_model le) ''claude-sonnet-5''))), (''max_tokens'', PInt max_tokens),
      (''messages'', PList [message_of ''user'' prompt])] @
     (if system = [] then [] else [(''system'', PStr system)])"

definition call_openai :: "(http_request \<Rightarrow> http_reply) \<Rightarrow> llm_env \<Rightarrow> string \<Rightarrow> string \<Rightarrow> int \<Rightarrow> string option \<Rightarrow> pyval llm_result" where
  "call_openai http le prompt system max_tokens api_key =
     and_then (post_json http OPENAI_URL (openai_headers le api_key) (PDict (openai_body le prompt system max_tokens))) openai_answer"

definition call_anthropic :: "(http_request \<Rightarrow> http_reply) \<Rightarrow> llm_env \<Rightarrow> string \<Rightarrow> string \<Rightarrow> int \<Rightarrow> string option \<Rightarrow> pyval llm_result" where
  "call_anthropic http le prompt system max_tokens model =
     and_then (post_json http ANTHROPIC_URL (anthropic_headers le) (PDict (anthropic_body le prompt system max_tokens model))) anthropic_answer"

definition not_configured :: llm_error where
  "not_configured = LLMNotConfigured ''Set OPENAI_API_KEY or ANTHROPIC_API_KEY to enable the agent runner.''"

definition own_key :: "string option \<Rightarrow> string option \<Rightarrow> bool" where
  \<comment> \<open>\<open>user_api_key and user_provider == "openai"\<close>\<close>
  "own_key user_api_key user_provider \<longleftrightarrow> or_else user_api_key [] \<noteq> [] \<and> user_provider = Some ''openai''"

definition call_llm :: "(http_request \<Rightarrow> http_reply) \<Rightarrow> llm_env \<Rightarrow> string \<Rightarrow> string \<Rightarrow> int \<Rightarrow> string option \<Rightarrow>
    string option \<Rightarrow> string option \<Rightarrow> pyval llm_result" where
  "call_llm http le prompt system max_tokens model user_api_key user_provider =
     (if own_key user_api_key user_provider then call_openai http le prompt system max_tokens user_api_key
      else if le_anthropic_key le \<noteq> [] then call_anthropic http le prompt system max_tokens model
      else if le_openai_key le \<noteq> [] then call_openai http le prompt system max_tokens None
      else Inl not_configured)"

section \<open>Streamed answers\<close>

datatype stream_end =
    Finished
  | Dropped string \<comment> \<open>a \<open>URLError\<close> in the middle of the stream\<close>
  | Torn py_error \<comment> \<open>any other exception\<close>

datatype stream_reply =
    Lines "string list" stream_end
  | Stream_status int string
  | Stream_unreachable string
  | Stream_broken py_error

type_synonym 'a generator = "'a list \<times> llm_error option"

definition open_sse_stream :: "(http_request \<Rightarrow> stream_reply) \<Rightarrow> string \<Rightarrow> (string, string) dict \<Rightarrow> (string, pyval) dict \<Rightarrow>
    (string list \<times> stream_end) llm_result" where
  "open_sse_stream open_stream url headers body =
     (case open_stream \<lparr>rq_url = url,
        rq_headers = dict_set ''Accept'' ''text/event-stream'' (dict_set ''Content-Type'' ''application/json'' headers),
        rq_body = PDict (dict_set ''stream'' (PBool True) body)\<rparr> of
        Lines ls fin \<Rightarrow> Inr (ls, fin)
      | Stream_status code detail \<Rightarrow> Inl (status_error code detail)
      | Stream_unreachable e \<Rightarrow> Inl (unreachable_error e)
      | Stream_broken err \<Rightarrow> Inl (Other_error err))"

definition sse_event :: "string \<Rightarrow> pyval option" where
  \<comment> \<open>the body of the loop of \<open>_sse_events\<close>: what a line yields\<close>
  "sse_event raw_line =
     (let line = strip raw_line in
      if \<not> startswith ''data:'' line then None
      else (let data = strip (drop 5 line) in
        if data = [] \<or> data = ''[DONE]'' then None else json_loads data))"

definition end_error :: "stream_end \<Rightarrow> llm_error option" where
  "end_error fin =
     (case fin of Finished \<Rightarrow> None
      | Dropped e \<Rightarrow> Some (LLMError (''LLM provider connection dropped mid-stream: '' @ e))
      | Torn err \<Rightarrow> Some (Other_error err))"

definition sse_events :: "string list \<times> stream_end \<Rightarrow> pyval generator" where
  "sse_events resp = (List.map_filter sse_event (fst resp), end_error (snd resp))"

fun run_events :: "(pyval \<Rightarrow> pyval option llm_result) \<Rightarrow> pyval list \<Rightarrow> llm_error option \<Rightarrow> pyval generator" where
  \<comment> \<open>a loop over events whose body yields at most one value, or raises\<close>
  "run_events f [] fin = ([], fin)"
| "run_events f (evt # evts) fin =
     (case f evt of
        Inl err \<Rightarrow> ([], Some err)
      | Inr y \<Rightarrow> (let (ys, e) = run_events f evts fin in ((case y of None \<Rightarrow> ys | Some t \<Rightarrow> t # ys), e)))"

definition text_delta :: "pyval \<Rightarrow> pyval option" where
  \<comment> \<open>\<open>if text: yield text\<close>\<close>
  "text_delta t = (if truthy t then Some t else None)"

definition anthropic_delta :: "pyval \<Rightarrow> pyval option llm_result" where
  "anthropic_delta evt = and_then (get_of evt ''type'' PNone)
     (\<lambda>kind. if kind = PStr ''content_block_delta'' then
          and_then (and_then (get_of evt ''delta'' (PDict [])) (\<lambda>d. get_of d ''text'' PNone)) (\<lambda>t. Inr (text_delta t))
        else if kind = PStr ''error'' then
          and_then (get_of evt ''error'' PNone) (\<lambda>e. Inl (LLMError (''Anthropic stream error: '' @ py_str e)))
        else Inr None)"

definition openai_delta :: "pyval \<Rightarrow> pyval option llm_result" where
  "openai_delta evt = and_then (get_of evt ''choices'' PNone)
     (\<lambda>choices. if \<not> truthy choices then Inr None
        else and_then (and_then (and_then (first_item choices) (\<lambda>c. get_of c ''delta'' (PDict [])))
          (\<lambda>d. get_of d ''content'' PNone)) (\<lambda>t. Inr (text_delta t)))"

definition stream_from :: "(pyval \<Rightarrow> pyval option llm_result) \<Rightarrow> (string list \<times> stream_end) llm_result \<Rightarrow> pyval generator" where
  "stream_from f resp =
     (case resp of Inl err \<Rightarrow> ([], Some err)
      | Inr r \<Rightarrow> (case sse_events r of (evts, fin) \<Rightarrow> run_events f evts fin))"

definition stream_anthropic :: "(http_request \<Rightarrow> stream_reply) \<Rightarrow> llm_env \<Rightarrow> string \<Rightarrow> string \<Rightarrow> int \<Rightarrow> string option \<Rightarrow> pyval generator" where
  "stream_anthropic open_stream le prompt system max_tokens model =
     stream_from anthropic_delta (open_sse_stream open_stream ANTHROPIC_URL (anthropic_headers le)
       (anthropic_body le prompt system max_tokens model))"

definition stream_openai :: "(http_request \<Rightarrow> stream_reply) \<Rightarrow> llm_env \<Rightarrow> string \<Rightarrow> string \<Rightarrow> int \<Rightarrow> string option \<Rightarrow> pyval generator" where
  "stream_openai open_stream le prompt system max_tokens api_key =
     stream_from openai_delta (open_sse_stream open_stream OPENAI_URL (openai_headers le api_key)
       (openai_body le prompt system max_tokens))"

definition stream_llm :: "(http_request \<Rightarrow> stream_reply) \<Rightarrow> llm_env \<Rightarrow> string \<Rightarrow> string \<Rightarrow> int \<Rightarrow> string option \<Rightarrow>
    string option \<Rightarrow> string option \<Rightarrow> pyval generator" where
  "stream_llm open_stream le prompt system max_tokens model user_api_key user_provider =
     (if own_key user_api_key user_provider then stream_openai open_stream le prompt system max_tokens user_api_key
      else if le_anthropic_key le \<noteq> [] then stream_anthropic open_stream le prompt system max_tokens model
      else if le_openai_key le \<noteq> [] then stream_openai open_stream le prompt system max_tokens None
      else ([], Some not_configured))"

end
