(* ===== verification/Agent_Runner.thy ===== *)
theory Agent_Runner
  imports Llm Fleet_Roster Fleet_Bus Policy Memory_Store
begin

text \<open>
  \<open>omni/agents/runner.py\<close>: one request of the public agent, from the policy check to the answer, in
  one piece (\<open>run\<close>) and streamed (\<open>run_stream\<close>). The subsystems the runner holds references to are
  the fields of its world; a world of the control plane extends it. \<open>e i\<close> is what the \<open>i\<close>-th read of
  the clock and of the identifier source gives; \<open>h\<close> is the hash of the memory store, \<open>act\<close> what
  the handlers of the bus do.
\<close>

section \<open>Prompts and models\<close>

definition BASE_SYSTEM_PROMPT :: string where
  "BASE_SYSTEM_PROMPT =
     ''You are the OmniMind agent, part of an autonomous, self-evolving AI '' @
     ''operating system. Answer the user'' @ [CHR 0x27] @ ''s request directly and usefully: '' @
     ''research, explain, draft, or plan, as asked. Be concrete and concise.''"

definition acting_as :: "string \<Rightarrow> string" where
  "acting_as rest = ''You'' @ [CHR 0x27] @ ''re acting as the fleet'' @ [CHR 0x27] @ ''s '' @ rest"

definition SKILL_FRAMING :: "(string, string) dict" where
  "SKILL_FRAMING =
     [(''coding'', acting_as ''Code Agent: prioritize correct, runnable code, name concrete pitfalls, and keep prose around code minimal.''),
      (''code-review'', acting_as ''Code Agent doing a code review: call out bugs, risks, and concrete fixes, not general style opinions.''),
      (''research'', acting_as ''Research Agent: prioritize verifiable facts, flag uncertainty explicitly, and cite what kind of source would confirm each claim.''),
      (''writing'', acting_as ''Writer Agent: prioritize clear, well-structured prose in the tone the request implies.''),
      (''translation'', acting_as ''Translator: prioritize accurate, natural translation over literal word-for-word conversion.''),
      (''planning'', acting_as ''Planner Agent: structure the answer as concrete, ordered steps with dependencies made explicit.''),
      (''data-analysis'', acting_as (''Data Analyst: prioritize precise numbers and caveat any inference that isn'' @ [CHR 0x27] @
         ''t directly supported by what'' @ [CHR 0x27] @ ''s given.'')),
      (''summarization'', acting_as ''Summarizer: prioritize brevity and cutting anything not essential to the source.'')]"

record runner_env =
  re_llm :: llm_env
  re_model_haiku :: "string option"
  re_model_sonnet :: "string option"
  re_athens :: string \<comment> \<open>the current time in Athens, formatted\<close>

definition model_for :: "runner_env \<Rightarrow> agent_type \<Rightarrow> string" where
  "model_for re typ =
     (if typ = WORKER then env_or (re_model_haiku re) ''claude-haiku-4-5-20251001''
      else env_or (re_model_sonnet re) ''claude-sonnet-5'')"

definition system_prompt :: "runner_env \<Rightarrow> string list \<Rightarrow> string" where
  "system_prompt re skills =
     join_with [CHR 0x0A, CHR 0x0A]
       ([BASE_SYSTEM_PROMPT, ''Current date and time: '' @ re_athens re @ '' (Europe/Athens).''] @
        (case List.map_filter (dict_get SKILL_FRAMING) skills of [] \<Rightarrow> [] | framing # _ \<Rightarrow> [framing]))"

section \<open>The world and the results\<close>

record ('h, 'z) agent_world =
  aw_policy :: policy_state
  aw_memory :: memory_store
  aw_orchestrator :: orchestrator
  aw_bus :: "('h, 'z) bus_scheme option"

record agent_run_result =
  rn_run_id :: string
  rn_status :: string
  rn_prompt :: string
  rn_answer :: pyval
  rn_error :: "string option"
  rn_task_id :: "string option"
  rn_agent_name :: "string option"
  rn_duration_ms :: real

definition run_result :: "string \<Rightarrow> string \<Rightarrow> string \<Rightarrow> agent_run_result" where
  \<comment> \<open>\<open>AgentRunResult(run_id=..., status=..., prompt=...)\<close>, the other fields at their defaults\<close>
  "run_result run_id status prompt =
     \<lparr>rn_run_id = run_id, rn_status = status, rn_prompt = prompt, rn_answer = PNone, rn_error = None,
      rn_task_id = None, rn_agent_name = None, rn_duration_ms = 0\<rparr>"

definition run_to_dict :: "agent_run_result \<Rightarrow> (string, pyval) dict" where
  "run_to_dict r =
     [(''run_id'', PStr (rn_run_id r)), (''status'', PStr (rn_status r)), (''prompt'', PStr (rn_prompt r)),
      (''answer'', rn_answer r), (''error'', opt_str (rn_error r)), (''task_id'', opt_str (rn_task_id r)),
      (''agent_name'', opt_str (rn_agent_name r)), (''duration_ms'', PFloat (rn_duration_ms r))]"

record agent_setup =
  su_run_id :: string
  su_agent_id :: string
  su_agent_name :: string
  su_agent_skills :: "string list"
  su_model :: string
  su_task_id :: string
  su_started :: real

datatype setup_outcome = Ready agent_setup | Denied agent_run_result

definition stage_subject :: "string \<Rightarrow> string \<Rightarrow> string" where
  "stage_subject run_id stage = ''agent.'' @ run_id @ ''.'' @ stage"

definition world_publish :: "('h, 'z) handler_effect \<Rightarrow> string \<Rightarrow> payload \<Rightarrow> ('h, 'z, 'm) agent_world_scheme \<Rightarrow>
    unit result \<times> ('h, 'z, 'm) agent_world_scheme" where
  \<comment> \<open>\<open>if bus is not None: bus.publish(subject, payload)\<close>\<close>
  "world_publish act subject payload w =
     (case aw_bus w of
        None \<Rightarrow> (Inr (), w)
      | Some b \<Rightarrow> (case bus_publish act subject payload b of (r, b') \<Rightarrow> (r, w\<lparr>aw_bus := Some b'\<rparr>)))"

definition run_publish :: "('h, 'z) handler_effect \<Rightarrow> string \<Rightarrow> string \<Rightarrow> string \<Rightarrow> payload \<Rightarrow> ('h, 'z, 'm) agent_world_scheme \<Rightarrow>
    unit result \<times> ('h, 'z, 'm) agent_world_scheme" where
  "run_publish act run_id session_id stage payload w =
     world_publish act (stage_subject run_id stage) (dict_merge [(''session_id'', PStr session_id)] payload) w"

definition world_policy :: "(policy_state \<Rightarrow> ('a \<times> policy_state) result) \<Rightarrow> ('h, 'z, 'm) agent_world_scheme \<Rightarrow>
    'a result \<times> ('h, 'z, 'm) agent_world_scheme" where
  "world_policy f w = lift_r aw_policy (\<lambda>p. aw_policy_update (\<lambda>_. p)) f w"

definition world_memory :: "(memory_store \<Rightarrow> ('a \<times> memory_store) result) \<Rightarrow> ('h, 'z, 'm) agent_world_scheme \<Rightarrow>
    'a result \<times> ('h, 'z, 'm) agent_world_scheme" where
  "world_memory f w = lift_r aw_memory (\<lambda>p. aw_memory_update (\<lambda>_. p)) f w"

definition world_pool :: "(orchestrator \<Rightarrow> ('a \<times> orchestrator) result) \<Rightarrow> ('h, 'z, 'm) agent_world_scheme \<Rightarrow>
    'a result \<times> ('h, 'z, 'm) agent_world_scheme" where
  "world_pool f w = lift_r aw_orchestrator (\<lambda>p. aw_orchestrator_update (\<lambda>_. p)) f w"

section \<open>The prelude of a run\<close>

definition web_principal :: "string \<Rightarrow> principal" where
  "web_principal session_id =
     \<lparr>pr_id = ''web-'' @ session_id, pr_roles = [''web-user''], pr_groups = [], pr_attributes = []\<rparr>"

definition run_resource :: resource where
  "run_resource = \<lparr>rs_type = ''agent_run'', rs_attributes = [(''risk_level'', PStr ''low'')]\<rparr>"

definition run_task :: "env \<Rightarrow> string \<Rightarrow> string \<Rightarrow> string list \<Rightarrow> task_spec" where
  "run_task env run_id prompt required_skills =
     \<lparr>tk_id = new_id ''task'' env, tk_name = ''agent.run '' @ run_id, tk_signature = [], tk_required_skills = required_skills,
      tk_priority = 0, tk_risk_level = ''low'', tk_payload = [(''prompt'', PStr prompt)], tk_status = QUEUED,
      tk_assignee = None, tk_created_at = env_time env, tk_started_at = None, tk_finished_at = None, tk_result = PNone\<rparr>"

definition assigned_agent :: "string option \<Rightarrow> orchestrator \<Rightarrow> agent_spec option" where
  \<comment> \<open>\<open>self._orchestrator.get_agent(agent_id) if agent_id else None\<close>\<close>
  "assigned_agent agent_id st = (case agent_id of None \<Rightarrow> None | Some k \<Rightarrow> if k = [] then None else get_agent k st)"

definition disposable_agent :: "env \<Rightarrow> string \<Rightarrow> string list \<Rightarrow> orchestrator \<Rightarrow> agent_spec \<times> orchestrator" where
  "disposable_agent env run_id required_skills st =
     register_agent env (''web-agent-'' @ last_n 6 run_id) (if required_skills = [] then [''chat''] else required_skills) WORKER st"

definition assign_run :: "(nat \<Rightarrow> env) \<Rightarrow> string \<Rightarrow> string \<Rightarrow> string list \<Rightarrow> orchestrator \<Rightarrow> (agent_spec \<times> orchestrator) result" where
  \<comment> \<open>the agent the task goes to, or a disposable one registered for it\<close>
  "assign_run e task_id run_id required_skills st =
     (case assign (e 5) task_id st of
        Inl err \<Rightarrow> Inl err
      | Inr (agent_id, st1) \<Rightarrow>
          (case assigned_agent agent_id st1 of
             Some agent \<Rightarrow> Inr (agent, st1)
           | None \<Rightarrow>
               (case disposable_agent (e 6) run_id required_skills st1 of
                  (agent, st2) \<Rightarrow>
                    (case assign (e 7) task_id st2 of Inl err \<Rightarrow> Inl err | Inr (_, st3) \<Rightarrow> Inr (agent, st3)))))"

definition run_setup :: "('h, 'z) handler_effect \<Rightarrow> (doc \<Rightarrow> string) \<Rightarrow> runner_env \<Rightarrow> (nat \<Rightarrow> env) \<Rightarrow> string \<Rightarrow> string \<Rightarrow>
    ('h, 'z, 'm) agent_world_scheme \<Rightarrow> setup_outcome result \<times> ('h, 'z, 'm) agent_world_scheme" where
  "run_setup act h re e prompt session_id w =
     (let run_id = new_id ''run'' (e 0); pub = run_publish act run_id session_id; p = web_principal session_id in
      seq_r (pub ''started'' [(''prompt'', PStr prompt)] w) (\<lambda>_ w1.
      seq_r (world_policy (evaluate (e 1) p ''agent.run'' (Some run_resource) 0 1) w1) (\<lambda>decision w2.
      seq_r (pub ''policy_evaluated'' [(''allowed'', PBool (pd_allowed decision)), (''reason'', PStr (pd_reason decision))] w2) (\<lambda>_ w3.
        if \<not> pd_allowed decision then
          seq_r (pub ''denied'' [(''reason'', PStr (pd_reason decision))] w3) (\<lambda>_ w4.
            (Inr (Denied ((run_result run_id ''denied'' prompt)\<lparr>rn_error := Some (pd_reason decision)\<rparr>)), w4))
        else
          seq_r (world_memory (mem_write h (e 2) (''agent_run.'' @ run_id @ ''.prompt'') [(''prompt'', PStr prompt)]
            (pr_id p) ''user request'' ''main'') w3) (\<lambda>entry w4.
          seq_r (pub ''memory_stored'' [(''key'', PStr (me_key entry)), (''version'', PInt (me_version entry))] w4) (\<lambda>_ w5.
            let required_skills = take 1 (classify_skills prompt); task = run_task (e 3) run_id prompt required_skills in
            seq_r (world_pool (\<lambda>st. assign_run e (tk_id task) run_id required_skills (submit (e 4) task st)) w5) (\<lambda>agent w6.
            seq_r (pub ''task_assigned'' [(''task_id'', PStr (tk_id task)), (''agent_id'', PStr (ag_id agent)),
                (''agent_name'', PStr (ag_name agent))] w6) (\<lambda>_ w7.
              (Inr (Ready \<lparr>su_run_id = run_id, su_agent_id = ag_id agent, su_agent_name = ag_name agent,
                 su_agent_skills = ag_skills agent, su_model = model_for re (ag_type agent), su_task_id = tk_id task,
                 su_started = env_time (e 0)\<rparr>), w7)))))))))"

section \<open>A run in one piece\<close>

definition finish_failed :: "('h, 'z) handler_effect \<Rightarrow> (nat \<Rightarrow> env) \<Rightarrow> string \<Rightarrow> agent_setup \<Rightarrow> string \<Rightarrow>
    ('h, 'z, 'm) agent_world_scheme \<Rightarrow> unit result \<times> ('h, 'z, 'm) agent_world_scheme" where
  \<comment> \<open>the handler of the provider's errors\<close>
  "finish_failed act e session_id su err w =
     seq_r (world_pool (fail_task (e 8) (su_task_id su) err 0) w) (\<lambda>_ w1.
       run_publish act (su_run_id su) session_id ''failed'' [(''error'', PStr err)] w1)"

definition duration_ms :: "(nat \<Rightarrow> env) \<Rightarrow> agent_setup \<Rightarrow> real" where
  "duration_ms e su = (env_time (e 10) - su_started su) * 1000"

definition finish_answered :: "('h, 'z) handler_effect \<Rightarrow> (doc \<Rightarrow> string) \<Rightarrow> (nat \<Rightarrow> env) \<Rightarrow> string \<Rightarrow> agent_setup \<Rightarrow> pyval \<Rightarrow>
    ('h, 'z, 'm) agent_world_scheme \<Rightarrow> unit result \<times> ('h, 'z, 'm) agent_world_scheme" where
  \<comment> \<open>recording the answer, completing the task and publishing the last stage\<close>
  "finish_answered act h e session_id su answer w =
     seq_r (world_memory (mem_write h (e 8) (''agent_run.'' @ su_run_id su @ ''.answer'') [(''answer'', answer)]
       (su_agent_id su) ''agent response'' ''main'') w) (\<lambda>_ w1.
     seq_r (world_pool (complete_task (e 9) (su_task_id su) (PDict [(''answer'', answer)]) 0) w1) (\<lambda>_ w2.
       run_publish act (su_run_id su) session_id ''completed''
         [(''answer'', answer), (''duration_ms'', PFloat (duration_ms e su)), (''agent_name'', PStr (su_agent_name su))] w2))"

definition run_agent :: "('h, 'z) handler_effect \<Rightarrow> (doc \<Rightarrow> string) \<Rightarrow> (http_request \<Rightarrow> http_reply) \<Rightarrow> runner_env \<Rightarrow> (nat \<Rightarrow> env) \<Rightarrow>
    string \<Rightarrow> string \<Rightarrow> string option \<Rightarrow> string option \<Rightarrow> ('h, 'z, 'm) agent_world_scheme \<Rightarrow>
    agent_run_result result \<times> ('h, 'z, 'm) agent_world_scheme" where
  "run_agent act h http re e prompt session_id user_api_key user_provider w =
     seq_r (run_setup act h re e prompt session_id w) (\<lambda>outcome w1.
       case outcome of
         Denied r \<Rightarrow> (Inr r, w1)
       | Ready su \<Rightarrow>
           seq_r (run_publish act (su_run_id su) session_id ''thinking'' [(''agent_name'', PStr (su_agent_name su))] w1) (\<lambda>_ w2.
             case call_llm http (re_llm re) prompt (system_prompt re (su_agent_skills su)) 1200 (Some (su_model su))
                 user_api_key user_provider of
               Inl (Other_error err) \<Rightarrow> (Inl err, w2)
             | Inl err \<Rightarrow>
                 seq_r (finish_failed act e session_id su (error_text err) w2) (\<lambda>_ w3.
                   (Inr ((run_result (su_run_id su) ''failed'' prompt)
                      \<lparr>rn_task_id := Some (su_task_id su), rn_error := Some (error_text err)\<rparr>), w3))
             | Inr answer \<Rightarrow>
                 seq_r (finish_answered act h e session_id su answer w2) (\<lambda>_ w3.
                   (Inr ((run_result (su_run_id su) ''completed'' prompt)
                      \<lparr>rn_answer := answer, rn_task_id := Some (su_task_id su), rn_agent_name := Some (su_agent_name su),
                        rn_duration_ms := duration_ms e su\<rparr>), w3))))"

section \<open>A streamed run\<close>

definition delta_event :: "pyval \<Rightarrow> (string, pyval) dict" where
  "delta_event t = [(''type'', PStr ''delta''), (''text'', t)]"

definition stop_event :: "string \<Rightarrow> string \<Rightarrow> string option \<Rightarrow> (string, pyval) dict" where
  "stop_event kind run_id err = [(''type'', PStr kind), (''run_id'', PStr run_id), (''error'', opt_str err)]"

definition done_event :: "(nat \<Rightarrow> env) \<Rightarrow> agent_setup \<Rightarrow> string \<Rightarrow> (string, pyval) dict" where
  "done_event e su answer =
     [(''type'', PStr ''done''), (''run_id'', PStr (su_run_id su)), (''answer'', PStr answer),
      (''duration_ms'', PFloat (duration_ms e su)), (''agent_name'', PStr (su_agent_name su))]"

fun join_chunks :: "pyval list \<Rightarrow> string result" where
  \<comment> \<open>\<open>"".join(chunks)\<close>\<close>
  "join_chunks [] = Inr []"
| "join_chunks (PStr s # ts) = (case join_chunks ts of Inl err \<Rightarrow> Inl err | Inr rest \<Rightarrow> Inr (s @ rest))"
| "join_chunks (_ # ts) = Inl TypeError"

definition run_stream :: "('h, 'z) handler_effect \<Rightarrow> (doc \<Rightarrow> string) \<Rightarrow> (http_request \<Rightarrow> stream_reply) \<Rightarrow> runner_env \<Rightarrow> (nat \<Rightarrow> env) \<Rightarrow>
    string \<Rightarrow> string \<Rightarrow> string option \<Rightarrow> string option \<Rightarrow> nat option \<Rightarrow> ('h, 'z, 'm) agent_world_scheme \<Rightarrow>
    ((string, pyval) dict list \<times> unit result) \<times> ('h, 'z, 'm) agent_world_scheme" where
  \<comment> \<open>the events a consumer gets and how the generator ends; \<open>stop_after = Some n\<close> is a consumer that closes
    the generator after it got \<open>n\<close> events: no code after that yield runs\<close>
  "run_stream act h open_stream re e prompt session_id user_api_key user_provider stop_after w =
     (if stop_after = Some 0 then (([], Inr ()), w)
      else case run_setup act h re e prompt session_id w of
        (Inl err, w1) \<Rightarrow> (([], Inl err), w1)
      | (Inr (Denied r), w1) \<Rightarrow> (([stop_event (rn_status r) (rn_run_id r) (rn_error r)], Inr ()), w1)
      | (Inr (Ready su), w1) \<Rightarrow>
          (case run_publish act (su_run_id su) session_id ''thinking'' [(''agent_name'', PStr (su_agent_name su))] w1 of
             (Inl err, w2) \<Rightarrow> (([], Inl err), w2)
           | (Inr _, w2) \<Rightarrow>
               (let (chunks, fin) = stream_llm open_stream (re_llm re) prompt (system_prompt re (su_agent_skills su)) 1200
                      (Some (su_model su)) user_api_key user_provider;
                    deltas = map delta_event chunks
                in if (case stop_after of None \<Rightarrow> False | Some n \<Rightarrow> n \<le> length deltas)
                   then ((take (the stop_after) deltas, Inr ()), w2)
                   else (case fin of
                       Some (Other_error err) \<Rightarrow> ((deltas, Inl err), w2)
                     | Some err \<Rightarrow>
                         (case finish_failed act e session_id su (error_text err) w2 of
                            (Inl err', w3) \<Rightarrow> ((deltas, Inl err'), w3)
                          | (Inr _, w3) \<Rightarrow> ((deltas @ [stop_event ''failed'' (su_run_id su) (Some (error_text err))], Inr ()), w3))
                     | None \<Rightarrow>
                         (case join_chunks chunks of
                            Inl err \<Rightarrow> ((deltas, Inl err), w2)
                          | Inr answer \<Rightarrow>
                              (case finish_answered act h e session_id su (PStr answer) w2 of
                                 (Inl err, w3) \<Rightarrow> ((deltas, Inl err), w3)
                               | (Inr _, w3) \<Rightarrow> ((deltas @ [done_event e su answer], Inr ()), w3)))))))"

end
