(* ===== verification/Reflection.thy ===== *)
theory Reflection
  imports Agent_Runner Evolution
begin

text \<open>
  \<open>omni/agents/reflection.py\<close>: one self-review cycle, from the policy check over the snapshot of the
  fleet and the provider's answer to the proposal it hands to the Evolution Engine. Its world is the
  runner's, extended by the engine. The scheduler's loop around \<open>tick\<close> is in \<open>Process\<close>.
\<close>

definition learning_principal :: principal where
  "learning_principal = \<lparr>pr_id = ''learning-agent'', pr_roles = [''operator''], pr_groups = [], pr_attributes = []\<rparr>"

definition reflect_resource :: resource where
  "reflect_resource = \<lparr>rs_type = ''learning_reflect'', rs_attributes = [(''risk_level'', PStr ''low'')]\<rparr>"

definition quote_mark :: string where
  "quote_mark = [CHR 0x22]"

definition field_text :: "string \<Rightarrow> string" where
  "field_text name = quote_mark @ name @ quote_mark @ '': ''"

definition REFLECT_PROMPT :: string where
  "REFLECT_PROMPT =
     ''You'' @ [CHR 0x27] @ ''re the fleet'' @ [CHR 0x27] @ ''s Learning Agent / Cost Optimizer running a scheduled self-review. '' @
     ''You'' @ [CHR 0x27] @ ''re given a real snapshot of fleet metrics: task outcomes, per-agent load, and '' @
     ''recent policy decisions. Identify at most ONE concrete, worthwhile improvement -- '' @
     ''something an operator could actually act on, not generic advice. '' @
     ''Reply with ONLY a JSON object, no prose before or after it, no markdown fences:'' @ [CHR 0x0A] @
     ''{'' @ field_text ''has_proposal'' @ ''true|false, '' @ field_text ''domain'' @ ''one of '' @
     json_dumps (PList (map PStr DOMAINS)) @ '', '' @
     field_text ''title'' @ quote_mark @ ''short string'' @ quote_mark @ '', '' @
     field_text ''description'' @ quote_mark @ ''string'' @ quote_mark @ '', '' @
     field_text ''hypothesis'' @ quote_mark @ ''string'' @ quote_mark @ ''}'' @ [CHR 0x0A] @
     ''Set has_proposal to false and leave the other fields empty if the snapshot looks '' @
     ''healthy and nothing concrete stands out -- never invent a proposal just to have one.''"

record reflection_result =
  rf_run_id :: string
  rf_status :: string
  rf_snapshot :: "(string, pyval) dict"
  rf_proposal_id :: "string option"
  rf_reasoning :: pyval
  rf_error :: "string option"

definition reflection_of :: "string \<Rightarrow> string \<Rightarrow> reflection_result" where
  \<comment> \<open>\<open>ReflectionResult(run_id=..., status=...)\<close>, the other fields at their defaults\<close>
  "reflection_of run_id status =
     \<lparr>rf_run_id = run_id, rf_status = status, rf_snapshot = [], rf_proposal_id = None, rf_reasoning = PNone, rf_error = None\<rparr>"

definition reflection_vars :: "reflection_result \<Rightarrow> (string, pyval) dict" where
  "reflection_vars r =
     [(''run_id'', PStr (rf_run_id r)), (''status'', PStr (rf_status r)), (''snapshot'', PDict (rf_snapshot r)),
      (''proposal_id'', opt_str (rf_proposal_id r)), (''reasoning'', rf_reasoning r), (''error'', opt_str (rf_error r))]"

section \<open>The snapshot\<close>

definition status_tally :: "task_spec list \<Rightarrow> (string, int) dict" where
  "status_tally ts = fold (\<lambda>t d. dict_set (task_status_value (tk_status t))
     ((case dict_get d (task_status_value (tk_status t)) of None \<Rightarrow> 0 | Some n \<Rightarrow> n) + 1) d) ts []"

definition busy_entry :: "agent_spec \<Rightarrow> pyval" where
  "busy_entry a = PDict [(''name'', PStr (ag_name a)), (''skills'', PList (map PStr (ag_skills a))),
     (''queue_depth'', PInt (ag_queue_depth a))]"

definition fleet_snapshot :: "orchestrator \<Rightarrow> policy_engine \<Rightarrow> (string, pyval) dict" where
  "fleet_snapshot st eng =
     (let ts = tasks st; ags = agents st; recent = decision_log 100 eng in
      [(''task_count'', PInt (int (length ts))),
       (''task_status_counts'', PDict (map (\<lambda>(k, n). (k, PInt n)) (status_tally ts))),
       (''agent_count'', PInt (int (length ags))),
       (''busiest_agents'', PList (map busy_entry (take 5 (py_sorted_desc ag_queue_depth ags)))),
       (''recent_policy_decisions_checked'', PInt (int (length recent))),
       (''recent_policy_denials'', PInt (int (length (filter (\<lambda>d. \<not> pd_allowed d) recent))))])"

section \<open>The provider's answer\<close>

definition tick_mark :: string where
  "tick_mark = [CHR 0x60]"

definition strip_ticks :: "string \<Rightarrow> string" where
  \<comment> \<open>\<open>text.strip("`")\<close>\<close>
  "strip_ticks s = rev (dropWhile (\<lambda>c. c = CHR 0x60) (rev (dropWhile (\<lambda>c. c = CHR 0x60) s)))"

definition extract_json :: "string \<Rightarrow> (string, pyval) dict option" where
  "extract_json raw =
     (let t0 = strip raw;
          t1 = (if startswith (tick_mark @ tick_mark @ tick_mark) t0
                then (let t = strip_ticks t0 in if startswith ''json'' t then drop 4 t else t) else t0)
      in case json_loads (strip t1) of Some (PDict d) \<Rightarrow> Some d | _ \<Rightarrow> None)"

section \<open>The cycle\<close>

record ('h, 'z) reflect_world = "('h, 'z) agent_world" +
  rw_evolution :: evolution_engine

definition learn_publish :: "('h, 'z) handler_effect \<Rightarrow> string \<Rightarrow> string \<Rightarrow> payload \<Rightarrow> ('h, 'z, 'm) agent_world_scheme \<Rightarrow>
    unit result \<times> ('h, 'z, 'm) agent_world_scheme" where
  "learn_publish act run_id stage payload w = world_publish act (''learning.'' @ run_id @ ''.'' @ stage) payload w"

definition report_value :: "(string, pyval) dict \<Rightarrow> string \<Rightarrow> (string, pyval) dict option \<Rightarrow> doc" where
  "report_value snapshot raw parsed =
     [(''snapshot'', PDict snapshot), (''raw_response'', PStr raw),
      (''parsed'', case parsed of None \<Rightarrow> PNone | Some d \<Rightarrow> PDict d)]"

definition propose_parsed :: "env \<Rightarrow> (string, pyval) dict \<Rightarrow> evolution_engine \<Rightarrow> (evolution_proposal \<times> evolution_engine) result" where
  "propose_parsed env parsed eng =
     evo_propose env (get_or parsed ''domain'' (PStr [])) (get_or parsed ''title'' (PStr ''untitled''))
       (get_or parsed ''description'' (PStr [])) (get_or parsed ''hypothesis'' (PStr [])) eng"

fun key_error_text :: "py_error \<Rightarrow> string option" where
  \<comment> \<open>\<open>str(e)\<close> of a \<open>KeyError\<close>, which shows its argument as \<open>repr\<close> does\<close>
  "key_error_text (KeyError s) = Some (repr_str s)"
| "key_error_text _ = None"

definition reflect_answer :: "('h, 'z) handler_effect \<Rightarrow> (nat \<Rightarrow> env) \<Rightarrow> string \<Rightarrow> (string, pyval) dict \<Rightarrow> string \<Rightarrow>
    (string, pyval) dict option \<Rightarrow> ('h, 'z, 'm) reflect_world_scheme \<Rightarrow> reflection_result result \<times> ('h, 'z, 'm) reflect_world_scheme" where
  \<comment> \<open>the cycle once the answer is recorded\<close>
  "reflect_answer act e run_id snapshot raw parsed w =
     (let base = (reflection_of run_id ''failed'')\<lparr>rf_snapshot := snapshot, rf_reasoning := PStr raw\<rparr>; pub = learn_publish act run_id in
      case parsed of
        None \<Rightarrow>
          seq_r (pub ''failed'' [(''error'', PStr ''unparseable response'')] w) (\<lambda>_ w1.
            (Inr (base\<lparr>rf_error := Some ''could not parse a structured proposal from the LLM response''\<rparr>), w1))
      | Some d \<Rightarrow>
          if \<not> truthy (get_or d ''has_proposal'' PNone) then
            seq_r (pub ''completed'' [(''status'', PStr ''no_signal'')] w) (\<lambda>_ w1. (Inr (base\<lparr>rf_status := ''no_signal''\<rparr>), w1))
          else (case propose_parsed (e 3) d (rw_evolution w) of
              Inl err \<Rightarrow>
                (case key_error_text err of
                   None \<Rightarrow> (Inl err, w)
                 | Some txt \<Rightarrow>
                     seq_r (pub ''failed'' [(''error'', PStr txt)] w) (\<lambda>_ w1. (Inr (base\<lparr>rf_error := Some txt\<rparr>), w1)))
            | Inr (p, eng) \<Rightarrow>
                seq_r (pub ''completed'' [(''status'', PStr ''proposed''), (''proposal_id'', PStr (ep_id p))] (w\<lparr>rw_evolution := eng\<rparr>)) (\<lambda>_ w1.
                  (Inr (base\<lparr>rf_status := ''proposed'', rf_proposal_id := Some (ep_id p)\<rparr>), w1))))"

definition snapshot_prompt :: "(string, pyval) dict \<Rightarrow> string" where
  "snapshot_prompt snapshot = ''Fleet metrics snapshot (JSON):'' @ [CHR 0x0A] @ json_indent 2 0 (PDict snapshot)"

definition reflect_reply :: "('h, 'z) handler_effect \<Rightarrow> (doc \<Rightarrow> string) \<Rightarrow> (nat \<Rightarrow> env) \<Rightarrow> string \<Rightarrow> (string, pyval) dict \<Rightarrow>
    pyval llm_result \<Rightarrow> ('h, 'z, 'm) reflect_world_scheme \<Rightarrow> reflection_result result \<times> ('h, 'z, 'm) reflect_world_scheme" where
  \<comment> \<open>the cycle from the provider's reply on\<close>
  "reflect_reply act h e run_id snapshot reply w =
     (case reply of
        Inl (Other_error err) \<Rightarrow> (Inl err, w)
      | Inl err \<Rightarrow>
          seq_r (learn_publish act run_id ''failed'' [(''error'', PStr (error_text err))] w) (\<lambda>_ w1.
            (Inr ((reflection_of run_id ''failed'')\<lparr>rf_snapshot := snapshot, rf_error := Some (error_text err)\<rparr>), w1))
      | Inr (PStr raw) \<Rightarrow>
          (let parsed = extract_json raw in
           seq_r (world_memory (mem_write h (e 2) (''self_review.'' @ run_id @ ''.report'') (report_value snapshot raw parsed)
             (pr_id learning_principal) ''scheduled self-review'' ''main'') w) (\<lambda>_ w1.
             reflect_answer act e run_id snapshot raw parsed w1))
      | Inr _ \<Rightarrow> (Inl AttributeError, w))"

definition reflection_cycle :: "('h, 'z) handler_effect \<Rightarrow> (doc \<Rightarrow> string) \<Rightarrow> (http_request \<Rightarrow> http_reply) \<Rightarrow> llm_env \<Rightarrow> (nat \<Rightarrow> env) \<Rightarrow>
    ('h, 'z, 'm) reflect_world_scheme \<Rightarrow> reflection_result result \<times> ('h, 'z, 'm) reflect_world_scheme" where
  "reflection_cycle act h http le e w =
     (let run_id = new_id ''reflect'' (e 0) in
      seq_r (world_policy (evaluate (e 1) learning_principal ''learning.reflect'' (Some reflect_resource) 0 1) w) (\<lambda>decision w1.
        if \<not> pd_allowed decision
        then (Inr ((reflection_of run_id ''denied'')\<lparr>rf_error := Some (pd_reason decision)\<rparr>), w1)
        else
          (let snapshot = fleet_snapshot (aw_orchestrator w1) (fst (aw_policy w1)) in
           seq_r (learn_publish act run_id ''started'' [(''snapshot'', PDict snapshot)] w1) (\<lambda>_ w2.
             reflect_reply act h e run_id snapshot
               (call_llm http le (snapshot_prompt snapshot) REFLECT_PROMPT 500 None None None) w2))))"

definition reflection_tick :: "('h, 'z) handler_effect \<Rightarrow> (doc \<Rightarrow> string) \<Rightarrow> (http_request \<Rightarrow> http_reply) \<Rightarrow> llm_env \<Rightarrow> (nat \<Rightarrow> env) \<Rightarrow>
    ('h, 'z, 'm) reflect_world_scheme \<Rightarrow> reflection_result result \<times> ('h, 'z, 'm) reflect_world_scheme" where
  "reflection_tick = reflection_cycle"

end
