(* ===== verification/Agent_Runner_Proofs.thy ===== *)
theory Agent_Runner_Proofs
  imports Agent_Runner Seed_Rules Memory_Proofs
begin

text \<open>
  What the stages of a run do to the runner's world, when the handlers of the bus do not raise:
  publishing touches the bus only, the prelude either denies or leaves one new task behind, and the
  two endings finish it. The lemmas hold for every world that extends the runner's.
\<close>

declare map_of_eq_Some_iff [simp del] Some_eq_map_of_iff [simp del]

section \<open>Values read from JSON\<close>

lemma json_str_ok: "json_literal s = Some (v, rest) \<Longrightarrow> pv_ok v"
  by (auto simp: json_literal_def json_number_def Let_def split: if_splits option.splits)

lemma json_ok:
  "json_value n s = Some (v, rest) \<Longrightarrow> pv_ok v"
  "json_items n acc s = Some (v, rest) \<Longrightarrow> \<forall>x \<in> set acc. pv_ok x \<Longrightarrow> pv_ok v"
  "json_members n d s = Some (v, rest) \<Longrightarrow> pv_ok (PDict d) \<Longrightarrow> pv_ok v"
proof (induction n s and n acc s and n d s arbitrary: v rest and v rest and v rest rule: json_value_json_items_json_members.induct)
  case (2 n s)
  then show ?case by (auto split: list.splits if_splits simp: json_str_ok)
next
  case (4 n acc s)
  then show ?case by (fastforce split: option.splits list.splits if_splits)
next
  case (6 n d s)
  have set_ok: "pv_ok w \<Longrightarrow> pv_ok (PDict (dict_set k w d))" for k w
    using "6.prems"(2) set_dict_set [of k w d] by auto
  from 6 show ?case
    apply (simp only: json_members.simps)
    apply (auto split: option.splits list.splits if_splits prod.splits simp del: pv_ok.simps)
    apply (metis set_ok)+
    done
qed simp_all

lemma json_loads_ok: "json_loads s = Some v \<Longrightarrow> pv_ok v"
  by (auto simp: json_loads_def split: option.splits if_splits dest: json_ok(1) simp del: json_value.simps)

lemma call_llm_ok: "call_llm http le prompt system n model key provider = Inr v \<Longrightarrow> pv_ok v"
proof -
  have post: "pv_ok d" if "post_json http url hs body = Inr d" for url hs body d
    using that by (auto simp: post_json_def split: http_reply.splits option.splits intro: json_loads_ok)
  have item: "pv_ok y" if "pv_ok x" "item_at x k = Inr y" for x y k
    using that by (auto simp: item_at_def split: pyval.splits option.splits dest!: map_of_SomeD)
  have first: "pv_ok y" if "pv_ok x" "first_item x = Inr y" for x y
    using that by (auto simp: first_item_def split: pyval.splits list.splits)
  have "pv_ok y" if "openai_answer x = Inr y" "pv_ok x" for x y
    using that by (auto simp: openai_answer_def and_then_def split: sum.splits) (metis item first)
  moreover have "pv_ok y" if "anthropic_answer x = Inr y" for x y
    using that by (auto simp: anthropic_answer_def and_then_def map_sum_def split: sum.splits option.splits)
  ultimately show "call_llm http le prompt system n model key provider = Inr v \<Longrightarrow> pv_ok v"
    by (auto simp: call_llm_def call_openai_def call_anthropic_def and_then_def split: if_splits sum.splits intro: post)
qed

section \<open>Publishing\<close>

lemma world_publish_quiet:
  assumes "quiet act"
  obtains b where "world_publish act subject payload w = (Inr (), w\<lparr>aw_bus := b\<rparr>)"
proof (cases "aw_bus w")
  case None
  then have "w\<lparr>aw_bus := None\<rparr> = w" by simp
  with None show ?thesis using that [of None] by (simp add: world_publish_def)
next
  case (Some b)
  obtain r b' where p: "bus_publish act subject payload b = (r, b')" by fastforce
  with bus_publish_quiet [OF assms, of subject payload b] have "r = Inr ()" by simp
  with that [of "Some b'"] Some p show ?thesis by (simp add: world_publish_def)
qed

lemma run_publish_quiet:
  assumes "quiet act"
  obtains b where "run_publish act run_id session_id stage payload w = (Inr (), w\<lparr>aw_bus := b\<rparr>)"
  unfolding run_publish_def using assms by (rule world_publish_quiet)

section \<open>What a run leaves of the task\<close>

definition task_open :: "string \<Rightarrow> orchestrator \<Rightarrow> bool" where
  \<comment> \<open>the task waits for an agent, or one has it\<close>
  "task_open tid st \<longleftrightarrow> (\<exists>t. dict_get (or_tasks st) tid = Some t \<and>
     (tk_status t = ASSIGNED \<or> tk_status t = QUEUED \<and> tk_assignee t = None))"

lemma work_ok_finish_queued:
  assumes "work_ok st" "dict_get (or_tasks st) tid = Some t" "tk_status t \<noteq> ASSIGNED" "tk_assignee t = None" "s \<noteq> ASSIGNED"
    and "finish s res env tid cost st = Inr (r, st')"
  shows "work_ok st'"
proof -
  define t' where "t' = t\<lparr>tk_status := s, tk_result := res, tk_finished_at := Some (env_time env)\<rparr>"
  have st': "st' = upd_task tid (\<lambda>_. t') st" using assms(2,4,6) by (auto simp: finish_def Let_def t'_def)
  have "pcount (held_by k) (or_tasks st') = pcount (held_by k) (or_tasks st)" for k
    using assms(2,3,5) by (simp add: st' pcount_upd held_by_def t'_def)
  moreover have "pool_ok st'" using assms(1,6) by (auto simp: work_ok_def intro: pool_ok_finish)
  ultimately show ?thesis
    by (rule_tac work_okI [OF assms(1)]) (use work_queue [OF assms(1)] assms(5) in \<open>auto simp: st' t'_def split: if_splits\<close>)
qed

lemma finish_open:
  assumes "work_ok st" "task_open tid st" "s \<noteq> ASSIGNED"
  obtains t st' where "finish s res env tid cost st = Inr (t, st')" "work_ok st'"
    "dict_get (or_tasks st') tid = Some t" "tk_status t = s" "tk_result t = res"
    "\<forall>k. k \<noteq> tid \<longrightarrow> dict_get (or_tasks st') k = dict_get (or_tasks st) k"
proof -
  obtain t0 where t0: "dict_get (or_tasks st) tid = Some t0"
      "tk_status t0 = ASSIGNED \<or> tk_status t0 = QUEUED \<and> tk_assignee t0 = None"
    using assms(2) by (auto simp: task_open_def)
  then obtain t st' where f: "finish s res env tid cost st = Inr (t, st')" by (simp add: finish_def Let_def)
  show ?thesis
  proof (rule that [OF f])
    show "work_ok st'"
      using t0(2) by (elim disjE) (use f t0(1) assms(1,3) work_ok_finish_queued in \<open>auto intro: work_ok_finish\<close>)
  qed (use f t0(1) in \<open>auto simp: finish_def Let_def split: option.splits if_splits\<close>)
qed

lemma assign_open:
  assumes "work_ok st" "task_open tid st"
  obtains r st' where "assign env tid st = Inr (r, st')" "work_ok st'" "task_open tid st'"
    "\<forall>k. dict_get (or_agents st') k = None \<longleftrightarrow> dict_get (or_agents st) k = None"
    "\<forall>k. k \<noteq> tid \<longrightarrow> dict_get (or_tasks st') k = dict_get (or_tasks st) k"
proof -
  obtain t where t: "dict_get (or_tasks st) tid = Some t" using assms(2) by (auto simp: task_open_def)
  obtain r st' where a: "assign env tid st = Inr (r, st')"
    using t by (cases "assign env tid st") (auto simp: assign_def split: if_splits option.splits)
  show ?thesis
  proof (rule that [OF a])
    show "work_ok st'" using assms(1) a by (rule work_ok_assign)
  qed (use a t assms(2) in \<open>auto simp: assign_def task_open_def split: if_splits option.splits\<close>)
qed

lemma assign_run_open:
  assumes "work_ok st" "task_open tid st" "dict_get (or_agents st) (new_id ''agt'' (e 6)) = None"
  obtains agent st' where "assign_run e tid run_id skills st = Inr (agent, st')" "work_ok st'" "task_open tid st'"
    "\<forall>k. k \<noteq> tid \<longrightarrow> dict_get (or_tasks st') k = dict_get (or_tasks st) k"
proof -
  obtain r st1 where a: "assign (e 5) tid st = Inr (r, st1)" "work_ok st1" "task_open tid st1"
      "\<forall>k. dict_get (or_agents st1) k = None \<longleftrightarrow> dict_get (or_agents st) k = None"
      "\<forall>k. k \<noteq> tid \<longrightarrow> dict_get (or_tasks st1) k = dict_get (or_tasks st) k"
    using assms(1,2) by (rule assign_open)
  show ?thesis
  proof (cases "assigned_agent r st1")
    case (Some agent)
    with a that [of agent st1] show ?thesis by (simp add: assign_run_def)
  next
    case None
    obtain agent st2 where d: "disposable_agent (e 6) run_id skills st1 = (agent, st2)" by fastforce
    then have st2: "st2 = snd (register_agent (e 6) (''web-agent-'' @ last_n 6 run_id)
        (if skills = [] then [''chat''] else skills) WORKER st1)" by (simp only: disposable_agent_def) (metis snd_conv)
    have "work_ok st2" unfolding st2 using a(2,4) assms(3) by (intro work_ok_register) auto
    moreover have tasks: "or_tasks st2 = or_tasks st1" by (simp add: st2 register_agent_def Let_def)
    with a(3) have "task_open tid st2" by (simp add: task_open_def)
    ultimately obtain r3 st3 where b: "assign (e 7) tid st2 = Inr (r3, st3)" "work_ok st3" "task_open tid st3"
        "\<forall>k. k \<noteq> tid \<longrightarrow> dict_get (or_tasks st3) k = dict_get (or_tasks st2) k"
      using assign_open [of st2 tid "e 7"] by metis
    have "assign_run e tid run_id skills st = Inr (agent, st3)"
      using a(1) b(1) None d by (simp add: assign_run_def)
    then show ?thesis by (rule that) (use b a(5) tasks in auto)
  qed
qed

section \<open>The prelude\<close>

definition run_ready :: "(nat \<Rightarrow> env) \<Rightarrow> ('h, 'z, 'm) agent_world_scheme \<Rightarrow> bool" where
  \<comment> \<open>the components are well-formed, no rule can raise, and the identifiers of the run are new\<close>
  "run_ready e w \<longleftrightarrow> (\<forall>rule \<in> set (pe_rules (fst (aw_policy w))). comparing rule) \<and> store_ok (aw_memory w) \<and>
     work_ok (aw_orchestrator w) \<and> dict_get (or_tasks (aw_orchestrator w)) (new_id ''task'' (e 3)) = None \<and>
     dict_get (or_agents (aw_orchestrator w)) (new_id ''agt'' (e 6)) = None"

definition prompt_key_of :: "(nat \<Rightarrow> env) \<Rightarrow> string" where
  "prompt_key_of e = ''agent_run.'' @ new_id ''run'' (e 0) @ ''.prompt''"

definition answer_key_of :: "(nat \<Rightarrow> env) \<Rightarrow> string" where
  "answer_key_of e = ''agent_run.'' @ new_id ''run'' (e 0) @ ''.answer''"

lemma setup_cases:
  assumes "quiet act" "run_ready e w"
  obtains (denied) res w' where "run_setup act h re e prompt session_id w = (Inr (Denied res), w')"
      "rn_status res = ''denied''" "rn_task_id res = None" "rn_run_id res = new_id ''run'' (e 0)"
      "aw_memory w' = aw_memory w" "aw_orchestrator w' = aw_orchestrator w"
  | (ready) su w' entry where "run_setup act h re e prompt session_id w = (Inr (Ready su), w')"
      "su_task_id su = new_id ''task'' (e 3)" "su_run_id su = new_id ''run'' (e 0)"
      "appends entry (aw_memory w) (aw_memory w')" "me_key entry = prompt_key_of e" "me_branch entry = ''main''"
      "work_ok (aw_orchestrator w')" "task_open (su_task_id su) (aw_orchestrator w')"
      "\<forall>k. k \<noteq> su_task_id su \<longrightarrow> dict_get (or_tasks (aw_orchestrator w')) k = dict_get (or_tasks (aw_orchestrator w)) k"
proof -
  note ok = assms(2) [unfolded run_ready_def]
  let ?run = "new_id ''run'' (e 0)" and ?p = "web_principal session_id"
  obtain b1 where p1: "run_publish act ?run session_id ''started'' [(''prompt'', PStr prompt)] w = (Inr (), w\<lparr>aw_bus := b1\<rparr>)"
    using assms(1) by (rule run_publish_quiet)
  obtain d pol where d: "evaluate (e 1) ?p ''agent.run'' (Some run_resource) 0 1 (aw_policy w) = Inr (d, pol)"
    using evaluate_total [of "aw_policy w"] ok by blast
  define w2 where "w2 = w\<lparr>aw_bus := b1, aw_policy := pol\<rparr>"
  have ev: "world_policy (evaluate (e 1) ?p ''agent.run'' (Some run_resource) 0 1) (w\<lparr>aw_bus := b1\<rparr>) = (Inr d, w2)"
    using d by (simp add: world_policy_def lift_r_def w2_def)
  obtain b3 where p3: "run_publish act ?run session_id ''policy_evaluated''
      [(''allowed'', PBool (pd_allowed d)), (''reason'', PStr (pd_reason d))] w2 = (Inr (), w2\<lparr>aw_bus := b3\<rparr>)"
    using assms(1) by (rule run_publish_quiet)
  define w3 where "w3 = w2\<lparr>aw_bus := b3\<rparr>"
  show ?thesis
  proof (cases "pd_allowed d")
    case False
    obtain b4 where "run_publish act ?run session_id ''denied'' [(''reason'', PStr (pd_reason d))] w3 = (Inr (), w3\<lparr>aw_bus := b4\<rparr>)"
      using assms(1) by (rule run_publish_quiet)
    with False p1 ev p3 have "run_setup act h re e prompt session_id w =
        (Inr (Denied ((run_result ?run ''denied'' prompt)\<lparr>rn_error := Some (pd_reason d)\<rparr>)), w3\<lparr>aw_bus := b4\<rparr>)"
      by (simp add: run_setup_def Let_def w3_def)
    then show ?thesis by (rule denied) (simp_all add: run_result_def w3_def w2_def)
  next
    case True
    obtain entry rows where wr: "mem_write h (e 2) (prompt_key_of e) [(''prompt'', PStr prompt)] (pr_id ?p) ''user request'' ''main''
        (aw_memory w) = Inr (entry, rows)" "appends entry (aw_memory w) rows" "me_key entry = prompt_key_of e" "me_branch entry = ''main''"
      using write_appends [of "aw_memory w" "[(''prompt'', PStr prompt)]" h "e 2" "prompt_key_of e" "pr_id ?p" "''user request''" "''main''"] ok
      by (fastforce simp: pv_ok.simps)
    define w4 where "w4 = w3\<lparr>aw_memory := rows\<rparr>"
    have mem: "world_memory (mem_write h (e 2) (''agent_run.'' @ ?run @ ''.prompt'') [(''prompt'', PStr prompt)]
        (pr_id ?p) ''user request'' ''main'') w3 = (Inr entry, w4)"
      using wr(1) by (simp add: world_memory_def lift_r_def w4_def w3_def w2_def prompt_key_of_def)
    obtain b5 where p5: "run_publish act ?run session_id ''memory_stored''
        [(''key'', PStr (me_key entry)), (''version'', PInt (me_version entry))] w4 = (Inr (), w4\<lparr>aw_bus := b5\<rparr>)"
      using assms(1) by (rule run_publish_quiet)
    define w5 where "w5 = w4\<lparr>aw_bus := b5\<rparr>"
    define skills where "skills = take 1 (classify_skills prompt)"
    define task where "task = run_task (e 3) ?run prompt skills"
    define st where "st = submit (e 4) task (aw_orchestrator w)"
    have task: "tk_id task = new_id ''task'' (e 3)" "tk_status task = QUEUED" "tk_assignee task = None"
      by (simp_all add: task_def run_task_def)
    have "work_ok st" unfolding st_def using ok task by (intro work_ok_submit) auto
    moreover have "task_open (tk_id task) st" by (simp add: st_def submit_def Let_def task_open_def task)
    moreover have "dict_get (or_agents st) (new_id ''agt'' (e 6)) = None" using ok by (simp add: st_def submit_def Let_def)
    ultimately obtain agent st' where as: "assign_run e (tk_id task) ?run skills st = Inr (agent, st')" "work_ok st'"
        "task_open (tk_id task) st'" "\<forall>k. k \<noteq> tk_id task \<longrightarrow> dict_get (or_tasks st') k = dict_get (or_tasks st) k"
      by (rule assign_run_open)
    define w6 where "w6 = w5\<lparr>aw_orchestrator := st'\<rparr>"
    have pool: "world_pool (\<lambda>st. assign_run e (tk_id task) ?run skills (submit (e 4) task st)) w5 = (Inr agent, w6)"
      using as(1) by (simp add: world_pool_def lift_r_def w6_def w5_def w4_def w3_def w2_def st_def)
    obtain b7 where p7: "run_publish act ?run session_id ''task_assigned''
        [(''task_id'', PStr (tk_id task)), (''agent_id'', PStr (ag_id agent)), (''agent_name'', PStr (ag_name agent))] w6 =
        (Inr (), w6\<lparr>aw_bus := b7\<rparr>)"
      using assms(1) by (rule run_publish_quiet)
    define su where "su = \<lparr>su_run_id = ?run, su_agent_id = ag_id agent, su_agent_name = ag_name agent, su_agent_skills = ag_skills agent,
      su_model = model_for re (ag_type agent), su_task_id = tk_id task, su_started = env_time (e 0)\<rparr>"
    have "run_setup act h re e prompt session_id w = (Inr (Ready su), w6\<lparr>aw_bus := b7\<rparr>)"
      unfolding run_setup_def Let_def skills_def [symmetric] task_def [symmetric]
      using p1 ev p3 True mem p5 pool p7 by (simp add: w3_def w5_def su_def)
    then show ?thesis
      by (rule ready)
        (use wr as task in \<open>simp_all add: su_def w6_def w5_def w4_def st_def submit_def Let_def\<close>)
  qed
qed

end
