(* ===== verification/Agent_Runner_Properties.thy ===== *)
theory Agent_Runner_Properties
  imports Agent_Runner_Proofs
begin

text \<open>
  A run of the public agent across the subsystems it composes: what it leaves in the memory store and
  in the pool, that the streamed run is the same run, and the order of the stages it publishes.
\<close>

section \<open>The endings of a run\<close>

lemma finish_failed_ok:
  assumes "quiet act" "work_ok (aw_orchestrator w)" "task_open (su_task_id su) (aw_orchestrator w)"
  obtains t w' where "finish_failed act e session_id su err w = (Inr (), w')" "aw_memory w' = aw_memory w"
    "work_ok (aw_orchestrator w')" "dict_get (or_tasks (aw_orchestrator w')) (su_task_id su) = Some t"
    "tk_status t = FAILED" "tk_result t = PDict [(''error'', PStr err)]"
    "\<forall>k. k \<noteq> su_task_id su \<longrightarrow> dict_get (or_tasks (aw_orchestrator w')) k = dict_get (or_tasks (aw_orchestrator w)) k"
proof -
  obtain t st where f: "finish FAILED (PDict [(''error'', PStr err)]) (e 8) (su_task_id su) 0 (aw_orchestrator w) = Inr (t, st)"
      "work_ok st" "dict_get (or_tasks st) (su_task_id su) = Some t" "tk_status t = FAILED" "tk_result t = PDict [(''error'', PStr err)]"
      "\<forall>k. k \<noteq> su_task_id su \<longrightarrow> dict_get (or_tasks st) k = dict_get (or_tasks (aw_orchestrator w)) k"
    using finish_open [OF assms(2,3)] by blast
  obtain b where "run_publish act (su_run_id su) session_id ''failed'' [(''error'', PStr err)] (w\<lparr>aw_orchestrator := st\<rparr>) =
      (Inr (), w\<lparr>aw_orchestrator := st, aw_bus := b\<rparr>)"
    using assms(1) by (rule run_publish_quiet)
  with f(1) have "finish_failed act e session_id su err w = (Inr (), w\<lparr>aw_orchestrator := st, aw_bus := b\<rparr>)"
    by (simp add: finish_failed_def world_pool_def lift_r_def fail_task_def)
  then show ?thesis by (rule that) (use f in simp_all)
qed

lemma finish_answered_ok:
  assumes "quiet act" "work_ok (aw_orchestrator w)" "task_open (su_task_id su) (aw_orchestrator w)"
    and "store_ok (aw_memory w)" "pv_ok answer"
  obtains t entry w' where "finish_answered act h e session_id su answer w = (Inr (), w')" "appends entry (aw_memory w) (aw_memory w')"
    "me_key entry = ''agent_run.'' @ su_run_id su @ ''.answer''" "me_branch entry = ''main''" "me_value entry = [(''answer'', answer)]"
    "work_ok (aw_orchestrator w')" "dict_get (or_tasks (aw_orchestrator w')) (su_task_id su) = Some t"
    "tk_status t = COMPLETED" "tk_result t = PDict [(''answer'', answer)]"
    "\<forall>k. k \<noteq> su_task_id su \<longrightarrow> dict_get (or_tasks (aw_orchestrator w')) k = dict_get (or_tasks (aw_orchestrator w)) k"
proof -
  let ?key = "''agent_run.'' @ su_run_id su @ ''.answer''"
  obtain entry rows where wr: "mem_write h (e 8) ?key [(''answer'', answer)] (su_agent_id su) ''agent response'' ''main''
      (aw_memory w) = Inr (entry, rows)" "appends entry (aw_memory w) rows" "me_key entry = ?key" "me_branch entry = ''main''"
      "me_value entry = [(''answer'', answer)]"
    using write_appends [of "aw_memory w" "[(''answer'', answer)]" h "e 8" ?key "su_agent_id su" "''agent response''" "''main''"] assms(4,5)
    by (fastforce simp: pv_ok.simps)
  obtain t st where f: "finish COMPLETED (PDict [(''answer'', answer)]) (e 9) (su_task_id su) 0 (aw_orchestrator w) = Inr (t, st)"
      "work_ok st" "dict_get (or_tasks st) (su_task_id su) = Some t" "tk_status t = COMPLETED" "tk_result t = PDict [(''answer'', answer)]"
      "\<forall>k. k \<noteq> su_task_id su \<longrightarrow> dict_get (or_tasks st) k = dict_get (or_tasks (aw_orchestrator w)) k"
    using finish_open [OF assms(2,3)] by blast
  let ?w = "w\<lparr>aw_memory := rows, aw_orchestrator := st\<rparr>"
  obtain b where "run_publish act (su_run_id su) session_id ''completed'' [(''answer'', answer),
      (''duration_ms'', PFloat (duration_ms e su)), (''agent_name'', PStr (su_agent_name su))] ?w = (Inr (), ?w\<lparr>aw_bus := b\<rparr>)"
    using assms(1) by (rule run_publish_quiet)
  with wr(1) f(1) have "finish_answered act h e session_id su answer w = (Inr (), ?w\<lparr>aw_bus := b\<rparr>)"
    by (simp add: finish_answered_def world_memory_def world_pool_def lift_r_def complete_task_def)
  then show ?thesis by (rule that) (use wr f in simp_all)
qed

section \<open>Every run settles its task\<close>

definition settled :: "(nat \<Rightarrow> env) \<Rightarrow> agent_run_result \<Rightarrow> ('h, 'z, 'm) agent_world_scheme \<Rightarrow> ('h, 'z, 'm) agent_world_scheme \<Rightarrow> bool" where
  \<comment> \<open>the outcomes of a run that started in \<open>w\<close> and ended in \<open>w'\<close>\<close>
  "settled e r w w' \<longleftrightarrow>
     (case rn_task_id r of
        None \<Rightarrow> rn_status r = ''denied'' \<and> aw_memory w' = aw_memory w \<and> aw_orchestrator w' = aw_orchestrator w
      | Some tid \<Rightarrow>
          tid = new_id ''task'' (e 3) \<and>
          (\<exists>t. dict_get (or_tasks (aw_orchestrator w')) tid = Some t \<and>
             (rn_status r = ''completed'' \<and> tk_status t = COMPLETED \<and> tk_result t = PDict [(''answer'', rn_answer r)] \<and>
                map me_value (mem_history (answer_key_of e) ''main'' (aw_memory w')) =
                  map me_value (mem_history (answer_key_of e) ''main'' (aw_memory w)) @ [[(''answer'', rn_answer r)]] \<or>
              rn_status r = ''failed'' \<and> tk_status t = FAILED \<and>
                mem_history (answer_key_of e) ''main'' (aw_memory w') = mem_history (answer_key_of e) ''main'' (aw_memory w))) \<and>
          (\<forall>k. k \<noteq> tid \<longrightarrow> dict_get (or_tasks (aw_orchestrator w')) k = dict_get (or_tasks (aw_orchestrator w)) k))"

lemma run_keys [simp]: "prompt_key_of e \<noteq> answer_key_of e"
  by (simp add: prompt_key_of_def answer_key_of_def)

text \<open>
  C9. A run that the provider answers or refuses settles its task: a denied request touches neither
  the memory nor the pool; any other leaves one new task behind, completed with the answer, which is
  also written once to the memory, or failed, with no answer written. No other task changes, the
  memory only grows, and the pool keeps conserving work.
\<close>
theorem run_settles:
  assumes "quiet act" "run_ready e w"
    and "\<And>system model err. call_llm http (re_llm re) prompt system 1200 model key provider \<noteq> Inl (Other_error err)"
  shows "\<exists>r w'. run_agent act h http re e prompt session_id key provider w = (Inr r, w') \<and> settled e r w w' \<and>
    rn_run_id r = new_id ''run'' (e 0) \<and> prefix (aw_memory w) (aw_memory w') \<and> store_ok (aw_memory w') \<and> work_ok (aw_orchestrator w')"
proof (cases rule: setup_cases [OF assms(1,2), of h re prompt session_id, case_names denied ready])
  case (denied res w1)
  then have "run_agent act h http re e prompt session_id key provider w = (Inr res, w1)" by (simp add: run_agent_def)
  with denied assms(2) show ?thesis by (simp add: settled_def run_ready_def)
next
  case (ready su w1 entry)
  obtain b where b: "run_publish act (su_run_id su) session_id ''thinking'' [(''agent_name'', PStr (su_agent_name su))] w1 =
      (Inr (), w1\<lparr>aw_bus := b\<rparr>)"
    using assms(1) by (rule run_publish_quiet)
  let ?w2 = "w1\<lparr>aw_bus := b\<rparr>"
  let ?call = "call_llm http (re_llm re) prompt (system_prompt re (su_agent_skills su)) 1200 (Some (su_model su)) key provider"
  have w2: "work_ok (aw_orchestrator ?w2)" "task_open (su_task_id su) (aw_orchestrator ?w2)" "store_ok (aw_memory ?w2)"
    using ready by (simp_all add: appends_def)
  show ?thesis
  proof (cases ?call)
    case (Inr answer)
    obtain t entry' w3 where f: "finish_answered act h e session_id su answer ?w2 = (Inr (), w3)"
        "appends entry' (aw_memory ?w2) (aw_memory w3)" "me_key entry' = ''agent_run.'' @ su_run_id su @ ''.answer''"
        "me_branch entry' = ''main''" "me_value entry' = [(''answer'', answer)]" "work_ok (aw_orchestrator w3)"
        "dict_get (or_tasks (aw_orchestrator w3)) (su_task_id su) = Some t" "tk_status t = COMPLETED" "tk_result t = PDict [(''answer'', answer)]"
        "\<forall>k. k \<noteq> su_task_id su \<longrightarrow> dict_get (or_tasks (aw_orchestrator w3)) k = dict_get (or_tasks (aw_orchestrator ?w2)) k"
      using finish_answered_ok [OF assms(1) w2 call_llm_ok [OF Inr], of h e session_id] by metis
    define r where "r = (run_result (su_run_id su) ''completed'' prompt)\<lparr>rn_answer := answer, rn_task_id := Some (su_task_id su),
      rn_agent_name := Some (su_agent_name su), rn_duration_ms := duration_ms e su\<rparr>"
    have "run_agent act h http re e prompt session_id key provider w = (Inr r, w3)"
      using ready(1) b Inr f(1) by (simp add: run_agent_def r_def)
    moreover have "settled e r w w3"
      using ready f by (simp add: settled_def r_def run_result_def appends_def answer_key_of_def)
        (simp add: prompt_key_of_def)
    ultimately show ?thesis
      using ready f by (intro exI [of _ r] exI [of _ w3]) (auto simp: r_def run_result_def appends_def prefix_def)
  next
    case (Inl err)
    then have other: "\<nexists>x. err = Other_error x" using assms(3) by metis
    obtain t w3 where f: "finish_failed act e session_id su (error_text err) ?w2 = (Inr (), w3)" "aw_memory w3 = aw_memory ?w2"
        "work_ok (aw_orchestrator w3)" "dict_get (or_tasks (aw_orchestrator w3)) (su_task_id su) = Some t" "tk_status t = FAILED"
        "\<forall>k. k \<noteq> su_task_id su \<longrightarrow> dict_get (or_tasks (aw_orchestrator w3)) k = dict_get (or_tasks (aw_orchestrator ?w2)) k"
      using finish_failed_ok [OF assms(1) w2(1,2), of e session_id "error_text err"] by metis
    define r where "r = (run_result (su_run_id su) ''failed'' prompt)\<lparr>rn_task_id := Some (su_task_id su), rn_error := Some (error_text err)\<rparr>"
    have "run_agent act h http re e prompt session_id key provider w = (Inr r, w3)"
      using ready(1) b Inl other f(1) by (cases err) (simp_all add: run_agent_def r_def)
    moreover have "settled e r w w3"
      using ready f by (simp add: settled_def r_def run_result_def appends_def)
    ultimately show ?thesis
      using ready f by (intro exI [of _ r] exI [of _ w3]) (auto simp: r_def run_result_def appends_def prefix_def)
  qed
qed

section \<open>The streamed run\<close>

definition same_answer :: "pyval llm_result \<Rightarrow> pyval generator \<Rightarrow> bool" where
  \<comment> \<open>a provider streams what it would answer in one piece, or fails with the same error\<close>
  "same_answer c s \<longleftrightarrow>
     (case c of Inl err \<Rightarrow> snd s = Some err
      | Inr v \<Rightarrow> snd s = None \<and> (\<exists>a. v = PStr a \<and> join_chunks (fst s) = Inr a))"

definition last_event :: "agent_run_result \<Rightarrow> (string, pyval) dict" where
  "last_event r =
     (if rn_status r = ''completed''
      then [(''type'', PStr ''done''), (''run_id'', PStr (rn_run_id r)), (''answer'', rn_answer r),
            (''duration_ms'', PFloat (rn_duration_ms r)), (''agent_name'', opt_str (rn_agent_name r))]
      else stop_event (rn_status r) (rn_run_id r) (rn_error r))"

lemma setup_denied: "run_setup act h re e prompt session_id w = (Inr (Denied r), w') \<Longrightarrow> rn_status r = ''denied''"
  by (auto simp: run_setup_def Let_def seq_r_Inr run_result_def split: if_splits)

definition stream_matches :: "agent_run_result result \<times> 'w \<Rightarrow> ((string, pyval) dict list \<times> unit result) \<times> 'w \<Rightarrow> bool" where
  \<comment> \<open>the stream of a run: its deltas join to the answer, its last event is the result, its world the same\<close>
  "stream_matches run stream \<longleftrightarrow> snd stream = snd run \<and>
     (case fst run of
        Inl err \<Rightarrow> snd (fst stream) = Inl err
      | Inr r \<Rightarrow> \<exists>chunks. fst stream = (map delta_event chunks @ [last_event r], Inr ()) \<and>
          (rn_status r = ''denied'' \<longrightarrow> chunks = []) \<and>
          (rn_status r = ''completed'' \<longrightarrow> (\<exists>a. rn_answer r = PStr a \<and> join_chunks chunks = Inr a)))"

text \<open>
  C11. Streaming changes nothing but the delivery: for a provider that streams what it would answer,
  a consumer that reads to the end gets deltas that join to the answer of the run in one piece and a
  last event with the same outcome, and both runs leave the same world behind, errors included.
\<close>
theorem stream_is_run:
  assumes "\<And>system model. same_answer (call_llm http (re_llm re) prompt system 1200 model key provider)
    (stream_llm open_stream (re_llm re) prompt system 1200 model key provider)"
  shows "stream_matches (run_agent act h http re e prompt session_id key provider w)
    (run_stream act h open_stream re e prompt session_id key provider None w)"
proof -
  obtain r w1 where begun: "run_setup act h re e prompt session_id w = (r, w1)" by fastforce
  show ?thesis
  proof (cases r)
    case (Inr outcome)
    show ?thesis
    proof (cases outcome)
      case (Denied res)
      with begun Inr setup_denied [of act h re e prompt session_id w res w1] show ?thesis
        by (simp add: stream_matches_def run_agent_def run_stream_def last_event_def)
    next
      case (Ready su)
      obtain p w2 where pub: "run_publish act (su_run_id su) session_id ''thinking'' [(''agent_name'', PStr (su_agent_name su))] w1 = (p, w2)"
        by fastforce
      let ?sys = "system_prompt re (su_agent_skills su)"
      obtain chunks fin where s: "stream_llm open_stream (re_llm re) prompt ?sys 1200 (Some (su_model su)) key provider = (chunks, fin)"
        by fastforce
      have same: "same_answer (call_llm http (re_llm re) prompt ?sys 1200 (Some (su_model su)) key provider) (chunks, fin)"
        using assms [of ?sys "Some (su_model su)"] s by simp
      show ?thesis
      proof (cases "call_llm http (re_llm re) prompt ?sys 1200 (Some (su_model su)) key provider")
        case (Inl err)
        obtain q w3 where q: "finish_failed act e session_id su (error_text err) w2 = (q, w3)" by fastforce
        from same Inl have "fin = Some err" by (simp add: same_answer_def)
        with begun Inr Ready pub s Inl q show ?thesis
          by (cases err; cases p; cases q)
            (auto simp: stream_matches_def run_agent_def run_stream_def last_event_def run_result_def)
      next
        case answer: (Inr v)
        with same obtain a where a: "v = PStr a" "join_chunks chunks = Inr a" "fin = None" by (auto simp: same_answer_def)
        obtain q w3 where q: "finish_answered act h e session_id su v w2 = (q, w3)" by fastforce
        with begun Inr Ready pub s answer a show ?thesis
          by (cases p; cases q)
            (auto simp: stream_matches_def run_agent_def run_stream_def last_event_def run_result_def done_event_def opt_str_def)
      qed
    qed
  qed (use begun in \<open>simp add: stream_matches_def run_agent_def run_stream_def\<close>)
qed

text \<open>
  A consumer that closes the stream after a delta ends the generator there: the task it started is
  neither completed nor failed.
\<close>
lemma closed_stream_leaves_task:
  assumes "quiet act" "run_ready e w" "run_setup act h re e prompt session_id w = (Inr (Ready su), w1)"
    and "\<And>system model. fst (stream_llm open_stream (re_llm re) prompt system 1200 model key provider) = chunks"
    and "0 < n" "n \<le> length chunks"
  shows "\<exists>w'. run_stream act h open_stream re e prompt session_id key provider (Some n) w = ((map delta_event (take n chunks), Inr ()), w') \<and>
    task_open (new_id ''task'' (e 3)) (aw_orchestrator w')"
proof -
  obtain b where b: "run_publish act (su_run_id su) session_id ''thinking'' [(''agent_name'', PStr (su_agent_name su))] w1 =
      (Inr (), w1\<lparr>aw_bus := b\<rparr>)"
    using assms(1) by (rule run_publish_quiet)
  have "task_open (new_id ''task'' (e 3)) (aw_orchestrator w1)"
    by (cases rule: setup_cases [OF assms(1,2), of h re prompt session_id, case_names denied ready]) (use assms(3) in auto)
  moreover obtain fin where "stream_llm open_stream (re_llm re) prompt (system_prompt re (su_agent_skills su)) 1200 (Some (su_model su))
      key provider = (chunks, fin)"
    using assms(4) by (metis prod.collapse)
  ultimately show ?thesis using assms(3,5,6) b by (simp add: run_stream_def take_map)
qed

section \<open>The published stages\<close>

definition loyal :: "('h, 'z) handler_effect \<Rightarrow> bool" where
  \<comment> \<open>no handler rewrites the record of what was published\<close>
  "loyal act \<longleftrightarrow> (\<forall>h subject payload b. bus_published (snd (act h subject payload b)) = bus_published b)"

definition published_subjects :: "('h, 'z, 'm) agent_world_scheme \<Rightarrow> string list option" where
  "published_subjects w = map_option (\<lambda>b. map fst (bus_published b)) (aw_bus w)"

lemma deliver_loyal: "loyal act \<Longrightarrow> bus_published (snd (deliver act hs subject payload b)) = bus_published b"
proof (induction hs arbitrary: b)
  case (Cons x hs)
  obtain r b' where "act x subject payload b = (r, b')" by fastforce
  moreover from this Cons.prems have "bus_published b' = bus_published b" unfolding loyal_def by (metis snd_conv)
  ultimately show ?case using Cons by (cases r) auto
qed simp

lemma run_publish_subjects:
  assumes "loyal act" "run_publish act run_id session_id stage payload w = (r, w')"
  shows "published_subjects w' = map_option (\<lambda>ss. ss @ [stage_subject run_id stage]) (published_subjects w)"
proof (cases "aw_bus w")
  case (Some b)
  let ?p = "dict_merge [(''session_id'', PStr session_id)] payload" and ?s = "stage_subject run_id stage"
  have "bus_published (snd (bus_publish act ?s ?p b)) = bus_published b @ [(?s, ?p)]"
    by (simp add: bus_publish_def deliver_loyal [OF assms(1)])
  then show ?thesis using assms(2) Some by (auto simp: run_publish_def world_publish_def published_subjects_def split: prod.splits)
qed (use assms(2) in \<open>simp add: run_publish_def world_publish_def published_subjects_def\<close>)

lemma world_subjects:
  "world_policy f w = (r, w') \<Longrightarrow> published_subjects w' = published_subjects w"
  "world_memory g w = (s, w') \<Longrightarrow> published_subjects w' = published_subjects w"
  "world_pool k w = (t, w') \<Longrightarrow> published_subjects w' = published_subjects w"
  by (auto simp: world_policy_def world_memory_def world_pool_def lift_r_def published_subjects_def split: sum.splits)

definition run_stages :: "string \<Rightarrow> string list" where
  "run_stages status =
     (if status = ''denied'' then [''started'', ''policy_evaluated'', ''denied'']
      else [''started'', ''policy_evaluated'', ''memory_stored'', ''task_assigned'', ''thinking'', status])"

lemma setup_stages:
  assumes "loyal act" "run_setup act h re e prompt session_id w = (Inr outcome, w')"
  shows "case outcome of
      Denied r \<Rightarrow> rn_status r = ''denied'' \<and> rn_run_id r = new_id ''run'' (e 0) \<and> published_subjects w' =
        map_option (\<lambda>ss. ss @ map (stage_subject (rn_run_id r)) [''started'', ''policy_evaluated'', ''denied'']) (published_subjects w)
    | Ready su \<Rightarrow> su_run_id su = new_id ''run'' (e 0) \<and> published_subjects w' =
        map_option (\<lambda>ss. ss @ map (stage_subject (su_run_id su)) [''started'', ''policy_evaluated'', ''memory_stored'', ''task_assigned'']) (published_subjects w)"
  using assms(2)
  by (auto simp: run_setup_def Let_def seq_r_Inr run_result_def option.map_comp o_def
      dest!: run_publish_subjects [OF assms(1)] world_subjects split: if_splits)

text \<open>
  A run publishes its stages in one order, each once: denied after the policy decision, or
  through the memory, the assignment and the call of the provider to the outcome it returns.
\<close>
theorem run_stages_in_order:
  assumes "loyal act" "run_agent act h http re e prompt session_id key provider w = (Inr r, w')"
  shows "published_subjects w' =
    map_option (\<lambda>ss. ss @ map (stage_subject (rn_run_id r)) (run_stages (rn_status r))) (published_subjects w)"
proof -
  obtain outcome w1 where s: "run_setup act h re e prompt session_id w = (Inr outcome, w1)"
    using assms(2) by (auto simp: run_agent_def seq_r_Inr)
  note st = setup_stages [OF assms(1) s]
  show ?thesis
  proof (cases outcome)
    case (Denied res)
    with assms(2) s st show ?thesis by (simp add: run_agent_def run_stages_def)
  next
    case (Ready su)
    let ?call = "call_llm http (re_llm re) prompt (system_prompt re (su_agent_skills su)) 1200 (Some (su_model su)) key provider"
    note defs = run_agent_def seq_r_Inr finish_failed_def finish_answered_def run_stages_def run_result_def option.map_comp o_def
    show ?thesis
    proof (cases ?call)
      case (Inl err)
      with assms(2) s st Ready show ?thesis
        by (cases err) (auto simp: defs dest!: run_publish_subjects [OF assms(1)] world_subjects)
    next
      case (Inr answer)
      with assms(2) s st Ready show ?thesis
        by (auto simp: defs dest!: run_publish_subjects [OF assms(1)] world_subjects)
    qed
  qed
qed

section \<open>A sample run\<close>

definition quiet_act :: "(unit, unit) handler_effect" where
  "quiet_act h subject payload b = (Inr (), b)"

definition sample_run_world :: "(unit, unit) agent_world" where
  "sample_run_world = \<lparr>aw_policy = (new_policy_engine make_seed_rules, None), aw_memory = [], aw_orchestrator = sample_pool,
     aw_bus = Some new_bus\<rparr>"

definition run_envs :: "nat \<Rightarrow> env" where
  "run_envs i = pool_env (real i) (show_nat i)"

definition sample_runner_env :: runner_env where
  "sample_runner_env = \<lparr>re_llm = \<lparr>le_anthropic_key = ''k'', le_openai_key = [], le_openai_model = None, le_anthropic_model = None\<rparr>,
     re_model_haiku = None, re_model_sonnet = None, re_athens = ''Monday''\<rparr>"

definition sample_reply :: "http_request \<Rightarrow> http_reply" where
  "sample_reply req = Body (json_dumps (PDict [(''content'', PList [PDict [(''text'', PStr ''hi'')]])]))"

definition sample_stream :: "http_request \<Rightarrow> stream_reply" where
  "sample_stream req = Lines (map (\<lambda>t. ''data: '' @ json_dumps (PDict
     [(''type'', PStr ''content_block_delta''), (''delta'', PDict [(''text'', PStr t)])])) [''h'', ''i''] @ [''data: [DONE]'']) Finished"

lemma sample_call: "call_llm sample_reply (re_llm sample_runner_env) prompt system 1200 model None None = Inr (PStr ''hi'')"
proof -
  have "json_loads (json_dumps (PDict [(''content'', PList [PDict [(''text'', PStr ''hi'')]])])) =
      Some (PDict [(''content'', PList [PDict [(''text'', PStr ''hi'')]])])" by code_simp
  then show ?thesis
    by (simp add: call_llm_def sample_runner_env_def own_key_def or_else_def call_anthropic_def post_json_def sample_reply_def
        and_then_def anthropic_answer_def get_of_def get_or_def)
qed

lemma sample_deltas: "stream_llm sample_stream (re_llm sample_runner_env) prompt system 1200 model None None = ([PStr ''h'', PStr ''i''], None)"
proof -
  have "run_events anthropic_delta (fst (sse_events (map (\<lambda>t. ''data: '' @ json_dumps (PDict
     [(''type'', PStr ''content_block_delta''), (''delta'', PDict [(''text'', PStr t)])])) [''h'', ''i''] @ [''data: [DONE]''], Finished))) None =
     ([PStr ''h'', PStr ''i''], None)" by code_simp
  then show ?thesis
    by (simp add: stream_llm_def sample_runner_env_def own_key_def or_else_def stream_anthropic_def open_sse_stream_def
        sample_stream_def stream_from_def sse_events_def end_error_def)
qed

lemma sample_run_ready: "quiet quiet_act" "run_ready run_envs sample_run_world"
proof -
  show "quiet quiet_act" by (simp add: quiet_def quiet_act_def)
  have "work_ok sample_pool" by (simp add: sample_pool_def work_ok_new)
  then show "run_ready run_envs sample_run_world"
    using seed_comparing
    by (simp add: run_ready_def sample_run_world_def sample_pool_def new_orchestrator_def)
qed

lemma run_settles_witness:
  "\<exists>r w'. run_agent quiet_act (\<lambda>_. []) sample_reply sample_runner_env run_envs ''hello'' ''s1'' None None sample_run_world = (Inr r, w') \<and>
     settled run_envs r sample_run_world w'"
  using run_settles [OF sample_run_ready, of sample_reply sample_runner_env "''hello''" None None "\<lambda>_. []" "''s1''"]
  by (simp add: sample_call) blast

lemma stream_is_run_witness:
  "stream_matches (run_agent quiet_act (\<lambda>_. []) sample_reply sample_runner_env run_envs ''hello'' ''s1'' None None sample_run_world)
    (run_stream quiet_act (\<lambda>_. []) sample_stream sample_runner_env run_envs ''hello'' ''s1'' None None None sample_run_world)"
  by (rule stream_is_run) (simp add: sample_call sample_deltas same_answer_def)

definition locked_world :: "(unit, unit) agent_world" where
  "locked_world = sample_run_world\<lparr>aw_policy := (set_lockdown True (new_policy_engine []), None)\<rparr>"

lemma run_stages_in_order_witness:
  "\<exists>r w'. run_agent quiet_act (\<lambda>_. []) sample_reply sample_runner_env run_envs ''hello'' ''s1'' None None locked_world = (Inr r, w') \<and>
     published_subjects w' = Some (map (stage_subject (rn_run_id r)) (run_stages (rn_status r)))"
proof -
  obtain r w' where run: "run_agent quiet_act (\<lambda>_. []) sample_reply sample_runner_env run_envs ''hello'' ''s1'' None None locked_world =
      (Inr r, w')"
    by (simp add: run_agent_def run_setup_def locked_world_def sample_run_world_def run_publish_def world_publish_def bus_publish_def new_bus_def
        receivers_def Let_def world_policy_def lift_r_def evaluate_def set_lockdown_def new_policy_engine_def is_admin_def
        web_principal_def policy_log_def)
  have "loyal quiet_act" by (simp add: loyal_def quiet_act_def)
  from run_stages_in_order [OF this run] run show ?thesis
    by (simp add: published_subjects_def locked_world_def sample_run_world_def new_bus_def)
qed

end
