(* ===== verification/Reflection_Properties.thy ===== *)
theory Reflection_Properties
  imports Reflection Agent_Runner_Properties Evolution_Properties
begin

text \<open>
  What a self-review cycle can change: whatever the provider answers, it proposes at most, and it
  leaves the pool, the rules and every earlier proposal alone.
\<close>

declare map_of_eq_Some_iff [simp del] Some_eq_map_of_iff [simp del]

section \<open>The parts a step leaves alone\<close>

definition proposes :: "reflection_result result \<Rightarrow> evolution_engine \<Rightarrow> evolution_engine \<Rightarrow> bool" where
  \<comment> \<open>the engine as it was, or with one new proposal that nobody has measured\<close>
  "proposes r eng eng' \<longleftrightarrow>
     eng' = eng \<and> (\<forall>res. r = Inr res \<longrightarrow> rf_proposal_id res = None \<and> rf_status res \<noteq> ''proposed'') \<or>
     (\<exists>p. eng' = eng\<lparr>evo_proposals := evo_proposals eng @ [p]\<rparr> \<and> ep_status p = ''proposed'' \<and> ep_domain p \<in> set DOMAINS \<and>
        (\<forall>res. r = Inr res \<longrightarrow> rf_proposal_id res = Some (ep_id p) \<and> rf_status res = ''proposed''))"

definition world_kept :: "('h, 'z, 'm) reflect_world_scheme \<Rightarrow> ('h, 'z, 'm) reflect_world_scheme \<Rightarrow> bool" where
  \<comment> \<open>nothing but the log of decisions, the usage, the bus and the end of the memory differs\<close>
  "world_kept w w' \<longleftrightarrow> aw_orchestrator w' = aw_orchestrator w \<and> rw_evolution w' = rw_evolution w \<and>
     reflect_world.more w' = reflect_world.more w \<and> prefix (aw_memory w) (aw_memory w') \<and>
     pe_rules (fst (aw_policy w')) = pe_rules (fst (aw_policy w)) \<and> pe_limits (fst (aw_policy w')) = pe_limits (fst (aw_policy w)) \<and>
     pe_lockdown (fst (aw_policy w')) = pe_lockdown (fst (aw_policy w))"

lemma world_kept_refl [simp]: "world_kept w w"
  by (simp add: world_kept_def)

lemma world_kept_trans: "world_kept w1 w2 \<Longrightarrow> world_kept w2 w3 \<Longrightarrow> world_kept w1 w3"
  by (auto simp: world_kept_def prefix_def)

lemma learn_publish_kept: "learn_publish act run_id stage payload w = (r, w') \<Longrightarrow> world_kept w w'"
  by (auto simp: learn_publish_def world_publish_def world_kept_def split: option.splits prod.splits)

lemma policy_kept: "world_policy (evaluate env p action res cost calls) w = (r, w') \<Longrightarrow> world_kept w w'"
  by (auto simp: world_policy_def lift_r_def world_kept_def logs_def dest!: evaluate_logs split: sum.splits)

lemma memory_kept: "world_memory (mem_write h env key v agent reason branch) w = (r, w') \<Longrightarrow> world_kept w w'"
  by (auto simp: world_memory_def lift_r_def world_kept_def mem_write_def Let_def dest!: mem_insert_prefix split: sum.splits)

lemma publish_cases:
  assumes "seq_r (learn_publish act run_id stage payload w) (\<lambda>_ w1. (Inr res, w1)) = (r, w')"
  shows "world_kept w w' \<and> (r = Inr res \<or> (\<exists>err. r = Inl err))"
proof -
  obtain p w1 where p: "learn_publish act run_id stage payload w = (p, w1)" by fastforce
  with assms learn_publish_kept [OF p] show ?thesis by (cases p) auto
qed

definition only_proposes :: "('h, 'z, 'm) reflect_world_scheme \<Rightarrow> reflection_result result \<Rightarrow> ('h, 'z, 'm) reflect_world_scheme \<Rightarrow> bool" where
  "only_proposes w r w' \<longleftrightarrow> world_kept w (w'\<lparr>rw_evolution := rw_evolution w\<rparr>) \<and> proposes r (rw_evolution w) (rw_evolution w')"

lemma kept_proposes: "world_kept w w' \<Longrightarrow> (\<And>res. r = Inr res \<Longrightarrow> rf_proposal_id res = None \<and> rf_status res \<noteq> ''proposed'') \<Longrightarrow>
    only_proposes w r w'"
  by (auto simp: only_proposes_def proposes_def world_kept_def)

lemma only_proposes_after:
  assumes "world_kept w w1" "only_proposes w1 r w'"
  shows "only_proposes w r w'"
  using assms by (auto simp: only_proposes_def world_kept_def prefix_def)

lemma reflect_answer_proposes:
  assumes "reflect_answer act e run_id snapshot raw parsed w = (r, w')"
  shows "only_proposes w r w'"
proof (cases parsed)
  case None
  with assms show ?thesis
    by (intro kept_proposes) (auto simp: reflect_answer_def reflection_of_def dest!: publish_cases)
next
  case (Some d)
  show ?thesis
  proof (cases "truthy (get_or d ''has_proposal'' PNone)")
    case False
    with Some assms show ?thesis
      by (intro kept_proposes) (auto simp: reflect_answer_def reflection_of_def dest!: publish_cases)
  next
    case True
    show ?thesis
    proof (cases "propose_parsed (e 3) d (rw_evolution w)")
      case (Inl err)
      with Some True assms show ?thesis
        by (intro kept_proposes) (auto simp: reflect_answer_def reflection_of_def dest!: publish_cases split: option.splits)
    next
      case (Inr pe)
      obtain p eng where pe: "pe = (p, eng)" by fastforce
      with Inr have new: "eng = (rw_evolution w)\<lparr>evo_proposals := evo_proposals (rw_evolution w) @ [p]\<rparr>" "ep_status p = ''proposed''"
          "ep_domain p \<in> set DOMAINS"
        unfolding propose_parsed_def by (auto dest: evo_propose_Inr)
      from Some True Inr pe assms have "world_kept (w\<lparr>rw_evolution := eng\<rparr>) w' \<and>
          (\<forall>res. r = Inr res \<longrightarrow> rf_proposal_id res = Some (ep_id p) \<and> rf_status res = ''proposed'')"
        by (auto simp: reflect_answer_def reflection_of_def Let_def dest!: publish_cases)
      with new show ?thesis by (auto simp: only_proposes_def proposes_def world_kept_def)
    qed
  qed
qed

lemma reflect_reply_proposes:
  assumes "reflect_reply act h e run_id snapshot reply w = (r, w')"
  shows "only_proposes w r w'"
proof (cases "\<exists>raw. reply = Inr (PStr raw)")
  case True
  then obtain raw where raw: "reply = Inr (PStr raw)" by blast
  obtain m w1 where m: "world_memory (mem_write h (e 2) (''self_review.'' @ run_id @ ''.report'')
      (report_value snapshot raw (extract_json raw)) (pr_id learning_principal) ''scheduled self-review'' ''main'') w = (m, w1)"
    by fastforce
  note k = memory_kept [OF m]
  show ?thesis
  proof (cases m)
    case (Inl err)
    with assms raw m k show ?thesis by (intro kept_proposes) (auto simp: reflect_reply_def Let_def)
  next
    case (Inr entry)
    with assms raw m have "reflect_answer act e run_id snapshot raw (extract_json raw) w1 = (r, w')"
      by (simp add: reflect_reply_def Let_def)
    with k show ?thesis by (intro only_proposes_after [OF k reflect_answer_proposes])
  qed
next
  case False
  with assms show ?thesis
    by (intro kept_proposes)
      (auto simp: reflect_reply_def reflection_of_def dest!: publish_cases split: sum.splits llm_error.splits pyval.splits)
qed

text \<open>
  C26. A self-review only ever proposes: whatever the policy decides, the provider answers and the
  handlers of the bus do, a cycle leaves the pool, the rules, limits and lockdown and every recorded
  memory as they were, and adds to the Evolution Engine nothing, or one proposal of a known domain in
  the state \<open>proposed\<close>, which is exactly when it reports one.
\<close>
theorem reflection_only_proposes:
  assumes "reflection_cycle act h http le e w = (r, w')"
  shows "only_proposes w r w'"
proof -
  let ?run = "new_id ''reflect'' (e 0)"
  obtain d w1 where d: "world_policy (evaluate (e 1) learning_principal ''learning.reflect'' (Some reflect_resource) 0 1) w = (d, w1)"
    by fastforce
  note k1 = policy_kept [OF d]
  show ?thesis
  proof (cases "\<exists>decision. d = Inr decision \<and> pd_allowed decision")
    case False
    with assms d k1 show ?thesis
      by (intro kept_proposes) (cases d; auto simp: reflection_cycle_def Let_def reflection_of_def split: if_splits)+
  next
    case True
    define snapshot where "snapshot = fleet_snapshot (aw_orchestrator w1) (fst (aw_policy w1))"
    obtain p w2 where p: "learn_publish act ?run ''started'' [(''snapshot'', PDict snapshot)] w1 = (p, w2)" by fastforce
    note k2 = world_kept_trans [OF k1 learn_publish_kept [OF p]]
    from True assms d p have run: "(case p of Inl err \<Rightarrow> (Inl err, w2)
        | Inr _ \<Rightarrow> reflect_reply act h e ?run snapshot (call_llm http le (snapshot_prompt snapshot) REFLECT_PROMPT 500 None None None) w2) = (r, w')"
      by (cases p) (auto simp: reflection_cycle_def Let_def simp flip: snapshot_def)
    show ?thesis
    proof (cases p)
      case (Inl err)
      with run k2 show ?thesis by (intro kept_proposes) auto
    next
      case (Inr u)
      with run show ?thesis by (auto intro: only_proposes_after [OF k2 reflect_reply_proposes])
    qed
  qed
qed

section \<open>Who may apply a proposal\<close>

lemma seed_admin_rules:
  "filter_r (\<lambda>rule. rule_matches rule \<lparr>pr_id = ''evolution'', pr_roles = [''system.admin''], pr_groups = [], pr_attributes = []\<rparr>
     ''evolution.apply'' r) make_seed_rules = Inr [seed_rule ''rule_allow_evolution_apply'' ''evolution.*'' ''ALLOW'' [''system.admin''] 75]"
  by (simp add: make_seed_rules_def seed_rule_def rule_matches_def action_matches_def startswith_def)

text \<open>
  Under the seed rules the executor's own check always passes: it evaluates the action for a principal
  of its own with the role of an administrator, whoever called it.
\<close>
lemma executor_admits_itself:
  assumes "xe_policy ex = Some st" "pe_rules (fst st) = make_seed_rules" "pe_limits (fst st) = []"
    and "xe_approver_role ex = ''system.admin''"
  shows "fst (check_policy env target ex) = Inr ()"
proof -
  let ?p = "\<lparr>pr_id = ''evolution'', pr_roles = [''system.admin''], pr_groups = [], pr_attributes = []\<rparr>"
  let ?r = "\<lparr>rs_type = ''evolution'', rs_attributes = [(''target'', PStr target)]\<rparr>"
  have "check_limits (env_time env) (fst st) ?p 0 1 = default_limit_status"
    by (simp add: check_limits_def assms(3) limit_windows_def)
  then have "\<exists>d st'. evaluate env ?p ''evolution.apply'' (Some ?r) 0 1 st = Inr (d, st') \<and> pd_allowed d"
    using seed_admin_rules [of ?r]
    by (simp add: evaluate_def Let_def assms(2) is_admin_def py_sorted_desc_def seed_rule_def is_deny_def is_allow_def
        evaluate_allow_def policy_log_def default_limit_status_def is_exempt_def)
  then show ?thesis using assms(1,4) by (auto simp: check_policy_def)
qed

section \<open>A sample cycle\<close>

definition sample_proposal_reply :: "http_request \<Rightarrow> http_reply" where
  "sample_proposal_reply req = Body (json_dumps (PDict [(''content'', PList [PDict [(''text'', PStr (json_dumps (PDict
     [(''has_proposal'', PBool True), (''domain'', PStr ''routing''), (''title'', PStr ''t'')])))]])]))"

definition sample_reflect_world :: "(unit, unit) reflect_world" where
  "sample_reflect_world = \<lparr>aw_policy = (new_policy_engine make_seed_rules, None), aw_memory = [], aw_orchestrator = sample_pool,
     aw_bus = None, rw_evolution = new_evolution_engine (1 / 20) None\<rparr>"

lemma reflection_only_proposes_witness:
  "\<exists>r w'. reflection_cycle quiet_act (\<lambda>_. []) sample_proposal_reply (re_llm sample_runner_env) run_envs sample_reflect_world = (r, w') \<and>
     aw_orchestrator w' = sample_pool \<and> (\<forall>p \<in> set (evo_proposals (rw_evolution w')). ep_status p = ''proposed'')"
proof -
  obtain r w' where run: "reflection_cycle quiet_act (\<lambda>_. []) sample_proposal_reply (re_llm sample_runner_env) run_envs sample_reflect_world = (r, w')"
    by fastforce
  from reflection_only_proposes [OF run] run show ?thesis
    by (auto simp: only_proposes_def proposes_def world_kept_def sample_reflect_world_def new_evolution_engine_def)
qed

end
