(* ===== verification/Predictor.thy ===== *)
theory Predictor
  imports Simulation
begin

text \<open>
  \<open>omni/simulation/predictor.py\<close>: the failure predictor, its features, its two backends, the
  prediction and the model file. scikit-learn's forest is an argument (\<open>forest\<close>), as are the parsing
  of texts by \<open>float\<close> and \<open>int\<close> and the draws of the random source; the logistic fallback is
  modelled over the reals. The lock only serialises the calls.
\<close>

section \<open>Features\<close>

definition FEATURE_NAMES :: "string list" where
  "FEATURE_NAMES = [''domain_idx'', ''size'', ''irreversible'', ''sensitive'', ''steps'', ''effects'', ''duration_s'']"

definition RISK_LEVELS :: "(real \<times> string) list" where
  "RISK_LEVELS = [(15 / 100, ''low''), (4 / 10, ''medium''), (7 / 10, ''high''), (101 / 100, ''critical'')]"

record parsers =
  pa_float :: "string \<Rightarrow> real option"
  pa_int :: "string \<Rightarrow> int option"

definition py_int :: "(string \<Rightarrow> int option) \<Rightarrow> pyval \<Rightarrow> int result" where
  \<comment> \<open>\<open>int(v)\<close>, towards zero\<close>
  "py_int parse v = (case v of
     PStr s \<Rightarrow> (case parse s of None \<Rightarrow> Inl (ValueError ''invalid literal for int()'') | Some i \<Rightarrow> Inr i)
   | PInt i \<Rightarrow> Inr i
   | PBool b \<Rightarrow> Inr (if b then 1 else 0)
   | PFloat x \<Rightarrow> Inr (if x < 0 then \<lceil>x\<rceil> else \<lfloor>x\<rfloor>)
   | _ \<Rightarrow> Inl TypeError)"

definition py_len :: "pyval \<Rightarrow> int result" where
  "py_len v = (case v of PStr s \<Rightarrow> Inr (int (length s)) | PList xs \<Rightarrow> Inr (int (length xs))
     | PDict d \<Rightarrow> Inr (int (length d)) | _ \<Rightarrow> Inl TypeError)"

definition items_of :: "pyval \<Rightarrow> pyval list result" where
  "items_of v = (case py_iter v of None \<Rightarrow> Inl TypeError | Some xs \<Rightarrow> Inr xs)"

definition sum_r :: "('a \<Rightarrow> 'n result) \<Rightarrow> 'a list \<Rightarrow> 'n::comm_monoid_add result" where
  \<comment> \<open>\<open>sum(f(x) for x in xs)\<close>\<close>
  "sum_r f xs = then_r (map_r f xs) (\<lambda>ys. Inr (sum_list ys))"

definition domain_index :: "string list \<Rightarrow> string \<Rightarrow> nat" where
  "domain_index domains domain = (if domain \<in> set domains then length (takeWhile (\<lambda>d. d \<noteq> domain) domains) else 0)"

definition feature_vector :: "string list \<Rightarrow> string \<Rightarrow> real \<Rightarrow> bool \<Rightarrow> bool \<Rightarrow> int \<Rightarrow> int \<Rightarrow> real \<Rightarrow> real list" where
  "feature_vector domains domain sz reversible sensitive steps effects duration =
     [real (domain_index domains domain) / real (max (length domains) 1), min sz 3 / 3, (if reversible then 0 else 1),
      (if sensitive then 1 else 0), real_of_int (min steps 20) / 20, real_of_int (min effects 20) / 20,
      min duration 60000 / 60000]"

definition sample_features :: "parsers \<Rightarrow> string list \<Rightarrow> (string, pyval) dict \<Rightarrow> real list result" where
  "sample_features ps domains sample =
     then_r (py_float (pa_float ps) (get_or sample ''size'' (PFloat 1))) (\<lambda>sz.
     then_r (py_int (pa_int ps) (get_or sample ''num_steps'' (PInt 1))) (\<lambda>steps.
     then_r (py_int (pa_int ps) (get_or sample ''num_effects'' (PInt 0))) (\<lambda>effects.
     then_r (py_float (pa_float ps) (get_or sample ''duration_ms'' (PInt 0))) (\<lambda>duration.
       Inr (feature_vector domains (py_str (get_or sample ''domain'' (PStr []))) sz
         (truthy (get_or sample ''reversible'' (PBool True))) (truthy (get_or sample ''sensitive_data'' (PBool False)))
         steps effects duration)))))"

definition or_empty :: "pyval \<Rightarrow> pyval \<Rightarrow> pyval" where
  "or_empty v dflt = (if truthy v then v else dflt)"

definition step_effects :: "pyval \<Rightarrow> int result" where
  "step_effects s = then_r (need_dict s) (\<lambda>d. py_len (get_or d ''effects'' (PList [])))"

definition step_duration :: "parsers \<Rightarrow> pyval \<Rightarrow> real result" where
  "step_duration ps s = then_r (need_dict s) (\<lambda>d. py_float (pa_float ps) (get_or d ''duration_ms'' (PInt 0)))"

definition extract_features :: "parsers \<Rightarrow> string list \<Rightarrow> (string, pyval) dict \<Rightarrow> real list result" where
  "extract_features ps domains plan =
     (let params = or_empty (get_or plan ''params'' PNone) (PDict []);
          steps = or_empty (get_or plan ''steps'' PNone) (PList [])
      in then_r (need_dict params) (\<lambda>prm.
         then_r (py_float (pa_float ps) (get_or prm ''size'' (PFloat 1))) (\<lambda>sz.
         then_r (py_len steps) (\<lambda>n.
         then_r (items_of steps) (\<lambda>items.
         then_r (sum_r step_effects items) (\<lambda>effects.
         then_r (sum_r (step_duration ps) items) (\<lambda>duration.
           Inr (feature_vector domains (py_str (get_or plan ''domain'' (PStr []))) sz
             (truthy (get_or prm ''reversible'' (PBool True))) (truthy (get_or prm ''sensitive_data'' (PBool False)))
             n effects duration))))))))"

section \<open>The logistic fallback\<close>

definition sigmoid :: "real \<Rightarrow> real" where
  "sigmoid z = 1 / (1 + exp (- max (- 50) (min 50 z)))"

record logistic =
  lo_mean :: "real list"
  lo_std :: "real list"
  lo_w :: "real list"

definition score_of :: "real list \<Rightarrow> real list \<Rightarrow> real" where
  "score_of w r = w ! 0 + sum_list (map2 (*) (tl w) r)"

definition column_mean :: "real list list \<Rightarrow> nat \<Rightarrow> real" where
  "column_mean X i = sum_list (map (\<lambda>r. r ! i) X) / real (length X)"

definition column_std :: "real list list \<Rightarrow> real list \<Rightarrow> nat \<Rightarrow> real" where
  "column_std X mean i =
     (let s = sqrt (sum_list (map (\<lambda>r. (r ! i - mean ! i) ^ 2) X) / real (length X)) in if s > 1 / 10 ^ 9 then s else 1)"

definition standardise :: "real list \<Rightarrow> real list \<Rightarrow> real list \<Rightarrow> real list" where
  "standardise mean std r = map (\<lambda>i. (r ! i - mean ! i) / std ! i) [0..<length mean]"

definition descent_step :: "real \<Rightarrow> real list \<times> int \<Rightarrow> real list \<Rightarrow> real list" where
  "descent_step lr row w =
     (case row of (r, yi) \<Rightarrow>
        (let err = sigmoid (score_of w r) - of_int yi
         in fold (\<lambda>i w. w[i + 1 := w ! (i + 1) - lr * err * r ! i]) [0..<length w - 1] (w[0 := w ! 0 - lr * err])))"

definition fit_logistic :: "real list list \<Rightarrow> int list \<Rightarrow> nat \<Rightarrow> real \<Rightarrow> logistic" where
  "fit_logistic X y iters lr =
     (let d = length (X ! 0);
          mean = map (column_mean X) [0..<d];
          std = map (column_std X mean) [0..<d];
          rows = zip (map (standardise mean std) X) y
      in \<lparr>lo_mean = mean, lo_std = std, lo_w = (fold (descent_step lr) rows ^^ iters) (replicate (d + 1) 0)\<rparr>)"

definition logistic_proba :: "logistic \<Rightarrow> real list \<Rightarrow> real" where
  "logistic_proba lo r = sigmoid (score_of (lo_w lo) r)"

section \<open>Synthetic traces\<close>

record draw =
  dw_domain :: nat
  dw_size :: nat
  dw_reversible :: real
  dw_sensitive :: real
  dw_steps :: int
  dw_effects :: int
  dw_duration :: real
  dw_label :: real

definition SYNTHETIC_SIZES :: "real list" where
  "SYNTHETIC_SIZES = [2 / 10, 5 / 10, 1, 3 / 2, 5 / 2]"

definition domain_bias :: "(string, real) dict" where
  "domain_bias =
     [(''payment'', 12 / 100), (''db_migration'', 8 / 100), (''infra_change'', 5 / 100), (''email_campaign'', 4 / 100),
      (''refactor'', 4 / 100), (''file_delete'', 3 / 100), (''deploy'', 2 / 100), (''script_run'', 2 / 100)]"

definition failure_odds :: "string \<Rightarrow> real \<Rightarrow> bool \<Rightarrow> bool \<Rightarrow> int \<Rightarrow> real" where
  "failure_odds domain sz reversible sensitive num_effects =
     min (92 / 100) (6 / 100 + 12 / 100 * min sz 3 / 3 + 25 / 100 * (if sensitive then 1 else 0)
       + 20 / 100 * (if \<not> reversible then 1 else 0) + (case dict_get domain_bias domain of None \<Rightarrow> 3 / 100 | Some b \<Rightarrow> b)
       + 5 / 100 * (if num_effects \<ge> 8 then 1 else 0))"

definition synthetic_trace :: "string list \<Rightarrow> draw \<Rightarrow> (string, pyval) dict" where
  "synthetic_trace domains dw =
     (let domain = domains ! dw_domain dw; sz = SYNTHETIC_SIZES ! dw_size dw;
          reversible = dw_reversible dw < 7 / 10; sensitive = dw_sensitive dw < 25 / 100;
          p = failure_odds domain sz reversible sensitive (dw_effects dw)
      in [(''domain'', PStr domain), (''size'', PFloat sz), (''reversible'', PBool reversible), (''sensitive_data'', PBool sensitive),
          (''num_steps'', PInt (dw_steps dw)), (''num_effects'', PInt (dw_effects dw)),
          (''duration_ms'', PFloat (py_round (dw_duration dw) 1)), (''label'', PInt (if dw_label dw < p then 1 else 0))])"

definition default_domains :: "string list" where
  \<comment> \<open>\<open>sorted(SIMULATION_DOMAINS)\<close>\<close>
  "default_domains = sort (dict_keys SIMULATION_DOMAINS)"

definition generate_synthetic_traces :: "draw list \<Rightarrow> string list \<Rightarrow> (string, pyval) dict list" where
  "generate_synthetic_traces draws domains = map (synthetic_trace (if domains = [] then default_domains else domains)) draws"

section \<open>The predictor\<close>

record 'm forest =
  fo_available :: bool \<comment> \<open>scikit-learn can be imported\<close>
  fo_fit :: "int \<Rightarrow> real list list \<Rightarrow> int list \<Rightarrow> 'm"
  fo_proba :: "'m \<Rightarrow> real list \<Rightarrow> real list" \<comment> \<open>the row of class probabilities\<close>

datatype 'm model = Untrained | Forest 'm | Logistic logistic

record 'm predictor =
  fp_backend :: string
  fp_domains :: "string list"
  fp_seed :: int
  fp_is_trained :: bool
  fp_samples :: int
  fp_model :: "'m model"

definition resolve_backend :: "bool \<Rightarrow> string \<Rightarrow> string result" where
  "resolve_backend available backend =
     (if backend = ''auto'' then Inr (if available then ''sklearn'' else ''fallback'')
      else if backend \<notin> {''sklearn'', ''fallback''}
      then Inl (ValueError (''unknown backend '' @ quoted backend @ '' (auto | sklearn | fallback)''))
      else if backend = ''sklearn'' \<and> \<not> available
      then Inl (ValueError (''backend '' @ quoted ''sklearn'' @ '' requested but scikit-learn is not installed''))
      else Inr backend)"

definition new_predictor :: "bool \<Rightarrow> string \<Rightarrow> string list option \<Rightarrow> int \<Rightarrow> 'm predictor result" where
  "new_predictor available backend domains seed =
     then_r (resolve_backend available backend) (\<lambda>b. Inr \<lparr>fp_backend = b,
       fp_domains = (case domains of None \<Rightarrow> default_domains | Some ds \<Rightarrow> ds), fp_seed = seed, fp_is_trained = False,
       fp_samples = 0, fp_model = Untrained\<rparr>)"

definition trace_label :: "parsers \<Rightarrow> (string, pyval) dict \<Rightarrow> int result" where
  "trace_label ps t = (case dict_get t ''label'' of None \<Rightarrow> Inl (KeyError ''label'') | Some v \<Rightarrow> py_int (pa_int ps) v)"

definition train :: "'m forest \<Rightarrow> parsers \<Rightarrow> (string, pyval) dict list \<Rightarrow> 'm predictor \<Rightarrow> 'm predictor result" where
  "train fo ps traces p =
     (if traces = [] then Inl (ValueError ''no traces to train on'')
      else then_r (map_r (sample_features ps (fp_domains p)) traces) (\<lambda>X.
           then_r (map_r (trace_label ps) traces) (\<lambda>y.
             Inr (p\<lparr>fp_model := (if fp_backend p = ''sklearn'' then Forest (fo_fit fo (fp_seed p) X y)
                     else Logistic (fit_logistic X y 250 (15 / 100))),
                   fp_is_trained := True, fp_samples := int (length traces)\<rparr>))))"

definition model_proba :: "'m forest \<Rightarrow> 'm predictor \<Rightarrow> real list \<Rightarrow> real result" where
  \<comment> \<open>the row of a forest has one entry per class it was trained on\<close>
  "model_proba fo p v =
     (case fp_model p of
        Forest m \<Rightarrow> (if 1 < length (fo_proba fo m v) then Inr (fo_proba fo m v ! 1) else Inl IndexError)
      | Logistic lo \<Rightarrow> Inr (logistic_proba lo v)
      | Untrained \<Rightarrow> Inl AttributeError)"

definition risk_name :: "real \<Rightarrow> string" where
  "risk_name prob = (case find (\<lambda>(threshold, name). prob < threshold) RISK_LEVELS of None \<Rightarrow> ''critical'' | Some (_, name) \<Rightarrow> name)"

definition failure_catalog :: "string \<Rightarrow> string list" where
  "failure_catalog domain =
     (let known = (case dict_get SIMULATION_DOMAINS domain of None \<Rightarrow> [] | Some dm \<Rightarrow> dm_failures dm)
      in if known = [] then [''generic action failure'', ''timeout or partial state'', ''unexpected exception''] else known)"

definition predicted_of :: "string list \<Rightarrow> real \<Rightarrow> string list" where
  "predicted_of catalog prob = (if prob \<ge> 1 / 2 then take 3 catalog else if prob \<ge> 1 / 4 then take 2 catalog else [])"

record prediction =
  pn_trained :: bool
  pn_failure_probability :: real
  pn_risk_level :: string
  pn_predicted_failures :: "string list"
  pn_confidence :: real
  pn_features :: "(string, pyval) dict"

definition predict :: "'m forest \<Rightarrow> parsers \<Rightarrow> (string, pyval) dict \<Rightarrow> 'm predictor \<Rightarrow> prediction result" where
  "predict fo ps features p =
     (if \<not> fp_is_trained p
      then Inr \<lparr>pn_trained = False, pn_failure_probability = 0, pn_risk_level = ''low'', pn_predicted_failures = [],
        pn_confidence = 0, pn_features = features\<rparr>
      else then_r (map_r (\<lambda>name. py_float (pa_float ps) (get_or features name (PFloat 0))) FEATURE_NAMES) (\<lambda>v.
           then_r (model_proba fo p v) (\<lambda>raw.
             (let prob = py_round (max 0 (min 1 raw)) 4;
                  catalog = failure_catalog (py_str (get_or features ''domain'' (PStr [])))
              in Inr \<lparr>pn_trained = True, pn_failure_probability = prob, pn_risk_level = risk_name prob,
                   pn_predicted_failures = predicted_of catalog prob, pn_confidence = py_round (max prob (1 - prob)) 3,
                   pn_features = features\<rparr>))))"

record plan_prediction = prediction +
  pn_plan_name :: pyval
  pn_action :: pyval

definition plan_features :: "string \<Rightarrow> real list \<Rightarrow> (string, pyval) dict" where
  "plan_features domain extracted =
     fold (\<lambda>(name, x). dict_set name (PFloat x)) (zip FEATURE_NAMES extracted) [(''domain'', PStr domain)]"

definition predict_plan :: "'m forest \<Rightarrow> parsers \<Rightarrow> (string, pyval) dict \<Rightarrow> string \<Rightarrow> 'm predictor \<Rightarrow> plan_prediction result" where
  "predict_plan fo ps plan domain p =
     then_r (extract_features ps (fp_domains p) plan) (\<lambda>extracted.
     then_r (predict fo ps (plan_features domain extracted) p) (\<lambda>out.
       Inr (prediction.extend out \<lparr>pn_plan_name = get_or plan ''name'' PNone, pn_action = get_or plan ''action'' PNone\<rparr>)))"

definition plan_prediction_value :: "plan_prediction \<Rightarrow> pyval" where
  "plan_prediction_value r = PDict
     [(''trained'', PBool (pn_trained r)), (''failure_probability'', PFloat (pn_failure_probability r)),
      (''risk_level'', PStr (pn_risk_level r)), (''predicted_failures'', PList (map PStr (pn_predicted_failures r))),
      (''confidence'', PFloat (pn_confidence r)), (''features'', PDict (pn_features r)),
      (''plan_name'', pn_plan_name r), (''action'', pn_action r)]"

definition model_info :: "'m predictor \<Rightarrow> (string, pyval) dict" where
  "model_info p =
     [(''backend'', PStr (fp_backend p)), (''trained'', PBool (fp_is_trained p)), (''samples'', PInt (fp_samples p)),
      (''feature_names'', PList (map PStr FEATURE_NAMES)), (''domains'', PList (map PStr (fp_domains p)))]"

section \<open>The model file\<close>

text \<open>What \<open>save\<close> writes: the JSON object of the fallback, or the pickled dictionary of the forest.\<close>

datatype 'm model_file =
    JsonFile logistic "string list" bool int
  | PickleFile "'m model" "string list" bool int

definition save_model :: "'m predictor \<Rightarrow> 'm model_file result" where
  "save_model p =
     (if fp_backend p = ''fallback''
      then (case fp_model p of
          Logistic lo \<Rightarrow> Inr (JsonFile lo (fp_domains p) (fp_is_trained p) (fp_samples p))
        | _ \<Rightarrow> Inl AttributeError)
      else Inr (PickleFile (fp_model p) (fp_domains p) (fp_is_trained p) (fp_samples p)))"

definition load_model :: "'m model_file \<Rightarrow> 'm predictor \<Rightarrow> 'm predictor" where
  "load_model file p =
     (case file of
        JsonFile lo domains trained samples \<Rightarrow> p\<lparr>fp_backend := ''fallback'', fp_model := Logistic lo,
          fp_domains := domains, fp_is_trained := trained, fp_samples := samples\<rparr>
      | PickleFile m domains trained samples \<Rightarrow> p\<lparr>fp_backend := ''sklearn'', fp_model := m,
          fp_domains := domains, fp_is_trained := trained, fp_samples := samples\<rparr>)"

end
