(* ===== verification/Predictor_Properties.thy ===== *)
theory Predictor_Properties
  imports Predictor
begin

text \<open>
  Properties of the failure predictor: what a prediction may be, the agreement of the two feature
  extractions, training on the synthetic traces, the model file, and how much of a plan a
  prediction depends on.
\<close>

section \<open>Predictions\<close>

lemma sigmoid_range: "0 < sigmoid z \<and> sigmoid z < 1"
  by (simp add: sigmoid_def add_pos_pos)

lemma sigmoid_mono: "x \<le> y \<Longrightarrow> sigmoid x \<le> sigmoid y"
proof -
  assume "x \<le> y"
  then have "exp (- max (- 50) (min 50 y)) \<le> exp (- max (- 50) (min 50 x))" by simp
  moreover have "0 < 1 + exp (- max (- 50) (min 50 y))" by (simp add: add_pos_pos)
  ultimately show ?thesis unfolding sigmoid_def by (intro divide_left_mono mult_pos_pos) (auto simp: add_pos_pos)
qed

lemma py_round_decimal: "py_round (of_int i / 10 ^ n) n = of_int i / 10 ^ n"
  by (simp add: py_round_def)

lemma py_round_half_3: "1 / 2 \<le> x \<Longrightarrow> 1 / 2 \<le> py_round x 3"
  using py_round_mono [of "1 / 2" x 3] py_round_decimal [of 500 3] by simp

lemma risk_name_cases:
  "prob < 101 / 100 \<Longrightarrow> risk_name prob =
     (if prob < 15 / 100 then ''low'' else if prob < 4 / 10 then ''medium'' else if prob < 7 / 10 then ''high'' else ''critical'')"
  by (simp add: risk_name_def RISK_LEVELS_def)

lemma predictE:
  assumes "predict fo ps features p = Inr out" "fp_is_trained p"
  obtains raw prob where "prob = py_round (max 0 (min 1 raw)) 4" "pn_trained out" "pn_failure_probability out = prob"
    "pn_risk_level out = risk_name prob" "pn_features out = features"
    "pn_predicted_failures out = predicted_of (failure_catalog (py_str (get_or features ''domain'' (PStr [])))) prob"
    "pn_confidence out = py_round (max prob (1 - prob)) 3"
proof -
  obtain v raw where "model_proba fo p v = Inr raw" and out: "out = (let prob = py_round (max 0 (min 1 raw)) 4;
      catalog = failure_catalog (py_str (get_or features ''domain'' (PStr [])))
    in \<lparr>pn_trained = True, pn_failure_probability = prob, pn_risk_level = risk_name prob,
         pn_predicted_failures = predicted_of catalog prob, pn_confidence = py_round (max prob (1 - prob)) 3, pn_features = features\<rparr>)"
    using assms(1) by (simp only: predict_def assms(2) not_True_eq_False if_False then_r_Inr Let_def sum.inject) blast
  show thesis by (rule that) (simp_all only: out Let_def prediction.simps refl simp_thms)
qed

text \<open>
  C27. A prediction is a probability: between 0 and 1 whatever the backend answers, with the risk level
  of its band, a confidence between one half and 1, and as predicted failures the first three, two
  or none of the domain's catalogue; an untrained predictor predicts nothing with confidence 0.
\<close>

theorem prediction_bounds:
  assumes "predict fo ps features p = Inr out"
  shows "0 \<le> pn_failure_probability out \<and> pn_failure_probability out \<le> 1 \<and>
    pn_trained out = fp_is_trained p \<and> pn_features out = features \<and>
    (let prob = pn_failure_probability out; n = length (pn_predicted_failures out) in
     pn_risk_level out = (if prob < 15 / 100 then ''low'' else if prob < 4 / 10 then ''medium''
       else if prob < 7 / 10 then ''high'' else ''critical'') \<and>
     (if fp_is_trained p then 1 / 2 \<le> pn_confidence out else pn_confidence out = 0) \<and> pn_confidence out \<le> 1 \<and>
     prefix (pn_predicted_failures out) (failure_catalog (py_str (get_or features ''domain'' (PStr [])))) \<and>
     n \<le> (if prob \<ge> 1 / 2 then 3 else if prob \<ge> 1 / 4 then 2 else 0))"
proof (cases "fp_is_trained p")
  case False
  then have "out = \<lparr>pn_trained = False, pn_failure_probability = 0, pn_risk_level = ''low'', pn_predicted_failures = [],
      pn_confidence = 0, pn_features = features\<rparr>"
    using assms by (simp add: predict_def)
  with False show ?thesis by simp
next
  case True
  obtain raw prob where o: "prob = py_round (max 0 (min 1 raw)) 4" "pn_trained out" "pn_failure_probability out = prob"
    "pn_risk_level out = risk_name prob" "pn_features out = features"
    "pn_predicted_failures out = predicted_of (failure_catalog (py_str (get_or features ''domain'' (PStr [])))) prob"
    "pn_confidence out = py_round (max prob (1 - prob)) 3"
    using predictE [OF assms True] .
  have p: "0 \<le> prob" "prob \<le> 1" unfolding o(1) by (intro py_round_nonneg py_round_le_1; simp)+
  have "1 / 2 \<le> pn_confidence out" unfolding o(7) by (rule py_round_half_3) linarith
  moreover have "pn_confidence out \<le> 1" unfolding o(7) by (rule py_round_le_1) (use p in simp)
  moreover have "risk_name prob = (if prob < 15 / 100 then ''low'' else if prob < 4 / 10 then ''medium''
       else if prob < 7 / 10 then ''high'' else ''critical'')"
    by (rule risk_name_cases) (use p in simp)
  ultimately show ?thesis using True o(2-6) p by (simp add: Let_def predicted_of_def take_is_prefix)
qed

definition no_parsers :: parsers where
  "no_parsers = \<lparr>pa_float = \<lambda>_. None, pa_int = \<lambda>_. None\<rparr>"

definition sure_forest :: "unit forest" where
  \<comment> \<open>a provider that is certain of failure\<close>
  "sure_forest = \<lparr>fo_available = True, fo_fit = \<lambda>_ _ _. (), fo_proba = \<lambda>_ _. [0, 1]\<rparr>"

definition forest_predictor :: "unit predictor" where
  "forest_predictor = \<lparr>fp_backend = ''sklearn'', fp_domains = default_domains, fp_seed = 42, fp_is_trained = True,
     fp_samples = 3, fp_model = Forest ()\<rparr>"

lemma sure_forest_predicts:
  "\<exists>out. predict sure_forest no_parsers [(''domain'', PStr ''payment'')] forest_predictor = Inr out \<and>
     pn_failure_probability out = 1"
  by (simp add: predict_def forest_predictor_def sure_forest_def FEATURE_NAMES_def get_or_def py_float_def
      model_proba_def Let_def)

theorem prediction_bounds_witness:
  "\<exists>out. predict sure_forest no_parsers [(''domain'', PStr ''payment'')] forest_predictor = Inr out \<and>
     pn_failure_probability out = 1 \<and> pn_risk_level out = ''critical''"
proof -
  obtain out where o: "predict sure_forest no_parsers [(''domain'', PStr ''payment'')] forest_predictor = Inr out"
    "pn_failure_probability out = 1" using sure_forest_predicts by blast
  with prediction_bounds [OF o(1)] show ?thesis by (simp add: Let_def)
qed

section \<open>Features\<close>

definition plan_trace :: "parsers \<Rightarrow> (string, pyval) dict \<Rightarrow> (string, pyval) dict result" where
  \<comment> \<open>the execution trace that a plan amounts to, in the shape \<open>train\<close> takes\<close>
  "plan_trace ps plan =
     (let steps = or_empty (get_or plan ''steps'' PNone) (PList []) in
      then_r (need_dict (or_empty (get_or plan ''params'' PNone) (PDict []))) (\<lambda>prm.
      then_r (items_of steps) (\<lambda>items.
      then_r (sum_r step_effects items) (\<lambda>effects.
      then_r (sum_r (step_duration ps) items) (\<lambda>duration.
        Inr [(''domain'', get_or plan ''domain'' (PStr [])), (''size'', get_or prm ''size'' (PFloat 1)),
          (''reversible'', get_or prm ''reversible'' (PBool True)),
          (''sensitive_data'', get_or prm ''sensitive_data'' (PBool False)),
          (''num_steps'', PInt (int (length items))), (''num_effects'', PInt effects), (''duration_ms'', PFloat duration)])))))"

lemma items_of_len: "items_of v = Inr items \<Longrightarrow> py_len v = Inr (int (length items))"
  by (cases v) (auto simp: items_of_def py_len_def)

lemma py_len_items: "py_len v = Inr n \<Longrightarrow> \<exists>items. items_of v = Inr items \<and> n = int (length items)"
  by (cases v) (auto simp: items_of_def py_len_def)

lemma sample_features_trace:
  "sample_features ps domains [(''domain'', d), (''size'', z), (''reversible'', r), (''sensitive_data'', s),
      (''num_steps'', PInt n), (''num_effects'', PInt e), (''duration_ms'', PFloat t)] =
   then_r (py_float (pa_float ps) z) (\<lambda>sz. Inr (feature_vector domains (py_str d) sz (truthy r) (truthy s) n e t))"
  by (cases "py_float (pa_float ps) z") (simp_all add: sample_features_def get_or_def py_int_def, simp add: py_float_def)

lemma extract_is_sample:
  "extract_features ps domains plan = Inr x \<longleftrightarrow>
     (\<exists>t. plan_trace ps plan = Inr t \<and> sample_features ps domains t = Inr x)"
proof -
  let ?params = "or_empty (get_or plan ''params'' PNone) (PDict [])"
  let ?steps = "or_empty (get_or plan ''steps'' PNone) (PList [])"
  let ?vector = "\<lambda>prm sz n e t. feature_vector domains (py_str (get_or plan ''domain'' (PStr []))) sz
    (truthy (get_or prm ''reversible'' (PBool True))) (truthy (get_or prm ''sensitive_data'' (PBool False))) n e t"
  show ?thesis
  proof
    assume "extract_features ps domains plan = Inr x"
    then obtain prm sz n items effects duration where
      x: "need_dict ?params = Inr prm" "py_float (pa_float ps) (get_or prm ''size'' (PFloat 1)) = Inr sz"
      "py_len ?steps = Inr n" "items_of ?steps = Inr items" "sum_r step_effects items = Inr effects"
      "sum_r (step_duration ps) items = Inr duration" "x = ?vector prm sz n effects duration"
      unfolding extract_features_def Let_def then_r_Inr by blast
    moreover have "n = int (length items)" using items_of_len [OF x(4)] x(3) by simp
    ultimately show "\<exists>t. plan_trace ps plan = Inr t \<and> sample_features ps domains t = Inr x"
      by (simp add: plan_trace_def sample_features_trace)
  next
    assume "\<exists>t. plan_trace ps plan = Inr t \<and> sample_features ps domains t = Inr x"
    then obtain t prm items effects duration where
      t: "need_dict ?params = Inr prm" "items_of ?steps = Inr items" "sum_r step_effects items = Inr effects"
      "sum_r (step_duration ps) items = Inr duration" "sample_features ps domains t = Inr x"
      "t = [(''domain'', get_or plan ''domain'' (PStr [])), (''size'', get_or prm ''size'' (PFloat 1)),
          (''reversible'', get_or prm ''reversible'' (PBool True)),
          (''sensitive_data'', get_or prm ''sensitive_data'' (PBool False)),
          (''num_steps'', PInt (int (length items))), (''num_effects'', PInt effects), (''duration_ms'', PFloat duration)]"
      unfolding plan_trace_def Let_def then_r_Inr by blast
    from t(5) obtain sz where "py_float (pa_float ps) (get_or prm ''size'' (PFloat 1)) = Inr sz"
      "x = ?vector prm sz (int (length items)) effects duration"
      unfolding t(6) sample_features_trace then_r_Inr by auto
    with t(1-4) items_of_len [OF t(2)] show "extract_features ps domains plan = Inr x"
      by (simp add: extract_features_def)
  qed
qed

text \<open>
  The two feature extractions agree, as the comment of \<open>extract_features\<close> promises: the features of
  a plan are those of the execution trace the plan amounts to, with its number of steps, its number
  of effects and its total duration, and one extraction succeeds exactly when the other does.
\<close>

theorem features_mirror:
  "extract_features ps domains plan = Inr x \<longleftrightarrow>
     (\<exists>t. plan_trace ps plan = Inr t \<and> sample_features ps domains t = Inr x)"
  by (rule extract_is_sample)

lemma domain_index_range: "real (domain_index domains d) / real (max (length domains) 1) \<in> {0..1}"
proof -
  have "domain_index domains d \<le> max (length domains) 1"
    using length_takeWhile_le [of "\<lambda>x. x \<noteq> d" domains] by (auto simp: domain_index_def)
  then show ?thesis by simp
qed

lemma feature_vector_range:
  "length (feature_vector domains d sz r s n e t) = length FEATURE_NAMES"
  "\<forall>x \<in> set (feature_vector domains d sz r s n e t). x \<le> 1"
  "0 \<le> sz \<Longrightarrow> 0 \<le> n \<Longrightarrow> 0 \<le> e \<Longrightarrow> 0 \<le> t \<Longrightarrow> \<forall>x \<in> set (feature_vector domains d sz r s n e t). 0 \<le> x"
  using domain_index_range [of domains d] by (auto simp: feature_vector_def FEATURE_NAMES_def min_def)

definition nonneg_trace :: "parsers \<Rightarrow> (string, pyval) dict \<Rightarrow> bool" where
  \<comment> \<open>no number of the trace is negative\<close>
  "nonneg_trace ps t \<longleftrightarrow> (\<forall>k v. dict_get t k = Some v \<longrightarrow>
     (\<forall>y. py_float (pa_float ps) v = Inr y \<longrightarrow> 0 \<le> y) \<and> (\<forall>i. py_int (pa_int ps) v = Inr i \<longrightarrow> 0 \<le> i))"

lemma nonneg_trace_get:
  assumes "nonneg_trace ps t"
  shows "py_float (pa_float ps) (get_or t k (PFloat 1)) = Inr y \<Longrightarrow> 0 \<le> y"
    and "py_float (pa_float ps) (get_or t k (PInt 0)) = Inr y \<Longrightarrow> 0 \<le> y"
    and "py_int (pa_int ps) (get_or t k (PInt 1)) = Inr i \<Longrightarrow> 0 \<le> i"
    and "py_int (pa_int ps) (get_or t k (PInt 0)) = Inr i \<Longrightarrow> 0 \<le> i"
  using assms by (auto simp: nonneg_trace_def get_or_def py_float_def py_int_def split: option.splits)

lemma sample_features_range:
  assumes "sample_features ps domains t = Inr x"
  shows "length x = length FEATURE_NAMES" "\<forall>y \<in> set x. y \<le> 1" "nonneg_trace ps t \<Longrightarrow> \<forall>y \<in> set x. 0 \<le> y"
proof -
  obtain sz n e d where r: "py_float (pa_float ps) (get_or t ''size'' (PFloat 1)) = Inr sz"
    "py_int (pa_int ps) (get_or t ''num_steps'' (PInt 1)) = Inr n"
    "py_int (pa_int ps) (get_or t ''num_effects'' (PInt 0)) = Inr e"
    "py_float (pa_float ps) (get_or t ''duration_ms'' (PInt 0)) = Inr d"
    "x = feature_vector domains (py_str (get_or t ''domain'' (PStr []))) sz
         (truthy (get_or t ''reversible'' (PBool True))) (truthy (get_or t ''sensitive_data'' (PBool False))) n e d"
    using assms unfolding sample_features_def then_r_Inr by auto
  show "length x = length FEATURE_NAMES" "\<forall>y \<in> set x. y \<le> 1" by (simp_all add: r(5) feature_vector_range)
  show "\<forall>y \<in> set x. 0 \<le> y" if "nonneg_trace ps t"
    unfolding r(5) using nonneg_trace_get [OF that] r(1-4) by (intro feature_vector_range) blast+
qed

section \<open>Training\<close>

definition logistic_ok :: "nat \<Rightarrow> logistic \<Rightarrow> bool" where
  "logistic_ok d lo \<longleftrightarrow> length (lo_mean lo) = d \<and> length (lo_std lo) = d \<and> length (lo_w lo) = d + 1 \<and> (\<forall>s \<in> set (lo_std lo). 0 < s)"

lemma length_fold_update: "length (fold (\<lambda>i w. w[f i := g i w]) is w) = length w"
  by (induction "is" arbitrary: w) auto

lemma length_descent_step [simp]: "length (descent_step lr row w) = length w"
  by (cases row) (simp add: descent_step_def Let_def length_fold_update)

lemma length_descent: "length (fold (descent_step lr) rows w) = length w"
  by (induction rows arbitrary: w) auto

lemma length_epochs: "length ((fold (descent_step lr) rows ^^ n) w) = length w"
  by (induction n) (simp_all add: length_descent)

lemma column_std_pos: "0 < column_std X mean i"
proof -
  have "0 < (1 :: real) / 10 ^ 9" by simp
  then show ?thesis unfolding column_std_def Let_def by (smt (verit))
qed

lemma fit_logistic_ok: "logistic_ok (length (X ! 0)) (fit_logistic X y iters lr)"
  by (auto simp: logistic_ok_def fit_logistic_def Let_def length_epochs column_std_pos)

lemma map_r_head: "map_r f (x # xs) = Inr ys \<Longrightarrow> f x = Inr (ys ! 0) \<and> length ys = length (x # xs)"
  by (auto simp: then_r_Inr map_r_Inr dest: list_all2_lengthD)

lemma train_model:
  assumes "train fo ps traces p = Inr p'"
  shows "fp_is_trained p' \<and> fp_samples p' = int (length traces) \<and> fp_backend p' = fp_backend p \<and>
    fp_domains p' = fp_domains p \<and> fp_seed p' = fp_seed p \<and>
    (if fp_backend p = ''sklearn'' then \<exists>m. fp_model p' = Forest m
     else \<exists>lo. fp_model p' = Logistic lo \<and> logistic_ok (length FEATURE_NAMES) lo)"
proof -
  have ne: "traces \<noteq> []" using assms by (auto simp: train_def)
  obtain X y where X: "map_r (sample_features ps (fp_domains p)) traces = Inr X"
    and p': "p' = p\<lparr>fp_model := (if fp_backend p = ''sklearn'' then Forest (fo_fit fo (fp_seed p) X y)
                     else Logistic (fit_logistic X y 250 (15 / 100))),
                   fp_is_trained := True, fp_samples := int (length traces)\<rparr>"
    using assms unfolding train_def if_not_P [OF ne] then_r_Inr sum.inject by blast
  obtain t ts where ts: "traces = t # ts" using ne by (cases traces) auto
  have "length (X ! 0) = length FEATURE_NAMES"
    using map_r_head [OF X [unfolded ts]] sample_features_range(1) by blast
  with fit_logistic_ok [of X y 250 "15 / 100"] show ?thesis by (simp add: p')
qed

lemma predict_logistic:
  assumes "fp_model p = Logistic lo" "fp_is_trained p" "length xs = length FEATURE_NAMES"
  shows "\<exists>out. predict fo ps (plan_features domain xs) p = Inr out"
proof -
  have "length xs = 7" using assms(3) by (simp add: FEATURE_NAMES_def)
  then obtain a b c d e f g where "xs = [a, b, c, d, e, f, g]"
    by (auto simp: numeral_eq_Suc length_Suc_conv)
  then show ?thesis
    using assms(1,2) by (simp add: predict_def plan_features_def FEATURE_NAMES_def get_or_def py_float_def model_proba_def Let_def)
qed

definition draw_ok :: "string list \<Rightarrow> draw \<Rightarrow> bool" where
  \<comment> \<open>the ranges of \<open>rng.choice\<close>, \<open>rng.randint\<close> and \<open>rng.uniform\<close>\<close>
  "draw_ok domains dw \<longleftrightarrow> dw_domain dw < length domains \<and> dw_size dw < length SYNTHETIC_SIZES \<and>
     2 \<le> dw_steps dw \<and> dw_steps dw \<le> 12 \<and> dw_steps dw \<le> dw_effects dw \<and> dw_effects dw \<le> 3 * dw_steps dw \<and>
     50 \<le> dw_duration dw \<and> dw_duration dw \<le> 12000"

lemma domain_bias_range: "dict_get domain_bias domain = Some b \<Longrightarrow> 2 / 100 \<le> b \<and> b \<le> 12 / 100"
  by (auto simp: domain_bias_def split: if_splits)

lemma failure_odds_range:
  assumes "0 \<le> sz" shows "6 / 100 < failure_odds domain sz r s n" "failure_odds domain sz r s n \<le> 92 / 100"
proof -
  define b where "b = (case dict_get domain_bias domain of None \<Rightarrow> 3 / 100 | Some b \<Rightarrow> b)"
  have b: "2 / 100 \<le> b" using domain_bias_range [of domain] by (auto simp: b_def split: option.splits)
  define m where "m = min sz 3"
  have "0 \<le> m" using assms by (simp add: m_def)
  with b show "6 / 100 < failure_odds domain sz r s n"
    unfolding failure_odds_def b_def [symmetric] m_def [symmetric] by auto
  show "failure_odds domain sz r s n \<le> 92 / 100" unfolding failure_odds_def by (rule min.cobounded1)
qed

lemma synthetic_sizes_pos: "i < length SYNTHETIC_SIZES \<Longrightarrow> 0 \<le> SYNTHETIC_SIZES ! i"
  by (auto simp: SYNTHETIC_SIZES_def less_Suc_eq nth_Cons')

lemma synthetic_trace_fields:
  "\<exists>d sz r s t l. synthetic_trace domains dw =
     [(''domain'', PStr d), (''size'', PFloat sz), (''reversible'', PBool r), (''sensitive_data'', PBool s),
      (''num_steps'', PInt (dw_steps dw)), (''num_effects'', PInt (dw_effects dw)), (''duration_ms'', PFloat t), (''label'', PInt l)] \<and>
     sz = SYNTHETIC_SIZES ! dw_size dw \<and> t = py_round (dw_duration dw) 1 \<and> l \<in> {0, 1}"
  by (simp add: synthetic_trace_def Let_def)

lemma synthetic_trace_reads:
  assumes "draw_ok domains dw"
  shows "\<exists>x. sample_features ps ds (synthetic_trace domains dw) = Inr x \<and> length x = length FEATURE_NAMES \<and> (\<forall>y \<in> set x. 0 \<le> y \<and> y \<le> 1)"
    and "\<exists>l \<in> {0, 1}. trace_label ps (synthetic_trace domains dw) = Inr l"
proof -
  obtain d sz r s t l where tr: "synthetic_trace domains dw =
     [(''domain'', PStr d), (''size'', PFloat sz), (''reversible'', PBool r), (''sensitive_data'', PBool s),
      (''num_steps'', PInt (dw_steps dw)), (''num_effects'', PInt (dw_effects dw)), (''duration_ms'', PFloat t), (''label'', PInt l)]"
    and v: "sz = SYNTHETIC_SIZES ! dw_size dw" "t = py_round (dw_duration dw) 1" "l \<in> {0, 1}"
    using synthetic_trace_fields [of domains dw] by blast
  have nn: "0 \<le> sz" "0 \<le> t" "0 \<le> dw_steps dw" "0 \<le> dw_effects dw"
    using assms synthetic_sizes_pos by (auto simp: v draw_ok_def intro!: py_round_nonneg)
  have "sample_features ps ds (synthetic_trace domains dw) = Inr (feature_vector ds d sz r s (dw_steps dw) (dw_effects dw) t)"
    by (simp add: tr sample_features_def get_or_def py_float_def py_int_def py_str_def)
  with feature_vector_range [where domains = ds and d = d and sz = sz and r = r and s = s and n = "dw_steps dw" and e = "dw_effects dw" and t = t] nn
  show "\<exists>x. sample_features ps ds (synthetic_trace domains dw) = Inr x \<and> length x = length FEATURE_NAMES \<and> (\<forall>y \<in> set x. 0 \<le> y \<and> y \<le> 1)"
    by auto
  show "\<exists>l \<in> {0, 1}. trace_label ps (synthetic_trace domains dw) = Inr l"
    using v(3) by (auto simp: tr trace_label_def py_int_def)
qed

lemma map_r_exists:
  assumes "\<And>x. x \<in> set xs \<Longrightarrow> \<exists>y. f x = Inr y"
  shows "\<exists>ys. map_r f xs = Inr ys"
  using assms by (induction xs) (auto, metis then_r_simps(2))

text \<open>
  Seeding works: for any non-empty run of draws within the ranges of the random source, on any
  predictor, training on the synthetic traces succeeds and records their number; every training
  vector has one feature per name, all between 0 and 1, and every label is 0 or 1; the trained
  fallback has one weight per feature and one more, positive deviations, and predicts for every
  plan whose features can be read.
\<close>

theorem synthetic_training:
  assumes "draws \<noteq> []" "domains \<noteq> []" "\<forall>dw \<in> set draws. draw_ok domains dw"
  shows "\<exists>p'. train fo ps (generate_synthetic_traces draws domains) p = Inr p' \<and>
    fp_is_trained p' \<and> fp_samples p' = int (length draws) \<and>
    (\<forall>t \<in> set (generate_synthetic_traces draws domains).
       (\<exists>x. sample_features ps (fp_domains p) t = Inr x \<and> length x = length FEATURE_NAMES \<and> (\<forall>y \<in> set x. 0 \<le> y \<and> y \<le> 1)) \<and>
       (\<exists>l \<in> {0, 1}. trace_label ps t = Inr l)) \<and>
    (fp_backend p \<noteq> ''sklearn'' \<longrightarrow> (\<exists>lo. fp_model p' = Logistic lo \<and> logistic_ok (length FEATURE_NAMES) lo) \<and>
       (\<forall>plan domain x. extract_features ps (fp_domains p') plan = Inr x \<longrightarrow> (\<exists>out. predict_plan fo ps plan domain p' = Inr out)))"
proof -
  let ?traces = "generate_synthetic_traces draws domains"
  have traces: "?traces = map (synthetic_trace domains) draws" by (simp add: generate_synthetic_traces_def assms(2))
  have reads: "\<forall>t \<in> set ?traces.
       (\<exists>x. sample_features ps (fp_domains p) t = Inr x \<and> length x = length FEATURE_NAMES \<and> (\<forall>y \<in> set x. 0 \<le> y \<and> y \<le> 1)) \<and>
       (\<exists>l \<in> {0, 1}. trace_label ps t = Inr l)"
    unfolding traces using assms(3) synthetic_trace_reads by auto
  then obtain X y where "map_r (sample_features ps (fp_domains p)) ?traces = Inr X" "map_r (trace_label ps) ?traces = Inr y"
    using map_r_exists [of ?traces "sample_features ps (fp_domains p)"] map_r_exists [of ?traces "trace_label ps"] by blast
  moreover have "?traces \<noteq> []" using assms(1) by (simp add: traces)
  ultimately obtain p' where tr: "train fo ps ?traces p = Inr p'" by (auto simp: train_def)
  have "\<exists>out. predict_plan fo ps plan domain p' = Inr out"
    if nb: "fp_backend p \<noteq> ''sklearn''" and ex: "extract_features ps (fp_domains p') plan = Inr x" for plan domain x
  proof -
    obtain lo where "fp_model p' = Logistic lo" "fp_is_trained p'" using train_model [OF tr] unfolding if_not_P [OF nb] by blast
    moreover obtain t where "sample_features ps (fp_domains p') t = Inr x"
      using ex extract_is_sample by blast
    ultimately obtain out where "predict fo ps (plan_features domain x) p' = Inr out"
      using predict_logistic sample_features_range(1) by blast
    with ex show ?thesis by (simp add: predict_plan_def)
  qed
  with train_model [OF tr] reads tr show ?thesis by (auto simp: traces)
qed

definition sample_draw :: draw where
  "sample_draw = \<lparr>dw_domain = 0, dw_size = 4, dw_reversible = 9 / 10, dw_sensitive = 1 / 10, dw_steps = 3, dw_effects = 8,
     dw_duration = 100, dw_label = 1 / 2\<rparr>"

definition fallback_predictor :: "unit predictor" where
  "fallback_predictor = \<lparr>fp_backend = ''fallback'', fp_domains = default_domains, fp_seed = 42, fp_is_trained = False,
     fp_samples = 0, fp_model = Untrained\<rparr>"

theorem synthetic_training_witness:
  "\<exists>p'. train sure_forest no_parsers (generate_synthetic_traces [sample_draw] [''payment'']) fallback_predictor = Inr p' \<and>
     fp_samples p' = 1 \<and> (\<exists>out. predict_plan sure_forest no_parsers [] ''payment'' p' = Inr out)"
proof -
  have ok: "\<forall>dw \<in> set [sample_draw]. draw_ok [''payment''] dw" by (simp add: sample_draw_def draw_ok_def SYNTHETIC_SIZES_def)
  have x: "\<exists>x. extract_features no_parsers ds [] = Inr x" for ds
    by (simp add: extract_features_def or_empty_def get_or_def need_dict_def py_float_def py_len_def items_of_def sum_r_def Let_def)
  have nb: "fp_backend fallback_predictor \<noteq> ''sklearn''" by (simp add: fallback_predictor_def)
  show ?thesis
    using synthetic_training [of "[sample_draw]" "[''payment'']" sure_forest no_parsers fallback_predictor] ok nb x
    by (metis list.distinct(1) list.size(3) One_nat_def length_Cons of_nat_1)
qed

section \<open>The model file\<close>

text \<open>
  A saved predictor comes back: saving succeeds unless a fallback has no model yet, and whatever
  predictor loads the file then answers every prediction, plan and query exactly as the saved one.
\<close>

theorem model_file_roundtrip:
  assumes "fp_backend p \<in> {''sklearn'', ''fallback''}"
  shows "(fp_backend p = ''fallback'' \<and> (\<forall>lo. fp_model p \<noteq> Logistic lo) \<longrightarrow> save_model p = Inl AttributeError) \<and>
    (fp_backend p = ''sklearn'' \<or> (\<exists>lo. fp_model p = Logistic lo) \<longrightarrow>
      (\<exists>file. save_model p = Inr file \<and>
        load_model file q = p\<lparr>fp_seed := fp_seed q\<rparr> \<and> model_info (load_model file q) = model_info p \<and>
        (\<forall>fo ps features. predict fo ps features (load_model file q) = predict fo ps features p) \<and>
        (\<forall>fo ps plan domain. predict_plan fo ps plan domain (load_model file q) = predict_plan fo ps plan domain p)))"
proof -
  have same: "predict fo ps features (p\<lparr>fp_seed := n\<rparr>) = predict fo ps features p" for fo ps features n
    by (simp add: predict_def model_proba_def)
  have load: "load_model f q = p\<lparr>fp_seed := fp_seed q\<rparr>" if "save_model p = Inr f" for f
    using that assms by (cases p, cases q) (auto simp: save_model_def load_model_def split: if_splits model.splits)
  have "\<exists>file. save_model p = Inr file" if "fp_backend p = ''sklearn'' \<or> (\<exists>lo. fp_model p = Logistic lo)"
    using that assms by (auto simp: save_model_def)
  moreover have "save_model p = Inl AttributeError" if "fp_backend p = ''fallback''" "\<forall>lo. fp_model p \<noteq> Logistic lo"
    using that by (auto simp: save_model_def split: model.splits)
  moreover have "predict_plan fo ps plan domain (p\<lparr>fp_seed := n\<rparr>) = predict_plan fo ps plan domain p" for fo ps plan domain n
    by (simp add: predict_plan_def same)
  ultimately show ?thesis using load same by (fastforce simp: model_info_def)
qed

theorem model_file_roundtrip_witness:
  "\<exists>file. save_model forest_predictor = Inr file \<and>
     model_info (load_model file fallback_predictor) = model_info forest_predictor"
  using model_file_roundtrip [of forest_predictor fallback_predictor] by (auto simp: forest_predictor_def)

section \<open>What a prediction does not depend on\<close>

lemma plan_features_get:
  assumes "length xs = length FEATURE_NAMES" "name \<in> set FEATURE_NAMES"
  shows "get_or (plan_features d xs) name dflt = get_or (plan_features d' xs) name dflt"
proof -
  have "length xs = 7" using assms(1) by (simp add: FEATURE_NAMES_def)
  then obtain a b c d e f g where "xs = [a, b, c, d, e, f, g]" by (auto simp: numeral_eq_Suc length_Suc_conv)
  then show ?thesis using assms(2) by (auto simp: plan_features_def FEATURE_NAMES_def get_or_def)
qed

lemma map_r_cong: "(\<And>x. x \<in> set xs \<Longrightarrow> f x = g x) \<Longrightarrow> map_r f xs = map_r g xs"
  by (induction xs) auto

lemma domain_argument_ignored:
  \<comment> \<open>the domain named in the request only chooses the catalogue of failures; the feature is read from the plan\<close>
  assumes "predict_plan fo ps plan d p = Inr out"
  shows "\<exists>out'. predict_plan fo ps plan d' p = Inr out' \<and>
    pn_failure_probability out' = pn_failure_probability out \<and> pn_risk_level out' = pn_risk_level out"
proof -
  obtain xs out0 where xs: "extract_features ps (fp_domains p) plan = Inr xs"
    and out0: "predict fo ps (plan_features d xs) p = Inr out0"
    and out: "out = prediction.extend out0 \<lparr>pn_plan_name = get_or plan ''name'' PNone, pn_action = get_or plan ''action'' PNone\<rparr>"
    using assms unfolding predict_plan_def then_r_Inr sum.inject by blast
  obtain t where "sample_features ps (fp_domains p) t = Inr xs" using xs extract_is_sample by blast
  then have len: "length xs = length FEATURE_NAMES" by (rule sample_features_range(1))
  have vec: "map_r (\<lambda>name. py_float (pa_float ps) (get_or (plan_features d' xs) name (PFloat 0))) FEATURE_NAMES =
      map_r (\<lambda>name. py_float (pa_float ps) (get_or (plan_features d xs) name (PFloat 0))) FEATURE_NAMES"
    by (rule map_r_cong) (simp only: plan_features_get [OF len, of _ d' _ d])
  have "\<exists>out1. predict fo ps (plan_features d' xs) p = Inr out1 \<and>
      pn_failure_probability out1 = pn_failure_probability out0 \<and> pn_risk_level out1 = pn_risk_level out0"
    using out0 unfolding predict_def vec by (auto simp: then_r_Inr Let_def simp del: map_r.simps split: if_splits)
  then show ?thesis unfolding predict_plan_def xs out by (auto simp: prediction.defs)
qed

lemma scaling_unused:
  \<comment> \<open>the fallback learns its weights on standardised rows and scores raw ones\<close>
  "logistic_proba (lo\<lparr>lo_mean := m, lo_std := s\<rparr>) r = logistic_proba lo r"
  by (simp add: logistic_proba_def)

lemma one_class_forest_raises:
  \<comment> \<open>a forest trained on traces of one label answers rows of one column\<close>
  assumes "fp_is_trained p" "fp_model p = Forest m" "\<forall>v. length (fo_proba fo m v) = 1" "predict fo ps features p = r"
  shows "\<exists>err. r = Inl err"
  using assms by (cases r) (auto simp: predict_def model_proba_def then_r_Inr simp del: map_r.simps)

end
