(* ===== verification/Plane.thy ===== *)
theory Plane
  imports Reflection Evolution_Executor Fleet_Node Twin_Stream Predictor Dry_Run Marketplace_Remote Seed_Rules
begin

text \<open>
  The control plane of \<open>omni/api/main.py\<close>, its state: the subsystems the module builds once and wires
  together, each stored once. What two subsystems share is one field here: the executor works on the
  engine, the memory and the policy of the plane, the remote registry on its catalogue, the twin reads
  them all, and every bus event goes through the broadcaster to the live feeds. The bus is the
  in-process one; of the other backend the plane has the choice and its fallback.
\<close>

section \<open>Answers\<close>

datatype http_error =
    HTTPException nat string
  | Server_error py_error \<comment> \<open>an exception no handler catches, a 500\<close>

type_synonym 'a reply = "http_error + 'a"

fun error_str :: "py_error \<Rightarrow> string" where
  \<comment> \<open>\<open>str(e)\<close> of the errors the handlers translate\<close>
  "error_str (KeyError s) = repr_str s"
| "error_str (ValueError s) = s"
| "error_str (PermissionError s) = s"
| "error_str (RuntimeError s) = s"
| "error_str _ = []"

fun is_key :: "py_error \<Rightarrow> bool" where
  "is_key (KeyError _) = True"
| "is_key _ = False"

fun is_value :: "py_error \<Rightarrow> bool" where
  "is_value (ValueError _) = True"
| "is_value _ = False"

fun is_permission :: "py_error \<Rightarrow> bool" where
  "is_permission (PermissionError _) = True"
| "is_permission _ = False"

definition uncaught :: "'a result \<times> 's \<Rightarrow> 'a reply \<times> 's" where
  \<comment> \<open>a call outside any \<open>try\<close>\<close>
  "uncaught r = (map_sum Server_error id (fst r), snd r)"

definition catching :: "(py_error \<Rightarrow> bool) \<Rightarrow> nat \<Rightarrow> 'a result \<times> 's \<Rightarrow> 'a reply \<times> 's" where
  \<comment> \<open>\<open>try: ... except (...) as e: raise HTTPException(code, str(e)) from e\<close>\<close>
  "catching caught code r =
     (map_sum (\<lambda>err. if caught err then HTTPException code (error_str err) else Server_error err) id (fst r), snd r)"

definition then_reply :: "'a reply \<times> 's \<Rightarrow> ('a \<Rightarrow> 'b reply) \<Rightarrow> 'b reply \<times> 's" where
  \<comment> \<open>what the handler makes of the value of the call\<close>
  "then_reply r f = ((case fst r of Inl err \<Rightarrow> Inl err | Inr a \<Rightarrow> f a), snd r)"

section \<open>The live bus\<close>

datatype listener = Broadcaster \<comment> \<open>the subscription of the module to every subject\<close>

record live_bus = "listener bus" +
  lb_feed :: feed

type_synonym live_ext = "\<lparr>lb_feed :: feed\<rparr>"

fun broadcast_event :: "(listener, live_ext) handler_effect" where
  \<comment> \<open>\<open>lambda subject, payload: twin_broadcaster.broadcast({...})\<close>\<close>
  "broadcast_event Broadcaster subject payload b =
     (Inr (), b\<lparr>lb_feed := snd (tb_broadcast client_sink (fleet_event subject payload) (lb_feed b))\<rparr>)"

definition new_live_bus :: live_bus where
  \<comment> \<open>an \<open>InMemoryBus\<close> with the broadcaster subscribed to \<open>">"\<close>\<close>
  "new_live_bus = \<lparr>bus_subs = [(''>'', [(0, Broadcaster)])], bus_next_id = 1, bus_published = [], lb_feed = new_feed\<rparr>"

definition make_fleet_bus :: "string option \<Rightarrow> (string \<Rightarrow> string option) \<Rightarrow> string \<times> string option" where
  \<comment> \<open>the backend's name and why it fell back; \<open>connect\<close> is the text of the failure of \<open>NatsBus(url)\<close>\<close>
  "make_fleet_bus nats_url connect =
     (case nats_url of
        None \<Rightarrow> (''in_memory'', None)
      | Some url \<Rightarrow>
          if url = [] then (''in_memory'', None)
          else (case connect url of
              None \<Rightarrow> (''nats'', None)
            | Some e \<Rightarrow> (''in_memory'', Some (''NATS_URL set but connect failed, fell back: '' @ e))))"

section \<open>The plane\<close>

record 'm plane = "(listener, live_ext) reflect_world" +
  pl_config :: config
  pl_mutations :: "mutation_record list"
  pl_catalog :: catalog
  pl_sources :: "string list"
  pl_synced :: "(string, string) dict"
  pl_sandbox :: sandbox
  pl_predictor :: "'m predictor"
  pl_node :: fleet_node
  pl_storage :: fleet_storage
  pl_twin :: twin_builder

record 'm outside =
  \<comment> \<open>what the plane reads from outside: clock and identifiers, environment, transports, third-party code\<close>
  ou_env :: "nat \<Rightarrow> env"
  ou_admin_key :: "string option"
  ou_nats_url :: "string option"
  ou_nats_connect :: "string \<Rightarrow> string option"
  ou_runner :: runner_env
  ou_http :: "http_request \<Rightarrow> http_reply"
  ou_stream :: "http_request \<Rightarrow> stream_reply"
  ou_fetch :: "string \<Rightarrow> remote_manifest result"
  ou_hash :: "doc \<Rightarrow> string"
  ou_parsers :: parsers
  ou_forest :: "'m forest"
  ou_decode_node :: "node_announcement \<Rightarrow> node_announcement column"
  ou_decode_task :: "task_doc \<Rightarrow> task_doc column"

definition ou_now :: "'m outside \<Rightarrow> env" where
  \<comment> \<open>the reading of a call that makes one\<close>
  "ou_now cx = ou_env cx 0"

definition plane_bus :: "'m plane \<Rightarrow> live_bus" where
  "plane_bus w = (case aw_bus w of None \<Rightarrow> new_live_bus | Some b \<Rightarrow> b)"

definition learning_of :: "'m plane \<Rightarrow> learning_pipeline" where
  \<comment> \<open>\<open>learning\<close>, which the evolution engine holds\<close>
  "learning_of w = (case evo_learning (rw_evolution w) of None \<Rightarrow> new_pipeline 200 None | Some lp \<Rightarrow> lp)"

definition executor_of :: "'m plane \<Rightarrow> evolution_executor" where
  "executor_of w =
     \<lparr>xe_evolution = Some (rw_evolution w), xe_config = pl_config w, xe_memory = Some (aw_memory w),
      xe_ledger = Policy_ledger, xe_policy = Some (aw_policy w), xe_approver_role = ''system.admin'',
      xe_records = pl_mutations w\<rparr>"

definition put_executor :: "evolution_executor \<Rightarrow> 'm plane \<Rightarrow> 'm plane" where
  "put_executor ex w =
     w\<lparr>pl_config := xe_config ex, pl_mutations := xe_records ex,
       aw_memory := (case xe_memory ex of None \<Rightarrow> aw_memory w | Some rows \<Rightarrow> rows),
       aw_policy := (case xe_policy ex of None \<Rightarrow> aw_policy w | Some st \<Rightarrow> st)\<rparr>"

definition registry_of :: "'m plane \<Rightarrow> remote_registry" where
  "registry_of w = \<lparr>rr_catalog = pl_catalog w, rr_sources = pl_sources w, rr_synced = pl_synced w\<rparr>"

definition put_registry :: "remote_registry \<Rightarrow> 'm plane \<Rightarrow> 'm plane" where
  "put_registry g w = w\<lparr>pl_catalog := rr_catalog g, pl_sources := rr_sources g, pl_synced := rr_synced g\<rparr>"

definition fleet_of :: "'m plane \<Rightarrow> (listener, live_ext) fleet_world" where
  "fleet_of w = \<lparr>fw_storage = pl_storage w, fw_bus = aw_bus w\<rparr>"

definition put_fleet :: "(listener, live_ext) fleet_world \<Rightarrow> 'm plane \<Rightarrow> 'm plane" where
  "put_fleet f w = w\<lparr>pl_storage := fw_storage f, aw_bus := fw_bus f\<rparr>"

definition twin_sources_of :: "'m plane \<Rightarrow> twin_sources" where
  "twin_sources_of w =
     \<lparr>ts_orchestrator = Some (aw_orchestrator w), ts_marketplace = Some (pl_catalog w), ts_memory = Some (aw_memory w),
      ts_simulation = Some (pl_sandbox w), ts_learning = Some (learning_of w), ts_ledger = snd (aw_policy w)\<rparr>"

section \<open>Calls on a part of the plane\<close>

definition call_s :: "('s \<Rightarrow> 'p) \<Rightarrow> ('p \<Rightarrow> 's \<Rightarrow> 's) \<Rightarrow> ('p \<Rightarrow> 'a \<times> 'p) \<Rightarrow> 's \<Rightarrow> 'a \<times> 's" where
  \<comment> \<open>an operation of a part that says itself what stays when it raises\<close>
  "call_s get put f s = (case f (get s) of (r, p) \<Rightarrow> (r, put p s))"

section \<open>Start-up\<close>

definition plane_orchestrator :: "env \<Rightarrow> (string \<Rightarrow> env) \<Rightarrow> orchestrator" where
  "plane_orchestrator e envs = snd (seed_fleet envs (new_orchestrator e BalancedScoring 50 (3 / 4) 300 2 []))"

definition new_plane :: "'m outside \<Rightarrow> (string \<Rightarrow> env) \<Rightarrow> draw list \<Rightarrow> string \<Rightarrow> 'm plane result" where
  \<comment> \<open>the module's subsystems; \<open>draws\<close> are the draws behind the 120 seeding traces, \<open>fqdn\<close> the host's name\<close>
  "new_plane cx envs draws fqdn =
     then_r (new_predictor (fo_available (ou_forest cx)) ''auto'' None 42) (\<lambda>p0.
     then_r (train (ou_forest cx) (ou_parsers cx) (generate_synthetic_traces draws default_domains) p0) (\<lambda>p.
       Inr \<lparr>aw_policy = (new_policy_engine make_seed_rules, Some new_ledger), aw_memory = [],
            aw_orchestrator = plane_orchestrator (ou_now cx) envs, aw_bus = Some new_live_bus,
            rw_evolution = new_evolution_engine (5 / 100) (Some (new_pipeline 200 None)),
            pl_config = [], pl_mutations = [], pl_catalog = new_catalog, pl_sources = [], pl_synced = [],
            pl_sandbox = new_sandbox (7 / 10) [], pl_predictor = p,
            pl_node = \<lparr>fn_id = ''node_'' @ take 12 (env_uuid (ou_now cx)), fn_capacity = 64, fn_version = ''0.4.0'', fn_fqdn = fqdn\<rparr>,
            pl_storage = In_memory new_mem_storage, pl_twin = new_twin\<rparr>))"

section \<open>The admin guard\<close>

definition require_admin_key :: "'m outside \<Rightarrow> string option \<Rightarrow> unit reply" where
  "require_admin_key cx x_admin_key =
     (case ou_admin_key cx of
        None \<Rightarrow> Inr ()
      | Some expected \<Rightarrow>
          if expected \<noteq> [] \<and> x_admin_key \<noteq> Some expected then Inl (HTTPException 403 ''invalid or missing X-Admin-Key'')
          else Inr ())"

definition guarded :: "'m outside \<Rightarrow> string option \<Rightarrow> ('s \<Rightarrow> 'a reply \<times> 's) \<Rightarrow> 's \<Rightarrow> 'a reply \<times> 's" where
  \<comment> \<open>\<open>dependencies=[Depends(require_admin_key)]\<close>\<close>
  "guarded cx x_admin_key f w = (case require_admin_key cx x_admin_key of Inl err \<Rightarrow> (Inl err, w) | Inr _ \<Rightarrow> f w)"

end
