(* ===== verification/Plane_Api.thy ===== *)
theory Plane_Api
  imports Plane
begin

text \<open>
  The handlers of \<open>omni/api/main.py\<close>, in the order of the file. A handler takes its parameters and the
  plane and returns its answer and the plane; one that only reads returns its answer alone. The body of
  an answer is the object the handler returns: its JSON is FastAPI's and pydantic's work, as are the
  validation of the parameters and the routing.
\<close>

datatype body =
    B_json pyval
  | B_rules "policy_rule list"
  | B_decision policy_decision
  | B_decisions "policy_decision list"
  | B_limit limit_policy
  | B_entry memory_entry
  | B_entries "memory_entry list"
  | B_diff memory_diff
  | B_snapshot "(string, (string, doc) dict) dict"
  | B_agent agent_spec
  | B_agents "agent_spec list"
  | B_task task_spec
  | B_moves "reassignment list"
  | B_texts "string list"
  | B_run agent_run_result
  | B_events "(string, pyval) dict list"
  | B_skill skill_manifest
  | B_skills "skill_manifest list"
  | B_authorization authorization
  | B_simulation simulation_result
  | B_simulations "simulation_result list"
  | B_dry_run dry_result
  | B_prediction plan_prediction
  | B_evaluation evaluation
  | B_metrics "(string, real) dict"
  | B_report improvement_report
  | B_reflection reflection_result
  | B_view twin_view
  | B_rows "ledger_row list"
  | B_announcement node_announcement
  | B_leader "string option \<times> int"
  | B_proposal evolution_proposal
  | B_proposals "evolution_proposal list"
  | B_mutation mutation_record
  | B_mutations "mutation_record list"

type_synonym 'm handler = "'m plane \<Rightarrow> body reply \<times> 'm plane"

definition returning :: "('a \<Rightarrow> body) \<Rightarrow> 'a reply \<times> 's \<Rightarrow> body reply \<times> 's" where
  "returning wrap r = then_reply r (\<lambda>a. Inr (wrap a))"

definition B_dict :: "(string, pyval) dict \<Rightarrow> body" where
  "B_dict d = B_json (PDict d)"

definition B_none :: "unit \<Rightarrow> body" where
  "B_none _ = B_json PNone"

section \<open>The root\<close>

definition api_root :: "string \<Rightarrow> body reply" where
  "api_root version =
     Inr (B_dict [(''name'', PStr ''OmniMind''), (''version'', PStr version),
       (''subsystems'', PList (map PStr (sort
          [''policy'', ''memory'', ''agents'', ''tasks'', ''marketplace'', ''simulation'', ''learning'', ''twin'', ''evolution'', ''fleet'', ''sdk'']))),
       (''docs'', PStr ''/docs'')])"

definition is_set :: "string option \<Rightarrow> bool" where
  \<comment> \<open>\<open>bool(os.environ.get(name))\<close>\<close>
  "is_set v = (case v of None \<Rightarrow> False | Some s \<Rightarrow> s \<noteq> [])"

definition api_integrations_status :: "'m outside \<Rightarrow> body reply" where
  "api_integrations_status cx =
     (let le = re_llm (ou_runner cx);
          llm_provider = (if le_anthropic_key le \<noteq> [] then PStr ''anthropic'' else if le_openai_key le \<noteq> [] then PStr ''openai'' else PNone)
      in Inr (B_dict [(''llm_provider'', llm_provider), (''admin_api_key_configured'', PBool (is_set (ou_admin_key cx))),
           (''nats_configured'', PBool (is_set (ou_nats_url cx)))]))"

section \<open>Policy\<close>

definition api_policy_seed :: "'m handler" where
  "api_policy_seed w =
     (Inr (B_dict [(''seeded'', PInt (int (length make_seed_rules)))]),
      w\<lparr>aw_policy := (fold add_rule make_seed_rules (fst (aw_policy w)), snd (aw_policy w))\<rparr>)"

definition api_policy_rules :: "'m plane \<Rightarrow> body reply" where
  "api_policy_rules w = Inr (B_rules (pe_rules (fst (aw_policy w))))"

definition api_policy_evaluate :: "'m outside \<Rightarrow> principal \<Rightarrow> string \<Rightarrow> resource option \<Rightarrow> real \<Rightarrow> int \<Rightarrow> 'm handler" where
  "api_policy_evaluate cx p action res cost calls w =
     returning B_decision (uncaught (world_policy (evaluate (ou_now cx) p action res cost calls) w))"

definition api_policy_approve :: "'m outside \<Rightarrow> string option \<Rightarrow> string \<Rightarrow> string \<Rightarrow> 'm handler" where
  "api_policy_approve cx key decision_id approver_role =
     guarded cx key (\<lambda>w. returning B_decision (catching is_key 404 (world_policy (approve (ou_now cx) decision_id approver_role) w)))"

definition api_policy_pending :: "'m plane \<Rightarrow> body reply" where
  "api_policy_pending w = Inr (B_decisions (pending_approvals (fst (aw_policy w))))"

definition api_policy_log :: "int \<Rightarrow> 'm plane \<Rightarrow> body reply" where
  "api_policy_log limit w = Inr (B_decisions (decision_log limit (fst (aw_policy w))))"

definition api_policy_add_limit :: "limit_policy \<Rightarrow> 'm handler" where
  "api_policy_add_limit limit w = (Inr (B_limit limit), w\<lparr>aw_policy := (add_limit limit (fst (aw_policy w)), snd (aw_policy w))\<rparr>)"

definition api_policy_lockdown :: "'m outside \<Rightarrow> string option \<Rightarrow> bool \<Rightarrow> 'm handler" where
  "api_policy_lockdown cx key enabled =
     guarded cx key (\<lambda>w. let e = set_lockdown enabled (fst (aw_policy w)) in
       (Inr (B_dict [(''lockdown'', PBool (pe_lockdown e))]), w\<lparr>aw_policy := (e, snd (aw_policy w))\<rparr>))"

section \<open>Memory\<close>

definition api_memory_write :: "'m outside \<Rightarrow> string \<Rightarrow> doc \<Rightarrow> string \<Rightarrow> string \<Rightarrow> string \<Rightarrow> 'm handler" where
  "api_memory_write cx key v agent_id reason branch w =
     returning B_entry (uncaught (world_memory (mem_write (ou_hash cx) (ou_now cx) key v agent_id reason branch) w))"

definition found :: "nat \<Rightarrow> string \<Rightarrow> ('a \<Rightarrow> body) \<Rightarrow> 'a option \<Rightarrow> body reply" where
  \<comment> \<open>\<open>if x is None: raise HTTPException(code, text)\<close>\<close>
  "found code text wrap x = (case x of None \<Rightarrow> Inl (HTTPException code text) | Some a \<Rightarrow> Inr (wrap a))"

definition api_memory_read :: "string \<Rightarrow> string \<Rightarrow> int option \<Rightarrow> 'm plane \<Rightarrow> body reply" where
  "api_memory_read key branch version w =
     found 404 (''no version of '' @ quoted key @ '' on branch '' @ quoted branch) B_entry (mem_read key branch version (aw_memory w))"

definition api_memory_history :: "string \<Rightarrow> string \<Rightarrow> 'm plane \<Rightarrow> body reply" where
  "api_memory_history key branch w = Inr (B_entries (mem_history key branch (aw_memory w)))"

definition api_memory_diff :: "string \<Rightarrow> string \<Rightarrow> int option \<Rightarrow> int option \<Rightarrow> 'm plane \<Rightarrow> body reply" where
  "api_memory_diff key branch from_version to_version w =
     found 404 (''cannot diff '' @ quoted key @ '' on branch '' @ quoted branch) B_diff
       (mem_diff key branch from_version to_version (aw_memory w))"

definition api_memory_rollback :: "'m outside \<Rightarrow> rollback_request \<Rightarrow> 'm handler" where
  "api_memory_rollback cx req w =
     returning B_entry (catching is_key 404 (world_memory (mem_rollback (ou_hash cx) (ou_now cx) req) w))"

definition api_memory_branch :: "'m outside \<Rightarrow> branch_request \<Rightarrow> 'm handler" where
  "api_memory_branch cx req w = returning B_entry (catching is_key 400 (world_memory (mem_branch (ou_now cx) req) w))"

definition api_memory_snapshot :: "string option \<Rightarrow> 'm plane \<Rightarrow> body reply" where
  "api_memory_snapshot asof w =
     Inr (B_snapshot (case asof of None \<Rightarrow> mem_snapshot (aw_memory w)
       | Some t \<Rightarrow> if t = [] then mem_snapshot (aw_memory w) else mem_snapshot_asof t (aw_memory w)))"

section \<open>Orchestrator\<close>

definition world_agents :: "(orchestrator \<Rightarrow> 'a \<times> orchestrator) \<Rightarrow> 'm plane \<Rightarrow> 'a \<times> 'm plane" where
  \<comment> \<open>a call of the orchestrator that cannot raise\<close>
  "world_agents f w = call_s aw_orchestrator (\<lambda>p. aw_orchestrator_update (\<lambda>_. p)) f w"

definition api_agent_register :: "'m outside \<Rightarrow> string \<Rightarrow> string list \<Rightarrow> 'm handler" where
  "api_agent_register cx name skills w =
     (case world_agents (register_agent (ou_now cx) name skills WORKER) w of (a, w') \<Rightarrow> (Inr (B_agent a), w'))"

definition api_agent_heartbeat :: "'m outside \<Rightarrow> string \<Rightarrow> real option \<Rightarrow> 'm handler" where
  \<comment> \<open>no body and a body without \<open>load\<close> both pass \<open>None\<close>\<close>
  "api_agent_heartbeat cx agent_id load w =
     returning B_agent (catching is_key 404 (world_pool (heartbeat (ou_now cx) agent_id load None None) w))"

definition api_agents_list :: "'m plane \<Rightarrow> body reply" where
  "api_agents_list w = Inr (B_agents (agents (aw_orchestrator w)))"

definition api_task_submit :: "'m outside \<Rightarrow> task_spec \<Rightarrow> 'm handler" where
  "api_task_submit cx task w = (Inr (B_task task), w\<lparr>aw_orchestrator := submit (ou_now cx) task (aw_orchestrator w)\<rparr>)"

definition api_task_assign :: "'m outside \<Rightarrow> string \<Rightarrow> 'm handler" where
  "api_task_assign cx task_id w =
     then_reply (uncaught (world_pool (assign (ou_now cx) task_id) w))
       (found 409 (''no capable agent for task '' @ quoted task_id)
          (\<lambda>agent_id. B_dict [(''task_id'', PStr task_id), (''assignee'', PStr agent_id)]))"

definition api_task_complete :: "'m outside \<Rightarrow> string \<Rightarrow> real option \<Rightarrow> 'm handler" where
  "api_task_complete cx task_id cost w =
     returning B_task (uncaught (world_pool (complete_task (ou_now cx) task_id PNone (case cost of None \<Rightarrow> 0 | Some c \<Rightarrow> c)) w))"

definition api_orchestrator_report :: "'m plane \<Rightarrow> body reply" where
  "api_orchestrator_report w = Inr (B_json (orchestrator_report (aw_orchestrator w)))"

definition api_orchestrator_balance :: "'m handler" where
  "api_orchestrator_balance w = (case world_agents (balance (8 / 10) (2 / 10)) w of (ms, w') \<Rightarrow> (Inr (B_moves ms), w'))"

definition api_orchestrator_spawn :: "'m outside \<Rightarrow> 'm handler" where
  "api_orchestrator_spawn cx w = (case world_agents (spawn_if_needed (ou_now cx) ''worker'') w of (ks, w') \<Rightarrow> (Inr (B_texts ks), w'))"

definition api_orchestrator_terminate_idle :: "'m outside \<Rightarrow> 'm handler" where
  "api_orchestrator_terminate_idle cx w = (case world_agents (terminate_idle (ou_now cx)) w of (ks, w') \<Rightarrow> (Inr (B_texts ks), w'))"

definition api_orchestrator_predict :: "real \<Rightarrow> 'm plane \<Rightarrow> body reply" where
  "api_orchestrator_predict horizon_minutes w =
     Inr (B_dict [(''predicted_tasks'', PFloat (predict_next_tasks horizon_minutes (aw_orchestrator w)))])"

section \<open>The public agent\<close>

definition session_of :: "string option \<Rightarrow> string" where
  \<comment> \<open>\<open>body.session_id or "anonymous"\<close>\<close>
  "session_of session_id = (case session_id of None \<Rightarrow> ''anonymous'' | Some s \<Rightarrow> if s = [] then ''anonymous'' else s)"

definition api_agent_run :: "'m outside \<Rightarrow> string \<Rightarrow> string option \<Rightarrow> string option \<Rightarrow> string option \<Rightarrow> 'm handler" where
  "api_agent_run cx prompt session_id user_api_key user_api_provider w =
     returning B_run (uncaught (run_agent broadcast_event (ou_hash cx) (ou_http cx) (ou_runner cx) (ou_env cx) prompt
       (session_of session_id) user_api_key user_api_provider w))"

definition sse_frame :: "(string, pyval) dict \<Rightarrow> string" where
  "sse_frame event = ''data: '' @ json_dumps (PDict event) @ [CHR 0x0A, CHR 0x0A]"

definition api_agent_run_stream :: "'m outside \<Rightarrow> string \<Rightarrow> string option \<Rightarrow> string option \<Rightarrow> string option \<Rightarrow> nat option \<Rightarrow> 'm handler" where
  \<comment> \<open>the frames the client got; an exception inside the generator cuts the stream after the answer has begun\<close>
  "api_agent_run_stream cx prompt session_id user_api_key user_api_provider stop_after w =
     (case run_stream broadcast_event (ou_hash cx) (ou_stream cx) (ou_runner cx) (ou_env cx) prompt
         (session_of session_id) user_api_key user_api_provider stop_after w of
        ((events, _), w') \<Rightarrow> (Inr (B_texts (map sse_frame events)), w'))"

section \<open>Marketplace\<close>

definition world_catalog :: "(catalog \<Rightarrow> 'a \<times> catalog) \<Rightarrow> 'm plane \<Rightarrow> 'a \<times> 'm plane" where
  "world_catalog f w = call_s pl_catalog (\<lambda>p. pl_catalog_update (\<lambda>_. p)) f w"

definition api_skill_publish :: "'m outside \<Rightarrow> string \<Rightarrow> string \<Rightarrow> skill_kind \<Rightarrow> string \<Rightarrow> string \<Rightarrow> skill_interface option \<Rightarrow> string list \<Rightarrow> 'm handler" where
  "api_skill_publish cx name description kind author version interface tags w =
     returning B_skill (uncaught (world_catalog (publish (ou_now cx) name description kind author version interface tags) w))"

definition api_skill_search :: "string \<Rightarrow> skill_kind option \<Rightarrow> 'm plane \<Rightarrow> body reply" where
  "api_skill_search query kind w = Inr (B_skills (search query kind (pl_catalog w)))"

definition api_skill_install :: "string \<Rightarrow> string \<Rightarrow> string option \<Rightarrow> 'm handler" where
  "api_skill_install skill_id agent_id version w =
     then_reply (uncaught (world_catalog (install skill_id agent_id version) w)) (found 404 (''no skill '' @ quoted skill_id) B_skill)"

definition api_skill_remove :: "string \<Rightarrow> string \<Rightarrow> 'm handler" where
  "api_skill_remove skill_id agent_id w =
     (case world_catalog (remove_skill skill_id agent_id) w of (b, w') \<Rightarrow> (Inr (B_dict [(''removed'', PBool b)]), w'))"

definition api_skill_rate :: "string \<Rightarrow> int \<Rightarrow> 'm handler" where
  "api_skill_rate skill_id stars w =
     returning (\<lambda>x. B_dict [(''new_rating'', PFloat x)])
       (uncaught (lift_r pl_catalog (\<lambda>p. pl_catalog_update (\<lambda>_. p)) (rate skill_id stars) w))"

definition api_skill_recommend :: "string \<Rightarrow> 'm plane \<Rightarrow> body reply" where
  "api_skill_recommend agent_id w = Inr (B_skills (recommend agent_id 5 (pl_catalog w)))"

definition B_sources :: "'m plane \<Rightarrow> body" where
  "B_sources w = B_dict [(''sources'', PList (map PStr (pl_sources w)))]"

definition api_remote_register :: "string \<Rightarrow> 'm handler" where
  "api_remote_register url w = (let w' = put_registry (register_source url (registry_of w)) w in (Inr (B_sources w'), w'))"

definition api_remote_sync :: "'m outside \<Rightarrow> string \<Rightarrow> 'm handler" where
  \<comment> \<open>\<open>sync\<close> never returns \<open>None\<close>: the 404 of the handler is dead code\<close>
  "api_remote_sync cx url w =
     returning B_skill (uncaught (call_s registry_of put_registry (sync (ou_fetch cx) (ou_now cx) url) w))"

definition api_remote_sources :: "'m plane \<Rightarrow> body reply" where
  "api_remote_sources w = Inr (B_sources w)"

definition named_skill :: "string option \<Rightarrow> catalog \<Rightarrow> skill_manifest option" where
  \<comment> \<open>the first hit of the search, when a name is given\<close>
  "named_skill skill_name c =
     (case skill_name of None \<Rightarrow> None
      | Some name \<Rightarrow> if name = [] then None else (case search name None c of [] \<Rightarrow> None | s # _ \<Rightarrow> Some s))"

definition api_marketplace_authorize :: "'m outside \<Rightarrow> principal \<Rightarrow> string \<Rightarrow> string option \<Rightarrow> string list option \<Rightarrow> 'm handler" where
  "api_marketplace_authorize cx p action skill_name agent_grants w =
     (case authorize (ou_now cx) False p action (named_skill skill_name (pl_catalog w)) agent_grants (Some (aw_policy w)) of
        (r, pol) \<Rightarrow> returning B_authorization (uncaught (r, w\<lparr>aw_policy := (case pol of None \<Rightarrow> aw_policy w | Some st \<Rightarrow> st)\<rparr>)))"

section \<open>Simulation\<close>

definition world_sandbox :: "(sandbox \<Rightarrow> ('a \<times> sandbox) result) \<Rightarrow> 'm plane \<Rightarrow> 'a result \<times> 'm plane" where
  "world_sandbox f w = lift_r pl_sandbox (\<lambda>p. pl_sandbox_update (\<lambda>_. p)) f w"

definition api_simulation_run :: "'m outside \<Rightarrow> string \<Rightarrow> string \<Rightarrow> (string, pyval) dict \<Rightarrow> 'm handler" where
  \<comment> \<open>absent parameters are the empty ones\<close>
  "api_simulation_run cx action domain params w =
     returning B_simulation (catching is_key 400
       (world_sandbox (simulate (pa_float (ou_parsers cx)) (ou_now cx) action domain params) w))"

definition api_simulation_domains :: "body reply" where
  "api_simulation_domains = Inr (B_texts default_domains)"

definition api_simulation_approve :: "string \<Rightarrow> string \<Rightarrow> 'm handler" where
  "api_simulation_approve simulation_id approver w =
     returning B_simulation (catching (\<lambda>e. is_key e \<or> is_value e) 400 (world_sandbox (sim_approve simulation_id approver) w))"

definition api_simulation_history :: "'m plane \<Rightarrow> body reply" where
  "api_simulation_history w = Inr (B_simulations (sim_history (pl_sandbox w)))"

definition or_value :: "'a option \<Rightarrow> 'a \<Rightarrow> 'a" where
  "or_value x dflt = (case x of None \<Rightarrow> dflt | Some a \<Rightarrow> a)"

definition api_simulation_dryrun :: "'m outside \<Rightarrow> dry_plan \<Rightarrow> string \<Rightarrow> int option \<Rightarrow> real option \<Rightarrow> int option \<Rightarrow> body reply" where
  \<comment> \<open>the executor of the request is thrown away with its log\<close>
  "api_simulation_dryrun cx plan domain max_steps timeout_s max_effects =
     (case dry_run (ou_now cx) plan domain
         (new_dry_executor None (or_value max_steps 50) (or_value timeout_s 30) (or_value max_effects 250)) of
        Inl err \<Rightarrow> Inl (if is_value err then HTTPException 400 (error_str err) else Server_error err)
      | Inr (r, _) \<Rightarrow> Inr (B_dry_run r))"

definition api_predictor_status :: "'m plane \<Rightarrow> body reply" where
  "api_predictor_status w = Inr (B_dict (model_info (pl_predictor w)))"

definition api_predictor_train :: "'m outside \<Rightarrow> (string, pyval) dict list \<Rightarrow> 'm handler" where
  "api_predictor_train cx traces w =
     returning B_dict (catching is_value 400 (lift_r pl_predictor (\<lambda>p. pl_predictor_update (\<lambda>_. p))
       (\<lambda>p. then_r (train (ou_forest cx) (ou_parsers cx) traces p) (\<lambda>p'. Inr (model_info p', p'))) w))"

definition api_simulation_predict :: "'m outside \<Rightarrow> (string, pyval) dict \<Rightarrow> string \<Rightarrow> 'm plane \<Rightarrow> body reply" where
  "api_simulation_predict cx plan domain w =
     map_sum Server_error B_prediction (predict_plan (ou_forest cx) (ou_parsers cx) plan domain (pl_predictor w))"

section \<open>Learning\<close>

definition api_learning_ingest :: "'m outside \<Rightarrow> string \<Rightarrow> string \<Rightarrow> string \<Rightarrow> metric_bundle \<Rightarrow> string \<Rightarrow> 'm handler" where
  "api_learning_ingest cx task_id agent_id task_type metrics summary w =
     (let e = \<lparr>ev_id = new_id ''eval'' (ou_now cx), ev_task_id = task_id, ev_agent_id = agent_id, ev_task_type = task_type,
            ev_metrics = metrics, ev_summary = summary, ev_completed_at = env_stamp (ou_now cx)\<rparr>
      in (Inr (B_evaluation e),
          w\<lparr>rw_evolution := (rw_evolution w)\<lparr>evo_learning := map_option (lp_ingest e) (evo_learning (rw_evolution w))\<rparr>\<rparr>))"

definition api_learning_aggregate :: "'m outside \<Rightarrow> string option \<Rightarrow> 'm plane \<Rightarrow> body reply" where
  "api_learning_aggregate cx task_type w = Inr (B_metrics (lp_aggregate (ou_now cx) task_type (learning_of w)))"

definition api_learning_trends :: "'m outside \<Rightarrow> string option \<Rightarrow> 'm plane \<Rightarrow> body reply" where
  "api_learning_trends cx task_type w = Inr (B_metrics (lp_trends (ou_now cx) task_type (learning_of w)))"

definition api_learning_report :: "'m outside \<Rightarrow> 'm plane \<Rightarrow> body reply" where
  "api_learning_report cx w = Inr (B_report (lp_report (ou_now cx) (learning_of w)))"

definition api_learning_reflect :: "'m outside \<Rightarrow> 'm handler" where
  "api_learning_reflect cx w =
     returning B_reflection (uncaught (reflection_cycle broadcast_event (ou_hash cx) (ou_http cx) (re_llm (ou_runner cx)) (ou_env cx) w))"

section \<open>Twin\<close>

definition take_snapshot :: "'m outside \<Rightarrow> 'm plane \<Rightarrow> twin_view \<times> 'm plane" where
  "take_snapshot cx w = call_s pl_twin (\<lambda>p. pl_twin_update (\<lambda>_. p)) (twin_snapshot (ou_now cx) (twin_sources_of w)) w"

definition api_twin_snapshot :: "'m outside \<Rightarrow> 'm handler" where
  "api_twin_snapshot cx w = (case take_snapshot cx w of (v, w') \<Rightarrow> (Inr (B_view v), w'))"

definition api_twin_replay :: "string option \<Rightarrow> string option \<Rightarrow> int \<Rightarrow> 'm plane \<Rightarrow> body reply" where
  "api_twin_replay subject subsystem limit w = Inr (B_rows (twin_replay subject subsystem limit (twin_sources_of w)))"

definition api_audit_replay :: "string option \<Rightarrow> string option \<Rightarrow> int \<Rightarrow> 'm plane \<Rightarrow> body reply" where
  "api_audit_replay subject subsystem limit w =
     Inr (B_rows (case snd (aw_policy w) of None \<Rightarrow> [] | Some lg \<Rightarrow> ledger_replay subject subsystem limit lg))"

definition api_twin_error :: "'m outside \<Rightarrow> string \<Rightarrow> string \<Rightarrow> 'm handler" where
  "api_twin_error cx source message w =
     (Inr (B_dict [(''recorded'', PBool True)]), w\<lparr>pl_twin := record_error (ou_now cx) source message (pl_twin w)\<rparr>)"

definition with_feed :: "(feed \<Rightarrow> feed) \<Rightarrow> 'm plane \<Rightarrow> 'm plane" where
  "with_feed f w = w\<lparr>aw_bus := map_option (\<lambda>b. b\<lparr>lb_feed := f (lb_feed b)\<rparr>) (aw_bus w)\<rparr>"

datatype stream_event =
    Stream_connect nat
  | Stream_forward nat
  | Stream_heartbeat nat
  | Stream_disconnect nat

fun twin_stream :: "'m outside \<Rightarrow> stream_event \<Rightarrow> 'm plane \<Rightarrow> 'm plane" where
  \<comment> \<open>the turns of the connections the event loop takes between other requests\<close>
  "twin_stream cx (Stream_connect c) w = (case take_snapshot cx w of (v, w') \<Rightarrow> with_feed (feed_step (Connect c v)) w')"
| "twin_stream cx (Stream_forward c) w = with_feed (feed_step (Forwarded c)) w"
| "twin_stream cx (Stream_heartbeat c) w = (case take_snapshot cx w of (v, w') \<Rightarrow> with_feed (feed_step (Heartbeat c v)) w')"
| "twin_stream cx (Stream_disconnect c) w = with_feed (feed_step (Disconnected c)) w"

definition api_twin_stream_subscribers :: "'m plane \<Rightarrow> body reply" where
  "api_twin_stream_subscribers w = Inr (B_dict [(''connected'', PInt (subscriber_count (lb_feed (plane_bus w))))])"

section \<open>Fleet\<close>

definition world_fleet :: "((listener, live_ext) fleet_world \<Rightarrow> 'a \<times> (listener, live_ext) fleet_world) \<Rightarrow> 'm plane \<Rightarrow> 'a \<times> 'm plane" where
  "world_fleet f w = call_s fleet_of put_fleet f w"

definition leader_value :: "leader_row option \<Rightarrow> pyval" where
  "leader_value l = (case l of None \<Rightarrow> PNone | Some r \<Rightarrow> PDict (dump_leader r))"

definition api_fleet_status :: "'m outside \<Rightarrow> 'm plane \<Rightarrow> body reply" where
  "api_fleet_status cx w = map_sum Server_error id
     (then_r (is_registered (ou_decode_node cx) (pl_node w) (fleet_of w)) (\<lambda>registered.
      then_r (node_peers (ou_decode_node cx) (pl_node w) (fleet_of w)) (\<lambda>peers.
        Inr (B_dict [(''node'', PStr (fn_id (pl_node w))), (''registered'', PBool registered),
          (''peers'', PList (map (\<lambda>a. PStr (na_node a)) peers)), (''leader'', leader_value (storage_get_leader (pl_storage w))),
          (''is_leader'', PBool (is_leader (pl_node w) (fleet_of w)))]))))"

definition api_fleet_announce :: "'m outside \<Rightarrow> node_health option \<Rightarrow> 'm handler" where
  \<comment> \<open>the node's own identifier is the handler's, whatever the body says of the other fields\<close>
  "api_fleet_announce cx health w =
     returning B_announcement (uncaught (world_fleet (node_announce broadcast_event (ou_now cx)
       (map_option (\<lambda>h. h\<lparr>nh_node := fn_id (pl_node w), nh_role := FOLLOWER, nh_ts := env_stamp (ou_now cx)\<rparr>) health) (pl_node w)) w))"

definition api_fleet_elect :: "'m outside \<Rightarrow> 'm handler" where
  "api_fleet_elect cx w =
     returning B_leader (uncaught (world_fleet (elect broadcast_event (ou_decode_node cx) (ou_now cx) (pl_node w)) w))"

definition task_body :: "string \<Rightarrow> string \<Rightarrow> string list \<Rightarrow> int \<Rightarrow> (string, pyval) dict \<Rightarrow> task_doc" where
  "task_body name signature required_skills priority payload =
     [(''name'', PStr name), (''signature'', PStr signature), (''required_skills'', PList (map PStr required_skills)),
      (''priority'', PInt priority), (''payload'', PDict payload)]"

definition api_fleet_enqueue :: "task_doc \<Rightarrow> 'm handler" where
  "api_fleet_enqueue task w = returning B_dict (uncaught (world_fleet (node_enqueue broadcast_event task) w))"

definition api_fleet_adopt :: "'m outside \<Rightarrow> 'm handler" where
  "api_fleet_adopt cx w =
     returning (\<lambda>t. B_dict [(''leased'', case t of None \<Rightarrow> PNone | Some d \<Rightarrow> PDict d)])
       (uncaught (world_fleet (adopt_task broadcast_event (ou_decode_task cx) (ou_now cx) (pl_node w)) w))"

definition api_fleet_leader :: "'m plane \<Rightarrow> body reply" where
  "api_fleet_leader w = Inr (B_dict (case storage_get_leader (pl_storage w) of
     None \<Rightarrow> [(''leader'', PNone), (''term'', PInt 0)] | Some l \<Rightarrow> dump_leader l))"

definition api_fleet_bus_status :: "'m outside \<Rightarrow> body reply" where
  "api_fleet_bus_status cx =
     (case make_fleet_bus (ou_nats_url cx) (ou_nats_connect cx) of (backend, reason) \<Rightarrow>
        Inr (B_dict [(''backend'', PStr backend), (''fallback_reason'', opt_str reason), (''configured_url'', opt_str (ou_nats_url cx))]))"

definition api_fleet_bus_events :: "int \<Rightarrow> 'm plane \<Rightarrow> body reply" where
  "api_fleet_bus_events limit w =
     Inr (B_events (map (\<lambda>(s, p). [(''subject'', PStr s), (''payload'', PDict p)]) (last_n limit (bus_published (plane_bus w)))))"

section \<open>Evolution\<close>

definition world_evolution :: "(evolution_engine \<Rightarrow> ('a \<times> evolution_engine) result) \<Rightarrow> 'm plane \<Rightarrow> 'a result \<times> 'm plane" where
  "world_evolution f w = lift_r rw_evolution (\<lambda>p. rw_evolution_update (\<lambda>_. p)) f w"

definition api_evolution_domains :: "body reply" where
  "api_evolution_domains = Inr (B_texts DOMAINS)"

definition api_evolution_propose :: "'m outside \<Rightarrow> string \<Rightarrow> string \<Rightarrow> string \<Rightarrow> string \<Rightarrow> 'm handler" where
  "api_evolution_propose cx domain title description hypothesis w =
     returning B_proposal (catching is_key 400
       (world_evolution (evo_propose (ou_now cx) (PStr domain) (PStr title) (PStr description) (PStr hypothesis)) w))"

definition api_evolution_evaluate :: "'m outside \<Rightarrow> string \<Rightarrow> metric_bundle \<Rightarrow> 'm handler" where
  "api_evolution_evaluate cx proposal_id after w =
     returning B_proposal (catching is_key 404 (world_evolution (evo_evaluate (ou_now cx) proposal_id after) w))"

definition api_evolution_adopt :: "string \<Rightarrow> 'm handler" where
  "api_evolution_adopt proposal_id w =
     returning B_proposal (catching (\<lambda>e. is_key e \<or> is_value e) 400 (world_evolution (evo_adopt_if_gain proposal_id) w))"

definition api_evolution_ledger :: "'m plane \<Rightarrow> body reply" where
  "api_evolution_ledger w = Inr (B_proposals (evo_ledger (rw_evolution w)))"

definition api_evolution_targets :: "body reply" where
  "api_evolution_targets = Inr (B_texts MUTATION_TARGETS)"

definition api_evolution_apply :: "'m outside \<Rightarrow> string \<Rightarrow> string \<Rightarrow> (string, pyval) dict \<Rightarrow> 'm handler" where
  "api_evolution_apply cx proposal_id target mutation w =
     returning B_mutation (catching (\<lambda>e. is_key e \<or> is_value e \<or> is_permission e) 400
       (call_s executor_of put_executor (apply_mutation (ou_hash cx) (ou_now cx) proposal_id target mutation) w))"

definition api_evolution_revert :: "'m outside \<Rightarrow> string \<Rightarrow> 'm handler" where
  "api_evolution_revert cx mutation_id w =
     returning B_mutation (catching is_key 404 (lift_r executor_of put_executor (revert_mutation (ou_hash cx) (ou_now cx) mutation_id) w))"

definition api_evolution_mutations :: "'m plane \<Rightarrow> body reply" where
  "api_evolution_mutations w = Inr (B_mutations (mutation_records (executor_of w)))"

end
