(* ===== verification/Plane_Step.thy ===== *)
theory Plane_Step
  imports Plane_Api
begin

text \<open>
  The control plane as a machine: its requests, one type per group of routes, the two scheduler ticks
  and the turns of the live connections, each handled as a whole (the handlers are synchronous and
  every subsystem locks). A request that raises keeps what it changed before.
\<close>

section \<open>Requests\<close>

datatype policy_request =
    Policy_seed
  | Policy_rules
  | Policy_evaluate principal string "resource option" real int
  | Policy_approve "string option" string string \<comment> \<open>the X-Admin-Key header first\<close>
  | Policy_pending
  | Policy_log int
  | Policy_add_limit limit_policy
  | Policy_lockdown "string option" bool

datatype memory_request =
    Memory_write string doc string string string
  | Memory_read string string "int option"
  | Memory_history string string
  | Memory_diff string string "int option" "int option"
  | Memory_rollback rollback_request
  | Memory_branch branch_request
  | Memory_snapshot "string option"

datatype pool_request =
    Agent_register string "string list"
  | Agent_heartbeat string "real option"
  | Agents_list
  | Task_submit task_spec
  | Task_assign string
  | Task_complete string "real option"
  | Orchestrator_report
  | Orchestrator_balance
  | Orchestrator_spawn
  | Orchestrator_terminate_idle
  | Orchestrator_predict real

datatype agent_request =
    Agent_run string "string option" "string option" "string option"
  | Agent_run_stream string "string option" "string option" "string option" "nat option"

datatype market_request =
    Skill_publish string string skill_kind string string "skill_interface option" "string list"
  | Skill_search string "skill_kind option"
  | Skill_install string string "string option"
  | Skill_remove string string
  | Skill_rate string int
  | Skill_recommend string
  | Remote_register string
  | Remote_sync string
  | Remote_sources
  | Marketplace_authorize principal string "string option" "string list option"

datatype simulation_request =
    Simulation_run string string "(string, pyval) dict"
  | Simulation_domains
  | Simulation_approve string string
  | Simulation_history
  | Simulation_dryrun dry_plan string "int option" "real option" "int option"
  | Predictor_status
  | Predictor_train "(string, pyval) dict list"
  | Simulation_predict "(string, pyval) dict" string

datatype learning_request =
    Learning_ingest string string string metric_bundle string
  | Learning_aggregate "string option"
  | Learning_trends "string option"
  | Learning_report
  | Learning_reflect

datatype twin_request =
    Twin_snapshot
  | Twin_replay "string option" "string option" int
  | Audit_replay "string option" "string option" int
  | Twin_error string string
  | Twin_subscribers

datatype fleet_request =
    Fleet_status
  | Fleet_announce "node_health option"
  | Fleet_elect
  | Fleet_enqueue string string "string list" int "(string, pyval) dict"
  | Fleet_adopt
  | Fleet_leader
  | Fleet_bus_status
  | Fleet_bus_events int

datatype evolution_request =
    Evolution_domains
  | Evolution_propose string string string string
  | Evolution_evaluate string metric_bundle
  | Evolution_adopt string
  | Evolution_ledger
  | Evolution_targets
  | Evolution_apply string string "(string, pyval) dict"
  | Evolution_revert string
  | Evolution_mutations

datatype request =
    Root
  | Integrations_status
  | To_policy policy_request
  | To_memory memory_request
  | To_pool pool_request
  | To_agent agent_request
  | To_market market_request
  | To_simulation simulation_request
  | To_learning learning_request
  | To_twin twin_request
  | To_fleet fleet_request
  | To_evolution evolution_request

section \<open>Routing\<close>

definition reading :: "('m plane \<Rightarrow> body reply) \<Rightarrow> 'm handler" where
  "reading f w = (f w, w)"

fun route_policy :: "'m outside \<Rightarrow> policy_request \<Rightarrow> 'm handler" where
  "route_policy cx Policy_seed = api_policy_seed"
| "route_policy cx Policy_rules = reading api_policy_rules"
| "route_policy cx (Policy_evaluate p action res cost calls) = api_policy_evaluate cx p action res cost calls"
| "route_policy cx (Policy_approve key decision_id role) = api_policy_approve cx key decision_id role"
| "route_policy cx Policy_pending = reading api_policy_pending"
| "route_policy cx (Policy_log limit) = reading (api_policy_log limit)"
| "route_policy cx (Policy_add_limit limit) = api_policy_add_limit limit"
| "route_policy cx (Policy_lockdown key enabled) = api_policy_lockdown cx key enabled"

fun route_memory :: "'m outside \<Rightarrow> memory_request \<Rightarrow> 'm handler" where
  "route_memory cx (Memory_write key v agent_id reason branch) = api_memory_write cx key v agent_id reason branch"
| "route_memory cx (Memory_read key branch version) = reading (api_memory_read key branch version)"
| "route_memory cx (Memory_history key branch) = reading (api_memory_history key branch)"
| "route_memory cx (Memory_diff key branch a b) = reading (api_memory_diff key branch a b)"
| "route_memory cx (Memory_rollback req) = api_memory_rollback cx req"
| "route_memory cx (Memory_branch req) = api_memory_branch cx req"
| "route_memory cx (Memory_snapshot asof) = reading (api_memory_snapshot asof)"

fun route_pool :: "'m outside \<Rightarrow> pool_request \<Rightarrow> 'm handler" where
  "route_pool cx (Agent_register name skills) = api_agent_register cx name skills"
| "route_pool cx (Agent_heartbeat agent_id load) = api_agent_heartbeat cx agent_id load"
| "route_pool cx Agents_list = reading api_agents_list"
| "route_pool cx (Task_submit task) = api_task_submit cx task"
| "route_pool cx (Task_assign task_id) = api_task_assign cx task_id"
| "route_pool cx (Task_complete task_id cost) = api_task_complete cx task_id cost"
| "route_pool cx Orchestrator_report = reading api_orchestrator_report"
| "route_pool cx Orchestrator_balance = api_orchestrator_balance"
| "route_pool cx Orchestrator_spawn = api_orchestrator_spawn cx"
| "route_pool cx Orchestrator_terminate_idle = api_orchestrator_terminate_idle cx"
| "route_pool cx (Orchestrator_predict h) = reading (api_orchestrator_predict h)"

fun route_agent :: "'m outside \<Rightarrow> agent_request \<Rightarrow> 'm handler" where
  "route_agent cx (Agent_run prompt session key provider) = api_agent_run cx prompt session key provider"
| "route_agent cx (Agent_run_stream prompt session key provider n) = api_agent_run_stream cx prompt session key provider n"

fun route_market :: "'m outside \<Rightarrow> market_request \<Rightarrow> 'm handler" where
  "route_market cx (Skill_publish name description kind author version interface tags) =
     api_skill_publish cx name description kind author version interface tags"
| "route_market cx (Skill_search query kind) = reading (api_skill_search query kind)"
| "route_market cx (Skill_install skill_id agent_id version) = api_skill_install skill_id agent_id version"
| "route_market cx (Skill_remove skill_id agent_id) = api_skill_remove skill_id agent_id"
| "route_market cx (Skill_rate skill_id stars) = api_skill_rate skill_id stars"
| "route_market cx (Skill_recommend agent_id) = reading (api_skill_recommend agent_id)"
| "route_market cx (Remote_register url) = api_remote_register url"
| "route_market cx (Remote_sync url) = api_remote_sync cx url"
| "route_market cx Remote_sources = reading api_remote_sources"
| "route_market cx (Marketplace_authorize p action skill grants) = api_marketplace_authorize cx p action skill grants"

fun route_simulation :: "'m outside \<Rightarrow> simulation_request \<Rightarrow> 'm handler" where
  "route_simulation cx (Simulation_run action domain params) = api_simulation_run cx action domain params"
| "route_simulation cx Simulation_domains = reading (\<lambda>_. api_simulation_domains)"
| "route_simulation cx (Simulation_approve simulation_id approver) = api_simulation_approve simulation_id approver"
| "route_simulation cx Simulation_history = reading api_simulation_history"
| "route_simulation cx (Simulation_dryrun plan domain a b c) = reading (\<lambda>_. api_simulation_dryrun cx plan domain a b c)"
| "route_simulation cx Predictor_status = reading api_predictor_status"
| "route_simulation cx (Predictor_train traces) = api_predictor_train cx traces"
| "route_simulation cx (Simulation_predict plan domain) = reading (api_simulation_predict cx plan domain)"

fun route_learning :: "'m outside \<Rightarrow> learning_request \<Rightarrow> 'm handler" where
  "route_learning cx (Learning_ingest task_id agent_id task_type metrics summary) =
     api_learning_ingest cx task_id agent_id task_type metrics summary"
| "route_learning cx (Learning_aggregate t) = reading (api_learning_aggregate cx t)"
| "route_learning cx (Learning_trends t) = reading (api_learning_trends cx t)"
| "route_learning cx Learning_report = reading (api_learning_report cx)"
| "route_learning cx Learning_reflect = api_learning_reflect cx"

fun route_twin :: "'m outside \<Rightarrow> twin_request \<Rightarrow> 'm handler" where
  "route_twin cx Twin_snapshot = api_twin_snapshot cx"
| "route_twin cx (Twin_replay subject subsystem n) = reading (api_twin_replay subject subsystem n)"
| "route_twin cx (Audit_replay subject subsystem n) = reading (api_audit_replay subject subsystem n)"
| "route_twin cx (Twin_error source message) = api_twin_error cx source message"
| "route_twin cx Twin_subscribers = reading api_twin_stream_subscribers"

fun route_fleet :: "'m outside \<Rightarrow> fleet_request \<Rightarrow> 'm handler" where
  "route_fleet cx Fleet_status = reading (api_fleet_status cx)"
| "route_fleet cx (Fleet_announce health) = api_fleet_announce cx health"
| "route_fleet cx Fleet_elect = api_fleet_elect cx"
| "route_fleet cx (Fleet_enqueue name signature skills priority payload) =
     api_fleet_enqueue (task_body name signature skills priority payload)"
| "route_fleet cx Fleet_adopt = api_fleet_adopt cx"
| "route_fleet cx Fleet_leader = reading api_fleet_leader"
| "route_fleet cx Fleet_bus_status = reading (\<lambda>_. api_fleet_bus_status cx)"
| "route_fleet cx (Fleet_bus_events n) = reading (api_fleet_bus_events n)"

fun route_evolution :: "'m outside \<Rightarrow> evolution_request \<Rightarrow> 'm handler" where
  "route_evolution cx Evolution_domains = reading (\<lambda>_. api_evolution_domains)"
| "route_evolution cx (Evolution_propose domain title description hypothesis) =
     api_evolution_propose cx domain title description hypothesis"
| "route_evolution cx (Evolution_evaluate proposal_id after) = api_evolution_evaluate cx proposal_id after"
| "route_evolution cx (Evolution_adopt proposal_id) = api_evolution_adopt proposal_id"
| "route_evolution cx Evolution_ledger = reading api_evolution_ledger"
| "route_evolution cx Evolution_targets = reading (\<lambda>_. api_evolution_targets)"
| "route_evolution cx (Evolution_apply proposal_id target mutation) = api_evolution_apply cx proposal_id target mutation"
| "route_evolution cx (Evolution_revert mutation_id) = api_evolution_revert cx mutation_id"
| "route_evolution cx Evolution_mutations = reading api_evolution_mutations"

definition version_text :: string where
  "version_text = ''0.9.0''"

fun handle :: "'m outside \<Rightarrow> request \<Rightarrow> 'm handler" where
  "handle cx Root = reading (\<lambda>_. api_root version_text)"
| "handle cx Integrations_status = reading (\<lambda>_. api_integrations_status cx)"
| "handle cx (To_policy r) = route_policy cx r"
| "handle cx (To_memory r) = route_memory cx r"
| "handle cx (To_pool r) = route_pool cx r"
| "handle cx (To_agent r) = route_agent cx r"
| "handle cx (To_market r) = route_market cx r"
| "handle cx (To_simulation r) = route_simulation cx r"
| "handle cx (To_learning r) = route_learning cx r"
| "handle cx (To_twin r) = route_twin cx r"
| "handle cx (To_fleet r) = route_fleet cx r"
| "handle cx (To_evolution r) = route_evolution cx r"

section \<open>The plane as a machine\<close>

definition plane_scheduler_tick :: "'m outside \<Rightarrow> 'm plane \<Rightarrow> 'm plane" where
  "plane_scheduler_tick cx w =
     snd (call_s (\<lambda>w. (aw_orchestrator w, plane_bus w)) (\<lambda>(orch, b) w. w\<lparr>aw_orchestrator := orch, aw_bus := Some b\<rparr>)
       (scheduler_tick broadcast_event (ou_now cx)) w)"

definition plane_reflection_tick :: "'m outside \<Rightarrow> 'm plane \<Rightarrow> 'm plane" where
  "plane_reflection_tick cx w =
     snd (reflection_tick broadcast_event (ou_hash cx) (ou_http cx) (re_llm (ou_runner cx)) (ou_env cx) w)"

datatype event =
    Request request
  | Stream stream_event
  | Scheduler_tick
  | Reflection_tick

fun plane_step :: "'m outside \<times> event \<Rightarrow> 'm plane \<Rightarrow> 'm plane" where
  \<comment> \<open>every event reads the outside anew\<close>
  "plane_step (cx, Request r) w = snd (handle cx r w)"
| "plane_step (cx, Stream ev) w = twin_stream cx ev w"
| "plane_step (cx, Scheduler_tick) w = plane_scheduler_tick cx w"
| "plane_step (cx, Reflection_tick) w = plane_reflection_tick cx w"

end
