(* ===== verification/Plane_Moves.thy ===== *)
theory Plane_Moves
  imports Plane_Step Policy_Runs Agent_Runner_Proofs Evolution_Properties Marketplace_Sync Simulation_Properties Twin_Properties
begin

text \<open>
  How the subsystems of the control plane move when a run or a review goes through them: the policy
  by its own operations, the memory and the bus by appending, the pool and the feed within their
  invariants. The rules compose along \<open>seq_r\<close>, so a handler is checked by following its text.
\<close>

section \<open>The bus and its feed\<close>

definition keeps :: "('s \<Rightarrow> bool) \<Rightarrow> 's \<Rightarrow> 's \<Rightarrow> bool" where
  "keeps P s t \<longleftrightarrow> (P s \<longrightarrow> P t)"

lemma keeps_refl [simp]: "keeps P s s"
  by (simp add: keeps_def)

lemma keeps_trans: "keeps P s t \<Longrightarrow> keeps P t u \<Longrightarrow> keeps P s u"
  by (simp add: keeps_def)

definition live_grows :: "live_bus \<Rightarrow> live_bus \<Rightarrow> bool" where
  "live_grows b b' \<longleftrightarrow> prefix (bus_published b) (bus_published b') \<and> bus_subs b' = bus_subs b \<and> keeps feed_ok (lb_feed b) (lb_feed b')"

lemma live_grows_refl [simp]: "live_grows b b"
  by (simp add: live_grows_def)

lemma live_grows_trans: "live_grows a b \<Longrightarrow> live_grows b c \<Longrightarrow> live_grows a c"
  unfolding live_grows_def by (auto intro: prefix_order.trans keeps_trans)

lemma live_grows_feed: "live_grows b (b\<lparr>lb_feed := feed_step ev (lb_feed b)\<rparr>)"
  by (simp add: live_grows_def keeps_def feed_machine.step_ok)

lemma live_grows_event: "live_grows b (snd (broadcast_event h subject payload b))"
  using live_grows_feed [of b "Published subject payload"] by (cases h) simp

lemma live_grows_deliver: "live_grows b (snd (deliver broadcast_event hs subject payload b))"
proof (induction hs arbitrary: b)
  case (Cons h hs)
  have h: "live_grows b (snd (broadcast_event h subject payload b))" by (rule live_grows_event)
  show ?case
  proof (cases "broadcast_event h subject payload b")
    case (Pair r b')
    with h Cons.IH [of b'] show ?thesis by (cases r) (auto intro: live_grows_trans)
  qed
qed simp

lemma live_grows_publish: "live_grows b (snd (bus_publish broadcast_event subject payload b))"
proof -
  have "live_grows b (b\<lparr>bus_published := bus_published b @ [(subject, payload)]\<rparr>)" by (simp add: live_grows_def)
  then show ?thesis unfolding bus_publish_def by (rule live_grows_trans) (rule live_grows_deliver)
qed

fun bus_grows :: "live_bus option \<Rightarrow> live_bus option \<Rightarrow> bool" where
  "bus_grows None b = (\<forall>c. b = Some c \<longrightarrow> live_grows new_live_bus c)"
| "bus_grows (Some a) b = (\<exists>c. b = Some c \<and> live_grows a c)"

lemma bus_grows_refl [simp]: "bus_grows b b"
  by (cases b) auto

lemma bus_grows_trans: "bus_grows a b \<Longrightarrow> bus_grows b c \<Longrightarrow> bus_grows a c"
  by (cases a; cases b) (auto intro: live_grows_trans)

lemma bus_grows_plane: "bus_grows (aw_bus w) (aw_bus w') \<Longrightarrow> live_grows (plane_bus w) (plane_bus w')"
  by (cases "aw_bus w"; cases "aw_bus w'") (auto simp: plane_bus_def)

lemma bus_grows_put: "live_grows (plane_bus w) b \<Longrightarrow> bus_grows (aw_bus w) (Some b)"
  by (cases "aw_bus w") (auto simp: plane_bus_def)

section \<open>The memory\<close>

definition mem_grows :: "memory_store \<Rightarrow> memory_store \<Rightarrow> bool" where
  "mem_grows rows rows' \<longleftrightarrow> prefix rows rows' \<and> keeps store_ok rows rows'"

lemma mem_grows_refl [simp]: "mem_grows rows rows"
  by (simp add: mem_grows_def)

lemma mem_grows_trans: "mem_grows a b \<Longrightarrow> mem_grows b c \<Longrightarrow> mem_grows a c"
  unfolding mem_grows_def by (auto intro: prefix_order.trans keeps_trans)

lemma mem_grows_cmd: "mem_cmd_result h c rows = Inr (e, rows') \<Longrightarrow> valid_mem_cmd c \<Longrightarrow> mem_grows rows rows'"
  using mem_step_prefix [of rows h c] mem_step_ok [of rows c h] by (simp add: mem_grows_def keeps_def mem_step_def)

section \<open>The agent world\<close>

definition agent_moves :: "(policy_cmd \<Rightarrow> bool) \<Rightarrow> (listener, live_ext, 'm) agent_world_scheme \<Rightarrow>
    (listener, live_ext, 'm) agent_world_scheme \<Rightarrow> bool" where
  "agent_moves V w w' \<longleftrightarrow> leads policy_step V (aw_policy w) (aw_policy w') \<and> mem_grows (aw_memory w) (aw_memory w') \<and>
     keeps pool_ok (aw_orchestrator w) (aw_orchestrator w') \<and> bus_grows (aw_bus w) (aw_bus w') \<and>
     agent_world.more w' = agent_world.more w"

lemma agent_moves_refl [simp]: "agent_moves V w w"
  by (simp add: agent_moves_def)

lemma agent_moves_trans: "agent_moves V w1 w2 \<Longrightarrow> agent_moves V w2 w3 \<Longrightarrow> agent_moves V w1 w3"
  unfolding agent_moves_def by (auto intro: leads_trans mem_grows_trans keeps_trans bus_grows_trans)

lemma seq_r_agent_moves:
  assumes "agent_moves V w (snd m)" "\<And>a s. m = (Inr a, s) \<Longrightarrow> agent_moves V s (snd (f a s))"
  shows "agent_moves V w (snd (seq_r m f))"
  using assms by (cases m; cases "fst m") (auto intro: agent_moves_trans)

definition ungated :: "policy_cmd \<Rightarrow> bool" where
  \<comment> \<open>the operations of the policy no route guards with the admin key\<close>
  "ungated c = (case c of Approve _ _ _ \<Rightarrow> False | SetLockdown _ \<Rightarrow> False | _ \<Rightarrow> True)"

lemma ungated_simps [simp]: "ungated (Evaluate env p action res cost calls)" "ungated (AddRule rule)" "ungated (AddLimit limit)"
    "ungated (Foreign env subsystem subject ev payload who)" "\<not> ungated (Approve env decision_id role)" "\<not> ungated (SetLockdown b)"
  by (simp_all add: ungated_def)

definition admits_calls :: "(policy_cmd \<Rightarrow> bool) \<Rightarrow> bool" where
  "admits_calls V \<longleftrightarrow> (\<forall>env p action res cost calls. V (Evaluate env p action res cost calls))"

named_theorems agent_moves_intros \<open>calls that move the agent world\<close>

lemma publish_agent_moves [agent_moves_intros]: "agent_moves V w (snd (world_publish broadcast_event subject payload w))"
  using live_grows_publish
  by (auto simp: world_publish_def agent_moves_def split: option.splits prod.splits) (metis snd_conv)

lemma run_publish_agent_moves [agent_moves_intros]: "agent_moves V w (snd (run_publish broadcast_event run_id session stage payload w))"
  unfolding run_publish_def by (rule publish_agent_moves)

lemma learn_publish_agent_moves [agent_moves_intros]: "agent_moves V w (snd (learn_publish broadcast_event run_id stage payload w))"
  unfolding learn_publish_def by (rule publish_agent_moves)

lemma evaluate_agent_moves [agent_moves_intros]:
  assumes "admits_calls V"
  shows "agent_moves V w (snd (world_policy (evaluate env p action res cost calls) w))"
proof (cases "evaluate env p action res cost calls (aw_policy w)")
  case (Inr r)
  then show ?thesis
    using leads_step [of V "Evaluate env p action res cost calls" policy_step "aw_policy w"] assms
    by (cases r) (simp add: admits_calls_def world_policy_def lift_r_def agent_moves_def)
qed (simp add: world_policy_def lift_r_def)

lemma memory_agent_moves:
  assumes "valid_mem_cmd c"
  shows "agent_moves V w (snd (world_memory (mem_cmd_result h c) w))"
proof (cases "mem_cmd_result h c (aw_memory w)")
  case (Inr r)
  then show ?thesis using mem_grows_cmd [of h c "aw_memory w" "fst r" "snd r"] assms
    by (cases r) (simp add: world_memory_def lift_r_def agent_moves_def)
qed (simp add: world_memory_def lift_r_def)

lemma write_agent_moves [agent_moves_intros]:
  "pv_ok (PDict v) \<Longrightarrow> agent_moves V w (snd (world_memory (mem_write h env key v agent_id reason branch) w))"
proof -
  assume "pv_ok (PDict v)"
  moreover have "mem_cmd_result h (Write env key v agent_id reason branch) = mem_write h env key v agent_id reason branch"
    by (rule ext) simp
  ultimately show ?thesis
    using memory_agent_moves [of "Write env key v agent_id reason branch" V w h] by (simp only: valid_mem_cmd.simps)
qed

lemma pool_agent_moves:
  assumes "\<And>a st. f (aw_orchestrator w) = Inr (a, st) \<Longrightarrow> pool_ok (aw_orchestrator w) \<Longrightarrow> pool_ok st"
  shows "agent_moves V w (snd (world_pool f w))"
  using assms by (auto simp: world_pool_def lift_r_def agent_moves_def keeps_def split: sum.splits prod.splits)

lemma complete_agent_moves [agent_moves_intros]: "agent_moves V w (snd (world_pool (complete_task env task_id res cost) w))"
  using orch_step_pool_ok [of _ "Complete env task_id res cost"] by (intro pool_agent_moves) (metis orch_step.simps(5) settle_simps(2))

lemma fail_agent_moves [agent_moves_intros]: "agent_moves V w (snd (world_pool (fail_task env task_id err cost) w))"
  using orch_step_pool_ok [of _ "Fail env task_id err cost"] by (intro pool_agent_moves) (metis orch_step.simps(6) settle_simps(2))

section \<open>A run and a review\<close>

lemma orch_step_settle_ok: "orch_step c st = settle st (f st) \<Longrightarrow> f st = Inr (a, st') \<Longrightarrow> pool_ok st \<Longrightarrow> pool_ok st'"
  using orch_step_pool_ok [of st c] by simp

lemma assign_pool_ok: "assign env task_id st = Inr (a, st') \<Longrightarrow> pool_ok st \<Longrightarrow> pool_ok st'"
  using orch_step_settle_ok [of "Assign env task_id" st "assign env task_id"] by simp

lemma assign_run_pool_ok:
  assumes "assign_run e task_id run_id skills st = Inr (a, st')" "pool_ok st"
  shows "pool_ok st'"
proof -
  obtain k st1 where 1: "assign (e 5) task_id st = Inr (k, st1)" using assms(1) by (auto simp: assign_run_def split: sum.splits)
  then have ok1: "pool_ok st1" using assign_pool_ok assms(2) by blast
  show ?thesis
  proof (cases "assigned_agent k st1")
    case None
    have "disposable_agent (e 6) run_id skills st1 = register_agent (e 6) (''web-agent-'' @ last_n 6 run_id) (if skills = [] then [''chat''] else skills) WORKER st1"
      by (simp add: disposable_agent_def)
    then have "pool_ok (snd (disposable_agent (e 6) run_id skills st1))"
      using orch_step_pool_ok [OF ok1, of "Register (e 6) (''web-agent-'' @ last_n 6 run_id) (if skills = [] then [''chat''] else skills) WORKER"]
      by simp
    with assms(1) 1 None assign_pool_ok show ?thesis
      by (fastforce simp: assign_run_def split: sum.splits prod.splits)
  next
    case (Some agent)
    with assms(1) 1 ok1 show ?thesis by (auto simp: assign_run_def)
  qed
qed

lemma submit_pool_ok: "pool_ok st \<Longrightarrow> pool_ok (submit env task st)"
  using orch_step_pool_ok [of st "Submit env task"] by simp

lemma assign_agent_moves [agent_moves_intros]:
  "agent_moves V w (snd (world_pool (\<lambda>st. assign_run e task_id run_id skills (submit env task st)) w))"
  by (rule pool_agent_moves) (blast intro: assign_run_pool_ok submit_pool_ok)

lemma run_setup_agent_moves:
  assumes "admits_calls V"
  shows "agent_moves V w (snd (run_setup broadcast_event h re e prompt session_id w))"
  unfolding run_setup_def Let_def
  by (intro seq_r_agent_moves agent_moves_intros assms) (auto intro!: seq_r_agent_moves agent_moves_intros)

lemma finish_failed_agent_moves: "agent_moves V w (snd (finish_failed broadcast_event e session_id su err w))"
  unfolding finish_failed_def by (intro seq_r_agent_moves agent_moves_intros)

lemma finish_answered_agent_moves: "pv_ok answer \<Longrightarrow> agent_moves V w (snd (finish_answered broadcast_event h e session_id su answer w))"
  unfolding finish_answered_def by (intro seq_r_agent_moves agent_moves_intros) simp

lemma run_agent_moves:
  assumes "admits_calls V"
  shows "agent_moves V w (snd (run_agent broadcast_event h http re e prompt session_id key provider w))"
  unfolding run_agent_def
proof (rule seq_r_agent_moves [OF run_setup_agent_moves [OF assms]])
  fix outcome w1
  show "agent_moves V w1 (snd (case outcome of Denied r \<Rightarrow> (Inr r, w1)
       | Ready su \<Rightarrow>
           seq_r (run_publish broadcast_event (su_run_id su) session_id ''thinking'' [(''agent_name'', PStr (su_agent_name su))] w1) (\<lambda>_ w2.
             case call_llm http (re_llm re) prompt (system_prompt re (su_agent_skills su)) 1200 (Some (su_model su)) key provider of
               Inl (Other_error err) \<Rightarrow> (Inl err, w2)
             | Inl err \<Rightarrow>
                 seq_r (finish_failed broadcast_event e session_id su (error_text err) w2) (\<lambda>_ w3.
                   (Inr ((run_result (su_run_id su) ''failed'' prompt)
                      \<lparr>rn_task_id := Some (su_task_id su), rn_error := Some (error_text err)\<rparr>), w3))
             | Inr answer \<Rightarrow>
                 seq_r (finish_answered broadcast_event h e session_id su answer w2) (\<lambda>_ w3.
                   (Inr ((run_result (su_run_id su) ''completed'' prompt)
                      \<lparr>rn_answer := answer, rn_task_id := Some (su_task_id su), rn_agent_name := Some (su_agent_name su),
                        rn_duration_ms := duration_ms e su\<rparr>), w3)))))"
    by (auto split: setup_outcome.splits sum.splits llm_error.splits dest: call_llm_ok
        intro!: seq_r_agent_moves finish_failed_agent_moves finish_answered_agent_moves run_publish_agent_moves)
qed

lemma run_stream_moves:
  assumes "admits_calls V"
  shows "agent_moves V w (snd (run_stream broadcast_event h open_stream re e prompt session_id key provider stop_after w))"
proof (cases "run_setup broadcast_event h re e prompt session_id w")
  case (Pair r w1)
  have w1: "agent_moves V w w1" using run_setup_agent_moves [OF assms] Pair by (metis snd_conv)
  have trans: "agent_moves V w w3" if "agent_moves V w1 w2" "agent_moves V w2 w3" for w2 w3
    using w1 that agent_moves_trans by blast
  have pub: "agent_moves V w1 w2" if "run_publish broadcast_event i s st p w1 = (q, w2)" for i s st p q w2
    using run_publish_agent_moves [of V w1 i s st p] that by simp
  have failed: "agent_moves V w2 w3" if "finish_failed broadcast_event e s su err w2 = (q, w3)" for s su err q w2 w3
    using finish_failed_agent_moves [of V w2 e s su err] that by simp
  have answered: "agent_moves V w2 w3" if "finish_answered broadcast_event h e s su (PStr t) w2 = (q, w3)" for s su t q w2 w3
    using finish_answered_agent_moves [of "PStr t" V w2 h e s su] that by simp
  show ?thesis
    unfolding run_stream_def Pair
    by (auto simp: Let_def w1 split: sum.splits setup_outcome.splits prod.splits option.splits llm_error.splits
        intro: trans [OF pub agent_moves_refl] trans [OF pub failed] trans [OF pub answered])
qed

end
