(* ===== verification/Plane_Proofs.thy ===== *)
theory Plane_Proofs
  imports Plane_Moves Fleet_Contracts Reflection_Properties
begin

text \<open>
  Every handler and every tick of the control plane moves the plane only in the ways of \<open>plane_moves\<close>:
  the policy by its own operations, the logs by appending, every other subsystem within its invariant.
\<close>

section \<open>The relation\<close>

definition records_ok :: "mutation_record list \<Rightarrow> bool" where
  \<comment> \<open>what a mutation holds are Python dictionaries\<close>
  "records_ok rs \<longleftrightarrow> (\<forall>r \<in> set rs. pv_ok (PDict (mu_mutation r)) \<and> pv_ok (get_or (mu_before r) ''template'' PNone))"

definition memory_ok :: "'m plane \<Rightarrow> bool" where
  "memory_ok w \<longleftrightarrow> store_ok (aw_memory w) \<and> records_ok (pl_mutations w)"

definition twin_ok :: "twin_builder \<Rightarrow> bool" where
  "twin_ok tw \<longleftrightarrow> length (tw_errors tw) \<le> 200"

definition shelf_ok :: "fleet_storage \<Rightarrow> bool" where
  \<comment> \<open>the in-process store, one announcement per node\<close>
  "shelf_ok st \<longleftrightarrow> (\<exists>m. st = In_memory m \<and> ms_ok m)"

definition adopted_in :: "evolution_engine \<Rightarrow> string \<Rightarrow> bool" where
  "adopted_in eng proposal_id \<longleftrightarrow> (\<exists>p. evo_get proposal_id eng = Inr p \<and> ep_status p = ''adopted'')"

definition records_backed :: "evolution_engine \<Rightarrow> evolution_engine \<Rightarrow> mutation_record list \<Rightarrow> mutation_record list \<Rightarrow> bool" where
  \<comment> \<open>a mutation that was not there before is of a proposal that was adopted on the way\<close>
  "records_backed eng eng' rs rs' \<longleftrightarrow> (\<forall>r \<in> set rs'. (\<exists>r0 \<in> set rs. mu_proposal_id r0 = mu_proposal_id r) \<or>
     (\<exists>mid. leads evo_step (\<lambda>_. True) eng mid \<and> leads evo_step (\<lambda>_. True) mid eng' \<and> adopted_in mid (mu_proposal_id r)))"

lemma records_backed_refl [simp]: "records_backed eng eng' rs rs"
  by (auto simp: records_backed_def)

lemma records_backed_trans:
  assumes "records_backed e1 e2 r1 r2" "records_backed e2 e3 r2 r3"
    and "leads evo_step (\<lambda>_. True) e1 e2" "leads evo_step (\<lambda>_. True) e2 e3"
  shows "records_backed e1 e3 r1 r3"
  unfolding records_backed_def
proof
  fix r assume "r \<in> set r3"
  with assms(2) consider r0 where "r0 \<in> set r2" "mu_proposal_id r0 = mu_proposal_id r"
    | mid where "leads evo_step (\<lambda>_. True) e2 mid" "leads evo_step (\<lambda>_. True) mid e3" "adopted_in mid (mu_proposal_id r)"
    unfolding records_backed_def by blast
  then show "(\<exists>r0 \<in> set r1. mu_proposal_id r0 = mu_proposal_id r) \<or>
     (\<exists>mid. leads evo_step (\<lambda>_. True) e1 mid \<and> leads evo_step (\<lambda>_. True) mid e3 \<and> adopted_in mid (mu_proposal_id r))"
  proof cases
    case 1
    with assms(1) have "(\<exists>r0 \<in> set r1. mu_proposal_id r0 = mu_proposal_id r) \<or>
       (\<exists>mid. leads evo_step (\<lambda>_. True) e1 mid \<and> leads evo_step (\<lambda>_. True) mid e2 \<and> adopted_in mid (mu_proposal_id r))"
      unfolding records_backed_def by metis
    with assms(4) show ?thesis by (blast intro: leads_trans)
  next
    case 2
    with assms(3) show ?thesis by (blast intro: leads_trans)
  qed
qed

definition plane_moves :: "(policy_cmd \<Rightarrow> bool) \<Rightarrow> bool \<Rightarrow> 'm plane \<Rightarrow> 'm plane \<Rightarrow> bool" where
  \<comment> \<open>\<open>V\<close> are the policy operations that may happen, \<open>G\<close> says that the documents of the request are dictionaries\<close>
  "plane_moves V G w w' \<longleftrightarrow>
     leads policy_step V (aw_policy w) (aw_policy w') \<and> prefix (aw_memory w) (aw_memory w') \<and> (G \<longrightarrow> keeps memory_ok w w') \<and>
     keeps pool_ok (aw_orchestrator w) (aw_orchestrator w') \<and> bus_grows (aw_bus w) (aw_bus w') \<and>
     leads evo_step (\<lambda>_. True) (rw_evolution w) (rw_evolution w') \<and> keeps catalog_ok (pl_catalog w) (pl_catalog w') \<and>
     keeps sandbox_ok (pl_sandbox w) (pl_sandbox w') \<and> keeps shelf_ok (pl_storage w) (pl_storage w') \<and>
     keeps twin_ok (pl_twin w) (pl_twin w') \<and>
     records_backed (rw_evolution w) (rw_evolution w') (pl_mutations w) (pl_mutations w')"

lemma plane_moves_refl [simp]: "plane_moves V G w w"
  by (simp add: plane_moves_def)

lemma plane_movesD:
  assumes "plane_moves V G w w'"
  shows "leads policy_step V (aw_policy w) (aw_policy w')" "prefix (aw_memory w) (aw_memory w')"
    "G \<Longrightarrow> keeps memory_ok w w'" "keeps pool_ok (aw_orchestrator w) (aw_orchestrator w')"
    "bus_grows (aw_bus w) (aw_bus w')" "leads evo_step (\<lambda>_. True) (rw_evolution w) (rw_evolution w')"
    "keeps catalog_ok (pl_catalog w) (pl_catalog w')" "keeps sandbox_ok (pl_sandbox w) (pl_sandbox w')"
    "keeps shelf_ok (pl_storage w) (pl_storage w')" "keeps twin_ok (pl_twin w) (pl_twin w')"
    "records_backed (rw_evolution w) (rw_evolution w') (pl_mutations w) (pl_mutations w')"
  using assms by (simp_all only: plane_moves_def simp_thms)

lemma plane_movesI:
  assumes "leads policy_step V (aw_policy w) (aw_policy w')" "prefix (aw_memory w) (aw_memory w')"
    "G \<Longrightarrow> keeps memory_ok w w'" "keeps pool_ok (aw_orchestrator w) (aw_orchestrator w')"
    "bus_grows (aw_bus w) (aw_bus w')" "leads evo_step (\<lambda>_. True) (rw_evolution w) (rw_evolution w')"
    "keeps catalog_ok (pl_catalog w) (pl_catalog w')" "keeps sandbox_ok (pl_sandbox w) (pl_sandbox w')"
    "keeps shelf_ok (pl_storage w) (pl_storage w')" "keeps twin_ok (pl_twin w) (pl_twin w')"
    "records_backed (rw_evolution w) (rw_evolution w') (pl_mutations w) (pl_mutations w')"
  shows "plane_moves V G w w'"
  unfolding plane_moves_def by (intro conjI impI; rule assms)

lemma plane_moves_trans:
  assumes "plane_moves V G w1 w2" "plane_moves V G w2 w3"
  shows "plane_moves V G w1 w3"
proof (rule plane_movesI)
  note a = plane_movesD [OF assms(1)] and b = plane_movesD [OF assms(2)]
  show "leads policy_step V (aw_policy w1) (aw_policy w3)" using a(1) b(1) by (rule leads_trans)
  show "prefix (aw_memory w1) (aw_memory w3)" using a(2) b(2) by (rule prefix_order.trans)
  show "keeps memory_ok w1 w3" if G using a(3) [OF that] b(3) [OF that] by (rule keeps_trans)
  show "keeps pool_ok (aw_orchestrator w1) (aw_orchestrator w3)" using a(4) b(4) by (rule keeps_trans)
  show "bus_grows (aw_bus w1) (aw_bus w3)" using a(5) b(5) by (rule bus_grows_trans)
  show "leads evo_step (\<lambda>_. True) (rw_evolution w1) (rw_evolution w3)" using a(6) b(6) by (rule leads_trans)
  show "keeps catalog_ok (pl_catalog w1) (pl_catalog w3)" using a(7) b(7) by (rule keeps_trans)
  show "keeps sandbox_ok (pl_sandbox w1) (pl_sandbox w3)" using a(8) b(8) by (rule keeps_trans)
  show "keeps shelf_ok (pl_storage w1) (pl_storage w3)" using a(9) b(9) by (rule keeps_trans)
  show "keeps twin_ok (pl_twin w1) (pl_twin w3)" using a(10) b(10) by (rule keeps_trans)
  show "records_backed (rw_evolution w1) (rw_evolution w3) (pl_mutations w1) (pl_mutations w3)"
    using a(11) b(11) a(6) b(6) by (rule records_backed_trans)
qed

lemma plane_moves_mono:
  assumes "plane_moves V G w w'" "\<And>c. V c \<Longrightarrow> W c"
  shows "plane_moves W G w w'"
  by (rule plane_movesI) (rule leads_mono [OF plane_movesD(1) [OF assms(1)] assms(2)] plane_movesD(2-) [OF assms(1)]; assumption)+

lemma agent_to_plane:
  fixes w :: "'m plane"
  assumes "agent_moves V w w'" shows "plane_moves V G w w'"
proof -
  have "agent_world.more w' = agent_world.more w" using assms by (simp add: agent_moves_def)
  then have same: "rw_evolution w' = rw_evolution w" "pl_mutations w' = pl_mutations w" "pl_catalog w' = pl_catalog w"
      "pl_sandbox w' = pl_sandbox w" "pl_storage w' = pl_storage w" "pl_twin w' = pl_twin w"
    by (cases w, cases w', simp)+
  have "keeps memory_ok w w'" using assms by (simp add: agent_moves_def mem_grows_def keeps_def memory_ok_def same)
  then show ?thesis using assms by (intro plane_movesI) (simp_all add: agent_moves_def mem_grows_def same)
qed

section \<open>Answers leave the plane to the call\<close>

lemma snd_reply [simp]: "snd (uncaught r) = snd r" "snd (catching c n r') = snd r'" "snd (then_reply q f) = snd q"
    "snd (returning wrap q') = snd q'"
  by (simp_all add: uncaught_def catching_def then_reply_def returning_def)

lemma snd_guarded: "snd (guarded cx key f w) = (if require_admin_key cx key = Inr () then snd (f w) else w)"
  by (simp add: guarded_def split: sum.splits)

lemma snd_reading [simp]: "snd (reading f w) = w"
  by (simp add: reading_def)

section \<open>Policy\<close>

lemma policy_plane_moves:
  assumes "V c" "\<And>st. policy_step c st = settle st (f st)"
  shows "plane_moves V G w (snd (world_policy f w))"
proof (cases "f (aw_policy w)")
  case (Inr r)
  have "leads policy_step V (aw_policy w) (policy_step c (aw_policy w))" using assms(1) by (rule leads_step)
  with Inr show ?thesis
    by (cases r) (simp add: assms(2) world_policy_def lift_r_def plane_moves_def keeps_def memory_ok_def)
qed (simp add: world_policy_def lift_r_def)

lemma put_policy_moves: "leads policy_step V (aw_policy w) st \<Longrightarrow> plane_moves V G w (w\<lparr>aw_policy := st\<rparr>)"
  by (simp add: plane_moves_def keeps_def memory_ok_def)

lemma fold_add_rule_leads: "V = ungated \<Longrightarrow> leads policy_step V (e, lg) (fold add_rule rs e, lg)"
proof (induction rs arbitrary: e)
  case (Cons r rs)
  have "leads policy_step V (e, lg) (policy_step (AddRule r) (e, lg))" by (rule leads_step) (simp add: Cons.prems)
  with Cons show ?case by (auto intro: leads_trans)
qed simp

definition unlocked :: "'m outside \<Rightarrow> string option \<Rightarrow> bool" where
  "unlocked cx key \<longleftrightarrow> require_admin_key cx key = Inr ()"

fun policy_unlocked :: "'m outside \<Rightarrow> policy_request \<Rightarrow> bool" where
  "policy_unlocked cx (Policy_approve key decision_id role) = unlocked cx key"
| "policy_unlocked cx (Policy_lockdown key enabled) = unlocked cx key"
| "policy_unlocked cx _ = False"

lemma route_policy_moves:
  "plane_moves (\<lambda>c. policy_unlocked cx r \<or> ungated c) G w (snd (route_policy cx r w))"
proof (cases r)
  case Policy_seed
  have "leads policy_step ungated (aw_policy w) (fold add_rule make_seed_rules (fst (aw_policy w)), snd (aw_policy w))"
    using fold_add_rule_leads [OF refl, of "fst (aw_policy w)" "snd (aw_policy w)"] by simp
  with Policy_seed show ?thesis by (simp add: api_policy_seed_def put_policy_moves)
next
  case (Policy_evaluate p action res cost calls)
  then show ?thesis
    by (simp add: api_policy_evaluate_def)
      (rule policy_plane_moves [where c = "Evaluate (ou_now cx) p action res cost calls"]; simp add: settle_def)
next
  case (Policy_approve key decision_id role)
  have "plane_moves (\<lambda>_. True) G w (snd (world_policy (approve (ou_now cx) decision_id role) w))"
    by (rule policy_plane_moves [where c = "Approve (ou_now cx) decision_id role"]) (simp_all add: settle_def)
  with Policy_approve show ?thesis by (auto simp: api_policy_approve_def snd_guarded unlocked_def)
next
  case (Policy_add_limit limit)
  have "leads policy_step ungated (aw_policy w) (policy_step (AddLimit limit) (aw_policy w))" by (rule leads_step) simp
  with Policy_add_limit show ?thesis by (simp add: api_policy_add_limit_def put_policy_moves)
next
  case (Policy_lockdown key enabled)
  have "leads policy_step (\<lambda>_. True) (aw_policy w) (policy_step (SetLockdown enabled) (aw_policy w))" by (rule leads_step) simp
  with Policy_lockdown show ?thesis
    by (auto simp: api_policy_lockdown_def snd_guarded unlocked_def Let_def put_policy_moves)
qed simp_all

section \<open>Memory\<close>

lemma memory_plane_moves:
  assumes "G \<longrightarrow> valid_mem_cmd c" "\<And>rows. mem_cmd_result h c rows = f rows"
  shows "plane_moves V G w (snd (world_memory f w))"
proof (cases "f (aw_memory w)")
  case (Inr r)
  have "prefix (aw_memory w) (mem_step h c (aw_memory w))" by (rule mem_step_prefix)
  moreover have "G \<longrightarrow> keeps store_ok (aw_memory w) (mem_step h c (aw_memory w))"
    using assms(1) mem_step_ok by (auto simp: keeps_def)
  moreover have "mem_step h c (aw_memory w) = snd r" using Inr by (cases r) (simp add: mem_step_def assms(2))
  ultimately show ?thesis using Inr
    by (cases r) (simp add: world_memory_def lift_r_def plane_moves_def keeps_def memory_ok_def)
qed (simp add: world_memory_def lift_r_def)

fun memory_docs :: "memory_request \<Rightarrow> bool" where
  "memory_docs (Memory_write key v agent_id reason branch) = pv_ok (PDict v)"
| "memory_docs _ = True"

lemma route_memory_moves:
  assumes "G \<longrightarrow> memory_docs r"
  shows "plane_moves V G w (snd (route_memory cx r w))"
proof (cases r)
  case (Memory_write key v agent_id reason branch)
  have "plane_moves V G w (snd (world_memory (mem_write (ou_hash cx) (ou_now cx) key v agent_id reason branch) w))"
    by (rule memory_plane_moves [where c = "Write (ou_now cx) key v agent_id reason branch" and h = "ou_hash cx"])
      (use assms Memory_write in auto)
  with Memory_write show ?thesis by (simp add: api_memory_write_def)
next
  case (Memory_rollback req)
  have "plane_moves V G w (snd (world_memory (mem_rollback (ou_hash cx) (ou_now cx) req) w))"
    by (rule memory_plane_moves [where c = "Rollback (ou_now cx) req" and h = "ou_hash cx"]) simp_all
  with Memory_rollback show ?thesis by (simp add: api_memory_rollback_def)
next
  case (Memory_branch req)
  have "plane_moves V G w (snd (world_memory (mem_branch (ou_now cx) req) w))"
    by (rule memory_plane_moves [where c = "Branch (ou_now cx) req" and h = "ou_hash cx"]) simp_all
  with Memory_branch show ?thesis by (simp add: api_memory_branch_def)
qed simp_all

section \<open>Orchestrator and agents\<close>

lemma put_pool_moves: "keeps pool_ok (aw_orchestrator w) st \<Longrightarrow> plane_moves V G w (w\<lparr>aw_orchestrator := st\<rparr>)"
  by (simp add: plane_moves_def keeps_def memory_ok_def)

lemma world_agents_moves: "keeps pool_ok (aw_orchestrator w) (snd (f (aw_orchestrator w))) \<Longrightarrow> plane_moves V G w (snd (world_agents f w))"
  by (cases "f (aw_orchestrator w)") (simp add: world_agents_def call_s_def put_pool_moves)

lemma snd_case_prod: "snd (case p of (a, w') \<Rightarrow> (g a w', w')) = snd p"
  by (cases p) simp

lemma pool_keeps: "keeps pool_ok st (orch_step c st)"
  by (simp add: keeps_def orch_step_pool_ok)

lemma route_pool_moves: "plane_moves V G w (snd (route_pool cx r w))"
proof (cases r)
  case (Agent_register name skills)
  then show ?thesis using pool_keeps [of "aw_orchestrator w" "Register (ou_now cx) name skills WORKER"]
    by (simp add: api_agent_register_def snd_case_prod world_agents_moves)
next
  case (Agent_heartbeat agent_id load)
  have "agent_moves V w (snd (world_pool (heartbeat (ou_now cx) agent_id load None None) w))"
    using orch_step_pool_ok [of "aw_orchestrator w" "orch_cmd.Heartbeat (ou_now cx) agent_id load None None"]
    by (intro pool_agent_moves) simp
  with Agent_heartbeat show ?thesis by (simp add: api_agent_heartbeat_def agent_to_plane)
next
  case (Task_submit task)
  then show ?thesis by (simp add: api_task_submit_def put_pool_moves keeps_def submit_pool_ok)
next
  case (Task_assign task_id)
  have "agent_moves V w (snd (world_pool (assign (ou_now cx) task_id) w))"
    by (rule pool_agent_moves) (rule assign_pool_ok)
  with Task_assign show ?thesis by (simp add: api_task_assign_def agent_to_plane)
next
  case (Task_complete task_id cost)
  then show ?thesis by (simp add: api_task_complete_def agent_to_plane complete_agent_moves)
next
  case Orchestrator_balance
  then show ?thesis using pool_keeps [of "aw_orchestrator w" "Balance (8 / 10) (2 / 10)"]
    by (simp add: api_orchestrator_balance_def snd_case_prod world_agents_moves)
next
  case Orchestrator_spawn
  then show ?thesis using pool_keeps [of "aw_orchestrator w" "Spawn (ou_now cx) ''worker''"]
    by (simp add: api_orchestrator_spawn_def snd_case_prod world_agents_moves)
next
  case Orchestrator_terminate_idle
  then show ?thesis using pool_keeps [of "aw_orchestrator w" "Terminate (ou_now cx)"]
    by (simp add: api_orchestrator_terminate_idle_def snd_case_prod world_agents_moves)
qed simp_all

lemma ungated_calls [simp]: "admits_calls ungated"
  by (simp add: admits_calls_def)

lemma case_pair_moves:
  assumes "plane_moves V G w (snd p)"
  shows "plane_moves V G w (snd (case p of ((xs, _), w') \<Rightarrow> (g xs, w')))"
  using assms by (auto split: prod.splits)

lemma route_agent_moves: "plane_moves ungated G w (snd (route_agent cx r w))"
proof (cases r)
  case (Agent_run prompt session key provider)
  then show ?thesis by (simp add: api_agent_run_def agent_to_plane run_agent_moves)
next
  case (Agent_run_stream prompt session key provider n)
  have "plane_moves ungated G w (snd (run_stream broadcast_event (ou_hash cx) (ou_stream cx) (ou_runner cx) (ou_env cx) prompt
      (session_of session) key provider n w))"
    by (rule agent_to_plane) (rule run_stream_moves, simp)
  then show ?thesis unfolding Agent_run_stream route_agent.simps api_agent_run_stream_def
    by (rule case_pair_moves)
qed

end
