(* ===== verification/Plane_Routes.thy ===== *)
theory Plane_Routes
  imports Plane_Proofs
begin

text \<open>
  The remaining routes of the control plane, its ticks and the turns of its live connections move the
  plane only in the ways of \<open>plane_moves\<close>; so does every event.
\<close>

section \<open>Marketplace\<close>

lemma put_catalog_moves: "keeps catalog_ok (pl_catalog w) c \<Longrightarrow> plane_moves V G w (w\<lparr>pl_catalog := c\<rparr>)"
  by (simp add: plane_moves_def keeps_def memory_ok_def)

lemma world_catalog_moves: "keeps catalog_ok (pl_catalog w) (snd (f (pl_catalog w))) \<Longrightarrow> plane_moves V G w (snd (world_catalog f w))"
  by (cases "f (pl_catalog w)") (simp add: world_catalog_def call_s_def put_catalog_moves)

lemma sync_fold_ok: "catalog_ok (snd st) \<Longrightarrow> catalog_ok (snd (fold (sync_version env url name raw) ms st))"
proof (induction ms arbitrary: st)
  case (Cons m ms)
  have "catalog_ok (snd (sync_version env url name raw m st))"
    using sync_version_outcome [OF Cons.prems, where env = env and url = url and name = name and raw = raw and meta = m] by (auto simp: unchanged_def extended_def)
  then show ?case using Cons.IH by simp
qed simp

lemma sync_catalog_ok:
  assumes "catalog_ok (rr_catalog g)" shows "catalog_ok (rr_catalog (snd (sync fetch env url g)))"
proof -
  have "catalog_ok c" if "fold (sync_version env url name raw) ms (None, rr_catalog g) = (p, c)" for name raw ms p c
    using sync_fold_ok [where st = "(None, rr_catalog g)" and env = env and url = url and name = name and raw = raw and ms = ms] assms that by simp
  then show ?thesis using assms
    by (auto simp: sync_def Let_def split: sum.splits option.splits prod.splits)
qed

lemma put_registry_moves:
  "keeps catalog_ok (pl_catalog w) (rr_catalog g) \<Longrightarrow> plane_moves V G w (put_registry g w)"
  by (simp add: put_registry_def plane_moves_def keeps_def memory_ok_def)

lemma evaluate_leads: "evaluate env p action res cost calls st = Inr (d, st') \<Longrightarrow> leads policy_step ungated st st'"
  using leads_step [of ungated "Evaluate env p action res cost calls" policy_step st] by simp

lemma authorize_leads:
  assumes "authorize env allow p action skill grants (Some st) = (r, pol)"
  shows "\<exists>st'. pol = Some st' \<and> leads policy_step ungated st st'"
  using assms
  by (auto simp: authorize_def Let_def simp del: split_paired_Ex split: if_splits sum.splits intro: evaluate_leads)

lemma snd_call_s [simp]: "snd (call_s get put f s) = put (snd (f (get s))) s"
  by (simp add: call_s_def split: prod.splits)

lemma route_market_moves: "plane_moves ungated G w (snd (route_market cx r w))"
proof (cases r)
  case (Skill_publish name description kind author version interface tags)
  then show ?thesis by (simp add: api_skill_publish_def world_catalog_moves keeps_def publish_ok)
next
  case (Skill_install skill_id agent_id version)
  then show ?thesis by (simp add: api_skill_install_def world_catalog_moves keeps_def install_ok)
next
  case (Skill_remove skill_id agent_id)
  then show ?thesis by (simp add: api_skill_remove_def snd_case_prod world_catalog_moves keeps_def remove_ok)
next
  case (Skill_rate skill_id stars)
  then show ?thesis
    by (auto simp: api_skill_rate_def lift_r_def keeps_def intro!: put_catalog_moves intro: rate_ok split: sum.splits prod.splits)
next
  case (Remote_register url)
  then show ?thesis by (simp add: api_remote_register_def Let_def put_registry_moves register_source_def registry_of_def)
next
  case (Remote_sync url)
  have "keeps catalog_ok (pl_catalog w) (rr_catalog (snd (sync (ou_fetch cx) (ou_now cx) url (registry_of w))))"
    using sync_catalog_ok [of "registry_of w"] by (simp add: keeps_def registry_of_def)
  then have "plane_moves ungated G w (put_registry (snd (sync (ou_fetch cx) (ou_now cx) url (registry_of w))) w)"
    by (rule put_registry_moves)
  with Remote_sync show ?thesis by (simp add: api_remote_sync_def)
next
  case (Marketplace_authorize p action skill grants)
  obtain r pol where a: "authorize (ou_now cx) False p action (named_skill skill (pl_catalog w)) grants (Some (aw_policy w)) = (r, pol)"
    by fastforce
  with authorize_leads [OF a] Marketplace_authorize show ?thesis
    by (auto simp: api_marketplace_authorize_def intro: put_policy_moves)
qed simp_all

section \<open>Simulation and learning\<close>

lemma put_sandbox_moves: "keeps sandbox_ok (pl_sandbox w) sb \<Longrightarrow> plane_moves V G w (w\<lparr>pl_sandbox := sb\<rparr>)"
  by (simp add: plane_moves_def keeps_def memory_ok_def)

lemma world_sandbox_moves:
  assumes "\<And>a sb. f (pl_sandbox w) = Inr (a, sb) \<Longrightarrow> sandbox_ok (pl_sandbox w) \<Longrightarrow> sandbox_ok sb"
  shows "plane_moves V G w (snd (world_sandbox f w))"
  using assms by (auto simp: world_sandbox_def lift_r_def keeps_def intro!: put_sandbox_moves split: sum.splits prod.splits)

lemma route_simulation_moves: "plane_moves V G w (snd (route_simulation cx r w))"
proof (cases r)
  case (Simulation_run action domain params)
  then show ?thesis by (auto simp: api_simulation_run_def intro!: world_sandbox_moves dest: simulate_ok)
next
  case (Simulation_approve simulation_id approver)
  then show ?thesis by (auto simp: api_simulation_approve_def intro!: world_sandbox_moves dest: sim_approve_ok)
next
  case (Predictor_train traces)
  have "plane_moves V G w (w\<lparr>pl_predictor := p\<rparr>)" for p by (simp add: plane_moves_def keeps_def memory_ok_def)
  with Predictor_train show ?thesis
    by (auto simp: api_predictor_train_def lift_r_def split: sum.splits prod.splits)
qed simp_all

lemma put_evolution_moves:
  "leads evo_step (\<lambda>_. True) (rw_evolution w) eng \<Longrightarrow> plane_moves V G w (w\<lparr>rw_evolution := eng\<rparr>)"
  by (simp add: plane_moves_def keeps_def memory_ok_def)

lemma seq_r_plane_moves:
  assumes "plane_moves V G w (snd m)" "\<And>a s. m = (Inr a, s) \<Longrightarrow> plane_moves V G s (snd (f a s))"
  shows "plane_moves V G w (snd (seq_r m f))"
proof (cases m)
  case (Pair r s)
  show ?thesis
  proof (cases r)
    case (Inl err)
    with Pair assms(1) show ?thesis by simp
  next
    case (Inr a)
    with Pair assms show ?thesis by (auto intro: plane_moves_trans)
  qed
qed

lemma learn_publish_moves: "plane_moves V G w (snd (learn_publish broadcast_event run_id stage payload w))"
  by (rule agent_to_plane) (rule learn_publish_agent_moves)

lemma publish_then_moves:
  assumes "plane_moves V G w w'"
  shows "plane_moves V G w (snd (seq_r (learn_publish broadcast_event run_id stage payload w') (\<lambda>_. Pair (Inr res))))"
proof -
  have "plane_moves V G w' (snd (seq_r (learn_publish broadcast_event run_id stage payload w') (\<lambda>_. Pair (Inr res))))"
    by (rule seq_r_plane_moves [OF learn_publish_moves]) simp
  with assms show ?thesis by (rule plane_moves_trans)
qed

lemma status_tally_distinct: "distinct (dict_keys (status_tally ts))"
proof -
  have "distinct (dict_keys (fold (\<lambda>t d. dict_set (task_status_value (tk_status t))
     ((case dict_get d (task_status_value (tk_status t)) of None \<Rightarrow> 0 | Some n \<Rightarrow> n) + 1) d) ts d))"
    if "distinct (dict_keys d)" for d :: "(string, int) dict"
    using that by (induction ts arbitrary: d) auto
  then show ?thesis by (simp add: status_tally_def)
qed

lemma fleet_snapshot_pv_ok: "pv_ok (PDict (fleet_snapshot st eng))"
  using status_tally_distinct [of "tasks st"] by (simp add: fleet_snapshot_def Let_def busy_entry_def comp_def case_prod_unfold)

lemma extract_json_pv_ok: "extract_json raw = Some d \<Longrightarrow> pv_ok (PDict d)"
  by (auto simp: extract_json_def Let_def simp del: pv_ok.simps dest!: json_loads_ok split: option.splits pyval.splits)

lemma report_value_ok:
  "pv_ok (PDict snapshot) \<Longrightarrow> pv_ok (PDict (report_value snapshot raw (extract_json raw)))"
  using extract_json_pv_ok [of raw] by (auto simp: report_value_def split: option.splits)

lemma propose_moves:
  assumes "propose_parsed env d (rw_evolution w) = Inr (p, eng)"
  shows "plane_moves V G w (w\<lparr>rw_evolution := eng\<rparr>)"
proof -
  let ?c = "Propose env (get_or d ''domain'' (PStr [])) (get_or d ''title'' (PStr ''untitled''))
       (get_or d ''description'' (PStr [])) (get_or d ''hypothesis'' (PStr []))"
  have "leads evo_step (\<lambda>_. True) (rw_evolution w) (evo_step ?c (rw_evolution w))" by (rule leads_step) simp
  with assms show ?thesis by (simp add: propose_parsed_def put_evolution_moves)
qed

lemma reflect_answer_moves:
  "plane_moves V G w (snd (reflect_answer broadcast_event e run_id snapshot raw parsed w))"
proof (cases parsed)
  case None
  then show ?thesis unfolding reflect_answer_def Let_def
    by (simp only: option.case) (rule seq_r_plane_moves [OF learn_publish_moves], simp)
next
  case (Some d)
  show ?thesis
  proof (cases "truthy (get_or d ''has_proposal'' PNone)")
    case False
    then show ?thesis unfolding reflect_answer_def Let_def Some
      by (simp only: option.case not_False_eq_True if_True) (rule seq_r_plane_moves [OF learn_publish_moves], simp)
  next
    case True
    show ?thesis
    proof (cases "propose_parsed (e 3) d (rw_evolution w)")
      case (Inl err)
      with True show ?thesis
        by (auto simp: reflect_answer_def Let_def Some split: option.splits intro!: seq_r_plane_moves learn_publish_moves)
    next
      case (Inr r)
      obtain p eng where r: "r = (p, eng)" by (cases r)
      have "plane_moves V G w (w\<lparr>rw_evolution := eng\<rparr>)" using propose_moves Inr r by simp
      then show ?thesis using True Inr r
        by (auto simp: reflect_answer_def Let_def Some intro!: publish_then_moves)
    qed
  qed
qed

lemma write_plane_moves:
  "pv_ok (PDict v) \<Longrightarrow> plane_moves V G w (snd (world_memory (mem_write h env key v agent_id reason branch) w))"
  by (rule agent_to_plane) (rule write_agent_moves)

lemma reflect_reply_moves:
  assumes "pv_ok (PDict snapshot)"
  shows "plane_moves V G w (snd (reflect_reply broadcast_event h e run_id snapshot reply w))"
proof -
  have failed: "plane_moves V G w (snd (seq_r (learn_publish broadcast_event run_id ''failed'' x w) (\<lambda>_ w1. (Inr res, w1))))" for x res
    by (rule seq_r_plane_moves [OF learn_publish_moves]) simp
  have answered: "plane_moves V G w (snd (seq_r (world_memory (mem_write h (e 2) key (report_value snapshot raw (extract_json raw)) who why ''main'') w)
      (\<lambda>_ w1. reflect_answer broadcast_event e run_id snapshot raw (extract_json raw) w1)))" for raw key who why
    by (rule seq_r_plane_moves [OF write_plane_moves [OF report_value_ok [OF assms]]]) (rule reflect_answer_moves)
  show ?thesis unfolding reflect_reply_def Let_def
    by (auto split: sum.splits llm_error.splits pyval.splits simp: failed answered)
qed

lemma reflection_cycle_moves:
  fixes w :: "'m plane"
  shows "plane_moves ungated G w (snd (reflection_cycle broadcast_event h http le e w))"
  unfolding reflection_cycle_def Let_def
proof (rule seq_r_plane_moves)
  show "plane_moves ungated G w (snd (world_policy (evaluate (e 1) learning_principal ''learning.reflect'' (Some reflect_resource) 0 1) w))"
    by (rule agent_to_plane) (rule evaluate_agent_moves, simp)
  fix decision and w1 :: "'m plane"
  let ?snapshot = "fleet_snapshot (aw_orchestrator w1) (fst (aw_policy w1))"
  have "plane_moves ungated G w1 (snd (seq_r (learn_publish broadcast_event (new_id ''reflect'' (e 0)) ''started'' x w1) (\<lambda>_ w2.
      reflect_reply broadcast_event h e (new_id ''reflect'' (e 0)) ?snapshot r w2)))" for x r
    by (rule seq_r_plane_moves [OF learn_publish_moves]) (rule reflect_reply_moves [OF fleet_snapshot_pv_ok])
  then show "plane_moves ungated G w1 (snd (if \<not> pd_allowed decision
        then (Inr ((reflection_of (new_id ''reflect'' (e 0)) ''denied'')\<lparr>rf_error := Some (pd_reason decision)\<rparr>), w1)
        else seq_r (learn_publish broadcast_event (new_id ''reflect'' (e 0)) ''started'' [(''snapshot'', PDict ?snapshot)] w1) (\<lambda>_ w2.
             reflect_reply broadcast_event h e (new_id ''reflect'' (e 0)) ?snapshot
               (call_llm http le (snapshot_prompt ?snapshot) REFLECT_PROMPT 500 None None None) w2)))"
    by simp
qed

lemma route_learning_moves: "plane_moves ungated G w (snd (route_learning cx r w))"
proof (cases r)
  case (Learning_ingest task_id agent_id task_type metrics summary)
  have "leads evo_step (\<lambda>_. True) (rw_evolution w) (evo_step (Learn ev) (rw_evolution w))" for ev
    by (rule leads_step) simp
  with Learning_ingest show ?thesis by (simp add: api_learning_ingest_def Let_def put_evolution_moves)
next
  case Learning_reflect
  then show ?thesis by (simp add: api_learning_reflect_def reflection_cycle_moves)
qed simp_all

section \<open>Twin and live feed\<close>

lemma put_twin_moves: "keeps twin_ok (pl_twin w) tw \<Longrightarrow> plane_moves V G w (w\<lparr>pl_twin := tw\<rparr>)"
  by (simp add: plane_moves_def keeps_def memory_ok_def)

lemma take_snapshot_moves: "plane_moves V G w (snd (take_snapshot cx w))"
  by (simp add: take_snapshot_def put_twin_moves keeps_def twin_ok_def twin_snapshot_def Let_def)

lemma with_feed_moves: "plane_moves V G w (with_feed (feed_step ev) w)"
proof -
  have "bus_grows (aw_bus w) (map_option (\<lambda>b. b\<lparr>lb_feed := feed_step ev (lb_feed b)\<rparr>) (aw_bus w))"
    by (cases "aw_bus w") (simp_all add: live_grows_feed)
  then show ?thesis by (simp add: with_feed_def plane_moves_def keeps_def memory_ok_def)
qed

lemma twin_stream_moves: "plane_moves V G w (twin_stream cx ev w)"
proof -
  have "plane_moves V G w (case take_snapshot cx w of (v, w') \<Rightarrow> with_feed (feed_step (f v)) w')" for f
    using take_snapshot_moves [of V G w cx] by (auto split: prod.splits intro: plane_moves_trans with_feed_moves)
  then show ?thesis by (cases ev) (simp_all add: with_feed_moves)
qed

lemma record_error_ok: "twin_ok (record_error env source message tw)"
  by (simp add: twin_ok_def record_error_def last_n_def)

lemma route_twin_moves: "plane_moves V G w (snd (route_twin cx r w))"
proof (cases r)
  case Twin_snapshot
  then show ?thesis by (simp add: api_twin_snapshot_def snd_case_prod take_snapshot_moves)
next
  case (Twin_error source message)
  then show ?thesis by (simp add: api_twin_error_def put_twin_moves keeps_def record_error_ok)
qed simp_all

section \<open>Fleet\<close>

definition fleet_grows :: "(listener, live_ext) fleet_world \<Rightarrow> (listener, live_ext) fleet_world \<Rightarrow> bool" where
  "fleet_grows f f' \<longleftrightarrow> keeps shelf_ok (fw_storage f) (fw_storage f') \<and> bus_grows (fw_bus f) (fw_bus f')"

lemma fleet_grows_trans: "fleet_grows f g \<Longrightarrow> fleet_grows g h \<Longrightarrow> fleet_grows f h"
  unfolding fleet_grows_def by (auto intro: keeps_trans bus_grows_trans)

lemma world_fleet_moves:
  assumes "fleet_grows (fleet_of w) (snd (f (fleet_of w)))"
  shows "plane_moves V G w (snd (world_fleet f w))"
  using assms by (simp add: world_fleet_def put_fleet_def fleet_grows_def fleet_of_def plane_moves_def keeps_def memory_ok_def)

lemma node_publish_grows: "fleet_grows f (snd (node_publish broadcast_event subject payload f))"
  using live_grows_publish
  by (auto simp: node_publish_def fleet_grows_def split: option.splits prod.splits) (metis snd_conv)

lemma storage_then_publish:
  assumes "keeps shelf_ok (fw_storage f) st"
  shows "fleet_grows f (snd (node_publish broadcast_event subject payload (f\<lparr>fw_storage := st\<rparr>)))"
proof -
  have "fleet_grows f (f\<lparr>fw_storage := st\<rparr>)" using assms by (simp add: fleet_grows_def)
  then show ?thesis using node_publish_grows by (rule fleet_grows_trans)
qed

lemma announce_shelf: "keeps shelf_ok st (snd (storage_announce now key a st))"
  by (cases st) (auto simp: keeps_def shelf_ok_def ms_announce_def ms_ok_def)

lemma set_leader_shelf: "keeps shelf_ok st (snd (storage_set_leader l t st))"
  by (cases st) (auto simp: keeps_def shelf_ok_def ms_set_leader_def ms_ok_def)

lemma enqueue_shelf: "keeps shelf_ok st (snd (storage_enqueue t st))"
  by (cases st) (auto simp: keeps_def shelf_ok_def ms_enqueue_def ms_ok_def)

lemma lease_shelf: "keeps shelf_ok st (snd (storage_lease_task decode now n k st))"
  by (cases st) (auto simp: keeps_def shelf_ok_def ms_lease_task_def ms_ok_def split: list.splits prod.splits)

lemma announce_grows: "fleet_grows f (snd (node_announce broadcast_event env health n f))"
  using storage_then_publish [OF announce_shelf]
  by (auto simp: node_announce_def Let_def split: prod.splits sum.splits) (metis snd_conv)+

lemma enqueue_grows: "fleet_grows f (snd (node_enqueue broadcast_event task f))"
  using storage_then_publish [OF enqueue_shelf]
  by (auto simp: node_enqueue_def split: prod.splits sum.splits) (metis snd_conv)+

lemma elect_grows: "fleet_grows f (snd (elect broadcast_event decode env n f))"
proof -
  obtain r f1 where 1: "node_announce broadcast_event env None n f = (r, f1)" by fastforce
  then have f1: "fleet_grows f f1" using announce_grows [of f env None n] by simp
  have won: "fleet_grows f f2" if "node_publish broadcast_event s p (f1\<lparr>fw_storage := st\<rparr>) = (q, f2)"
      "storage_set_leader l t (fw_storage f1) = (x, st)" for s p st q f2 l t x
    using storage_then_publish [of f1 st s p] set_leader_shelf [of "fw_storage f1" l t] that f1
    by (auto intro: fleet_grows_trans)
  show ?thesis using f1 won
    by (cases r) (auto simp: elect_def 1 Let_def split: sum.splits list.splits prod.splits if_splits)
qed

lemma adopt_grows: "fleet_grows f (snd (adopt_task broadcast_event decode env n f))"
proof -
  obtain r st where l: "storage_lease_task decode (env_time env) (fn_id n) 60 (fw_storage f) = (r, st)" by fastforce
  then have st: "keeps shelf_ok (fw_storage f) st" using lease_shelf [of "fw_storage f" decode "env_time env" "fn_id n" 60] by simp
  then have stay: "fleet_grows f (f\<lparr>fw_storage := st\<rparr>)" by (simp add: fleet_grows_def)
  have pub: "fleet_grows f f2" if "node_publish broadcast_event s p (f\<lparr>fw_storage := st\<rparr>) = (q, f2)" for s p q f2
    using storage_then_publish [OF st, of s p] that by simp
  show ?thesis using stay pub by (auto simp: adopt_task_def l split: sum.splits option.splits prod.splits)
qed

lemma route_fleet_moves: "plane_moves V G w (snd (route_fleet cx r w))"
  by (cases r) (simp_all add: api_fleet_announce_def api_fleet_elect_def api_fleet_enqueue_def api_fleet_adopt_def
      world_fleet_moves announce_grows elect_grows enqueue_grows adopt_grows)

section \<open>Evolution\<close>

lemma dict_value_ok: "pv_ok (PDict d) \<Longrightarrow> dict_get d k = Some v \<Longrightarrow> pv_ok v"
  by (auto dest!: map_of_SomeD)

lemma pv_ok_get_or: "pv_ok (PDict d) \<Longrightarrow> pv_ok dflt \<Longrightarrow> pv_ok (get_or d k dflt)"
  by (auto simp: get_or_def simp del: pv_ok.simps split: option.splits dest: dict_value_ok)

lemma need_dict_ok: "pv_ok v \<Longrightarrow> need_dict v = Inr d \<Longrightarrow> pv_ok (PDict d)"
  by (cases v) (simp_all add: need_dict_def)

lemma stored_value_ok: "store_ok rows \<Longrightarrow> mem_read key branch version rows = Some e \<Longrightarrow> pv_ok (PDict (me_value e))"
  using read_history history_in by blast

definition record_ok :: "mutation_record \<Rightarrow> bool" where
  "record_ok r \<longleftrightarrow> pv_ok (PDict (mu_mutation r)) \<and> pv_ok (get_or (mu_before r) ''template'' PNone)"

lemma records_ok_record: "records_ok rs \<longleftrightarrow> (\<forall>r \<in> set rs. record_ok r)"
  by (simp add: records_ok_def record_ok_def)

lemma write_grows:
  assumes "mem_write h env key v who why branch rows = Inr (entry, rows')"
  shows "prefix rows rows'" "pv_ok (PDict v) \<Longrightarrow> store_ok rows \<Longrightarrow> store_ok rows'"
proof -
  have c: "mem_step h (Write env key v who why branch) rows = rows'" using assms by (simp add: mem_step_def)
  show "prefix rows rows'" using mem_step_prefix [of rows h "Write env key v who why branch"] c by simp
  show "pv_ok (PDict v) \<Longrightarrow> store_ok rows \<Longrightarrow> store_ok rows'"
    using mem_step_ok [of rows "Write env key v who why branch" h] c by simp
qed

lemma branch_grows:
  assumes "mem_branch env req rows = Inr (entry, rows')"
  shows "prefix rows rows'" "store_ok rows \<Longrightarrow> store_ok rows'"
proof -
  have c: "mem_step h (Branch env req) rows = rows'" for h using assms by (simp add: mem_step_def)
  show "prefix rows rows'" using mem_step_prefix [of rows undefined "Branch env req"] c by simp
  show "store_ok rows \<Longrightarrow> store_ok rows'" using mem_step_ok [of rows "Branch env req" undefined] c by simp
qed

definition locked_moves :: "bool \<Rightarrow> memory_store \<Rightarrow> evolution_executor \<Rightarrow> mutation_record \<Rightarrow> evolution_executor \<Rightarrow> bool" where
  \<comment> \<open>what the target's application does to the executor\<close>
  "locked_moves G rows ex r ex' \<longleftrightarrow> (\<exists>rows'. xe_memory ex' = Some rows' \<and> prefix rows rows' \<and>
     (G \<longrightarrow> store_ok rows \<longrightarrow> store_ok rows' \<and> record_ok r)) \<and>
     xe_policy ex' = xe_policy ex \<and> xe_records ex' = xe_records ex \<and> xe_ledger ex' = xe_ledger ex \<and> xe_evolution ex' = xe_evolution ex"

lemma apply_prompt_moves:
  assumes "apply_prompt h env r0 ex = Inr (r, ex')" "xe_memory ex = Some rows"
  shows "locked_moves (pv_ok (PDict (mu_mutation r0))) rows ex r ex'"
proof -
  obtain prompt where p: "need_dict (get_or (mu_mutation r0) ''prompt'' (PDict [])) = Inr prompt"
    using assms(1) by (auto simp: apply_prompt_def split: sum.splits)
  let ?doc = "[(''task_type'', get_or prompt ''task_type'' (PStr ''generic'')), (''template'', get_or prompt ''template'' PNone)]"
  obtain entry rows' where w: "mem_write h env (prompt_key prompt) ?doc ''evolution''
      (''adopted proposal '' @ mu_proposal_id r0) ''main'' rows = Inr (entry, rows')"
    using assms p by (auto simp: apply_prompt_def Let_def split: sum.splits)
  have r: "r = r0\<lparr>mu_before := [(''template'', case mem_read (prompt_key prompt) ''main'' None rows of
         None \<Rightarrow> PNone | Some e \<Rightarrow> get_or (me_value e) ''template'' PNone)],
       mu_after := [(''template'', get_or prompt ''template'' PNone)]\<rparr>" "ex' = ex\<lparr>xe_memory := Some rows'\<rparr>"
    using assms p w by (auto simp: apply_prompt_def Let_def)
  have "pv_ok (PDict ?doc)" if "pv_ok (PDict (mu_mutation r0))"
  proof -
    have "pv_ok (get_or (mu_mutation r0) ''prompt'' (PDict []))" using that by (rule pv_ok_get_or) simp
    then have "pv_ok (PDict prompt)" using p by (rule need_dict_ok)
    then have "pv_ok (get_or prompt ''task_type'' (PStr ''generic''))" "pv_ok (get_or prompt ''template'' PNone)"
      by (rule pv_ok_get_or; simp)+
    then show ?thesis by simp
  qed
  moreover have "record_ok r" if "pv_ok (PDict (mu_mutation r0))" "store_ok rows"
  proof -
    have "pv_ok (case mem_read (prompt_key prompt) ''main'' None rows of
         None \<Rightarrow> PNone | Some e \<Rightarrow> get_or (me_value e) ''template'' PNone)"
      using stored_value_ok [OF that(2)] by (auto simp del: pv_ok.simps split: option.splits intro!: pv_ok_get_or) simp_all
    then show ?thesis using that(1) by (simp add: record_ok_def r get_or_def)
  qed
  ultimately show ?thesis
    using write_grows [OF w] by (auto simp: locked_moves_def r simp del: pv_ok.simps)
qed

lemma apply_locked_moves:
  assumes "apply_locked h env proposal_id target mutation ex = Inr (r, ex')" "xe_memory ex = Some rows"
  shows "locked_moves (pv_ok (PDict mutation)) rows ex r ex'"
proof -
  let ?r = "new_record env proposal_id target mutation"
  have m: "mu_mutation ?r = mutation" by (simp add: new_record_def)
  have config: "locked_moves (pv_ok (PDict mutation)) rows ex r ex'" if "apply_config ?r ex = Inr (r, ex')"
    using that assms(2) m
    by (auto simp: apply_config_def locked_moves_def record_ok_def get_or_def Let_def simp del: pv_ok.simps split: sum.splits) simp
  have branch: "locked_moves (pv_ok (PDict mutation)) rows ex r ex'" if ab: "apply_branch env ?r ex = Inr (r, ex')"
  proof -
    obtain breq entry rows' where b: "mem_branch env breq rows = Inr (entry, rows')" and
      r: "xe_memory ex' = Some rows'" "ex' = ex\<lparr>xe_memory := Some rows'\<rparr>" "mu_mutation r = mutation" "get_or (mu_before r) ''template'' PNone = PNone"
      using ab assms(2) m by (auto simp: apply_branch_def get_or_def split: sum.splits)
    then show ?thesis using branch_grows [OF b] by (auto simp: locked_moves_def record_ok_def simp del: pv_ok.simps) simp
  qed
  have other: "locked_moves (pv_ok (PDict mutation)) rows ex ?r ex"
    using assms(2) by (auto simp: locked_moves_def record_ok_def new_record_def get_or_def simp del: pv_ok.simps) simp
  show ?thesis
    using assms config branch other apply_prompt_moves [of h env ?r ex r ex' rows] m
    by (auto simp: apply_locked_def Let_def simp del: pv_ok.simps split: if_splits)
qed

definition executor_moves :: "bool \<Rightarrow> 'm plane \<Rightarrow> evolution_executor \<Rightarrow> bool" where
  \<comment> \<open>an executor state the plane may take over\<close>
  "executor_moves G w ex \<longleftrightarrow> (\<exists>st rows. xe_policy ex = Some st \<and> leads policy_step ungated (aw_policy w) st \<and>
     xe_memory ex = Some rows \<and> prefix (aw_memory w) rows \<and>
     records_backed (rw_evolution w) (rw_evolution w) (pl_mutations w) (xe_records ex) \<and>
     (G \<longrightarrow> store_ok (aw_memory w) \<longrightarrow> records_ok (pl_mutations w) \<longrightarrow> store_ok rows \<and> records_ok (xe_records ex)))"

lemma put_executor_moves: "executor_moves G w ex \<Longrightarrow> plane_moves ungated G w (put_executor ex w)"
  by (auto simp: executor_moves_def put_executor_def plane_moves_def keeps_def memory_ok_def)

lemma executor_of_fields [simp]:
  "xe_policy (executor_of w) = Some (aw_policy w)" "xe_memory (executor_of w) = Some (aw_memory w)"
  "xe_records (executor_of w) = pl_mutations w" "xe_evolution (executor_of w) = Some (rw_evolution w)"
  "xe_ledger (executor_of w) = Policy_ledger" "xe_config (executor_of w) = pl_config w"
  by (simp_all add: executor_of_def)

lemma check_policy_leads:
  assumes "check_policy env target ex = (r, ex1)" "xe_policy ex = Some st"
  shows "\<exists>st1. xe_policy ex1 = Some st1 \<and> leads policy_step ungated st st1"
  using assms by (auto simp: check_policy_def simp del: split_paired_Ex split: sum.splits intro: evaluate_leads)

lemma executor_log_leads:
  assumes "xe_ledger ex = Policy_ledger" "xe_policy ex = Some st"
  shows "\<exists>st1. xe_policy (executor_log env subject ev payload who ex) = Some st1 \<and> leads policy_step ungated st st1"
proof -
  have "xe_policy (executor_log env subject ev payload who ex) =
      Some (policy_step (Foreign env ''evolution'' subject ev (Some payload) (Some who)) st)"
    using assms by (simp add: executor_log_def policy_subsystem_def)
  then show ?thesis using leads_step [of ungated "Foreign env ''evolution'' subject ev (Some payload) (Some who)" policy_step st] by simp
qed

lemma apply_locked_proposal:
  assumes "apply_locked h env proposal_id target mutation ex = Inr (r, ex')"
  shows "mu_proposal_id r = proposal_id"
  using assms
  by (auto simp: apply_locked_def apply_config_def apply_prompt_def apply_branch_def new_record_def Let_def
    split: if_splits sum.splits option.splits)

lemma check_adopted_in: "check_adopted proposal_id (executor_of w) = Inr () \<Longrightarrow> adopted_in (rw_evolution w) proposal_id"
  by (auto simp: check_adopted_def adopted_in_def split: sum.splits if_splits)

lemma records_backed_append:
  assumes "adopted_in eng (mu_proposal_id r)" shows "records_backed eng eng rs (rs @ [r])"
  using assms leads_refl [of evo_step "\<lambda>_. True" eng] by (auto simp: records_backed_def)

lemma apply_mutation_moves:
  assumes "apply_mutation h env proposal_id target mutation (executor_of w) = (r, ex')"
  shows "executor_moves (pv_ok (PDict mutation)) w ex'"
proof (cases r)
  case (Inl err)
  then have "ex' = executor_of w \<or> ex' = snd (check_policy env target (executor_of w))"
    using apply_mutation_Inl assms by blast
  then show ?thesis
  proof
    assume "ex' = executor_of w"
    then show ?thesis by (simp add: executor_moves_def)
  next
    assume ex': "ex' = snd (check_policy env target (executor_of w))"
    then obtain st where "xe_policy ex' = Some st" "leads policy_step ungated (aw_policy w) st"
      using check_policy_leads [of env target "executor_of w" _ ex' "aw_policy w"] by (metis executor_of_fields(1) prod.collapse)
    then show ?thesis by (simp add: executor_moves_def ex' check_policy_frame)
  qed
next
  case (Inr rec)
  obtain u ex1 ex2 where 0: "check_adopted proposal_id (executor_of w) = Inr ()"
    and 1: "check_policy env target (executor_of w) = (Inr u, ex1)"
    and 2: "apply_locked h env proposal_id target mutation ex1 = Inr (rec, ex2)"
    and ex': "ex' = executor_log env proposal_id (''mutation.'' @ mu_status rec)
      (PDict [(''mutation_id'', PStr (mu_mutation_id rec)), (''target'', PStr target), (''mutation'', PDict mutation)])
      (mu_mutation_id rec) (ex2\<lparr>xe_records := xe_records ex2 @ [rec]\<rparr>)"
    using apply_mutation_Inr assms Inr by blast
  obtain st1 where st1: "xe_policy ex1 = Some st1" "leads policy_step ungated (aw_policy w) st1"
    using check_policy_leads [OF 1] by auto
  have ex1: "xe_memory ex1 = Some (aw_memory w)" "xe_records ex1 = pl_mutations w" "xe_ledger ex1 = Policy_ledger"
    using check_policy_frame [of env target "executor_of w"] by (simp_all add: 1)
  have lm: "locked_moves (pv_ok (PDict mutation)) (aw_memory w) ex1 rec ex2" using apply_locked_moves [OF 2 ex1(1)] .
  then have same: "xe_policy ex2 = xe_policy ex1" "xe_ledger ex2 = xe_ledger ex1" "xe_records ex2 = xe_records ex1"
    unfolding locked_moves_def by blast+
  from lm obtain rows where rows: "xe_memory ex2 = Some rows" "prefix (aw_memory w) rows"
    and ok: "pv_ok (PDict mutation) \<Longrightarrow> store_ok (aw_memory w) \<Longrightarrow> store_ok rows \<and> record_ok rec"
    unfolding locked_moves_def by blast
  have "xe_ledger (ex2\<lparr>xe_records := xe_records ex2 @ [rec]\<rparr>) = Policy_ledger"
    "xe_policy (ex2\<lparr>xe_records := xe_records ex2 @ [rec]\<rparr>) = Some st1" using same st1(1) ex1(3) by simp_all
  from executor_log_leads [OF this] obtain st2 where st2: "xe_policy ex' = Some st2" "leads policy_step ungated st1 st2"
    unfolding ex' by blast
  have st: "leads policy_step ungated (aw_policy w) st2" using st1(2) st2(2) by (rule leads_trans)
  have mem: "xe_memory ex' = Some rows" and recs: "xe_records ex' = pl_mutations w @ [rec]"
    by (simp_all add: ex' executor_log_frame rows(1) same(3) ex1(2))
  have "store_ok rows \<and> records_ok (xe_records ex')"
    if "pv_ok (PDict mutation)" "store_ok (aw_memory w)" "records_ok (pl_mutations w)"
    using ok [OF that(1,2)] that(3) by (simp add: recs records_ok_record)
  moreover have "records_backed (rw_evolution w) (rw_evolution w) (pl_mutations w) (xe_records ex')"
    unfolding recs using records_backed_append check_adopted_in [OF 0] apply_locked_proposal [OF 2] by metis
  ultimately show ?thesis unfolding executor_moves_def using st2(1) st mem rows(2) by blast
qed

lemma undo_moves:
  assumes "undo h env r ex = Inr ex'" "xe_memory ex = Some rows"
  shows "\<exists>rows'. xe_memory ex' = Some rows' \<and> prefix rows rows' \<and> (record_ok r \<longrightarrow> store_ok rows \<longrightarrow> store_ok rows') \<and>
    xe_policy ex' = xe_policy ex \<and> xe_records ex' = xe_records ex"
proof (cases "mu_target r = ''prompt''")
  case True
  obtain prompt where p: "need_dict (get_or (mu_mutation r) ''prompt'' (PDict [])) = Inr prompt"
    using assms(1) True by (auto simp: undo_def split: sum.splits)
  let ?doc = "[(''task_type'', get_or prompt ''task_type'' (PStr ''generic'')), (''template'', get_or (mu_before r) ''template'' PNone)]"
  obtain entry rows' where w: "mem_write h env (prompt_key prompt) ?doc ''evolution'' (''revert mutation '' @ mu_mutation_id r) ''main'' rows
      = Inr (entry, rows')" and ex': "ex' = ex\<lparr>xe_memory := Some rows'\<rparr>"
    using assms(1,2) True p by (auto simp: undo_def split: sum.splits)
  have "pv_ok (PDict ?doc)" if rec: "record_ok r"
  proof -
    have "pv_ok (get_or (mu_mutation r) ''prompt'' (PDict []))" using rec by (intro pv_ok_get_or) (simp_all add: record_ok_def)
    then have "pv_ok (PDict prompt)" using p by (rule need_dict_ok)
    then have "pv_ok (get_or prompt ''task_type'' (PStr ''generic''))" by (rule pv_ok_get_or) simp
    moreover have "pv_ok (get_or (mu_before r) ''template'' PNone)" using rec by (simp add: record_ok_def)
    ultimately show ?thesis by simp
  qed
  with write_grows [OF w] show ?thesis by (simp add: ex' del: pv_ok.simps)
next
  case False
  with assms(1,2) show ?thesis by (auto simp: undo_def split: if_splits sum.splits)
qed

end
