(* ===== verification/Plane_Events.thy ===== *)
theory Plane_Events
  imports Plane_Routes
begin

text \<open>
  The routes of the evolution engine and its executor, the two ticks, and so every event: each moves
  the plane only in the ways of \<open>plane_moves\<close>, from start-up on.
\<close>

section \<open>Evolution\<close>

lemma engine_moves:
  assumes "\<And>eng. evo_step c eng = settle eng (f eng)"
  shows "plane_moves V G w (snd (world_evolution f w))"
proof (cases "f (rw_evolution w)")
  case (Inr r)
  have "leads evo_step (\<lambda>_. True) (rw_evolution w) (evo_step c (rw_evolution w))" by (rule leads_step) simp
  with Inr show ?thesis
    by (cases r) (simp add: assms world_evolution_def lift_r_def put_evolution_moves)
qed (simp add: world_evolution_def lift_r_def)

lemma revert_moves:
  assumes "revert_mutation h env mutation_id ex = Inr (r, ex')" "xe_memory ex = Some rows"
  shows "\<exists>rows'. xe_memory ex' = Some rows' \<and> prefix rows rows' \<and> xe_policy ex' = xe_policy ex \<and>
    records_backed eng eng (xe_records ex) (xe_records ex') \<and> (records_ok (xe_records ex) \<longrightarrow> records_ok (xe_records ex') \<and> (store_ok rows \<longrightarrow> store_ok rows'))"
proof -
  let ?P = "\<lambda>r. mu_mutation_id r = mutation_id"
  obtain r0 where r0: "find ?P (xe_records ex) = Some r0"
    using assms(1) by (auto simp: revert_mutation_def split: option.splits)
  then have rec: "records_ok (xe_records ex) \<Longrightarrow> record_ok r0" by (auto simp: records_ok_record dest: find_Some_in')
  show ?thesis
  proof (cases "mu_status r0 = ''reverted''")
    case True
    with assms r0 show ?thesis by (auto simp: revert_mutation_def)
  next
    case False
    obtain ex1 where ex1: "(if mu_revertible r0 then undo h env r0 ex else Inr ex) = Inr ex1"
      and ex': "ex' = ex1\<lparr>xe_records := replace_first ?P (\<lambda>_. mark_reverted env r0) (xe_records ex1)\<rparr>"
      using assms(1) r0 False by (auto simp: revert_mutation_def Let_def split: sum.splits)
    obtain rows' where undone: "xe_memory ex1 = Some rows'" "prefix rows rows'" "xe_policy ex1 = xe_policy ex" "xe_records ex1 = xe_records ex"
      and ok: "record_ok r0 \<Longrightarrow> store_ok rows \<Longrightarrow> store_ok rows'"
      using ex1 assms(2) undo_moves [OF _ assms(2), of h env r0 ex1] by (cases "mu_revertible r0") auto
    have "records_ok (replace_first ?P (\<lambda>_. mark_reverted env r0) (xe_records ex))" if recs: "records_ok (xe_records ex)"
    proof -
      have "record_ok (mark_reverted env r0)" using rec [OF recs] by (simp add: record_ok_def mark_reverted_def)
      then show ?thesis
        using recs set_replace_first [of ?P "\<lambda>_. mark_reverted env r0" "xe_records ex"] by (auto simp: records_ok_record)
    qed
    moreover have "records_backed eng eng (xe_records ex) (replace_first ?P (\<lambda>_. mark_reverted env r0) (xe_records ex))"
    proof -
      have "mu_proposal_id (mark_reverted env r0) = mu_proposal_id r0" "r0 \<in> set (xe_records ex)"
        using r0 by (auto simp: mark_reverted_def dest: find_Some_in')
      then show ?thesis
        using set_replace_first [of ?P "\<lambda>_. mark_reverted env r0" "xe_records ex"] by (fastforce simp: records_backed_def)
    qed
    ultimately show ?thesis using undone ok rec by (auto simp: ex')
  qed
qed

fun evolution_docs :: "evolution_request \<Rightarrow> bool" where
  "evolution_docs (Evolution_apply proposal_id target mutation) = pv_ok (PDict mutation)"
| "evolution_docs _ = True"

lemma route_evolution_moves:
  assumes "G \<longrightarrow> evolution_docs r"
  shows "plane_moves ungated G w (snd (route_evolution cx r w))"
proof (cases r)
  case (Evolution_propose domain title description hypothesis)
  then show ?thesis
    by (simp add: api_evolution_propose_def)
      (rule engine_moves [where c = "Propose (ou_now cx) (PStr domain) (PStr title) (PStr description) (PStr hypothesis)"], simp add: settle_def)
next
  case (Evolution_evaluate proposal_id after)
  then show ?thesis
    by (simp add: api_evolution_evaluate_def) (rule engine_moves [where c = "Measure (ou_now cx) proposal_id after"], simp add: settle_def)
next
  case (Evolution_adopt proposal_id)
  then show ?thesis
    by (simp add: api_evolution_adopt_def) (rule engine_moves [where c = "Adopt proposal_id"], simp add: settle_def)
next
  case (Evolution_apply proposal_id target mutation)
  obtain res ex' where a: "apply_mutation (ou_hash cx) (ou_now cx) proposal_id target mutation (executor_of w) = (res, ex')" by fastforce
  have "executor_moves G w ex'" using apply_mutation_moves [OF a] assms Evolution_apply
    by (auto simp: executor_moves_def simp del: pv_ok.simps)
  with a Evolution_apply show ?thesis by (simp add: api_evolution_apply_def put_executor_moves)
next
  case (Evolution_revert mutation_id)
  let ?f = "revert_mutation (ou_hash cx) (ou_now cx) mutation_id"
  have "plane_moves ungated G w (snd (lift_r executor_of put_executor ?f w))"
  proof (cases "?f (executor_of w)")
    case (Inr res)
    obtain rec ex' where res: "res = (rec, ex')" by (cases res)
    have "executor_moves G w ex'"
      using revert_moves [OF Inr [unfolded res], of "aw_memory w" "rw_evolution w"] by (auto simp: executor_moves_def simp del: split_paired_Ex)
    then have "plane_moves ungated G w (put_executor ex' w)" by (rule put_executor_moves)
    then show ?thesis by (simp add: lift_r_def Inr res)
  qed (simp add: lift_r_def)
  with Evolution_revert show ?thesis by (simp add: api_evolution_revert_def)
qed simp_all

section \<open>Every event\<close>

lemma scheduler_tick_moves: "plane_moves V G w (plane_scheduler_tick cx w)"
proof -
  have "plane_moves V G w (w\<lparr>aw_orchestrator := orch, aw_bus := Some b\<rparr>)"
    if "balance (8 / 10) (2 / 10) (aw_orchestrator w) = (ms, orch)" "bus_publish broadcast_event s p (plane_bus w) = (q, b)" for ms orch s p q b
  proof -
    have "keeps pool_ok (aw_orchestrator w) orch" using pool_keeps [of "aw_orchestrator w" "Balance (8 / 10) (2 / 10)"] that(1) by simp
    moreover have "live_grows (plane_bus w) b" using live_grows_publish [of "plane_bus w" s p] that(2) by simp
    ultimately show ?thesis using bus_grows_put [of w b] by (simp add: plane_moves_def keeps_def memory_ok_def)
  qed
  then show ?thesis
    by (auto simp: plane_scheduler_tick_def scheduler_tick_def Let_def split: prod.splits sum.splits)
qed

fun event_unlocked :: "'m outside \<times> event \<Rightarrow> bool" where
  \<comment> \<open>the request carries the admin key where the deployment has one, and a route asks for it\<close>
  "event_unlocked (cx, Request (To_policy r)) = policy_unlocked cx r"
| "event_unlocked _ = False"

fun event_docs :: "'m outside \<times> event \<Rightarrow> bool" where
  \<comment> \<open>the documents of the request are dictionaries: no key twice\<close>
  "event_docs (cx, Request (To_memory r)) = memory_docs r"
| "event_docs (cx, Request (To_evolution r)) = evolution_docs r"
| "event_docs _ = True"

definition permits :: "'m outside \<times> event \<Rightarrow> policy_cmd \<Rightarrow> bool" where
  "permits ev c \<longleftrightarrow> event_unlocked ev \<or> ungated c"

lemma ungated_permits: "plane_moves ungated G w w' \<Longrightarrow> plane_moves (permits ev) G w w'"
  by (erule plane_moves_mono) (simp add: permits_def)

lemma handle_moves:
  assumes "G \<longrightarrow> event_docs (cx, Request r)"
  shows "plane_moves (permits (cx, Request r)) G w (snd (handle cx r w))"
proof (cases r)
  case (To_policy r)
  then show ?thesis using route_policy_moves [of cx r G w] by (simp add: permits_def [abs_def])
next
  case (To_memory r)
  then show ?thesis using route_memory_moves [of G r _ w cx] assms by simp
next
  case (To_evolution r)
  then show ?thesis using route_evolution_moves [of G r w cx] assms by (simp add: ungated_permits)
qed (simp_all add: ungated_permits route_pool_moves route_agent_moves route_market_moves route_simulation_moves
    route_learning_moves route_twin_moves route_fleet_moves)

lemma event_moves:
  assumes "G \<longrightarrow> event_docs ev"
  shows "plane_moves (permits ev) G w (plane_step ev w)"
proof (cases ev)
  case (Pair cx e)
  show ?thesis
  proof (cases e)
    case (Request r)
    then show ?thesis using handle_moves [of G cx r w] assms Pair by simp
  next
    case Reflection_tick
    then show ?thesis using reflection_cycle_moves [THEN ungated_permits] Pair
      by (simp add: plane_reflection_tick_def reflection_tick_def)
  qed (simp_all add: Pair twin_stream_moves scheduler_tick_moves)
qed

lemma events_move:
  assumes "\<And>ev c. ev \<in> set evs \<Longrightarrow> permits ev c \<Longrightarrow> V c" "G \<longrightarrow> (\<forall>ev \<in> set evs. event_docs ev)"
  shows "plane_moves V G w (fold plane_step evs w)"
  using assms
proof (induction evs arbitrary: w)
  case (Cons ev evs)
  have "plane_moves (permits ev) G w (plane_step ev w)" using Cons.prems(2) by (intro event_moves) simp
  then have 1: "plane_moves V G w (plane_step ev w)" by (rule plane_moves_mono) (rule Cons.prems(1) [of ev], simp)
  have "plane_moves V G (plane_step ev w) (fold plane_step evs (plane_step ev w))"
    using Cons.prems by (intro Cons.IH) auto
  with 1 show ?case by (auto intro: plane_moves_trans)
qed simp

lemma all_events_move: "plane_moves (\<lambda>_. True) False w (fold plane_step evs w)"
  by (rule events_move) simp_all

end
