(* ===== verification/Plane_Guarantees.thy ===== *)
theory Plane_Guarantees
  imports Plane_Events Predictor_Properties
begin

text \<open>
  What the control plane as a whole keeps, from the ways its events move it: the subsystems' invariants,
  the histories, what the admin key protects, and the adopted proposal behind every mutation.
\<close>

section \<open>Start-up\<close>

definition plane_ok :: "'m plane \<Rightarrow> bool" where
  \<comment> \<open>every subsystem's invariant\<close>
  "plane_ok w \<longleftrightarrow> mirrored (aw_policy w) \<and> provenance (fst (aw_policy w)) \<and> memory_ok w \<and> pool_ok (aw_orchestrator w) \<and>
     engine_ok (rw_evolution w) \<and> catalog_ok (pl_catalog w) \<and> sandbox_ok (pl_sandbox w) \<and>
     feed_ok (lb_feed (plane_bus w)) \<and> bus_subs (plane_bus w) = bus_subs new_live_bus \<and> shelf_ok (pl_storage w) \<and> twin_ok (pl_twin w)"

lemma plane_moves_ok:
  assumes "plane_moves V True w w'" "plane_ok w"
  shows "plane_ok w'"
proof -
  note m = plane_movesD [OF assms(1)]
  have "live_grows (plane_bus w) (plane_bus w')" using m(5) by (rule bus_grows_plane)
  moreover have "leads policy_step (\<lambda>_. True) (aw_policy w) (aw_policy w')" using m(1) by (rule leads_mono) simp
  then have "mirrored (aw_policy w')" "provenance (fst (aw_policy w'))"
    using assms(2) policy_machine.leads_ok policy_grants.leads_ok unfolding plane_ok_def by blast+
  moreover have "engine_ok (rw_evolution w')" using m(6) assms(2) evolution.leads_ok unfolding plane_ok_def by blast
  ultimately show ?thesis using m(3,4,7-10) assms(2) by (simp add: plane_ok_def keeps_def live_grows_def)
qed

lemma seed_fold_pool_ok:
  "pool_ok (snd st) \<Longrightarrow> pool_ok (snd (fold (seed_step envs names) roster st))"
proof (induction roster arbitrary: st)
  case (Cons r roster)
  obtain name ty skills where r: "r = (name, ty, skills)" by (cases r)
  have "pool_ok (snd (seed_step envs names r st))"
    using Cons.prems orch_step_pool_ok [OF Cons.prems, of "Register (envs name) name skills ty"]
    by (cases st) (auto simp: seed_step_def r split: prod.splits)
  with Cons.IH show ?case by simp
qed simp

lemma plane_orchestrator_ok: "pool_ok (plane_orchestrator e envs)"
  unfolding plane_orchestrator_def seed_fleet_def by (rule seed_fold_pool_ok) (simp add: pool_ok_new)

lemma new_plane_ok:
  assumes "new_plane cx envs draws fqdn = Inr w"
  shows "plane_ok w" "rw_evolution w = new_evolution_engine (5 / 100) (Some (new_pipeline 200 None))" "pl_mutations w = []"
    "aw_policy w = (new_policy_engine make_seed_rules, Some new_ledger)"
proof -
  obtain p where w: "w = \<lparr>aw_policy = (new_policy_engine make_seed_rules, Some new_ledger), aw_memory = [],
            aw_orchestrator = plane_orchestrator (ou_now cx) envs, aw_bus = Some new_live_bus,
            rw_evolution = new_evolution_engine (5 / 100) (Some (new_pipeline 200 None)),
            pl_config = [], pl_mutations = [], pl_catalog = new_catalog, pl_sources = [], pl_synced = [],
            pl_sandbox = new_sandbox (7 / 10) [], pl_predictor = p,
            pl_node = \<lparr>fn_id = ''node_'' @ take 12 (env_uuid (ou_now cx)), fn_capacity = 64, fn_version = ''0.4.0'', fn_fqdn = fqdn\<rparr>,
            pl_storage = In_memory new_mem_storage, pl_twin = new_twin\<rparr>"
    using assms by (auto simp: new_plane_def then_r_Inr)
  have "sandbox_ok (new_sandbox (7 / 10) [])" by (simp add: sandbox_ok_def new_sandbox_def)
  moreover have "feed_ok new_feed" by (simp add: new_feed_ok)
  ultimately show "plane_ok w"
    unfolding plane_ok_def w
    by (simp add: mirrored_new provenance_new memory_ok_def records_ok_def plane_orchestrator_ok engine_ok_def
        new_evolution_engine_def new_catalog_ok plane_bus_def new_live_bus_def shelf_ok_def ms_ok_def new_mem_storage_def twin_ok_def new_twin_def)
qed (use assms in \<open>auto simp: new_plane_def then_r_Inr\<close>)

lemma new_predictor_auto: "\<exists>p0. new_predictor b ''auto'' None seed = Inr p0 \<and> fp_domains p0 = default_domains"
  by (simp add: new_predictor_def resolve_backend_def)

lemma starts:
  fixes cx :: "'m outside"
  assumes "draws \<noteq> []" "\<forall>dw \<in> set draws. draw_ok default_domains dw"
  shows "\<exists>w. new_plane cx envs draws fqdn = Inr w \<and> plane_ok w \<and> fp_is_trained (pl_predictor w) \<and>
    fp_samples (pl_predictor w) = int (length draws)"
proof -
  obtain p0 :: "'m predictor" where p0: "new_predictor (fo_available (ou_forest cx)) ''auto'' None 42 = Inr p0" using new_predictor_auto by blast
  have "default_domains \<noteq> []" by (simp add: default_domains_def SIMULATION_DOMAINS_def)
  then obtain p where p: "train (ou_forest cx) (ou_parsers cx) (generate_synthetic_traces draws default_domains) p0 = Inr p"
      "fp_is_trained p" "fp_samples p = int (length draws)"
    using synthetic_training [of draws default_domains "ou_forest cx" "ou_parsers cx" p0] assms by blast
  then obtain w where w: "new_plane cx envs draws fqdn = Inr w" "pl_predictor w = p" by (simp add: new_plane_def p0)
  with new_plane_ok(1) p show ?thesis by blast
qed

section \<open>Histories\<close>

definition ledger_rows :: "policy_state \<Rightarrow> ledger_row list" where
  "ledger_rows st = (case snd st of None \<Rightarrow> [] | Some lg \<Rightarrow> lg_rows lg)"

lemma policy_step_rows: "prefix (ledger_rows st) (ledger_rows (policy_step c st))"
  by (cases c)
    (auto simp: ledger_rows_def logs_def ledger_record_rows split: sum.splits option.splits dest!: evaluate_logs approve_logs)

interpretation policy_rows: append_log ledger_rows policy_step
  by unfold_locales (rule policy_step_rows)

lemma events_extend:
  "prefix (aw_memory w) (aw_memory (fold plane_step evs w))"
  "prefix (pe_decisions (fst (aw_policy w))) (pe_decisions (fst (aw_policy (fold plane_step evs w))))"
  "prefix (ledger_rows (aw_policy w)) (ledger_rows (aw_policy (fold plane_step evs w)))"
  "prefix (bus_published (plane_bus w)) (bus_published (plane_bus (fold plane_step evs w)))"
proof -
  note m = plane_movesD [OF all_events_move [of w evs]]
  show "prefix (aw_memory w) (aw_memory (fold plane_step evs w))" by (rule m(2))
  show "prefix (pe_decisions (fst (aw_policy w))) (pe_decisions (fst (aw_policy (fold plane_step evs w))))"
    using m(1) by (rule policy_machine.leads_appends)
  show "prefix (ledger_rows (aw_policy w)) (ledger_rows (aw_policy (fold plane_step evs w)))"
    using m(1) by (rule policy_rows.leads_appends)
  show "prefix (bus_published (plane_bus w)) (bus_published (plane_bus (fold plane_step evs w)))"
    using bus_grows_plane [OF m(5)] by (simp add: live_grows_def)
qed

section \<open>What the admin key protects\<close>

definition settled :: "policy_state \<Rightarrow> policy_decision list" where
  \<comment> \<open>the decisions an approver made\<close>
  "settled st = filter (\<lambda>d. pd_approval_status d \<in> {APPROVED, REJECTED}) (pe_decisions (fst st))"

definition protected_same :: "policy_state \<Rightarrow> policy_state \<Rightarrow> bool" where
  "protected_same st st' \<longleftrightarrow> pe_lockdown (fst st') = pe_lockdown (fst st) \<and> settled st' = settled st \<and>
     set (dict_keys (pe_pendings (fst st))) \<subseteq> set (dict_keys (pe_pendings (fst st')))"

lemma protected_refl: "protected_same st st"
  by (simp add: protected_same_def)

lemma keys_subset_dict_set: "fst ` set d \<subseteq> fst ` set (dict_set k v d)"
  using dict_keys_set [of k v d] by (metis Un_upper1 equalityE set_append set_map)

lemma evaluate_protected:
  assumes "evaluate env p action res cost calls st = Inr (d, st')" shows "protected_same st st'"
proof -
  have l: "pe_decisions (fst st') = pe_decisions (fst st) @ [d]" "pe_lockdown (fst st') = pe_lockdown (fst st)"
    using evaluate_logs [OF assms] by (simp_all add: logs_def)
  show ?thesis
    using evaluate_pendings [OF assms] l by (elim disjE conjE) (simp_all add: protected_same_def settled_def keys_subset_dict_set)
qed

lemma ungated_protected: "ungated c \<Longrightarrow> protected_same st (policy_step c st)"
proof (cases c)
  case (Evaluate env p action res cost calls)
  then show ?thesis using evaluate_protected [of env p action res cost calls st]
    by (cases "evaluate env p action res cost calls st") (auto simp: protected_refl simp del: split_paired_All)
qed (simp_all add: add_rule_def add_limit_def protected_same_def settled_def)

lemma protected_trans: "protected_same a b \<Longrightarrow> protected_same b c \<Longrightarrow> protected_same a c"
  by (auto simp: protected_same_def)

lemma leads_protected: "leads policy_step ungated st st' \<Longrightarrow> protected_same st st'"
proof -
  have "\<forall>c \<in> set cs. ungated c \<Longrightarrow> protected_same st (fold policy_step cs st)" for cs
  proof (induction cs arbitrary: st)
    case (Cons c cs)
    then show ?case using ungated_protected [of c st] protected_trans by fastforce
  qed (simp add: protected_same_def)
  then show "leads policy_step ungated st st' \<Longrightarrow> protected_same st st'" by (auto simp: leads_def)
qed

fun presented_key :: "event \<Rightarrow> string option" where
  \<comment> \<open>the X-Admin-Key header, where the route reads it\<close>
  "presented_key (Request (To_policy (Policy_approve key decision_id role))) = key"
| "presented_key (Request (To_policy (Policy_lockdown key enabled))) = key"
| "presented_key _ = None"

lemma wrong_key_locked:
  assumes "ou_admin_key cx = Some k" "k \<noteq> []" "presented_key ev \<noteq> Some k"
  shows "\<not> event_unlocked (cx, ev)"
proof -
  have "\<not> policy_unlocked cx r" if "ev = Request (To_policy r)" for r
    using assms that by (cases r) (auto simp: unlocked_def require_admin_key_def)
  then show ?thesis
  proof (cases ev)
    case (Request r)
    then show ?thesis using \<open>\<And>r. ev = Request (To_policy r) \<Longrightarrow> \<not> policy_unlocked cx r\<close> by (cases r) auto
  qed simp_all
qed

lemma wrong_keys_protect:
  assumes "k \<noteq> []" "\<forall>(cx, ev) \<in> set evs. ou_admin_key cx = Some k \<and> presented_key ev \<noteq> Some k"
  shows "protected_same (aw_policy w) (aw_policy (fold plane_step evs w))"
proof -
  have "ungated c" if "e \<in> set evs" "permits e c" for e c
    using that assms wrong_key_locked [of "fst e" k "snd e"] by (cases e) (auto simp: permits_def)
  then have "plane_moves ungated False w (fold plane_step evs w)" by (rule events_move) auto
  then show ?thesis by (intro leads_protected plane_movesD(1))
qed

section \<open>What a mutation needs\<close>

lemma evo_step_min_gain: "evo_min_gain (evo_step c eng) = evo_min_gain eng"
  by (cases c) (auto simp: evo_evaluate_def evo_adopt_if_gain_def upd_proposal_def Let_def
      dest: evo_propose_Inr(1) split: sum.splits if_splits)

lemma leads_min_gain:
  assumes "leads evo_step V eng eng'" shows "evo_min_gain eng' = evo_min_gain eng"
proof -
  have "evo_min_gain (fold evo_step cs eng) = evo_min_gain eng" for cs
    by (induction cs arbitrary: eng) (simp_all add: evo_step_min_gain)
  with assms show ?thesis by (auto simp: leads_def)
qed

lemma adopted_has_gain:
  assumes "engine_ok eng" "adopted_in eng proposal_id"
  shows "\<exists>p \<in> set (evo_ledger eng). ep_id p = proposal_id \<and> ep_status p = ''adopted'' \<and> evo_min_gain eng \<le> total_gain p"
proof -
  obtain p where "find (\<lambda>p. ep_id p = proposal_id) (evo_proposals eng) = Some p" "ep_status p = ''adopted''"
    using assms(2) by (auto simp: adopted_in_def evo_get_def evo_by_id_def split: option.splits)
  then have "p \<in> set (evo_proposals eng)" "ep_id p = proposal_id" by (auto simp: find_Some_iff)
  moreover from this have "evo_min_gain eng \<le> total_gain p"
    using assms(1) \<open>ep_status p = ''adopted''\<close> by (auto simp: engine_ok_def proposal_ok_def)
  ultimately show ?thesis using \<open>ep_status p = ''adopted''\<close> by (auto simp: evo_ledger_def)
qed

lemma mutations_backed:
  assumes "new_plane cx envs draws fqdn = Inr w" "r \<in> set (pl_mutations (fold plane_step evs w))"
  shows "\<exists>eng. leads evo_step (\<lambda>_. True) (rw_evolution w) eng \<and>
     leads evo_step (\<lambda>_. True) eng (rw_evolution (fold plane_step evs w)) \<and>
     (\<exists>p \<in> set (evo_ledger eng). ep_id p = mu_proposal_id r \<and> ep_status p = ''adopted'' \<and> 5 / 100 \<le> total_gain p)"
proof -
  have "records_backed (rw_evolution w) (rw_evolution (fold plane_step evs w)) [] (pl_mutations (fold plane_step evs w))"
    using plane_movesD(11) [OF all_events_move [of w evs]] by (simp add: new_plane_ok(3) [OF assms(1)])
  then obtain eng where eng: "leads evo_step (\<lambda>_. True) (rw_evolution w) eng"
      "leads evo_step (\<lambda>_. True) eng (rw_evolution (fold plane_step evs w))" "adopted_in eng (mu_proposal_id r)"
    using assms(2) by (auto simp: records_backed_def)
  have "engine_ok eng" using new_plane_ok(1) [OF assms(1)] eng(1) evolution.leads_ok by (auto simp: plane_ok_def)
  moreover have "evo_min_gain eng = 5 / 100"
    using leads_min_gain [OF eng(1)] new_plane_ok(2) [OF assms(1)] by (simp add: new_evolution_engine_def)
  ultimately show ?thesis using adopted_has_gain eng by metis
qed

end
