(* ===== verification/Plane_Answers.thy ===== *)
theory Plane_Answers
  imports Plane_Guarantees
begin

text \<open>
  The answers of the control plane: which status codes it refuses a request with, and what a refused
  request leaves behind; what a plane under lockdown answers an agent run and a review.
\<close>

section \<open>Refusals\<close>

definition refuses_clean :: "'s \<Rightarrow> body reply \<times> 's \<Rightarrow> bool" where
  \<comment> \<open>an \<open>HTTPException\<close> has one of the codes the file uses and comes before any change\<close>
  "refuses_clean w q \<longleftrightarrow> (\<forall>code text. fst q = Inl (HTTPException code text) \<longrightarrow> code \<in> {400, 403, 404, 409} \<and> snd q = w)"

named_theorems clean_intros \<open>handlers that refuse cleanly\<close>

lemma answered_clean [clean_intros]: "refuses_clean w (Inr b, w')"
  by (simp add: refuses_clean_def)

lemma uncaught_clean [clean_intros]: "refuses_clean w (returning wrap (uncaught q))"
  by (cases "fst q") (simp_all add: refuses_clean_def returning_def then_reply_def uncaught_def)

lemma catching_clean:
  assumes "code \<in> {400, 404}" "\<And>err. fst q = Inl err \<Longrightarrow> snd q = w"
  shows "refuses_clean w (returning wrap (catching caught code q))"
  using assms by (cases "fst q") (auto simp: refuses_clean_def returning_def then_reply_def catching_def)

lemma lift_r_Inl: "fst (lift_r get put f w) = Inl err \<Longrightarrow> snd (lift_r get put f w) = w"
  by (auto simp: lift_r_def split: sum.splits prod.splits)

lemma lift_clean [clean_intros]:
  "code \<in> {400, 404} \<Longrightarrow> refuses_clean w (returning wrap (catching caught code (lift_r get put f w)))"
  by (rule catching_clean) (auto dest: lift_r_Inl)

lemma world_clean [clean_intros]:
  assumes "code \<in> {400, 404}"
  shows "refuses_clean w (returning wrap (catching caught code (world_policy f1 w)))"
    "refuses_clean w (returning wrap (catching caught code (world_memory f2 w)))"
    "refuses_clean w (returning wrap (catching caught code (world_pool f3 w)))"
    "refuses_clean w (returning wrap (catching caught code (world_sandbox f4 w)))"
    "refuses_clean w (returning wrap (catching caught code (world_evolution f5 w)))"
  using assms unfolding world_policy_def world_memory_def world_pool_def world_sandbox_def world_evolution_def
  by (rule lift_clean)+

lemma reading_clean:
  assumes "\<And>code text. f w = Inl (HTTPException code text) \<Longrightarrow> code \<in> {400, 403, 404, 409}"
  shows "refuses_clean w (reading f w)"
  using assms by (simp add: refuses_clean_def reading_def)

lemma found_code: "found n t wrap x = Inl (HTTPException code text) \<Longrightarrow> code = n"
  by (auto simp: found_def split: option.splits)

lemma guarded_clean [clean_intros]: "refuses_clean w (f w) \<Longrightarrow> refuses_clean w (guarded cx key f w)"
  by (auto simp: guarded_def refuses_clean_def require_admin_key_def split: option.splits if_splits)

lemma assign_None: "assign env task_id st = Inr (None, st') \<Longrightarrow> st' = st"
  by (auto simp: assign_def Let_def split: option.splits if_splits)

lemma then_found_clean:
  assumes "\<And>w'. q = (Inr None, w') \<Longrightarrow> w' = w" "n \<in> {404, 409}"
  shows "refuses_clean w (then_reply (uncaught q) (found n t wrap))"
  using assms by (cases q; cases "fst q") (auto simp: refuses_clean_def then_reply_def uncaught_def found_def split: option.splits)

lemma task_assign_clean [clean_intros]: "refuses_clean w (api_task_assign cx task_id w)"
  unfolding api_task_assign_def
proof (rule then_found_clean)
  fix w' assume "world_pool (assign (ou_now cx) task_id) w = (Inr None, w')"
  then show "w' = w" by (auto simp: world_pool_def lift_r_def dest!: assign_None split: sum.splits prod.splits)
qed simp

lemma skill_install_clean [clean_intros]: "refuses_clean w (api_skill_install skill_id agent_id version w)"
  unfolding api_skill_install_def
proof (rule then_found_clean)
  fix w' assume "world_catalog (install skill_id agent_id version) w = (Inr None, w')"
  then show "w' = w" by (auto simp: world_catalog_def call_s_def install_def Let_def split: option.splits list.splits)
qed simp

lemma evolution_apply_refuses:
  assumes "fst (api_evolution_apply cx proposal_id target mutation w) = Inl (HTTPException code text)"
  shows "code = 400" "\<exists>st. snd (api_evolution_apply cx proposal_id target mutation w) = w\<lparr>aw_policy := st\<rparr> \<and> leads policy_step ungated (aw_policy w) st"
proof -
  obtain err ex' where a: "apply_mutation (ou_hash cx) (ou_now cx) proposal_id target mutation (executor_of w) = (Inl err, ex')" and "code = 400"
    using assms by (cases "fst (apply_mutation (ou_hash cx) (ou_now cx) proposal_id target mutation (executor_of w))")
      (auto simp: api_evolution_apply_def returning_def then_reply_def catching_def call_s_def split: prod.splits if_splits)
  then show "code = 400" by simp
  have put: "put_executor ex w = w\<lparr>aw_policy := st\<rparr>"
    if "xe_policy ex = Some st" "xe_config ex = pl_config w" "xe_memory ex = Some (aw_memory w)" "xe_records ex = pl_mutations w" for ex st
    using that by (simp add: put_executor_def)
  have "\<exists>st. put_executor ex' w = w\<lparr>aw_policy := st\<rparr> \<and> leads policy_step ungated (aw_policy w) st"
  proof (cases "ex' = executor_of w")
    case True
    then have "put_executor ex' w = w\<lparr>aw_policy := aw_policy w\<rparr>" by (intro put) simp_all
    then show ?thesis by blast
  next
    case False
    then have ex': "ex' = snd (check_policy (ou_now cx) target (executor_of w))" using apply_mutation_Inl [OF a] by blast
    then obtain st where st: "xe_policy ex' = Some st" "leads policy_step ungated (aw_policy w) st"
      using check_policy_leads [of "ou_now cx" target "executor_of w" _ ex' "aw_policy w"] by (metis executor_of_fields(1) prod.collapse)
    have "put_executor ex' w = w\<lparr>aw_policy := st\<rparr>" using st(1) by (intro put) (simp_all add: ex' check_policy_frame)
    with st(2) show ?thesis by blast
  qed
  then show "\<exists>st. snd (api_evolution_apply cx proposal_id target mutation w) = w\<lparr>aw_policy := st\<rparr> \<and> leads policy_step ungated (aw_policy w) st"
    by (simp add: api_evolution_apply_def call_s_def a)
qed

lemma map_server_error: "map_sum Server_error f x \<noteq> Inl (HTTPException code text)"
  by (cases x) simp_all

lemma route_policy_clean: "refuses_clean w (route_policy cx r w)"
  by (cases r) (auto simp: api_policy_seed_def api_policy_evaluate_def api_policy_approve_def api_policy_add_limit_def
      api_policy_lockdown_def Let_def api_policy_rules_def api_policy_pending_def api_policy_log_def intro!: clean_intros reading_clean)

lemma route_memory_clean: "refuses_clean w (route_memory cx r w)"
  by (cases r) (auto simp: api_memory_write_def api_memory_rollback_def api_memory_branch_def api_memory_read_def
      api_memory_history_def api_memory_diff_def api_memory_snapshot_def intro!: clean_intros reading_clean dest: found_code)

lemma route_pool_clean: "refuses_clean w (route_pool cx r w)"
  by (cases r) (auto simp: api_agent_register_def api_agent_heartbeat_def api_task_submit_def api_task_complete_def
      api_orchestrator_balance_def api_orchestrator_spawn_def api_orchestrator_terminate_idle_def api_agents_list_def
      api_orchestrator_report_def api_orchestrator_predict_def intro!: clean_intros reading_clean split: prod.splits)

lemma route_agent_clean: "refuses_clean w (route_agent cx r w)"
  by (cases r) (auto simp: api_agent_run_def api_agent_run_stream_def intro!: clean_intros split: prod.splits)

lemma route_market_clean: "refuses_clean w (route_market cx r w)"
  by (cases r) (auto simp: api_skill_publish_def api_skill_remove_def api_skill_rate_def api_remote_register_def api_remote_sync_def
      api_marketplace_authorize_def api_skill_search_def api_skill_recommend_def api_remote_sources_def Let_def
      intro!: clean_intros reading_clean split: prod.splits)

lemma route_simulation_clean: "refuses_clean w (route_simulation cx r w)"
  by (cases r) (auto simp: api_simulation_run_def api_simulation_approve_def api_predictor_train_def api_simulation_domains_def
      api_simulation_history_def api_simulation_dryrun_def api_predictor_status_def api_simulation_predict_def map_server_error
      intro!: clean_intros reading_clean split: sum.splits prod.splits if_splits)

lemma route_learning_clean: "refuses_clean w (route_learning cx r w)"
  by (cases r) (auto simp: api_learning_ingest_def api_learning_reflect_def api_learning_aggregate_def api_learning_trends_def
      api_learning_report_def Let_def intro!: clean_intros reading_clean)

lemma route_twin_clean: "refuses_clean w (route_twin cx r w)"
  by (cases r) (auto simp: api_twin_snapshot_def api_twin_error_def api_twin_replay_def api_audit_replay_def
      api_twin_stream_subscribers_def intro!: clean_intros reading_clean split: prod.splits)

lemma route_fleet_clean: "refuses_clean w (route_fleet cx r w)"
  by (cases r) (auto simp: api_fleet_announce_def api_fleet_elect_def api_fleet_enqueue_def api_fleet_adopt_def api_fleet_status_def
      api_fleet_leader_def api_fleet_bus_status_def api_fleet_bus_events_def map_server_error
      intro!: clean_intros reading_clean split: prod.splits)

lemma route_evolution_clean: "(\<And>p t m. r \<noteq> Evolution_apply p t m) \<Longrightarrow> refuses_clean w (route_evolution cx r w)"
  by (cases r) (auto simp: api_evolution_propose_def api_evolution_evaluate_def api_evolution_adopt_def api_evolution_revert_def
      api_evolution_domains_def api_evolution_ledger_def api_evolution_targets_def api_evolution_mutations_def
      intro!: clean_intros reading_clean)

lemma handle_clean:
  assumes "\<And>p t m. r \<noteq> To_evolution (Evolution_apply p t m)"
  shows "refuses_clean w (handle cx r w)"
  using assms
  by (cases r) (auto simp: api_root_def api_integrations_status_def Let_def route_policy_clean route_memory_clean route_pool_clean
      route_agent_clean route_market_clean route_simulation_clean route_learning_clean route_twin_clean route_fleet_clean
      intro!: reading_clean route_evolution_clean)

lemma handle_refuses:
  assumes "fst (handle cx r w) = Inl (HTTPException code text)"
  shows "code \<in> {400, 403, 404, 409} \<and> (\<exists>st. snd (handle cx r w) = w\<lparr>aw_policy := st\<rparr> \<and> leads policy_step ungated (aw_policy w) st \<and>
    (st = aw_policy w \<or> (\<exists>p t m. r = To_evolution (Evolution_apply p t m))))"
proof (cases "\<exists>p t m. r = To_evolution (Evolution_apply p t m)")
  case True
  then obtain p t m where r: "r = To_evolution (Evolution_apply p t m)" by blast
  then show ?thesis using evolution_apply_refuses [of cx p t m w code _] assms by (simp add: r)
next
  case False
  then have c: "refuses_clean w (handle cx r w)" by (intro handle_clean) blast
  then have "code \<in> {400, 403, 404, 409}" "snd (handle cx r w) = w" using assms unfolding refuses_clean_def by blast+
  moreover have "w = w\<lparr>aw_policy := aw_policy w\<rparr>" by simp
  ultimately show ?thesis using leads_refl by metis
qed

section \<open>Lockdown\<close>

lemma quiet_broadcast: "quiet broadcast_event"
  unfolding quiet_def by (intro allI) (metis (full_types) broadcast_event.simps fst_conv listener.exhaust)

lemma locked_evaluate:
  assumes "pe_lockdown (fst (aw_policy w))" "\<not> is_admin p"
  obtains d st where "world_policy (evaluate env p action res cost calls) w = (Inr d, w\<lparr>aw_policy := st\<rparr>)" "\<not> pd_allowed d"
proof -
  let ?q = "policy_log env (new_decision env False (lockdown_text action p)) (aw_policy w)"
  have "evaluate env p action res cost calls (aw_policy w) = Inr ?q" using assms by (simp add: evaluate_def Let_def)
  moreover have "\<not> pd_allowed (fst ?q)" by simp
  ultimately show ?thesis by (cases ?q) (auto simp: world_policy_def lift_r_def intro: that)
qed

lemma web_not_admin: "\<not> is_admin (web_principal session)"
  by (simp add: is_admin_def web_principal_def)

lemma live_publish: "\<exists>b. run_publish broadcast_event run_id session stage payload w = (Inr (), w\<lparr>aw_bus := b\<rparr>)"
  using run_publish_quiet [OF quiet_broadcast] by blast

lemma locked_setup:
  assumes "pe_lockdown (fst (aw_policy w))"
  shows "\<exists>r b st. run_setup broadcast_event h re e prompt session w = (Inr (Denied r), w\<lparr>aw_policy := st, aw_bus := b\<rparr>) \<and> rn_status r = ''denied''"
proof -
  let ?pub = "run_publish broadcast_event (new_id ''run'' (e 0)) session"
  obtain b1 where 1: "?pub ''started'' [(''prompt'', PStr prompt)] w = (Inr (), w\<lparr>aw_bus := b1\<rparr>)"
    using run_publish_quiet [OF quiet_broadcast] by blast
  have locked: "pe_lockdown (fst (aw_policy (w\<lparr>aw_bus := b1\<rparr>)))" using assms by simp
  obtain d st where 2: "world_policy (evaluate (e 1) (web_principal session) ''agent.run'' (Some run_resource) 0 1) (w\<lparr>aw_bus := b1\<rparr>) =
      (Inr d, w\<lparr>aw_bus := b1, aw_policy := st\<rparr>)" "\<not> pd_allowed d"
    using locked_evaluate [OF locked web_not_admin] by blast
  obtain b2 where 3: "?pub ''policy_evaluated'' [(''allowed'', PBool (pd_allowed d)), (''reason'', PStr (pd_reason d))] (w\<lparr>aw_bus := b1, aw_policy := st\<rparr>) =
      (Inr (), w\<lparr>aw_policy := st, aw_bus := b2\<rparr>)"
    using live_publish [where w = "w\<lparr>aw_bus := b1, aw_policy := st\<rparr>"] by force
  obtain b3 where 4: "?pub ''denied'' [(''reason'', PStr (pd_reason d))] (w\<lparr>aw_policy := st, aw_bus := b2\<rparr>) =
      (Inr (), w\<lparr>aw_policy := st, aw_bus := b3\<rparr>)"
    using live_publish [where w = "w\<lparr>aw_policy := st, aw_bus := b2\<rparr>"] by force
  show ?thesis
    unfolding run_setup_def Let_def 1 seq_r_simps 2(1) 3 4 if_P [OF 2(2)] by (rule exI, rule exI, rule exI, rule conjI, rule refl) (simp add: run_result_def)
qed

lemma locked_run:
  assumes "pe_lockdown (fst (aw_policy w))"
  shows "\<exists>r b st. handle cx (To_agent (Agent_run prompt session key provider)) w =
    (Inr (B_run r), w\<lparr>aw_policy := st, aw_bus := b\<rparr>) \<and> rn_status r = ''denied''"
proof -
  obtain r b st where "run_setup broadcast_event (ou_hash cx) (ou_runner cx) (ou_env cx) prompt (session_of session) w =
      (Inr (Denied r), w\<lparr>aw_policy := st, aw_bus := b\<rparr>)" "rn_status r = ''denied''"
    using locked_setup [OF assms] by blast
  then show ?thesis by (simp add: api_agent_run_def run_agent_def returning_def uncaught_def then_reply_def del: split_paired_Ex) blast
qed

lemma locked_stream:
  assumes "pe_lockdown (fst (aw_policy w))" "stop_after \<noteq> Some 0"
  shows "\<exists>run_id err b st. handle cx (To_agent (Agent_run_stream prompt session key provider stop_after)) w =
    (Inr (B_texts [sse_frame (stop_event ''denied'' run_id err)]), w\<lparr>aw_policy := st, aw_bus := b\<rparr>)"
proof -
  obtain r b st where "run_setup broadcast_event (ou_hash cx) (ou_runner cx) (ou_env cx) prompt (session_of session) w =
      (Inr (Denied r), w\<lparr>aw_policy := st, aw_bus := b\<rparr>)" "rn_status r = ''denied''"
    using locked_setup [OF assms(1)] by blast
  then show ?thesis using assms(2) by (simp add: api_agent_run_stream_def run_stream_def del: split_paired_Ex) blast
qed

lemma locked_reflection:
  assumes "pe_lockdown (fst (aw_policy w))"
  shows "\<exists>r st. handle cx (To_learning Learning_reflect) w = (Inr (B_reflection r), w\<lparr>aw_policy := st\<rparr>) \<and>
    rf_status r = ''denied'' \<and> plane_step (cx, Reflection_tick) w = w\<lparr>aw_policy := st\<rparr>"
proof -
  have "\<not> is_admin learning_principal" by (simp add: is_admin_def learning_principal_def)
  then obtain d st where "world_policy (evaluate (ou_env cx 1) learning_principal ''learning.reflect'' (Some reflect_resource) 0 1) w =
      (Inr d, w\<lparr>aw_policy := st\<rparr>)" "\<not> pd_allowed d"
    using locked_evaluate [OF assms] by blast
  then show ?thesis
    by (simp add: api_learning_reflect_def plane_reflection_tick_def reflection_tick_def reflection_cycle_def Let_def returning_def
        uncaught_def then_reply_def reflection_of_def del: split_paired_Ex) blast
qed

section \<open>A skill nobody published\<close>

text \<open>
  The guard of the marketplace checks the permissions of the first skill a text search finds. A name
  without a hit therefore requires none: whatever the agent was granted, only the policy decides.
\<close>
lemma unknown_skill_unguarded:
  assumes "search name None (pl_catalog w) = []"
  shows "authorize env allow p action (named_skill (Some name) (pl_catalog w)) (Some []) pol =
    authorize env allow p action (named_skill (Some name) (pl_catalog w)) None pol"
proof -
  have "named_skill (Some name) (pl_catalog w) = None" using assms by (simp add: named_skill_def)
  then show ?thesis by (simp add: authorize_def required_permissions_def check_grants_def missing_grants_def Let_def)
qed

end
