(* ===== verification/Plane_Queue.thy ===== *)
theory Plane_Queue
  imports Plane_Answers Fleet_Properties
begin

text \<open>
  The shared task queue under the whole plane: only the fleet routes touch the storage, an adoption
  takes the oldest waiting task, and nothing else takes one; so every waiting task gets its turn.
\<close>

section \<open>Who touches the storage\<close>

lemma agent_storage: "agent_moves V w w' \<Longrightarrow> pl_storage w' = pl_storage w"
  by (cases w, cases w') (simp add: agent_moves_def)

lemma world_storage [simp]:
  "pl_storage (snd (world_policy f1 w)) = pl_storage w" "pl_storage (snd (world_memory f2 w)) = pl_storage w"
  "pl_storage (snd (world_pool f3 w)) = pl_storage w" "pl_storage (snd (world_agents f4 w)) = pl_storage w"
  "pl_storage (snd (world_catalog f5 w)) = pl_storage w" "pl_storage (snd (world_sandbox f6 w)) = pl_storage w"
  "pl_storage (snd (world_evolution f7 w)) = pl_storage w" "pl_storage (snd (take_snapshot cx w)) = pl_storage w"
  "pl_storage (with_feed f8 w) = pl_storage w" "pl_storage (put_registry g w) = pl_storage w" "pl_storage (put_executor ex w) = pl_storage w"
  by (simp_all add: world_policy_def world_memory_def world_pool_def world_agents_def world_catalog_def world_sandbox_def
      world_evolution_def take_snapshot_def with_feed_def put_registry_def put_executor_def lift_r_def split: sum.splits prod.splits)

lemma snd_eq_storage: "q = (a, w') \<Longrightarrow> pl_storage (snd q) = s \<Longrightarrow> pl_storage w' = s"
  by simp

lemma route_policy_storage: "pl_storage (snd (route_policy cx r w)) = pl_storage w"
  by (cases r) (simp_all add: api_policy_seed_def api_policy_evaluate_def api_policy_approve_def snd_guarded api_policy_add_limit_def
      api_policy_lockdown_def Let_def)

lemma route_memory_storage: "pl_storage (snd (route_memory cx r w)) = pl_storage w"
  by (cases r) (simp_all add: api_memory_write_def api_memory_rollback_def api_memory_branch_def)

lemma route_pool_storage: "pl_storage (snd (route_pool cx r w)) = pl_storage w"
  by (cases r) (simp_all add: api_agent_register_def api_agent_heartbeat_def api_task_submit_def api_task_assign_def api_task_complete_def
      api_orchestrator_balance_def api_orchestrator_spawn_def api_orchestrator_terminate_idle_def snd_case_prod)

lemma route_agent_storage: "pl_storage (snd (route_agent cx r w)) = pl_storage w"
proof (cases r)
  case (Agent_run prompt session key provider)
  then show ?thesis using agent_storage [OF run_agent_moves [OF ungated_calls]] by (simp add: api_agent_run_def)
next
  case (Agent_run_stream prompt session key provider n)
  then show ?thesis
    using agent_storage [OF run_stream_moves [OF ungated_calls, of w "ou_hash cx" "ou_stream cx" "ou_runner cx" "ou_env cx" prompt "session_of session" key provider n]]
    by (auto simp: api_agent_run_stream_def split: prod.splits)
qed

lemma route_market_storage: "pl_storage (snd (route_market cx r w)) = pl_storage w"
  by (cases r) (simp_all add: api_skill_publish_def api_skill_install_def api_skill_remove_def snd_case_prod api_skill_rate_def lift_r_def
      api_remote_register_def Let_def api_remote_sync_def api_marketplace_authorize_def split: sum.splits prod.splits)

lemma route_simulation_storage: "pl_storage (snd (route_simulation cx r w)) = pl_storage w"
  by (cases r) (simp_all add: api_simulation_run_def api_simulation_approve_def api_predictor_train_def lift_r_def split: sum.splits prod.splits)

lemma reflection_storage:
  fixes w :: "'m plane"
  shows "pl_storage (snd (reflection_cycle broadcast_event h http le e w)) = pl_storage w"
proof -
  obtain q w1 where 1: "world_policy (evaluate (e 1) learning_principal ''learning.reflect'' (Some reflect_resource) 0 1) w = (q, w1)"
    by fastforce
  have same: "pl_storage w2 = pl_storage v" if "world_kept v w2" for v w2 :: "'m plane"
    using that by (cases v, cases w2) (simp add: world_kept_def)
  have w1: "pl_storage w1 = pl_storage w" using policy_kept [OF 1] by (rule same)
  have answered: "pl_storage (snd (reflect_reply broadcast_event h e run_id snapshot reply w2)) = pl_storage w2" for run_id snapshot reply and w2 :: "'m plane"
  proof -
    obtain r w3 where 2: "reflect_reply broadcast_event h e run_id snapshot reply w2 = (r, w3)" by fastforce
    then show ?thesis
      using reflect_reply_proposes [OF 2] same [of w2 "w3\<lparr>rw_evolution := rw_evolution w2\<rparr>"] by (simp add: only_proposes_def)
  qed
  have started: "pl_storage w3 = pl_storage w2" if "learn_publish broadcast_event run_id stage payload w2 = (r, w3)" for run_id stage payload r and w2 w3 :: "'m plane"
    using learn_publish_kept [OF that] by (rule same)
  show ?thesis
    unfolding reflection_cycle_def Let_def 1
    by (cases q) (auto simp: w1 seq_r_def answered dest!: started split: prod.splits sum.splits)
qed

lemma route_learning_storage: "pl_storage (snd (route_learning cx r w)) = pl_storage w"
  by (cases r) (simp_all add: api_learning_ingest_def Let_def api_learning_reflect_def reflection_storage)

lemma route_twin_storage: "pl_storage (snd (route_twin cx r w)) = pl_storage w"
  by (cases r) (simp_all add: api_twin_snapshot_def snd_case_prod api_twin_error_def)

lemma route_evolution_storage: "pl_storage (snd (route_evolution cx r w)) = pl_storage w"
  by (cases r) (simp_all add: api_evolution_propose_def api_evolution_evaluate_def api_evolution_adopt_def api_evolution_apply_def
      api_evolution_revert_def lift_r_def split: sum.splits prod.splits)

lemma storage_same:
  assumes "\<nexists>r. ev = Request (To_fleet r)"
  shows "pl_storage (plane_step (cx, ev) w) = pl_storage w"
proof (cases ev)
  case (Request r)
  with assms show ?thesis
    by (cases r) (simp_all add: route_policy_storage route_memory_storage route_pool_storage route_agent_storage route_market_storage
        route_simulation_storage route_learning_storage route_twin_storage route_evolution_storage)
next
  case (Stream s)
  then show ?thesis
    using world_storage(8) [of cx w] by (cases s) (auto split: prod.splits simp del: world_storage(8))
next
  case Scheduler_tick
  then show ?thesis by (simp add: plane_scheduler_tick_def split: prod.splits)
next
  case Reflection_tick
  then show ?thesis by (simp add: plane_reflection_tick_def reflection_tick_def reflection_storage)
qed

section \<open>The queue\<close>

lemma node_publish_storage: "fw_storage (snd (node_publish act subject payload f)) = fw_storage f"
  by (simp add: node_publish_def split: option.splits prod.splits)

lemma announce_storage:
  assumes "fw_storage f = In_memory m" "node_announce broadcast_event env health n f = (r, f1)"
  shows "\<exists>m'. fw_storage f1 = In_memory m' \<and> ms_queue m' = ms_queue m"
proof -
  let ?a = "fst (storage_announce (env_time env) (announcement_key n) \<lparr>na_announcement_id = new_id ''ann'' env, na_node = fn_id n, na_fqdn = fn_fqdn n,
      na_version = fn_version n, na_capacity = fn_capacity n, na_role = FOLLOWER, na_health = health, na_ts = env_stamp env\<rparr> (fw_storage f))"
  have "fw_storage (snd (node_announce broadcast_event env health n f)) = snd (storage_announce (env_time env) (announcement_key n)
      \<lparr>na_announcement_id = new_id ''ann'' env, na_node = fn_id n, na_fqdn = fn_fqdn n, na_version = fn_version n,
        na_capacity = fn_capacity n, na_role = FOLLOWER, na_health = health, na_ts = env_stamp env\<rparr> (fw_storage f))"
    using node_publish_storage [of broadcast_event "''fleet.'' @ fn_id n @ ''.announce''" "dump_announcement ?a" "f\<lparr>fw_storage := st\<rparr>" for st]
    by (auto simp: node_announce_def Let_def case_prod_unfold split: sum.splits)
  then show ?thesis using assms by (simp add: ms_announce_def)
qed

lemma elect_storage:
  assumes "fw_storage f = In_memory m"
  shows "\<exists>m'. fw_storage (snd (elect broadcast_event decode env n f)) = In_memory m' \<and> ms_queue m' = ms_queue m"
proof -
  obtain r f1 where 1: "node_announce broadcast_event env None n f = (r, f1)" by fastforce
  obtain m1 where m1: "fw_storage f1 = In_memory m1" "ms_queue m1 = ms_queue m" using announce_storage [OF assms 1] by blast
  have won: "fw_storage f2 = In_memory (m1\<lparr>ms_leader := Some (l, t)\<rparr>)"
    if "node_publish broadcast_event s p (f1\<lparr>fw_storage := In_memory (m1\<lparr>ms_leader := Some (l, t)\<rparr>)\<rparr>) = (q, f2)" for s p q f2 l t
    using node_publish_storage [of broadcast_event s p "f1\<lparr>fw_storage := In_memory (m1\<lparr>ms_leader := Some (l, t)\<rparr>)\<rparr>"] that by simp
  show ?thesis using m1
    by (cases r) (auto simp: elect_def 1 Let_def ms_set_leader_def split: sum.splits list.splits prod.splits if_splits dest!: won)
qed

lemma enqueue_storage:
  assumes "fw_storage f = In_memory m"
  shows "\<exists>m'. fw_storage (snd (node_enqueue broadcast_event task f)) = In_memory m' \<and> ms_queue m' = ms_queue m @ [task]"
  using node_publish_storage [of broadcast_event "''fleet.queue.enqueued''" task "f\<lparr>fw_storage := In_memory (m\<lparr>ms_queue := ms_queue m @ [task]\<rparr>)\<rparr>"] assms
  by (auto simp: node_enqueue_def ms_enqueue_def split: prod.splits sum.splits)

lemma adopt_storage:
  assumes "fw_storage f = In_memory m" "ms_queue m = task # rest"
  shows "\<exists>m' f'. adopt_task broadcast_event decode env n f = (Inr (Some task), f') \<and> fw_storage f' = In_memory m' \<and> ms_queue m' = rest"
proof -
  let ?f = "f\<lparr>fw_storage := In_memory (m\<lparr>ms_queue := rest\<rparr>)\<rparr>"
  obtain f' where "node_publish broadcast_event ''fleet.queue.leased'' (dict_merge [(''node'', PStr (fn_id n))] task) ?f = (Inr (), f')"
      "fw_storage f' = fw_storage ?f"
    using publish_quiet [OF quiet_broadcast] by blast
  then show ?thesis using assms by (simp add: adopt_task_def ms_lease_task_def)
qed

fun takes :: "'m outside \<times> event \<Rightarrow> nat" where
  "takes (cx, Request (To_fleet Fleet_adopt)) = 1"
| "takes _ = 0"

lemma event_queue:
  assumes "pl_storage w = In_memory m" "takes ev \<le> length (ms_queue m)"
  shows "\<exists>m' ts. pl_storage (plane_step ev w) = In_memory m' \<and> ms_queue m' = drop (takes ev) (ms_queue m) @ ts"
proof (cases "\<exists>cx r. ev = (cx, Request (To_fleet r))")
  case False
  then have "takes ev = 0" "pl_storage (plane_step ev w) = pl_storage w"
    using storage_same [of "snd ev" "fst ev" w] by (cases ev rule: takes.cases; auto)+
  with assms(1) show ?thesis by (intro exI [of _ m] exI [of _ "[]"]) simp
next
  case True
  then obtain cx r where ev: "ev = (cx, Request (To_fleet r))" by blast
  have f: "fw_storage (fleet_of w) = In_memory m" using assms(1) by (simp add: fleet_of_def)
  have put: "pl_storage (snd (world_fleet g w)) = fw_storage (snd (g (fleet_of w)))" for g :: "(listener, live_ext) fleet_world \<Rightarrow> 'c \<times> (listener, live_ext) fleet_world"
    by (simp add: world_fleet_def put_fleet_def)
  show ?thesis
  proof (cases r)
    case (Fleet_announce health)
    then show ?thesis using announce_storage [OF f prod.collapse [symmetric]] by (simp add: ev api_fleet_announce_def put) (metis append_Nil2)
  next
    case Fleet_elect
    then show ?thesis using elect_storage [OF f] by (simp add: ev api_fleet_elect_def put) (metis append_Nil2)
  next
    case (Fleet_enqueue name signature skills priority payload)
    then show ?thesis using enqueue_storage [OF f] by (auto simp: ev api_fleet_enqueue_def put)
  next
    case Fleet_adopt
    then obtain task rest where "ms_queue m = task # rest" using assms(2) ev by (cases "ms_queue m") auto
    then obtain m' f' where "adopt_task broadcast_event (ou_decode_task cx) (ou_now cx) (pl_node w) (fleet_of w) = (Inr (Some task), f')"
        "fw_storage f' = In_memory m'" "ms_queue m' = rest"
      using adopt_storage [OF f] by blast
    with Fleet_adopt \<open>ms_queue m = task # rest\<close> show ?thesis by (simp add: ev api_fleet_adopt_def put)
  qed (use assms(1) in \<open>auto simp: ev\<close>)
qed

lemma events_queue:
  "pl_storage w = In_memory m \<Longrightarrow> sum_list (map takes evs) \<le> length (ms_queue m) \<Longrightarrow>
   \<exists>m' ts. pl_storage (fold plane_step evs w) = In_memory m' \<and> ms_queue m' = drop (sum_list (map takes evs)) (ms_queue m) @ ts"
proof (induction evs arbitrary: w m)
  case (Cons ev evs)
  obtain m1 ts1 where 1: "pl_storage (plane_step ev w) = In_memory m1" "ms_queue m1 = drop (takes ev) (ms_queue m) @ ts1"
    using event_queue [OF Cons.prems(1), of ev] Cons.prems(2) by auto
  moreover have "sum_list (map takes evs) \<le> length (ms_queue m1)" using 1(2) Cons.prems(2) by simp
  ultimately obtain m2 ts2 where "pl_storage (fold plane_step evs (plane_step ev w)) = In_memory m2"
      "ms_queue m2 = drop (sum_list (map takes evs)) (ms_queue m1) @ ts2"
    using Cons.IH by blast
  with 1(2) Cons.prems(2) show ?case by (simp add: add.commute)
qed auto

lemma turn_comes:
  assumes "pl_storage w = In_memory m" "sum_list (map takes evs) < length (ms_queue m)"
  shows "fst (handle cx (To_fleet Fleet_adopt) (fold plane_step evs w)) =
    Inr (B_dict [(''leased'', PDict (ms_queue m ! sum_list (map takes evs)))])"
proof -
  let ?i = "sum_list (map takes evs)"
  let ?w = "fold plane_step evs w"
  obtain m' ts where m': "pl_storage ?w = In_memory m'" "ms_queue m' = drop ?i (ms_queue m) @ ts"
    using events_queue [OF assms(1)] assms(2) by (meson less_imp_le)
  then have "ms_queue m' = (ms_queue m ! ?i) # (drop (Suc ?i) (ms_queue m) @ ts)"
    using Cons_nth_drop_Suc [OF assms(2)] by simp
  moreover have "fw_storage (fleet_of ?w) = In_memory m'" using m'(1) by (simp add: fleet_of_def)
  ultimately obtain f' where "adopt_task broadcast_event (ou_decode_task cx) (ou_now cx) (pl_node ?w) (fleet_of ?w) = (Inr (Some (ms_queue m ! ?i)), f')"
    using adopt_storage by blast
  then show ?thesis
    by (simp add: api_fleet_adopt_def world_fleet_def call_s_def returning_def then_reply_def uncaught_def)
qed

end
