(* ===== verification/Json_Proofs.thy ===== *)
theory Json_Proofs
  imports Json
begin

text \<open>
  Reading JSON ends: every call of the reader leaves less text than it got, so the fuel \<open>json_loads\<close>
  gives it is never used up and a \<open>None\<close> is always an error in the text.
\<close>

lemma skip_ws_length: "length (skip_ws s) \<le> length s"
  by (simp add: skip_ws_def length_dropWhile_le)

lemma str_body_step:
  "json_str_body acc (c # cs) = Some (t, rest) \<Longrightarrow>
   rest = cs \<or> (\<exists>acc' ys. json_str_body acc' ys = Some (t, rest) \<and> length ys < length (c # cs))"
  by (auto split: if_splits option.splits list.splits) (metis length_Cons less_Suc_eq)+

lemma str_body_consumes: "json_str_body acc s = Some (t, rest) \<Longrightarrow> length rest < length s"
proof (induction s arbitrary: acc rule: length_induct)
  case (1 s)
  show ?case
  proof (cases s)
    case Nil
    with 1 show ?thesis by simp
  next
    case (Cons c cs)
    from str_body_step [OF 1(2) [unfolded Cons]] show ?thesis
    proof (elim disjE exE conjE)
      fix acc' ys assume "json_str_body acc' ys = Some (t, rest)" "length ys < length (c # cs)"
      with 1(1) Cons show ?thesis using less_trans by blast
    qed (simp add: Cons)
  qed
qed

lemma exponent_consumes: "json_exponent s = Some (ex, rest) \<Longrightarrow> length rest < length s"
  by (auto simp: json_exponent_def Let_def split: list.splits if_splits)

lemma number_consumes:
  assumes "json_number s = Some (v, rest)" shows "length rest < length s"
proof -
  define s1 where "s1 = (if s \<noteq> [] \<and> hd s = CHR ''-'' then tl s else s)"
  define ds where "ds = (case s1 of c # _ \<Rightarrow> if c = CHR ''0'' then ''0'' else takeWhile is_digit s1 | [] \<Rightarrow> [])"
  define s2 where "s2 = drop (length ds) s1"
  define frac where "frac = (case s2 of c # cs \<Rightarrow> if c = CHR ''.'' then takeWhile is_digit cs else [] | [] \<Rightarrow> [])"
  define s3 where "s3 = (if frac = [] then s2 else drop (length frac + 1) s2)"
  have ne: "ds \<noteq> []" and rest: "rest = s3 \<or> (\<exists>ex. json_exponent s3 = Some (ex, rest))"
    using assms unfolding json_number_def Let_def s1_def [symmetric] ds_def [symmetric] s2_def [symmetric]
      frac_def [symmetric] s3_def [symmetric]
    by (auto split: if_splits option.splits)
  have "length s1 \<le> length s" by (simp add: s1_def)
  moreover have "s1 \<noteq> []" using ne by (auto simp: ds_def)
  then have "length s2 < length s1" using ne by (cases s1) (auto simp: s2_def)
  moreover have "length s3 \<le> length s2" by (simp add: s3_def)
  ultimately show ?thesis using rest exponent_consumes by fastforce
qed

lemma literal_consumes: "json_literal s = Some (v, rest) \<Longrightarrow> length rest < length s"
  by (cases s) (auto simp: json_literal_def startswith_def split: if_splits dest: number_consumes)

text \<open>What a reader does next: the text it goes on with is shorter, by the kind of the call.\<close>

lemma value_open:
  "json_value (Suc n) (c # cs) =
     (if c = CHR 0x22 then map_option (\<lambda>(t, rest). (PStr t, rest)) (json_str_body [] cs)
      else if c = CHR ''['' then
        (if skip_ws cs = [] then None else if hd (skip_ws cs) = CHR '']'' then Some (PList [], tl (skip_ws cs)) else json_items n [] (skip_ws cs))
      else if c = CHR ''{'' then
        (if skip_ws cs = [] then None else if hd (skip_ws cs) = CHR ''}'' then Some (PDict [], tl (skip_ws cs)) else json_members n [] (skip_ws cs))
      else json_literal (c # cs))"
  by (simp split: list.splits)

lemma tl_skip_ws: "length (tl (skip_ws s)) \<le> length s"
  using skip_ws_length [of s] by simp

definition consumes :: "(string \<Rightarrow> (pyval \<times> string) option) \<Rightarrow> bool" where
  "consumes f \<longleftrightarrow> (\<forall>s v rest. f s = Some (v, rest) \<longrightarrow> length rest < length s)"

lemma consumesD: "consumes f \<Longrightarrow> f s = Some (v, rest) \<Longrightarrow> length rest < length s"
  by (auto simp: consumes_def)

lemma value_consumes:
  assumes "consumes (json_items n [])" "consumes (json_members n [])"
  shows "consumes (json_value (Suc n))"
  unfolding consumes_def
proof (intro allI impI)
  fix s v rest assume r: "json_value (Suc n) s = Some (v, rest)"
  then obtain c cs where s: "s = c # cs" by (cases s) auto
  note ws = skip_ws_length [of cs] tl_skip_ws [of cs]
  show "length rest < length s"
    using r ws unfolding s value_open
    by (auto split: if_splits dest!: str_body_consumes literal_consumes consumesD [OF assms(1)] consumesD [OF assms(2)])
qed

lemma items_consumes:
  assumes "consumes (json_value n)" "\<And>acc. consumes (json_items n acc)"
  shows "consumes (json_items (Suc n) acc)"
  unfolding consumes_def
proof (intro allI impI)
  fix s v rest assume r: "json_items (Suc n) acc s = Some (v, rest)"
  then obtain x rest1 where 1: "json_value n s = Some (x, rest1)" by (auto split: option.splits)
  obtain c cs where 2: "skip_ws rest1 = c # cs" using r 1 by (cases "skip_ws rest1") auto
  have cs: "length cs < length s"
    using consumesD [OF assms(1) 1] skip_ws_length [of rest1] 2 by simp
  from r 1 2 consider "rest = cs" | "json_items n (acc @ [x]) (skip_ws cs) = Some (v, rest)" by (auto split: if_splits)
  then show "length rest < length s"
    using cs skip_ws_length [of cs] by cases (auto dest!: consumesD [OF assms(2)])
qed

lemma members_consumes:
  assumes "consumes (json_value n)" "\<And>acc. consumes (json_members n acc)"
  shows "consumes (json_members (Suc n) acc)"
  unfolding consumes_def
proof (intro allI impI)
  fix s v rest assume r: "json_members (Suc n) acc s = Some (v, rest)"
  then obtain qs where s: "s = CHR 0x22 # qs" by (cases s) (auto split: if_splits)
  obtain k rest1 where 1: "json_str_body [] qs = Some (k, rest1)" using r s by (cases "json_str_body [] qs") auto
  obtain c1 cs1 where 2: "skip_ws rest1 = c1 # cs1" using r s 1 by (cases "skip_ws rest1") auto
  obtain x rest2 where 3: "json_value n (skip_ws cs1) = Some (x, rest2)" "c1 = CHR '':''"
    using r s 1 2 by (cases "json_value n (skip_ws cs1)") (auto split: if_splits)
  obtain d ds where 4: "skip_ws rest2 = d # ds" using r s 1 2 3 by (cases "skip_ws rest2") auto
  have ds: "length ds < length s"
    using str_body_consumes [OF 1] skip_ws_length [of rest1] skip_ws_length [of cs1] consumesD [OF assms(1) 3(1)]
      skip_ws_length [of rest2] 2 4 s by simp
  from r s 1 2 3 4 consider "rest = ds" | "json_members n (dict_set k x acc) (skip_ws ds) = Some (v, rest)" by (auto split: if_splits)
  then show "length rest < length s"
    using ds skip_ws_length [of ds] by cases (auto dest!: consumesD [OF assms(2)])
qed

lemma readers_consume: "consumes (json_value n)" "consumes (json_items n acc)" "consumes (json_members n m)"
proof -
  have "consumes (json_value n) \<and> (\<forall>acc. consumes (json_items n acc)) \<and> (\<forall>m. consumes (json_members n m))"
  proof (induction n)
    case (Suc n)
    then show ?case by (simp only: value_consumes items_consumes members_consumes simp_thms)
  qed (simp add: consumes_def)
  then show "consumes (json_value n)" "consumes (json_items n acc)" "consumes (json_members n m)" by blast+
qed

section \<open>Fuel\<close>

definition fuelled :: "nat \<Rightarrow> bool" where
  \<comment> \<open>one more unit makes no difference to a text this much is enough for\<close>
  "fuelled n \<longleftrightarrow> (\<forall>s. 2 * length s + 1 \<le> n \<longrightarrow> json_value (Suc n) s = json_value n s) \<and>
     (\<forall>acc s. 2 * length s + 2 \<le> n \<longrightarrow> json_items (Suc n) acc s = json_items n acc s) \<and>
     (\<forall>m s. 2 * length s + 2 \<le> n \<longrightarrow> json_members (Suc n) m s = json_members n m s)"

lemma fuelledD:
  assumes "fuelled n"
  shows "2 * length s + 1 \<le> n \<Longrightarrow> json_value (Suc n) s = json_value n s"
    "2 * length s + 2 \<le> n \<Longrightarrow> json_items (Suc n) acc s = json_items n acc s"
    "2 * length s + 2 \<le> n \<Longrightarrow> json_members (Suc n) m s = json_members n m s"
  using assms by (simp_all only: fuelled_def)

lemma value_fuelled:
  assumes "fuelled n" "2 * length s + 1 \<le> Suc n"
  shows "json_value (Suc (Suc n)) s = json_value (Suc n) s"
proof (cases s)
  case (Cons c cs)
  have "2 * length (skip_ws cs) + 2 \<le> n" using assms(2) skip_ws_length [of cs] by (simp add: Cons)
  note more = fuelledD(2,3) [OF assms(1) this]
  show ?thesis unfolding Cons value_open by (simp only: more)
qed simp

lemma items_fuelled:
  assumes "fuelled n" "2 * length s + 2 \<le> Suc n"
  shows "json_items (Suc (Suc n)) acc s = json_items (Suc n) acc s"
proof -
  have v: "json_value (Suc n) s = json_value n s" using assms(2) by (intro fuelledD(1) [OF assms(1)]) simp
  show ?thesis
  proof (cases "json_value n s")
    case None
    with v show ?thesis by (simp del: json_value.simps)
  next
    case (Some r)
    obtain x rest where r: "r = (x, rest)" by (cases r)
    show ?thesis
    proof (cases "skip_ws rest")
      case (Cons c cs)
      have "length cs < length s"
        using consumesD [OF readers_consume(1) Some [unfolded r]] skip_ws_length [of rest] Cons by simp
      then have "2 * length (skip_ws cs) + 2 \<le> n" using assms(2) skip_ws_length [of cs] by simp
      note more = fuelledD(2) [OF assms(1) this]
      show ?thesis by (simp only: json_items.simps(2) [of "Suc n" acc s] json_items.simps(2) [of n acc s] v Some r option.case prod.case Cons list.case more)
    qed (simp only: json_items.simps(2) [of "Suc n" acc s] json_items.simps(2) [of n acc s] v Some r option.case prod.case list.case)
  qed
qed

lemma members_fuelled:
  assumes "fuelled n" "2 * length s + 2 \<le> Suc n"
  shows "json_members (Suc (Suc n)) m s = json_members (Suc n) m s"
proof (cases s)
  case (Cons q qs)
  show ?thesis
  proof (cases "json_str_body [] qs")
    case None
    then show ?thesis by (simp only: json_members.simps(2) [of "Suc n" m "q # qs"] json_members.simps(2) [of n m "q # qs"] Cons list.case option.case)
  next
    case body: (Some r)
    obtain k rest where r: "r = (k, rest)" by (cases r)
    show ?thesis
    proof (cases "skip_ws rest")
      case colon: (Cons c cs)
      let ?s = "skip_ws cs"
      have lt: "length ?s < length s"
        using str_body_consumes [OF body [unfolded r]] skip_ws_length [of rest] skip_ws_length [of cs] colon Cons by simp
      then have v: "json_value (Suc n) ?s = json_value n ?s" using assms(2) by (intro fuelledD(1) [OF assms(1)]) simp
      show ?thesis
      proof (cases "json_value n ?s")
        case None
        then show ?thesis by (simp only: json_members.simps(2) [of "Suc n" m "q # qs"] json_members.simps(2) [of n m "q # qs"] Cons body r colon v None option.case prod.case list.case)
      next
        case val: (Some y)
        obtain x rest2 where y: "y = (x, rest2)" by (cases y)
        show ?thesis
        proof (cases "skip_ws rest2")
          case comma: (Cons d ds)
          have "length ds < length s"
            using consumesD [OF readers_consume(1) val [unfolded y]] skip_ws_length [of rest2] comma lt by simp
          then have "2 * length (skip_ws ds) + 2 \<le> n" using assms(2) skip_ws_length [of ds] by simp
          note more = fuelledD(3) [OF assms(1) this]
          show ?thesis by (simp only: json_members.simps(2) [of "Suc n" m "q # qs"] json_members.simps(2) [of n m "q # qs"] Cons body r colon v val y comma option.case prod.case list.case more)
        qed (simp only: json_members.simps(2) [of "Suc n" m "q # qs"] json_members.simps(2) [of n m "q # qs"] Cons body r colon v val y option.case prod.case list.case)
      qed
    qed (simp only: json_members.simps(2) [of "Suc n" m "q # qs"] json_members.simps(2) [of n m "q # qs"] Cons body r option.case prod.case list.case)
  qed
qed simp

lemma always_fuelled: "fuelled n"
proof (induction n)
  case (Suc n)
  show ?case unfolding fuelled_def [of "Suc n"]
    using value_fuelled [OF Suc] items_fuelled [OF Suc] members_fuelled [OF Suc] by blast
qed (simp add: fuelled_def)

lemma value_fuel_enough:
  assumes "2 * length s + 1 \<le> n" shows "json_value n s = json_value (2 * length s + 1) s"
  using assms
proof (induction n rule: dec_induct)
  case (step n)
  then show ?case using fuelledD(1) [OF always_fuelled] by metis
qed simp

lemma loads_any_fuel:
  "json_loads s = (case json_value (2 * length s + 2 + extra) (skip_ws s) of
     None \<Rightarrow> None | Some (v, rest) \<Rightarrow> if skip_ws rest = [] then Some v else None)"
proof -
  have "2 * length (skip_ws s) + 1 \<le> 2 * length s + 2" using skip_ws_length [of s] by simp
  then have "json_value (2 * length s + 2 + extra) (skip_ws s) = json_value (2 * length s + 2) (skip_ws s)"
    using value_fuel_enough [of "skip_ws s"] by (metis trans_le_add1)
  then show ?thesis by (simp only: json_loads_def)
qed

end
