(* ===== verification/Plane_Properties.thy ===== *)
theory Plane_Properties
  imports Plane_Queue Json_Proofs
begin

text \<open>
  The properties of the control plane as a whole, over the machine of \<open>Plane_Step\<close>, and the
  termination of the reading of replies. A witness runs a plane of its own.
\<close>

section \<open>A sample plane\<close>

definition sample_hash :: "doc \<Rightarrow> string" where
  "sample_hash d = []"

definition sample_outside :: "string \<Rightarrow> unit outside" where
  \<comment> \<open>a deployment with that admin key, no provider of its own and a forest that is certain of failure\<close>
  "sample_outside key =
     \<lparr>ou_env = (\<lambda>n. pool_env (of_nat n) ''n''), ou_admin_key = Some key, ou_nats_url = None, ou_nats_connect = (\<lambda>_. None),
      ou_runner = sample_runner_env, ou_http = sample_reply, ou_stream = sample_stream, ou_fetch = (\<lambda>_. Inl (RuntimeError ''offline'')),
      ou_hash = sample_hash, ou_parsers = no_parsers, ou_forest = sure_forest, ou_decode_node = Column_text, ou_decode_task = Column_text\<rparr>"

definition sample_envs :: "string \<Rightarrow> env" where
  "sample_envs name = pool_env 0 name"

lemma sample_start: "\<exists>w. new_plane (sample_outside key) sample_envs [sample_draw] ''host'' = Inr w"
proof -
  have "0 < length default_domains" by (simp add: default_domains_def SIMULATION_DOMAINS_def)
  then have "\<forall>dw \<in> set [sample_draw]. draw_ok default_domains dw" by (simp add: sample_draw_def draw_ok_def SYNTHETIC_SIZES_def)
  then show ?thesis using starts [of "[sample_draw]" "sample_outside key" sample_envs "''host''"] by blast
qed

definition lockdown_request :: "string option \<Rightarrow> request" where
  "lockdown_request key = To_policy (Policy_lockdown key True)"

section \<open>Start-up and invariants\<close>

text \<open>
  The control plane starts whatever the environment, the host and the provider of the forest: with
  draws in the ranges of the generator (the module makes 120), the predictor trains on the synthetic
  traces and every subsystem begins within its invariant.
\<close>
theorem plane_starts:
  fixes cx :: "'m outside"
  assumes "draws \<noteq> []" "\<forall>dw \<in> set draws. draw_ok default_domains dw"
  shows "\<exists>w. new_plane cx envs draws fqdn = Inr w \<and> plane_ok w \<and> fp_is_trained (pl_predictor w) \<and>
    fp_samples (pl_predictor w) = int (length draws)"
  using assms by (rule starts)

theorem plane_starts_witness:
  "\<exists>w. new_plane (sample_outside ''k'') sample_envs [sample_draw] ''host'' = Inr w \<and> plane_ok w \<and> fp_samples (pl_predictor w) = 1"
proof -
  have "0 < length default_domains" by (simp add: default_domains_def SIMULATION_DOMAINS_def)
  then have "\<forall>dw \<in> set [sample_draw]. draw_ok default_domains dw" by (simp add: sample_draw_def draw_ok_def SYNTHETIC_SIZES_def)
  then show ?thesis using plane_starts [of "[sample_draw]" "sample_outside ''k''" sample_envs "''host''"] by auto
qed

text \<open>
  C1. Whatever requests, ticks and turns of live connections come, in whatever order and with whatever
  answers from outside, every subsystem stays within its invariant: the ledger mirrors the decision log
  and every allowed decision has its origin, versions are contiguous and documents well formed, pool,
  proposals, catalogue, simulations, live feed, fleet registry and error ring are as their own
  properties say. The only condition is that the documents of the requests are dictionaries.
\<close>
theorem plane_keeps_components:
  assumes "new_plane cx envs draws fqdn = Inr w" "\<forall>ev \<in> set evs. event_docs ev"
  shows "plane_ok (fold plane_step evs w)"
proof -
  have "plane_moves (\<lambda>_. True) True w (fold plane_step evs w)" by (rule events_move) (use assms(2) in auto)
  then show ?thesis using new_plane_ok(1) [OF assms(1)] by (rule plane_moves_ok)
qed

theorem plane_keeps_components_witness:
  "\<exists>w. new_plane (sample_outside ''k'') sample_envs [sample_draw] ''host'' = Inr w \<and>
     plane_ok (fold plane_step [(sample_outside ''k'', Request (lockdown_request (Some ''k''))), (sample_outside ''k'', Scheduler_tick)] w)"
proof -
  obtain w where w: "new_plane (sample_outside ''k'') sample_envs [sample_draw] ''host'' = Inr w" using sample_start by blast
  have "\<forall>ev \<in> set [(sample_outside ''k'', Request (lockdown_request (Some ''k''))), (sample_outside ''k'', Scheduler_tick)]. event_docs ev"
    by (simp add: lockdown_request_def)
  from plane_keeps_components [OF w this] w show ?thesis by blast
qed

text \<open>
  C2. Histories only grow: after any events, from any state, the memory, the decision log, the rows of the
  ledger and the events published on the bus begin with what they were before; nothing the API offers
  takes a recorded version, decision, row or event back.
\<close>
theorem history_only_grows:
  "prefix (aw_memory w) (aw_memory (fold plane_step evs w)) \<and>
   prefix (pe_decisions (fst (aw_policy w))) (pe_decisions (fst (aw_policy (fold plane_step evs w)))) \<and>
   prefix (ledger_rows (aw_policy w)) (ledger_rows (aw_policy (fold plane_step evs w))) \<and>
   prefix (bus_published (plane_bus w)) (bus_published (plane_bus (fold plane_step evs w)))"
  by (intro conjI events_extend)

section \<open>The admin key\<close>

text \<open>
  C4. Where the deployment has an admin key, no sequence of events whose headers do not carry it changes the
  lockdown or settles an approval: the flag, the decisions made by approvers and the pending ones are
  as before. A request that carries it does set the flag.
\<close>
theorem admin_key_protects:
  assumes "k \<noteq> []" "\<forall>(cx, ev) \<in> set evs. ou_admin_key cx = Some k \<and> presented_key ev \<noteq> Some k"
  shows "pe_lockdown (fst (aw_policy (fold plane_step evs w))) = pe_lockdown (fst (aw_policy w)) \<and>
    settled (aw_policy (fold plane_step evs w)) = settled (aw_policy w) \<and>
    set (dict_keys (pe_pendings (fst (aw_policy w)))) \<subseteq> set (dict_keys (pe_pendings (fst (aw_policy (fold plane_step evs w))))) \<and>
    (\<forall>cx b. ou_admin_key cx = Some k \<longrightarrow>
       pe_lockdown (fst (aw_policy (plane_step (cx, Request (To_policy (Policy_lockdown (Some k) b))) w))) = b)"
proof -
  have "pe_lockdown (fst (aw_policy (plane_step (cx, Request (To_policy (Policy_lockdown (Some k) b))) w))) = b"
    if "ou_admin_key cx = Some k" for cx b
    using that by (simp add: api_policy_lockdown_def guarded_def require_admin_key_def Let_def set_lockdown_def)
  with wrong_keys_protect [OF assms, of w] show ?thesis unfolding protected_same_def by blast
qed

theorem admin_key_protects_witness:
  "\<exists>w. new_plane (sample_outside ''k'') sample_envs [sample_draw] ''host'' = Inr w \<and>
     \<not> pe_lockdown (fst (aw_policy (fold plane_step [(sample_outside ''k'', Request (lockdown_request None)),
       (sample_outside ''k'', Request (lockdown_request (Some ''x'')))] w)))"
proof -
  let ?evs = "[(sample_outside ''k'', Request (lockdown_request None)), (sample_outside ''k'', Request (lockdown_request (Some ''x'')))]"
  obtain w where w: "new_plane (sample_outside ''k'') sample_envs [sample_draw] ''host'' = Inr w" using sample_start by blast
  have "\<forall>(cx, ev) \<in> set ?evs. ou_admin_key cx = Some ''k'' \<and> presented_key ev \<noteq> Some ''k''"
    by (simp add: sample_outside_def lockdown_request_def)
  moreover have "(''k'' :: string) \<noteq> []" by simp
  ultimately have "pe_lockdown (fst (aw_policy (fold plane_step ?evs w))) = pe_lockdown (fst (aw_policy w))"
    using admin_key_protects [of "''k''" ?evs w] by blast
  then show ?thesis using w new_plane_ok(4) [OF w] by (simp del: fold.simps)
qed

section \<open>Refusals\<close>



section \<open>Lockdown\<close>



section \<open>Mutations\<close>

text \<open>
  C3. Nothing changes the running system without evidence: every mutation a started plane has applied, after
  whatever events, is of a proposal that the engine held as adopted at some moment of its history, with
  measured gains of at least the 5 percent the module configures.
\<close>
theorem mutation_needs_adoption:
  assumes "new_plane cx envs draws fqdn = Inr w" "r \<in> set (pl_mutations (fold plane_step evs w))"
  shows "\<exists>eng. leads evo_step (\<lambda>_. True) (rw_evolution w) eng \<and>
     leads evo_step (\<lambda>_. True) eng (rw_evolution (fold plane_step evs w)) \<and>
     (\<exists>p \<in> set (evo_ledger eng). ep_id p = mu_proposal_id r \<and> ep_status p = ''adopted'' \<and> 5 / 100 \<le> total_gain p)"
  using assms by (rule mutations_backed)

definition trial_run :: "request list" where
  \<comment> \<open>a run is measured, a proposal made, measured, adopted and applied\<close>
  "trial_run =
     [To_learning (Learning_ingest ''t'' ''a'' ''generic'' (default_metrics\<lparr>mb_cost := 1\<rparr>) []),
      To_evolution (Evolution_propose ''routing'' ''t'' ''d'' []),
      To_evolution (Evolution_evaluate ''ev_n'' (default_metrics\<lparr>mb_cost := 9\<rparr>)),
      To_evolution (Evolution_adopt ''ev_n''),
      To_evolution (Evolution_apply ''ev_n'' ''routing'' [])]"

definition trial_cmds :: "env \<Rightarrow> evo_cmd list" where
  "trial_cmds e =
     [Learn \<lparr>ev_id = new_id ''eval'' e, ev_task_id = ''t'', ev_agent_id = ''a'', ev_task_type = ''generic'',
        ev_metrics = default_metrics\<lparr>mb_cost := 1\<rparr>, ev_summary = [], ev_completed_at = env_stamp e\<rparr>,
      Propose e (PStr ''routing'') (PStr ''t'') (PStr ''d'') (PStr []),
      Measure e ''ev_n'' (default_metrics\<lparr>mb_cost := 9\<rparr>), Adopt ''ev_n'']"

lemma trial_adopted:
  "adopted_in (fold evo_step (trial_cmds (pool_env 0 ''n'')) (new_evolution_engine (5 / 100) (Some (new_pipeline 200 None)))) ''ev_n''"
  by (simp add: trial_cmds_def pool_env_def adopted_in_def evo_get_def new_evolution_engine_def new_pipeline_def lp_ingest_def
    evo_propose_def known_domain_def evo_evaluate_def evo_adopt_if_gain_def evo_by_id_def upd_proposal_def measured_def total_gain_def
    new_id_def Let_def default_hypothesis_def DOMAINS_def lp_aggregate_def lp_read_def aggregate_def of_type_def METRIC_FIELDS_def
    dump_metrics_def default_metrics_def metric_of_def fmean_def py_round_def round_half_even_def)

lemma evolution_step:
  "(\<And>eng. evo_step c eng = settle eng (f eng)) \<Longrightarrow>
   snd (world_evolution f w) = w\<lparr>rw_evolution := evo_step c (rw_evolution w)\<rparr>"
  by (cases "f (rw_evolution w)") (auto simp: world_evolution_def lift_r_def settle_def split: prod.splits)

lemma trial_engine:
  "fold plane_step (map (\<lambda>r. (sample_outside k, Request r)) (butlast trial_run)) w =
   w\<lparr>rw_evolution := fold evo_step (trial_cmds (pool_env 0 ''n'')) (rw_evolution w)\<rparr>"
proof -
  let ?e = "pool_env 0 ''n''"
  have e: "ou_now (sample_outside k) = ?e" by (simp add: ou_now_def sample_outside_def)
  have p: "snd (world_evolution (evo_propose ?e a b c d) w) = w\<lparr>rw_evolution := evo_step (Propose ?e a b c d) (rw_evolution w)\<rparr>" for a b c d w
    by (rule evolution_step) (simp add: settle_def)
  have m: "snd (world_evolution (evo_evaluate ?e i a) w) = w\<lparr>rw_evolution := evo_step (Measure ?e i a) (rw_evolution w)\<rparr>" for i a w
    by (rule evolution_step) (simp add: settle_def)
  have a: "snd (world_evolution (evo_adopt_if_gain i) w) = w\<lparr>rw_evolution := evo_step (Adopt i) (rw_evolution w)\<rparr>" for i w
    by (rule evolution_step) (simp add: settle_def)
  show ?thesis
    by (simp add: trial_run_def trial_cmds_def api_learning_ingest_def Let_def api_evolution_propose_def api_evolution_evaluate_def
        api_evolution_adopt_def p m a e del: evo_step.simps(1-3))
qed

lemma trial_applied:
  assumes "adopted_in (rw_evolution w) ''ev_n''" "aw_policy w = (new_policy_engine make_seed_rules, Some new_ledger)"
  shows "\<exists>r \<in> set (pl_mutations (plane_step (cx, Request (To_evolution (Evolution_apply ''ev_n'' ''routing'' []))) w)). mu_proposal_id r = ''ev_n''"
proof -
  let ?ex = "executor_of w" and ?e = "ou_now cx"
  have "xe_approver_role ?ex = ''system.admin''" by (simp add: executor_of_def)
  then have "fst (check_policy ?e ''routing'' ?ex) = Inr ()"
    by (intro executor_admits_itself [of ?ex "aw_policy w"]) (simp_all add: assms(2) new_policy_engine_simps)
  then obtain ex1 where 1: "check_policy ?e ''routing'' ?ex = (Inr (), ex1)" by (cases "check_policy ?e ''routing'' ?ex") auto
  have 2: "check_adopted ''ev_n'' ?ex = Inr ()" using assms(1) by (auto simp: check_adopted_def adopted_in_def)
  let ?r = "(new_record ?e ''ev_n'' ''routing'' [])\<lparr>mu_before := [(''values'', PDict [])], mu_after := [(''values'', PDict [])]\<rparr>"
  have 3: "apply_locked (ou_hash cx) ?e ''ev_n'' ''routing'' [] ex1 = Inr (?r, ex1)"
    by (simp add: apply_locked_def apply_config_def new_record_def get_or_def need_sets_def readings_def set_all_def Let_def)
  have "?r \<in> set (xe_records (snd (apply_mutation (ou_hash cx) ?e ''ev_n'' ''routing'' [] ?ex)))"
    by (simp add: apply_mutation_def 1 2 3 MUTATION_TARGETS_def executor_log_frame)
  then show ?thesis
    by (intro bexI [of _ ?r]) (simp_all add: api_evolution_apply_def put_executor_def, simp add: new_record_def)
qed

theorem mutation_needs_adoption_witness:
  "\<exists>w r. new_plane (sample_outside ''k'') sample_envs [sample_draw] ''host'' = Inr w \<and>
     r \<in> set (pl_mutations (fold plane_step (map (\<lambda>r. (sample_outside ''k'', Request r)) trial_run) w)) \<and>
     (\<exists>eng. \<exists>p \<in> set (evo_ledger eng). ep_id p = mu_proposal_id r \<and> ep_status p = ''adopted'' \<and> 5 / 100 \<le> total_gain p)"
proof -
  obtain w where w: "new_plane (sample_outside ''k'') sample_envs [sample_draw] ''host'' = Inr w" using sample_start by blast
  let ?evs = "map (\<lambda>r. (sample_outside ''k'', Request r))"
  let ?w = "fold plane_step (?evs (butlast trial_run)) w"
  have "adopted_in (rw_evolution ?w) ''ev_n''" "aw_policy ?w = (new_policy_engine make_seed_rules, Some new_ledger)"
    using new_plane_ok(2,4) [OF w] trial_adopted by (simp_all only: trial_engine agent_world.simps reflect_world.simps agent_world.update_convs reflect_world.update_convs) simp_all
  from trial_applied [OF this] obtain r where r: "r \<in> set (pl_mutations (plane_step (sample_outside ''k'',
      Request (To_evolution (Evolution_apply ''ev_n'' ''routing'' []))) ?w))" by blast
  let ?apply = "(sample_outside ''k'', Request (To_evolution (Evolution_apply ''ev_n'' ''routing'' [])))"
  have "?evs trial_run = ?evs (butlast trial_run) @ [?apply]" by (simp add: trial_run_def)
  moreover have "fold plane_step (?evs (butlast trial_run) @ [?apply]) w = plane_step ?apply ?w" by (simp del: plane_step.simps)
  ultimately have r: "r \<in> set (pl_mutations (fold plane_step (?evs trial_run) w))" using r by (simp only:)
  from mutation_needs_adoption [OF w r] w r show ?thesis by blast
qed

section \<open>The shared queue\<close>

text \<open>
  C14. Every task waiting in the shared queue gets its turn: whatever else happens, when as many tasks have
  been adopted as were waiting before it, the next adoption leases it.
\<close>
theorem queued_task_is_adopted:
  assumes "pl_storage w = In_memory m" "sum_list (map takes evs) < length (ms_queue m)"
  shows "fst (handle cx (To_fleet Fleet_adopt) (fold plane_step evs w)) =
    Inr (B_dict [(''leased'', PDict (ms_queue m ! sum_list (map takes evs)))])"
  using assms by (rule turn_comes)

definition queue_of_two :: mem_storage where
  "queue_of_two = new_mem_storage\<lparr>ms_queue := [[(''name'', PStr ''a'')], [(''name'', PStr ''b'')]]\<rparr>"

theorem queued_task_is_adopted_witness:
  "\<exists>w. pl_storage w = In_memory queue_of_two \<and>
     fst (handle (sample_outside ''k'') (To_fleet Fleet_adopt)
        (fold plane_step [(sample_outside ''k'', Request (To_fleet Fleet_adopt)), (sample_outside ''k'', Scheduler_tick)] w)) =
     Inr (B_dict [(''leased'', PDict [(''name'', PStr ''b'')])])"
proof -
  let ?evs = "[(sample_outside ''k'', Request (To_fleet Fleet_adopt)), (sample_outside ''k'', Scheduler_tick)]"
  obtain w0 where "new_plane (sample_outside ''k'') sample_envs [sample_draw] ''host'' = Inr w0" using sample_start by blast
  let ?w = "w0\<lparr>pl_storage := In_memory queue_of_two\<rparr>"
  have st: "pl_storage ?w = In_memory queue_of_two" by simp
  have n: "sum_list (map takes ?evs) = 1" by simp
  have q: "ms_queue queue_of_two = [[(''name'', PStr ''a'')], [(''name'', PStr ''b'')]]" by (simp add: queue_of_two_def)
  have "fst (handle (sample_outside ''k'') (To_fleet Fleet_adopt) (fold plane_step ?evs ?w)) =
      Inr (B_dict [(''leased'', PDict (ms_queue queue_of_two ! sum_list (map takes ?evs)))])"
    by (rule queued_task_is_adopted [OF st]) (simp add: q)
  then have "fst (handle (sample_outside ''k'') (To_fleet Fleet_adopt) (fold plane_step ?evs ?w)) =
      Inr (B_dict [(''leased'', PDict [(''name'', PStr ''b'')])])" unfolding n q by simp
  with st show ?thesis by blast
qed

section \<open>Reading replies\<close>




end
