(* ===== verification/Process.thy ===== *)
theory Process
  imports Plane_Step
begin

text \<open>
  The background loops of \<open>omni/fleet/scheduler.py\<close> and \<open>omni/agents/reflection.py\<close>, which have the
  same code, and the process around the control plane: start-up and shutdown of \<open>omni/api/main.py\<close>
  and the turns the event loop gives the tasks. A task sleeps between two turns; cancelling it makes
  its next turn raise \<open>CancelledError\<close> at the sleep, as asyncio documents.
\<close>

section \<open>A background loop\<close>

record timer_loop =
  tl_task :: "nat option" \<comment> \<open>\<open>self._task\<close>\<close>
  tl_live :: "(nat, bool) dict" \<comment> \<open>the tasks the event loop holds, and whether they were cancelled\<close>
  tl_next :: nat

definition new_timer_loop :: timer_loop where
  "new_timer_loop = \<lparr>tl_task = None, tl_live = [], tl_next = 0\<rparr>"

definition loop_start :: "timer_loop \<Rightarrow> timer_loop" where
  "loop_start t =
     (if tl_task t = None
      then t\<lparr>tl_task := Some (tl_next t), tl_live := dict_set (tl_next t) False (tl_live t), tl_next := tl_next t + 1\<rparr>
      else t)"

definition loop_stop :: "timer_loop \<Rightarrow> timer_loop" where
  "loop_stop t =
     (case tl_task t of
        None \<Rightarrow> t
      | Some k \<Rightarrow> t\<lparr>tl_live := dict_upd k (\<lambda>_. True) (tl_live t), tl_task := None\<rparr>)"

definition loop_turn :: "('s \<Rightarrow> 'a result \<times> 's) \<Rightarrow> nat \<Rightarrow> timer_loop \<times> 's \<Rightarrow> timer_loop \<times> 's" where
  \<comment> \<open>task \<open>k\<close> is resumed from its sleep: a cancelled one ends; otherwise it ticks, logs what the tick
    raises, and sleeps again\<close>
  "loop_turn tick k st =
     (case st of (t, s) \<Rightarrow>
        (case dict_get (tl_live t) k of
           None \<Rightarrow> (t, s)
         | Some cancelled \<Rightarrow>
             if cancelled then (t\<lparr>tl_live := dict_del k (tl_live t)\<rparr>, s)
             else (t, snd (tick s))))"

definition reflection_start :: "timer_loop \<Rightarrow> timer_loop" where
  "reflection_start t = loop_start t"

definition reflection_stop :: "timer_loop \<Rightarrow> timer_loop" where
  "reflection_stop t = loop_stop t"

definition reflection_turn :: "('s \<Rightarrow> 'a result \<times> 's) \<Rightarrow> nat \<Rightarrow> timer_loop \<times> 's \<Rightarrow> timer_loop \<times> 's" where
  "reflection_turn tick k st = loop_turn tick k st"

section \<open>The process\<close>

record 'm server =
  sv_plane :: "'m plane"
  sv_scheduler :: timer_loop
  sv_reflection :: timer_loop

definition new_server :: "'m plane \<Rightarrow> 'm server" where
  "new_server w = \<lparr>sv_plane = w, sv_scheduler = new_timer_loop, sv_reflection = new_timer_loop\<rparr>"

definition on_startup :: "'m server \<Rightarrow> 'm server" where
  "on_startup p = p\<lparr>sv_scheduler := loop_start (sv_scheduler p), sv_reflection := reflection_start (sv_reflection p)\<rparr>"

definition on_shutdown :: "'m server \<Rightarrow> 'm server" where
  "on_shutdown p = p\<lparr>sv_scheduler := loop_stop (sv_scheduler p), sv_reflection := reflection_stop (sv_reflection p)\<rparr>"

definition plane_tick :: "('m plane \<Rightarrow> 'm plane) \<Rightarrow> 'm plane \<Rightarrow> unit result \<times> 'm plane" where
  \<comment> \<open>the loop drops the value and the error of a tick alike\<close>
  "plane_tick f w = (Inr (), f w)"

datatype server_event =
    Startup
  | Shutdown
  | Scheduler_turn nat \<comment> \<open>the task that is resumed\<close>
  | Reflection_turn nat
  | Serve request
  | Feed stream_event

fun server_step :: "'m outside \<times> server_event \<Rightarrow> 'm server \<Rightarrow> 'm server" where
  "server_step (cx, Startup) p = on_startup p"
| "server_step (cx, Shutdown) p = on_shutdown p"
| "server_step (cx, Scheduler_turn k) p =
     (case loop_turn (plane_tick (plane_scheduler_tick cx)) k (sv_scheduler p, sv_plane p) of
        (t, w) \<Rightarrow> p\<lparr>sv_scheduler := t, sv_plane := w\<rparr>)"
| "server_step (cx, Reflection_turn k) p =
     (case reflection_turn (plane_tick (plane_reflection_tick cx)) k (sv_reflection p, sv_plane p) of
        (t, w) \<Rightarrow> p\<lparr>sv_reflection := t, sv_plane := w\<rparr>)"
| "server_step (cx, Serve r) p = p\<lparr>sv_plane := snd (handle cx r (sv_plane p))\<rparr>"
| "server_step (cx, Feed ev) p = p\<lparr>sv_plane := twin_stream cx ev (sv_plane p)\<rparr>"

section \<open>The task of a loop\<close>

definition loop_ok :: "timer_loop \<Rightarrow> bool" where
  \<comment> \<open>the task the object holds is the one task that is not cancelled\<close>
  "loop_ok t \<longleftrightarrow> distinct (dict_keys (tl_live t)) \<and> (\<forall>k \<in> set (dict_keys (tl_live t)). k < tl_next t) \<and>
     (\<forall>k. dict_get (tl_live t) k = Some False \<longleftrightarrow> tl_task t = Some k)"

lemma loop_okD:
  assumes "loop_ok t"
  shows "distinct (dict_keys (tl_live t))" "k \<in> set (dict_keys (tl_live t)) \<Longrightarrow> k < tl_next t"
    "dict_get (tl_live t) k = Some False \<longleftrightarrow> tl_task t = Some k"
  using assms unfolding loop_ok_def by blast+

lemma loop_ok_new: "loop_ok new_timer_loop"
  by (simp add: loop_ok_def new_timer_loop_def)

lemma loop_start_ok:
  assumes "loop_ok t" shows "loop_ok (loop_start t)"
proof (cases "tl_task t")
  case None
  note ok = loop_okD [OF assms]
  have "distinct (dict_keys (dict_set (tl_next t) False (tl_live t)))" using ok(1) by simp
  moreover have "\<forall>k \<in> set (dict_keys (dict_set (tl_next t) False (tl_live t))). k < tl_next t + 1"
    unfolding dict_set_keys_set using ok(2) by (metis insert_iff less_add_one less_SucI Suc_eq_plus1)
  moreover have "dict_get (tl_live t) k \<noteq> Some False" for k using ok(3) [of k] None by simp
  ultimately show ?thesis by (auto simp: loop_ok_def loop_start_def None)
qed (use assms in \<open>simp add: loop_start_def\<close>)

lemma loop_stop_ok:
  assumes "loop_ok t" shows "loop_ok (loop_stop t)"
proof (cases "tl_task t")
  case (Some k)
  note ok = loop_okD [OF assms]
  have k: "dict_get (tl_live t) k = Some False" using ok(3) [of k] Some by simp
  then have keys: "set (dict_keys (dict_set k True (tl_live t))) = set (dict_keys (tl_live t))"
    unfolding dict_set_keys_set by (metis insert_absorb dict_get_None_keys option.distinct(1))
  have "dict_get (dict_set k True (tl_live t)) j \<noteq> Some False" for j using ok(3) [of j] Some by auto
  then show ?thesis using ok(1,2) keys by (simp add: loop_ok_def loop_stop_def Some dict_upd_def k)
qed (use assms in \<open>simp add: loop_stop_def\<close>)

lemma loop_turn_ok:
  assumes "loop_ok t" shows "loop_ok (fst (loop_turn tick k (t, s)))"
proof -
  note ok = loop_okD [OF assms]
  have "loop_ok (t\<lparr>tl_live := dict_del k (tl_live t)\<rparr>)" if k: "dict_get (tl_live t) k = Some True"
  proof -
    have "distinct (dict_keys (dict_del k (tl_live t)))" using ok(1) by (rule distinct_delete)
    moreover have "\<forall>j \<in> set (dict_keys (dict_del k (tl_live t))). j < tl_next t" using ok(2) by (auto simp: delete_keys)
    moreover have "dict_get (dict_del k (tl_live t)) j = Some False \<longleftrightarrow> tl_task t = Some j" for j
      using ok(3) [of j] k by (cases "j = k") (auto simp: delete_conv')
    ultimately show ?thesis by (simp add: loop_ok_def)
  qed
  with assms show ?thesis by (auto simp: loop_turn_def split: option.split)
qed

lemma loop_turn_ticks:
  assumes "loop_ok t"
  shows "snd (loop_turn tick k (t, s)) = (if tl_task t = Some k then snd (tick s) else s)"
  using loop_okD(3) [OF assms, of k] by (auto simp: loop_turn_def split: option.splits)

lemma loop_start_task: "tl_task (loop_start t) \<noteq> None" "tl_task t \<noteq> None \<Longrightarrow> loop_start t = t"
  by (auto simp: loop_start_def)

lemma loop_stop_task: "tl_task (loop_stop t) = None"
  by (simp add: loop_stop_def split: option.split)

lemma loop_turn_task: "tl_task (fst (loop_turn tick k (t, s))) = tl_task t"
  by (simp add: loop_turn_def split: option.split)

lemmas reflection_defs = reflection_start_def reflection_stop_def reflection_turn_def

section \<open>The process and the plane\<close>

definition server_ok :: "'m server \<Rightarrow> bool" where
  "server_ok p \<longleftrightarrow> loop_ok (sv_scheduler p) \<and> loop_ok (sv_reflection p)"

lemma server_step_ok: "server_ok p \<Longrightarrow> server_ok (server_step ev p)"
proof (induction ev p rule: server_step.induct)
  case (3 cx k p)
  then show ?case using loop_turn_ok [of "sv_scheduler p" "plane_tick (plane_scheduler_tick cx)" k "sv_plane p"]
    by (simp add: server_ok_def case_prod_beta)
next
  case (4 cx k p)
  then show ?case using loop_turn_ok [of "sv_reflection p" "plane_tick (plane_reflection_tick cx)" k "sv_plane p"]
    by (simp add: server_ok_def reflection_defs case_prod_beta)
qed (simp_all add: server_ok_def on_startup_def on_shutdown_def reflection_defs loop_start_ok loop_stop_ok)

interpretation server_machine: machine server_step server_ok
  by unfold_locales (rule server_step_ok)

fun plane_events :: "server_event \<Rightarrow> 'm server \<Rightarrow> event list" where
  \<comment> \<open>what an event of the process is to the plane\<close>
  "plane_events Startup p = []"
| "plane_events Shutdown p = []"
| "plane_events (Scheduler_turn k) p = (if tl_task (sv_scheduler p) = Some k then [Scheduler_tick] else [])"
| "plane_events (Reflection_turn k) p = (if tl_task (sv_reflection p) = Some k then [Reflection_tick] else [])"
| "plane_events (Serve r) p = [Request r]"
| "plane_events (Feed ev) p = [Stream ev]"

fun run_events_of :: "('m outside \<times> server_event) list \<Rightarrow> 'm server \<Rightarrow> ('m outside \<times> event) list" where
  "run_events_of [] p = []"
| "run_events_of ((cx, ev) # evs) p =
     map (Pair cx) (plane_events ev p) @ run_events_of evs (server_step (cx, ev) p)"

lemma server_step_plane:
  assumes "server_ok p"
  shows "sv_plane (server_step (cx, ev) p) = fold plane_step (map (Pair cx) (plane_events ev p)) (sv_plane p)"
proof (cases ev)
  case (Scheduler_turn k)
  have "loop_ok (sv_scheduler p)" using assms by (simp add: server_ok_def)
  from loop_turn_ticks [OF this, of "plane_tick (plane_scheduler_tick cx)" k "sv_plane p"]
  show ?thesis by (simp add: Scheduler_turn plane_tick_def case_prod_beta)
next
  case (Reflection_turn k)
  have "loop_ok (sv_reflection p)" using assms by (simp add: server_ok_def)
  from loop_turn_ticks [OF this, of "plane_tick (plane_reflection_tick cx)" k "sv_plane p"]
  show ?thesis by (simp add: Reflection_turn plane_tick_def reflection_defs case_prod_beta)
qed (simp_all add: on_startup_def on_shutdown_def)

lemma server_run_plane:
  assumes "server_ok p"
  shows "sv_plane (fold server_step evs p) = fold plane_step (run_events_of evs p) (sv_plane p)"
  using assms
proof (induction evs arbitrary: p)
  case (Cons e evs)
  obtain cx ev where e: "e = (cx, ev)" by (cases e)
  show ?case using Cons.IH [OF server_step_ok [OF Cons.prems, of e]] server_step_plane [OF Cons.prems, of cx ev]
    by (simp add: e)
qed simp

lemma server_new_ok: "server_ok (new_server w)"
  by (simp add: server_ok_def new_server_def loop_ok_new)

definition idle :: "'m server \<Rightarrow> bool" where
  "idle p \<longleftrightarrow> tl_task (sv_scheduler p) = None \<and> tl_task (sv_reflection p) = None"

lemma idle_step: "idle p \<Longrightarrow> ev \<noteq> Startup \<Longrightarrow> idle (server_step (cx, ev) p)"
proof (cases ev)
  case (Scheduler_turn k)
  assume "idle p"
  then show ?thesis
    using loop_turn_task [of "plane_tick (plane_scheduler_tick cx)" k "sv_scheduler p" "sv_plane p"]
    by (simp add: idle_def Scheduler_turn case_prod_beta)
next
  case (Reflection_turn k)
  assume "idle p"
  then show ?thesis
    using loop_turn_task [of "plane_tick (plane_reflection_tick cx)" k "sv_reflection p" "sv_plane p"]
    by (simp add: idle_def Reflection_turn reflection_defs case_prod_beta)
qed (simp_all add: idle_def on_startup_def on_shutdown_def loop_stop_task reflection_defs)

lemma idle_no_ticks:
  assumes "idle p" "\<forall>(cx, ev) \<in> set evs. ev \<noteq> Startup"
  shows "\<forall>(cx, ev) \<in> set (run_events_of evs p). ev \<noteq> Scheduler_tick \<and> ev \<noteq> Reflection_tick"
  using assms
proof (induction evs arbitrary: p)
  case (Cons e evs)
  obtain cx ev where e: "e = (cx, ev)" by (cases e)
  have "ev \<noteq> Startup" using Cons.prems(2) e by simp
  then have "idle (server_step (cx, ev) p)" using Cons.prems(1) idle_step by blast
  moreover have "ev' \<noteq> Scheduler_tick \<and> ev' \<noteq> Reflection_tick" if "ev' \<in> set (plane_events ev p)" for ev'
    using that Cons.prems(1) by (cases ev) (auto simp: idle_def)
  ultimately show ?case using Cons.IH [of "server_step (cx, ev) p"] Cons.prems(2) by (auto simp: e)
qed simp

lemma idle_new: "idle (new_server w)"
  by (simp add: idle_def new_server_def new_timer_loop_def)

lemma idle_shutdown: "idle (server_step (cx, Shutdown) p)"
  by (simp add: idle_def on_shutdown_def loop_stop_task reflection_defs)

lemma idle_no_tick_events:
  "idle p \<Longrightarrow> filter (\<lambda>(cx, ev). ev = Scheduler_tick \<or> ev = Reflection_tick)
     (run_events_of (filter (\<lambda>(cx, ev). ev \<noteq> Startup) evs) p) = []"
  using idle_no_ticks [of p "filter (\<lambda>(cx, ev). ev \<noteq> Startup) evs"] by (fastforce simp: filter_empty_conv)

lemma one_running:
  assumes "loop_ok t" shows "card {k. dict_get (tl_live t) k = Some False} \<le> 1"
proof -
  have "{k. dict_get (tl_live t) k = Some False} = set_option (tl_task t)" using loop_okD(3) [OF assms] by auto
  then show ?thesis by (cases "tl_task t") simp_all
qed

lemma startup_again: "on_startup (on_startup p) = on_startup p"
  by (simp add: on_startup_def reflection_defs loop_start_task)

text \<open>
  C19. The life of the process, whatever start-ups, shutdowns, turns of tasks, requests and connection turns
  come: the plane goes through exactly the events it is served and the ticks of the loops' current
  tasks, so whatever holds of the plane's runs holds of the process; neither loop ever has two tasks
  that are not cancelled and a second start-up changes nothing; after a shutdown nothing ticks until
  the next start-up, even if a cancelled task is resumed.
\<close>
theorem loops_follow_lifecycle:
  fixes w :: "'m plane" and evs :: "('m outside \<times> server_event) list"
  shows "let p = fold server_step evs (new_server w) in
    sv_plane p = fold plane_step (run_events_of evs (new_server w)) w \<and>
    card {k. dict_get (tl_live (sv_scheduler p)) k = Some False} \<le> 1 \<and>
    card {k. dict_get (tl_live (sv_reflection p)) k = Some False} \<le> 1 \<and>
    on_startup (on_startup p) = on_startup p \<and>
    filter (\<lambda>(cx, ev). ev = Scheduler_tick \<or> ev = Reflection_tick)
      (run_events_of (filter (\<lambda>(cx, ev). ev \<noteq> Startup) later) (server_step (cx, Shutdown) p)) = []"
proof -
  let ?p = "fold server_step evs (new_server w)"
  have "server_ok ?p" using server_new_ok by (rule server_machine.run_ok)
  then have "loop_ok (sv_scheduler ?p)" "loop_ok (sv_reflection ?p)" by (simp_all add: server_ok_def)
  note one = this [THEN one_running]
  have "sv_plane ?p = fold plane_step (run_events_of evs (new_server w)) w"
    using server_run_plane [OF server_new_ok, of evs w] by (simp add: new_server_def)
  then show ?thesis unfolding Let_def
    by (intro conjI one startup_again idle_no_tick_events [OF idle_shutdown])
qed

end
