(* ===== verification/Json_Roundtrip.thy ===== *)
theory Json_Roundtrip
  imports Json_Proofs
begin

text \<open>
  What \<open>dumps\<close> writes \<open>loads\<close> reads back: for every value whose dictionaries have distinct keys and
  whose floats are decimals of at most 17 places, the ones \<open>show_float\<close> shows exactly.
\<close>

section \<open>Numbers\<close>

lemma digit_of_digit: "k < 10 \<Longrightarrow> digit_of (char_of (48 + k :: nat)) = Some (int k)"
  by (simp add: digit_of_def)

lemma is_digit_digit: "k < 10 \<Longrightarrow> is_digit (char_of (48 + k :: nat))"
  by (simp add: is_digit_def digit_of_digit)

lemma show_nat_step: "show_nat n = (if n < 10 then [char_of (48 + n)] else show_nat (n div 10) @ [char_of (48 + n mod 10)])"
  by (rule show_nat.simps)

lemma show_nat_digits: "c \<in> set (show_nat n) \<Longrightarrow> is_digit c"
proof (induction n rule: show_nat.induct)
  case (1 n)
  show ?case
  proof (cases "n < 10")
    case True
    with 1(2) show ?thesis by (simp add: show_nat_step [of n] is_digit_digit)
  next
    case False
    with 1 show ?thesis by (auto simp: show_nat_step [of n] is_digit_digit)
  qed
qed

lemma digits_value_snoc: "digits_value (ds @ [c]) = digits_value ds * 10 + (case digit_of c of None \<Rightarrow> 0 | Some d \<Rightarrow> d)"
  by (simp add: digits_value_def)

lemma digits_value_show_nat: "digits_value (show_nat n) = int n"
proof (induction n rule: show_nat.induct)
  case (1 n)
  show ?case
  proof (cases "n < 10")
    case True
    then show ?thesis by (simp add: show_nat_step [of n] digits_value_def digit_of_digit)
  next
    case False
    then have "digits_value (show_nat n) = int (n div 10) * 10 + int (n mod 10)"
      using 1 by (simp add: show_nat_step [of n] digits_value_snoc digit_of_digit)
    also have "\<dots> = int n" by (metis mult.commute mult_div_mod_eq of_nat_add of_nat_mult of_nat_numeral)
    finally show ?thesis .
  qed
qed

lemma show_nat_head: "show_nat n \<noteq> []" "hd (show_nat n) = CHR ''0'' \<longleftrightarrow> n = 0"
proof (induction n rule: show_nat.induct)
  case (1 n)
  have zero: "(char_of (48 + k :: nat) :: char) = CHR ''0'' \<longleftrightarrow> k = 0" if "k < 10" for k
    using that by (auto simp: char_of_eq_iff take_bit_eq_mod)
  {
    case 1
    show ?case by (simp add: show_nat_step [of n])
  next
    case 2
    show ?case
    proof (cases "n < 10")
      case True
      then show ?thesis by (simp add: show_nat_step [of n] zero)
    next
      case False
      with 1 show ?thesis by (simp add: show_nat_step [of n] div_eq_0_iff)
    qed
  }
qed

definition number_ends :: "string \<Rightarrow> bool" where
  "number_ends rest \<longleftrightarrow> (case rest of [] \<Rightarrow> True | c # _ \<Rightarrow> \<not> is_digit c \<and> c \<noteq> CHR ''.'' \<and> c \<noteq> CHR ''e'' \<and> c \<noteq> CHR ''E'')"

lemma number_ends_parts:
  assumes "number_ends rest"
  shows "json_exponent rest = None" "(case rest of c # cs \<Rightarrow> if c = CHR ''.'' then takeWhile is_digit cs else [] | [] \<Rightarrow> []) = []"
    "takeWhile is_digit rest = []"
  using assms by (auto simp: number_ends_def json_exponent_def split: list.splits)

lemma read_show_nat:
  assumes "number_ends rest"
  shows "json_number (show_nat n @ rest) = Some (PInt (int n), rest)" "json_number (CHR ''-'' # show_nat n @ rest) = Some (PInt (- int n), rest)"
proof -
  note ends = number_ends_parts [OF assms]
  obtain c cs where s: "show_nat n = c # cs" using show_nat_head(1) [of n] by (cases "show_nat n") auto
  then have digit: "is_digit c" "c = CHR ''0'' \<longleftrightarrow> n = 0" using show_nat_digits [of c n] show_nat_head(2) [of n] by simp_all
  have minus: "c \<noteq> CHR ''-''" using digit(1) by (auto simp: is_digit_def digit_of_def)
  have whole: "takeWhile is_digit (show_nat n @ rest) = show_nat n"
    using show_nat_digits ends(3) by (simp add: takeWhile_append2)
  have zero: "n = 0 \<Longrightarrow> show_nat n = ''0''" by (simp add: show_nat_step [of 0] char_of_eq_iff)
  have ds: "(case show_nat n @ rest of c # _ \<Rightarrow> if c = CHR ''0'' then ''0'' else takeWhile is_digit (show_nat n @ rest) | [] \<Rightarrow> []) = show_nat n"
  proof (cases "n = 0")
    case True
    with zero have "show_nat n = ''0''" by blast
    then show ?thesis by simp
  next
    case False
    with whole digit(2) show ?thesis by (simp add: s)
  qed
  have read: "json_number s = Some (PInt ((if neg then - 1 else 1) * int n), rest)"
    if "(s \<noteq> [] \<and> hd s = CHR ''-'') = neg" "(if neg then tl s else s) = show_nat n @ rest" for s neg
    unfolding json_number_def Let_def that ds by (simp add: ends digits_value_show_nat show_nat_head(1))
  show "json_number (show_nat n @ rest) = Some (PInt (int n), rest)"
    using read [of "show_nat n @ rest" False] minus by (simp add: s)
  show "json_number (CHR ''-'' # show_nat n @ rest) = Some (PInt (- int n), rest)"
    using read [of "CHR ''-'' # show_nat n @ rest" True] by simp
qed

lemma read_show_int: "number_ends rest \<Longrightarrow> json_number (show_int i @ rest) = Some (PInt i, rest)"
  by (simp add: show_int_def read_show_nat)


text \<open>A float that is a decimal of at most 17 places is shown exactly and read back.\<close>

lemma digits_value_append: "digits_value (a @ b) = digits_value a * 10 ^ length b + digits_value b"
proof (induction b rule: rev_induct)
  case (snoc c b)
  have "digits_value (a @ b @ [c]) = digits_value (a @ b) * 10 + (case digit_of c of None \<Rightarrow> 0 | Some d \<Rightarrow> d)"
    using digits_value_snoc [of "a @ b" c] by simp
  with snoc show ?case by (simp add: digits_value_snoc algebra_simps)
qed (simp add: digits_value_def)

lemma digits_value_zeros: "digits_value (replicate n CHR ''0'') = 0"
  by (induction n) (simp_all add: digits_value_def digit_of_def)

lemma pad_left_value: "digits_value (pad_left n s) = digits_value s"
  by (simp add: digits_value_append digits_value_zeros)

lemma pad_left_digits: "c \<in> set (pad_left n (show_nat k)) \<Longrightarrow> is_digit c"
  using show_nat_digits by (auto simp: is_digit_def digit_of_def)

lemma show_nat_short: "k < 10 ^ n \<Longrightarrow> 0 < n \<Longrightarrow> length (show_nat k) \<le> n"
proof (induction k arbitrary: n rule: show_nat.induct)
  case (1 k)
  show ?case
  proof (cases "k < 10")
    case True
    with 1 show ?thesis by (simp add: show_nat_step [of k])
  next
    case False
    then obtain m where m: "n = Suc m" "0 < m" using 1(2,3) by (cases n; cases "n - 1") auto
    have "k div 10 < 10 ^ m" using 1(2) m by (simp add: less_mult_imp_div_less mult.commute)
    with 1(1) [OF False _ m(2)] False m show ?thesis by (simp add: show_nat_step [of k])
  qed
qed

lemma show_fixed_reads:
  assumes "py_round x n = x" "0 < n" "number_ends rest"
  shows "json_number (show_fixed n x @ rest) = Some (PFloat x, rest)"
proof -
  define i where "i = round_half_even (x * 10 ^ n)"
  have xi: "x = of_int i / 10 ^ n" using assms(1) by (simp add: py_round_def i_def)
  then have abs: "\<bar>x\<bar> * 10 ^ n = of_int \<bar>i\<bar>" by (simp add: abs_divide)
  define k where "k = nat \<bar>i\<bar>"
  have rk: "nat (round_half_even (\<bar>x\<bar> * 10 ^ n)) = k" unfolding abs k_def by (simp only: round_half_even_of_int)
  define whole where "whole = show_nat (k div 10 ^ n)"
  define frac where "frac = pad_left n (show_nat (k mod 10 ^ n))"
  have neg: "x < 0 \<longleftrightarrow> i < 0" by (simp add: xi divide_less_0_iff)
  have len: "length frac = n"
    using show_nat_short [of "k mod 10 ^ n" n] assms(2) by (simp add: frac_def)
  have shown: "show_fixed n x = (if i < 0 then ''-'' else []) @ whole @ CHR ''.'' # frac"
    using assms(2) neg by (simp add: show_fixed_def rk Let_def whole_def frac_def)
  have digits: "digits_value (whole @ frac) = \<bar>i\<bar>"
  proof -
    have "digits_value (whole @ frac) = int (k div 10 ^ n * 10 ^ n + k mod 10 ^ n)"
      using len unfolding digits_value_append by (simp add: whole_def frac_def pad_left_value digits_value_show_nat del: pad_left.simps)
    also have "\<dots> = \<bar>i\<bar>" by (simp only: div_mult_mod_eq) (simp add: k_def)
    finally show ?thesis .
  qed
  let ?t = "whole @ CHR ''.'' # frac @ rest"
  obtain c cs where w: "whole = c # cs" using show_nat_head(1) [of "k div 10 ^ n"] by (cases whole) (auto simp: whole_def)
  then have c: "is_digit c" "c = CHR ''0'' \<longleftrightarrow> k div 10 ^ n = 0"
    using show_nat_digits [of c "k div 10 ^ n"] show_nat_head(2) [of "k div 10 ^ n"] by (simp_all add: whole_def [symmetric])
  have minus: "c \<noteq> CHR ''-''" using c(1) by (auto simp: is_digit_def digit_of_def)
  have dot: "\<not> is_digit CHR ''.''" by (simp add: is_digit_def digit_of_def)
  have tw: "takeWhile is_digit ?t = whole"
    using show_nat_digits dot by (simp add: takeWhile_append2 whole_def)
  have ds: "(case ?t of c # _ \<Rightarrow> if c = CHR ''0'' then ''0'' else takeWhile is_digit ?t | [] \<Rightarrow> []) = whole"
  proof (cases "k div 10 ^ n = 0")
    case True
    then have "whole = ''0''" by (simp add: whole_def show_nat_step [of 0] char_of_eq_iff)
    then show ?thesis by simp
  next
    case False
    with tw c(2) show ?thesis by (simp add: w)
  qed
  have fr: "takeWhile is_digit (frac @ rest) = frac"
    using pad_left_digits number_ends_parts(3) [OF assms(3)] by (simp add: takeWhile_append2 frac_def del: pad_left.simps)
  have ne: "frac \<noteq> []" "whole \<noteq> []" using len assms(2) w by auto
  have read: "json_number s = Some (PFloat (of_int ((if neg then - 1 else 1) * \<bar>i\<bar>) / 10 ^ n), rest)"
    if "(s \<noteq> [] \<and> hd s = CHR ''-'') = neg" "(if neg then tl s else s) = ?t" for s neg
    unfolding json_number_def Let_def that ds
    by (simp add: fr ne len digits number_ends_parts(1) [OF assms(3)])
  show ?thesis
  proof (cases "i < 0")
    case True
    then show ?thesis using read [of "CHR ''-'' # ?t" True] by (simp add: shown xi [symmetric])
  next
    case False
    then show ?thesis using read [of ?t False] minus by (simp add: shown xi [symmetric] w)
  qed
qed

lemma shortest_from_exact:
  assumes "py_round x (n + fuel) = x" "0 < n"
  shows "\<exists>m > 0. py_round x m = x \<and> shortest_from fuel n x = show_fixed m x"
  using assms
proof (induction fuel arbitrary: n)
  case (Suc fuel)
  show ?case
  proof (cases "py_round x n = x")
    case False
    with Suc.IH [of "Suc n"] Suc.prems show ?thesis by simp
  qed (use Suc.prems in auto)
qed auto

lemma read_show_float:
  assumes "py_round x 17 = x"
  obtains m where "0 < m" "py_round x m = x" "show_float x = show_fixed m x"
  using shortest_from_exact [of x 1 16] assms that by (auto simp: show_float_def)

lemma show_fixed_head:
  obtains c s where "show_fixed n x = c # s" "c = CHR ''-'' \<or> is_digit c"
proof (cases "x < 0")
  case True
  then show ?thesis by (intro that [of "CHR ''-''"]) (simp_all add: show_fixed_def Let_def)
next
  case False
  define k where "k = nat (round_half_even (\<bar>x\<bar> * 10 ^ n)) div 10 ^ n"
  obtain c cs where w: "show_nat k = c # cs" using show_nat_head(1) [of k] by (cases "show_nat k") auto
  then have "is_digit c" using show_nat_digits [of c k] by simp
  with False w show ?thesis by (intro that [of c]) (simp_all add: show_fixed_def Let_def k_def)
qed

section \<open>Strings\<close>

lemma hex_value_digit: "k < 16 \<Longrightarrow> hex_value (hex_digit k) = Some k"
  by (simp add: hex_value_def hex_digit_def Let_def)

lemma read_escape:
  "json_str_body acc (json_escape c @ s) = json_str_body (acc @ [c]) s"
proof -
  let ?n = "of_char c :: nat"
  have c: "char_of ?n = c" by simp
  consider "c \<in> {CHR 0x22, CHR 0x5C}" | "?n \<in> {8, 9, 10, 12, 13}" | "?n < 32" "?n \<notin> {8, 9, 10, 12, 13}"
    | "32 \<le> ?n" "c \<notin> {CHR 0x22, CHR 0x5C}" by force
  then show ?thesis
  proof cases
    case 1
    then show ?thesis by (auto simp: json_escape_def unescape_def)
  next
    case 2
    have "?n = of_char d \<longleftrightarrow> c = d" for d by (rule of_char_eq_iff)
    from this [of "CHR 0x08"] this [of "CHR 0x09"] this [of "CHR 0x0A"] this [of "CHR 0x0C"] this [of "CHR 0x0D"] 2
    have "c \<in> {CHR 0x08, CHR 0x09, CHR 0x0A, CHR 0x0C, CHR 0x0D}" by auto
    then show ?thesis by (auto simp: json_escape_def unescape_def)
  next
    case 3
    then have e: "json_escape c = CHR 0x5C # ''u00'' @ [hex_digit (?n div 16), hex_digit (?n mod 16)]"
      by (auto simp: json_escape_def Let_def)
    have "hex_value (hex_digit (?n div 16)) = Some (?n div 16)" "hex_value (hex_digit (?n mod 16)) = Some (?n mod 16)"
      using 3(1) by (simp_all add: hex_value_digit)
    moreover have "utf8 (?n div 16 * 16 + ?n mod 16) = [c]" using 3(1) by (simp add: utf8_def)
    moreover have "hex_value CHR ''0'' = Some 0" by (simp add: hex_value_def)
    ultimately show ?thesis by (simp add: e unescape_def)
  next
    case 4
    then show ?thesis by (auto simp: json_escape_def Let_def)
  qed
qed

lemma read_string: "json_str_body acc (concat (map json_escape s) @ CHR 0x22 # rest) = Some (acc @ s, rest)"
  by (induction s arbitrary: acc) (simp_all add: read_escape del: json_str_body.simps, simp)

section \<open>Values\<close>

fun json_exact :: "pyval \<Rightarrow> bool" where
  "json_exact (PFloat x) = (py_round x 17 = x)"
| "json_exact (PList xs) = (\<forall>x \<in> set xs. json_exact x)"
| "json_exact (PDict d) = (\<forall>p \<in> set d. json_exact (snd p))"
| "json_exact _ = True"

definition value_ends :: "string \<Rightarrow> bool" where
  \<comment> \<open>what follows a value inside a document, or its end\<close>
  "value_ends rest \<longleftrightarrow> (case rest of [] \<Rightarrow> True | c # _ \<Rightarrow> c \<in> {CHR '','', CHR '']'', CHR ''}''})"

definition reads :: "pyval \<Rightarrow> bool" where
  "reads v \<longleftrightarrow> (\<forall>rest. value_ends rest \<longrightarrow> (\<exists>n0. \<forall>n \<ge> n0. json_value n (json_dumps v @ rest) = Some (v, rest)))"

lemma value_ends_number: "value_ends rest \<Longrightarrow> number_ends rest"
  by (auto simp: value_ends_def number_ends_def is_digit_def digit_of_def split: list.splits)

lemma value_ends_simps [simp]: "value_ends []" "value_ends (CHR '','' # s)" "value_ends (CHR '']'' # s)" "value_ends (CHR ''}'' # s)"
  by (simp_all add: value_ends_def)

lemma readsI:
  assumes "\<And>n rest. value_ends rest \<Longrightarrow> json_value (Suc n) (json_dumps v @ rest) = Some (v, rest)"
  shows "reads v"
  unfolding reads_def
proof (intro allI impI exI [of _ 1])
  fix rest :: string and n :: nat assume "value_ends rest" "1 \<le> n"
  with assms show "json_value n (json_dumps v @ rest) = Some (v, rest)" by (cases n) auto
qed

lemma json_number_head: "json_literal (c # s) = json_number (c # s)" if "c \<notin> {CHR ''n'', CHR ''t'', CHR ''f''}"
  using that by (simp add: json_literal_def startswith_def)

lemma show_int_head:
  obtains c s where "show_int i = c # s" "c = CHR ''-'' \<or> is_digit c"
proof (cases "i < 0")
  case False
  obtain c s where "show_nat (nat i) = c # s" using show_nat_head(1) [of "nat i"] by (cases "show_nat (nat i)") auto
  moreover from this have "is_digit c" using show_nat_digits [of c "nat i"] by simp
  ultimately show ?thesis using False that by (simp add: show_int_def)
qed (simp add: show_int_def that)

lemma number_value:
  assumes "c = CHR ''-'' \<or> is_digit c"
  shows "json_value (Suc n) (c # s) = json_number (c # s)"
proof -
  have "c \<notin> {CHR 0x22, CHR ''['', CHR ''{'', CHR ''n'', CHR ''t'', CHR ''f''}" using assms by (auto simp: is_digit_def digit_of_def)
  then show ?thesis unfolding value_open by (auto simp: json_number_head)
qed

lemma reads_int: "reads (PInt i)"
proof (rule readsI)
  fix n and rest :: string assume rest: "value_ends rest"
  obtain c s where s: "show_int i = c # s" "c = CHR ''-'' \<or> is_digit c" by (rule show_int_head)
  then have "json_value (Suc n) (show_int i @ rest) = json_number (show_int i @ rest)"
    unfolding s append_Cons by (intro number_value)
  then show "json_value (Suc n) (json_dumps (PInt i) @ rest) = Some (PInt i, rest)"
    using read_show_int [OF value_ends_number [OF rest]] by simp
qed

lemma reads_str: "reads (PStr s)"
proof (rule readsI)
  fix n and rest :: string
  show "json_value (Suc n) (json_dumps (PStr s) @ rest) = Some (PStr s, rest)"
    using read_string [of "[]" s rest] by (simp add: json_string_def value_open del: json_value.simps)
qed

lemma reads_const: "reads PNone" "reads (PBool b)"
  by (rule readsI; simp add: value_open json_literal_def startswith_def del: json_value.simps)+

lemma reads_float:
  assumes "py_round x 17 = x" shows "reads (PFloat x)"
proof (rule readsI)
  fix n and rest :: string assume rest: "value_ends rest"
  obtain m where m: "0 < m" "py_round x m = x" "show_float x = show_fixed m x" using assms by (rule read_show_float)
  obtain c s where s: "show_float x = c # s" "c = CHR ''-'' \<or> is_digit c" unfolding m(3) by (rule show_fixed_head)
  show "json_value (Suc n) (json_dumps (PFloat x) @ rest) = Some (PFloat x, rest)"
    using number_value [OF s(2), of n "s @ rest"] show_fixed_reads [OF m(2,1) value_ends_number [OF rest]] s(1) m(3)
    by (simp del: json_value.simps)
qed

lemma reads_scalar: "json_exact v \<Longrightarrow> (\<forall>xs. v \<noteq> PList xs) \<Longrightarrow> (\<forall>d. v \<noteq> PDict d) \<Longrightarrow> reads v"
  by (cases v) (simp_all add: reads_int reads_float reads_str reads_const)

text \<open>No value starts with a blank or with a closing bracket.\<close>

definition value_head :: "char \<Rightarrow> bool" where
  "value_head c \<longleftrightarrow> \<not> json_space c \<and> c \<noteq> CHR '']'' \<and> c \<noteq> CHR ''}''"

lemma value_heads:
  "value_head CHR ''n''" "value_head CHR ''t''" "value_head CHR ''f''" "value_head CHR 0x22" "value_head CHR ''[''"
  "value_head CHR ''{''" "value_head CHR ''-''"
  by (simp_all add: value_head_def json_space_def)

lemma digit_head: "is_digit c \<Longrightarrow> value_head c"
  by (auto simp: value_head_def json_space_def is_digit_def digit_of_def)

lemma dumps_head:
  assumes "json_exact v"
  obtains c s where "json_dumps v = c # s" "value_head c"
proof (cases v)
  case PNone
  with value_heads show ?thesis by (intro that) auto
next
  case (PBool b)
  with value_heads that show ?thesis by (cases b) auto
next
  case (PInt i)
  obtain c s where "show_int i = c # s" "c = CHR ''-'' \<or> is_digit c" by (rule show_int_head)
  moreover from this have "value_head c" using value_heads digit_head by blast
  ultimately show ?thesis using PInt that by simp
next
  case (PStr t)
  then have "json_dumps v = CHR 0x22 # (concat (map json_escape t) @ [CHR 0x22])" by (simp add: json_string_def)
  with value_heads(4) that show ?thesis by blast
next
  case (PList xs)
  then have "json_dumps v = CHR ''['' # (join_with '', '' (map json_dumps xs) @ '']'')" by simp
  with value_heads(5) that show ?thesis by blast
next
  case (PDict d)
  then have "\<exists>s. json_dumps v = CHR ''{'' # s" by simp
  with value_heads(6) that show ?thesis by blast
next
  case (PFloat x)
  then have "py_round x 17 = x" using assms by simp
  then obtain m where m: "show_float x = show_fixed m x" using read_show_float by blast
  obtain c s where "show_fixed m x = c # s" "c = CHR ''-'' \<or> is_digit c" by (rule show_fixed_head)
  moreover from this have "value_head c" using value_heads digit_head by blast
  ultimately show ?thesis using PFloat m that by simp
qed

lemma skip_head: "value_head c \<Longrightarrow> skip_ws (c # s) = c # s"
  by (simp add: skip_ws_def value_head_def)

lemma skip_marks [simp]:
  "skip_ws (CHR '','' # s) = CHR '','' # s" "skip_ws (CHR '']'' # s) = CHR '']'' # s" "skip_ws (CHR ''}'' # s) = CHR ''}'' # s"
  "skip_ws (CHR '':'' # s) = CHR '':'' # s" "skip_ws (CHR 0x22 # s) = CHR 0x22 # s" "skip_ws (CHR '' '' # s) = skip_ws s" "skip_ws [] = []"
  by (simp_all add: skip_ws_def json_space_def)

lemma skip_dumps: "json_exact v \<Longrightarrow> skip_ws (json_dumps v @ s) = json_dumps v @ s"
  by (erule dumps_head) (simp add: skip_head)

text \<open>One step of each reader, on a text that starts with a written value.\<close>

lemma items_last:
  assumes "json_value n s = Some (x, CHR '']'' # rest)"
  shows "json_items (Suc n) acc s = Some (PList (acc @ [x]), rest)"
  by (simp only: json_items.simps(2) assms option.case prod.case skip_marks list.case refl if_True)

lemma items_next:
  assumes "json_value n s = Some (x, CHR '','' # CHR '' '' # t)" "skip_ws t = t"
  shows "json_items (Suc n) acc s = json_items n (acc @ [x]) t"
proof -
  have "CHR '','' \<noteq> CHR '']''" by simp
  then show ?thesis
    by (simp only: json_items.simps(2) assms(1) option.case prod.case skip_marks list.case if_False if_True refl assms(2))
qed

lemma dumps_items_head:
  assumes "xs \<noteq> []" "\<forall>x \<in> set xs. json_exact x"
  shows "\<exists>c u. join_with '', '' (map json_dumps xs) @ s = c # u \<and> value_head c"
proof -
  obtain y ys where xs: "xs = y # ys" using assms(1) by (cases xs) auto
  then obtain u where "join_with '', '' (map json_dumps xs) = json_dumps y @ u" by (cases ys) auto
  moreover obtain c v where "json_dumps y = c # v" "value_head c" using dumps_head assms(2) xs by (metis list.set_intros(1))
  ultimately show ?thesis by simp
qed

definition eventually_reads :: "(nat \<Rightarrow> (pyval \<times> string) option) \<Rightarrow> pyval \<times> string \<Rightarrow> bool" where
  "eventually_reads f r \<longleftrightarrow> (\<exists>n0. \<forall>n \<ge> n0. f n = Some r)"

lemma eventually_step:
  assumes "eventually_reads f a" "eventually_reads g b" "\<And>n. f n = Some a \<Longrightarrow> g n = Some b \<Longrightarrow> h (Suc n) = Some c"
  shows "eventually_reads h c"
proof -
  obtain n0 n1 where "\<forall>n \<ge> n0. f n = Some a" "\<forall>n \<ge> n1. g n = Some b" using assms(1,2) by (auto simp: eventually_reads_def)
  then have "h (Suc n) = Some c" if "max n0 n1 \<le> n" for n using assms(3) that by simp
  then have "h n = Some c" if "Suc (max n0 n1) \<le> n" for n using that by (metis Suc_le_D Suc_le_mono)
  then show ?thesis by (auto simp: eventually_reads_def)
qed

lemma eventually_reads_const: "eventually_reads (\<lambda>_. Some a) a"
  by (simp add: eventually_reads_def)

lemma readsD: "reads v \<Longrightarrow> value_ends rest \<Longrightarrow> eventually_reads (\<lambda>n. json_value n (json_dumps v @ rest)) (v, rest)"
  by (simp add: reads_def eventually_reads_def)

lemma reads_items:
  assumes "xs \<noteq> []" "\<forall>x \<in> set xs. json_exact x \<and> reads x"
  shows "eventually_reads (\<lambda>n. json_items n acc (join_with '', '' (map json_dumps xs) @ CHR '']'' # rest)) (PList (acc @ xs), rest)"
  using assms
proof (induction xs arbitrary: acc rule: list_nonempty_induct)
  case (single x)
  then have "eventually_reads (\<lambda>n. json_value n (json_dumps x @ CHR '']'' # rest)) (x, CHR '']'' # rest)"
    by (intro readsD) simp_all
  then have "eventually_reads (\<lambda>n. json_items n acc (json_dumps x @ CHR '']'' # rest)) (PList (acc @ [x]), rest)"
    by (rule eventually_step [OF _ eventually_reads_const]) (rule items_last)
  then show ?case by simp
next
  case (cons x xs)
  let ?t = "join_with '', '' (map json_dumps xs) @ CHR '']'' # rest"
  have 0: "eventually_reads (\<lambda>n. json_value n (json_dumps x @ CHR '','' # CHR '' '' # ?t)) (x, CHR '','' # CHR '' '' # ?t)"
    using cons(3) by (intro readsD) simp_all
  have 1: "eventually_reads (\<lambda>n. json_items n (acc @ [x]) ?t) (PList ((acc @ [x]) @ xs), rest)" by (rule cons(2)) (use cons(3) in simp)
  have skip: "skip_ws ?t = ?t" using dumps_items_head [OF cons(1)] cons(3) skip_head by (metis list.set_intros(2))
  have "eventually_reads (\<lambda>n. json_items n acc (json_dumps x @ CHR '','' # CHR '' '' # ?t)) (PList ((acc @ [x]) @ xs), rest)"
    by (rule eventually_step [OF 0 1]) (simp only: items_next [OF _ skip])
  then show ?case using cons(1) by (cases xs) simp_all
qed

text \<open>A member is its key, a colon and its value.\<close>

definition dump_member :: "string \<times> pyval \<Rightarrow> string" where
  "dump_member p = json_string (fst p) @ '': '' @ json_dumps (snd p)"

lemma dump_member_text:
  "dump_member p @ s = CHR 0x22 # (concat (map json_escape (fst p)) @ CHR 0x22 # CHR '':'' # CHR '' '' # json_dumps (snd p) @ s)"
  by (simp add: dump_member_def json_string_def)

lemma member_last:
  assumes "json_exact (snd p)" "json_value n (json_dumps (snd p) @ CHR ''}'' # rest) = Some (snd p, CHR ''}'' # rest)"
  shows "json_members (Suc n) acc (dump_member p @ CHR ''}'' # rest) = Some (PDict (dict_set (fst p) (snd p) acc), rest)"
proof -
  have ne: "(CHR 0x22 \<noteq> CHR 0x22) = False" "(CHR '':'' \<noteq> CHR '':'') = False" by simp_all
  show ?thesis unfolding dump_member_text
    by (simp only: json_members.simps(2) list.case ne if_False read_string append_Nil option.case prod.case skip_marks
      skip_dumps [OF assms(1)] assms(2) refl if_True if_False simp_thms)
qed

lemma member_next:
  assumes "json_exact (snd p)" "json_value n (json_dumps (snd p) @ CHR '','' # CHR '' '' # t) = Some (snd p, CHR '','' # CHR '' '' # t)"
    "skip_ws t = t"
  shows "json_members (Suc n) acc (dump_member p @ CHR '','' # CHR '' '' # t) = json_members n (dict_set (fst p) (snd p) acc) t"
proof -
  have ne: "(CHR 0x22 \<noteq> CHR 0x22) = False" "(CHR '':'' \<noteq> CHR '':'') = False" "(CHR '','' = CHR ''}'') = False" by simp_all
  show ?thesis unfolding dump_member_text
    by (simp only: json_members.simps(2) list.case ne if_False read_string append_Nil option.case prod.case skip_marks
      skip_dumps [OF assms(1)] assms(2,3) refl if_True if_False simp_thms)
qed

lemma reads_members:
  assumes "d \<noteq> []" "\<forall>p \<in> set d. json_exact (snd p) \<and> reads (snd p)" "distinct (map fst (acc @ d))"
  shows "eventually_reads (\<lambda>n. json_members n acc (join_with '', '' (map dump_member d) @ CHR ''}'' # rest)) (PDict (acc @ d), rest)"
  using assms
proof (induction d arbitrary: acc rule: list_nonempty_induct)
  case (single p)
  then have set: "dict_set (fst p) (snd p) acc = acc @ [p]" by (simp add: dict_set_new)
  have "eventually_reads (\<lambda>n. json_value n (json_dumps (snd p) @ CHR ''}'' # rest)) (snd p, CHR ''}'' # rest)"
    using single by (intro readsD) simp_all
  then have "eventually_reads (\<lambda>n. json_members n acc (dump_member p @ CHR ''}'' # rest)) (PDict (acc @ [p]), rest)"
  proof (rule eventually_step [OF _ eventually_reads_const])
    fix n assume "json_value n (json_dumps (snd p) @ CHR ''}'' # rest) = Some (snd p, CHR ''}'' # rest)"
    with member_last single show "json_members (Suc n) acc (dump_member p @ CHR ''}'' # rest) = Some (PDict (acc @ [p]), rest)"
      unfolding set [symmetric] by (metis list.set_intros(1))
  qed
  then show ?case by simp
next
  case (cons p d)
  let ?t = "join_with '', '' (map dump_member d) @ CHR ''}'' # rest"
  have set: "dict_set (fst p) (snd p) acc = acc @ [p]" using cons(4) by (simp add: dict_set_new)
  have 0: "eventually_reads (\<lambda>n. json_value n (json_dumps (snd p) @ CHR '','' # CHR '' '' # ?t)) (snd p, CHR '','' # CHR '' '' # ?t)"
    using cons(3) by (intro readsD) simp_all
  have 1: "eventually_reads (\<lambda>n. json_members n (acc @ [p]) ?t) (PDict ((acc @ [p]) @ d), rest)" by (rule cons(2)) (use cons(3,4) in simp_all)
  obtain q ds where d: "d = q # ds" using cons(1) by (cases d) auto
  then obtain u where "join_with '', '' (map dump_member d) = dump_member q @ u" by (cases ds) auto
  then have skip: "skip_ws ?t = ?t" by (simp add: dump_member_text)
  have "eventually_reads (\<lambda>n. json_members n acc (dump_member p @ CHR '','' # CHR '' '' # ?t)) (PDict ((acc @ [p]) @ d), rest)"
  proof (rule eventually_step [OF 0 1])
    fix n assume "json_value n (json_dumps (snd p) @ CHR '','' # CHR '' '' # ?t) = Some (snd p, CHR '','' # CHR '' '' # ?t)"
      "json_members n (acc @ [p]) ?t = Some (PDict ((acc @ [p]) @ d), rest)"
    then show "json_members (Suc n) acc (dump_member p @ CHR '','' # CHR '' '' # ?t) = Some (PDict ((acc @ [p]) @ d), rest)"
      using member_next [OF _ _ skip, of p n acc] cons(3) unfolding set by simp
  qed
  then show ?case by (simp add: d)
qed

section \<open>The round trip\<close>

lemma reads_list:
  assumes "\<forall>x \<in> set xs. json_exact x \<and> reads x" shows "reads (PList xs)"
proof (cases "xs = []")
  case True
  then show ?thesis by (intro readsI) (simp add: value_open del: json_value.simps)
next
  case False
  have "eventually_reads (\<lambda>n. json_value n (json_dumps (PList xs) @ rest)) (PList xs, rest)" for rest
  proof (rule eventually_step [OF reads_items [OF False assms, of "[]"] eventually_reads_const])
    fix n assume r: "json_items n [] (join_with '', '' (map json_dumps xs) @ CHR '']'' # rest) = Some (PList ([] @ xs), rest)"
    obtain c u where c: "join_with '', '' (map json_dumps xs) @ CHR '']'' # rest = c # u" "value_head c"
      using dumps_items_head [OF False] assms by blast
    then have "json_value (Suc n) (CHR ''['' # c # u) = json_items n [] (c # u)"
      by (simp add: value_open skip_head value_head_def del: json_value.simps)
    with r c show "json_value (Suc n) (json_dumps (PList xs) @ rest) = Some (PList xs, rest)" by (simp del: json_value.simps)
  qed
  then show ?thesis by (simp add: reads_def eventually_reads_def)
qed

lemma reads_dict:
  assumes "\<forall>p \<in> set d. json_exact (snd p) \<and> reads (snd p)" "distinct (map fst d)" shows "reads (PDict d)"
proof (cases "d = []")
  case True
  then show ?thesis by (intro readsI) (simp add: value_open del: json_value.simps)
next
  case False
  have dumps: "json_dumps (PDict d) @ rest = CHR ''{'' # join_with '', '' (map dump_member d) @ CHR ''}'' # rest" for rest
    by (simp add: dump_member_def [abs_def])
  have "eventually_reads (\<lambda>n. json_value n (json_dumps (PDict d) @ rest)) (PDict d, rest)" for rest
    unfolding dumps
  proof (rule eventually_step [OF reads_members [OF False assms(1), of "[]"] eventually_reads_const])
    show "distinct (map fst ([] @ d))" using assms(2) by simp
    fix n assume r: "json_members n [] (join_with '', '' (map dump_member d) @ CHR ''}'' # rest) = Some (PDict ([] @ d), rest)"
    obtain p ds where "d = p # ds" using False by (cases d) auto
    then obtain v where "join_with '', '' (map dump_member d) = dump_member p @ v" by (cases ds) auto
    then obtain u where c: "join_with '', '' (map dump_member d) @ CHR ''}'' # rest = CHR 0x22 # u" by (auto simp: dump_member_text)
    then have "json_value (Suc n) (CHR ''{'' # CHR 0x22 # u) = json_members n [] (CHR 0x22 # u)"
      by (simp add: value_open del: json_value.simps)
    with r c show "json_value (Suc n) (CHR ''{'' # join_with '', '' (map dump_member d) @ CHR ''}'' # rest) = Some (PDict d, rest)"
      by (simp del: json_value.simps)
  qed
  then show ?thesis by (simp add: reads_def eventually_reads_def)
qed

lemma reads_any: "json_exact v \<Longrightarrow> pv_ok v \<Longrightarrow> reads v"
proof (induction v)
  case (PList xs)
  then show ?case by (intro reads_list) auto
next
  case (PDict d)
  have "json_exact (snd p) \<and> reads (snd p)" if "p \<in> set d" for p
    using PDict that by (cases p) fastforce
  with PDict show ?case by (intro reads_dict) auto
qed (auto intro: reads_scalar)

lemma loads_dumps:
  assumes "json_exact v" "pv_ok v" shows "json_loads (json_dumps v) = Some v"
proof -
  let ?s = "json_dumps v"
  obtain n0 where "\<forall>n \<ge> n0. json_value n ?s = Some (v, [])"
    using readsD [OF reads_any [OF assms] value_ends_simps(1)] by (auto simp: eventually_reads_def simp del: json_value.simps)
  then have "json_value (2 * length ?s + 2 + n0) ?s = Some (v, [])" by (simp del: json_value.simps)
  moreover have "skip_ws ?s = ?s" using skip_dumps [OF assms(1), of "[]"] by simp
  ultimately show ?thesis by (simp only: loads_any_fuel [of ?s n0] option.case prod.case skip_marks if_True refl)
qed

end
