(* ===== verification/Nats_Bus.thy ===== *)
theory Nats_Bus
  imports Fleet_Bus Json_Roundtrip
begin

text \<open>
  \<open>omni/fleet/bus.py\<close>, the bus over a NATS server and the choice between the two. The client library
  \<open>nats-py\<close> is the argument \<open>nats_client\<close>, its connection (and what lies behind it) the type \<open>'c\<close>. The bus
  runs the client's loop on a thread of its own and waits for each call there; a wait that never ends
  is \<open>None\<close>.
\<close>

section \<open>The client and its loop\<close>

record ('c, 'cb) nats_client =
  nc_connect :: "string \<Rightarrow> 'c result"
  nc_publish :: "string \<Rightarrow> string \<Rightarrow> 'c \<Rightarrow> unit result \<times> 'c"
  nc_subscribe :: "string \<Rightarrow> 'cb \<Rightarrow> 'c \<Rightarrow> int result \<times> 'c" \<comment> \<open>the identity of the subscription object\<close>
  nc_unsubscribe :: "int \<Rightarrow> 'c \<Rightarrow> unit result \<times> 'c"
  nc_drain :: "'c \<Rightarrow> unit result \<times> 'c"

record 'c nats_bus =
  nb_conn :: 'c
  nb_subs :: "(int, int) dict"
  nb_running :: bool \<comment> \<open>the loop's thread\<close>

datatype caller = Other_thread | Loop_thread

definition timed_out :: py_error where
  "timed_out = RuntimeError ''TimeoutError''"

definition nats_run :: "caller \<Rightarrow> bool \<Rightarrow> ('c \<Rightarrow> 'a result \<times> 'c) \<Rightarrow> 'c nats_bus \<Rightarrow> ('a result \<times> 'c nats_bus) option" where
  \<comment> \<open>the call runs on the loop, if the loop runs and its thread is not the one that waits\<close>
  "nats_run here timed f b =
     (if nb_running b \<and> here = Other_thread then (case f (nb_conn b) of (r, c) \<Rightarrow> Some (r, b\<lparr>nb_conn := c\<rparr>))
      else if timed then Some (Inl timed_out, b)
      else None)"

definition new_nats_bus :: "('c, 'cb) nats_client \<Rightarrow> string \<Rightarrow> 'c nats_bus result" where
  "new_nats_bus nc url =
     (case nc_connect nc url of
        Inl err \<Rightarrow> Inl err
      | Inr c \<Rightarrow> Inr \<lparr>nb_conn = c, nb_subs = [], nb_running = True\<rparr>)"

definition nats_publish :: "('c, 'cb) nats_client \<Rightarrow> caller \<Rightarrow> string \<Rightarrow> payload \<Rightarrow> 'c nats_bus \<Rightarrow> (unit result \<times> 'c nats_bus) option" where
  "nats_publish nc here subject payload b = nats_run here False (nc_publish nc subject (json_dumps (PDict payload))) b"

definition nats_on_msg :: "('h \<Rightarrow> string \<Rightarrow> pyval \<Rightarrow> 's \<Rightarrow> unit result \<times> 's) \<Rightarrow> 'h \<Rightarrow> string \<Rightarrow> string \<Rightarrow> 's \<Rightarrow> unit result \<times> 's" where
  \<comment> \<open>the callback of a subscription, on the subject and the data of a message\<close>
  "nats_on_msg act handler subject data s =
     (case json_loads data of
        None \<Rightarrow> (Inl (ValueError ''JSONDecodeError''), s)
      | Some v \<Rightarrow> act handler subject v s)"

definition nats_subscribe :: "('c, 'h) nats_client \<Rightarrow> caller \<Rightarrow> string \<Rightarrow> 'h \<Rightarrow> 'c nats_bus \<Rightarrow>
    (subscription result \<times> 'c nats_bus) option" where
  \<comment> \<open>the callback given to the client is \<open>nats_on_msg\<close> of the handler\<close>
  "nats_subscribe nc here subject handler b =
     (case nats_run here False (nc_subscribe nc subject handler) b of
        None \<Rightarrow> None
      | Some (Inl err, b') \<Rightarrow> Some (Inl err, b')
      | Some (Inr sub, b') \<Rightarrow>
          Some (Inr \<lparr>sn_subject = subject, sn_id = sub\<rparr>, b'\<lparr>nb_subs := dict_set sub sub (nb_subs b')\<rparr>))"

definition nats_unsubscribe :: "('c, 'h) nats_client \<Rightarrow> caller \<Rightarrow> subscription \<Rightarrow> 'c nats_bus \<Rightarrow>
    (unit result \<times> 'c nats_bus) option" where
  "nats_unsubscribe nc here sub b =
     (case dict_get (nb_subs b) (sn_id sub) of
        None \<Rightarrow> Some (Inr (), b)
      | Some held \<Rightarrow> nats_run here False (nc_unsubscribe nc held) (b\<lparr>nb_subs := dict_del (sn_id sub) (nb_subs b)\<rparr>))"

definition nats_close :: "('c, 'h) nats_client \<Rightarrow> caller \<Rightarrow> 'c nats_bus \<Rightarrow> (unit result \<times> 'c nats_bus) option" where
  \<comment> \<open>the loop is stopped only when draining did not raise\<close>
  "nats_close nc here b =
     (case nats_run here True (nc_drain nc) b of
        None \<Rightarrow> None
      | Some (Inl err, b') \<Rightarrow> Some (Inl err, b')
      | Some (Inr _, b') \<Rightarrow> Some (Inr (), b'\<lparr>nb_running := False\<rparr>))"

section \<open>The choice\<close>

datatype ('h, 'c) fleet_bus = In_process "'h bus" | Over_nats "'c nats_bus"

definition make_bus :: "('c, 'h) nats_client \<Rightarrow> string option \<Rightarrow> ('h, 'c) fleet_bus result" where
  "make_bus nc url =
     (case url of
        None \<Rightarrow> Inr (In_process new_bus)
      | Some u \<Rightarrow> if u \<noteq> [] then map_sum id Over_nats (new_nats_bus nc u) else Inr (In_process new_bus))"

section \<open>Waiting\<close>

lemma nats_run_returns:
  "nats_run here timed f b \<noteq> None \<longleftrightarrow> timed \<or> nb_running b \<and> here = Other_thread"
  by (auto simp: nats_run_def split: prod.split)

lemma nats_run_subs: "nats_run here timed f b = Some (r, b') \<Longrightarrow> nb_subs b' = nb_subs b \<and> nb_running b' = nb_running b"
  by (auto simp: nats_run_def split: prod.splits if_splits)

lemma publish_blocks:
  \<comment> \<open>a handler that publishes, which runs on the loop, and a publication after \<open>close\<close> wait for ever\<close>
  "here = Loop_thread \<or> \<not> nb_running b \<Longrightarrow> nats_publish nc here subject payload b = None"
  by (auto simp: nats_publish_def nats_run_def)

lemma publish_returns: "nb_running b \<Longrightarrow> nats_publish nc Other_thread subject payload b \<noteq> None"
  unfolding nats_publish_def nats_run_returns by simp

lemma unsubscribe_again:
  assumes "distinct (dict_keys (nb_subs b))" "nats_unsubscribe nc here sub b = Some (r, b')"
  shows "nats_unsubscribe nc here sub b' = Some (Inr (), b')"
proof -
  have "dict_get (nb_subs b') (sn_id sub) = None"
    using assms by (auto simp: nats_unsubscribe_def delete_conv' dest!: nats_run_subs split: option.splits)
  then show ?thesis by (simp add: nats_unsubscribe_def)
qed

lemma on_msg_loads:
  assumes "json_exact (PDict payload)" "pv_ok (PDict payload)"
  shows "nats_on_msg act handler subject (json_dumps (PDict payload)) s = act handler subject (PDict payload) s"
  unfolding nats_on_msg_def by (simp only: loads_dumps [OF assms] option.case)

section \<open>What a subscriber gets\<close>

text \<open>
  C23. A payload published over NATS reaches a subscriber as the in-process bus would hand it over: the text the
  bus gives to the client is read back by the callback as the same payload (floats decimals of at most 17 places, keys
  distinct), and the subject is the publication's. The call returns to any thread but the loop's own:
  there, that is in a handler, a publication never returns.
\<close>
theorem nats_delivers_payload:
  assumes "json_exact (PDict payload)" "pv_ok (PDict payload)" "nb_running b"
  shows "nats_publish nc Loop_thread subject payload b = None \<and>
    (\<exists>data. nats_publish nc Other_thread subject payload b =
        (case nc_publish nc subject data (nb_conn b) of (r, c) \<Rightarrow> Some (r, b\<lparr>nb_conn := c\<rparr>)) \<and>
      (\<forall>(act :: 'h \<Rightarrow> string \<Rightarrow> pyval \<Rightarrow> 's \<Rightarrow> unit result \<times> 's) handler s.
        nats_on_msg act handler subject data s = act handler subject (PDict payload) s))"
proof (intro conjI exI allI)
  show "nats_publish nc Loop_thread subject payload b = None" by (rule publish_blocks) simp
  show "nats_publish nc Other_thread subject payload b =
      (case nc_publish nc subject (json_dumps (PDict payload)) (nb_conn b) of (r, c) \<Rightarrow> Some (r, b\<lparr>nb_conn := c\<rparr>))"
    using assms(3) unfolding nats_publish_def nats_run_def by simp
  show "nats_on_msg act handler subject (json_dumps (PDict payload)) s = act handler subject (PDict payload) s"
    for act :: "'h \<Rightarrow> string \<Rightarrow> pyval \<Rightarrow> 's \<Rightarrow> unit result \<times> 's" and handler s
    by (rule on_msg_loads [OF assms(1,2)])
qed

definition sample_nats :: "((string \<times> string) list, unit) nats_client" where
  \<comment> \<open>a server that keeps the messages it gets\<close>
  "sample_nats = \<lparr>nc_connect = (\<lambda>url. Inr []), nc_publish = (\<lambda>subject data c. (Inr (), c @ [(subject, data)])),
     nc_subscribe = (\<lambda>subject cb c. (Inr 1, c)), nc_unsubscribe = (\<lambda>i c. (Inr (), c)), nc_drain = (\<lambda>c. (Inr (), c))\<rparr>"

theorem nats_delivers_payload_witness:
  "\<exists>data. nats_publish sample_nats Other_thread ''fleet.leader.elected'' [(''term'', PInt 3)] \<lparr>nb_conn = [], nb_subs = [], nb_running = True\<rparr> =
     Some (Inr (), \<lparr>nb_conn = [(''fleet.leader.elected'', data)], nb_subs = [], nb_running = True\<rparr>) \<and>
   json_loads data = Some (PDict [(''term'', PInt 3)])"
proof -
  let ?b = "\<lparr>nb_conn = [] :: (string \<times> string) list, nb_subs = [], nb_running = True\<rparr>"
  have "json_exact (PDict [(''term'', PInt 3)])" "pv_ok (PDict [(''term'', PInt 3)])" "nb_running ?b" by simp_all
  note claim = nats_delivers_payload [where 'h = unit and 's = "pyval option", OF this, of sample_nats "''fleet.leader.elected''"]
  then obtain data where data: "nats_publish sample_nats Other_thread ''fleet.leader.elected'' [(''term'', PInt 3)] ?b =
        (case nc_publish sample_nats ''fleet.leader.elected'' data (nb_conn ?b) of (r, c) \<Rightarrow> Some (r, ?b\<lparr>nb_conn := c\<rparr>))"
      "\<forall>(act :: unit \<Rightarrow> string \<Rightarrow> pyval \<Rightarrow> pyval option \<Rightarrow> unit result \<times> pyval option) handler s. nats_on_msg act handler ''fleet.leader.elected'' data s = act handler ''fleet.leader.elected'' (PDict [(''term'', PInt 3)]) s"
    by blast
  have "nats_on_msg (\<lambda>h subject v s. (Inr (), Some v)) () ''fleet.leader.elected'' data None = (Inr (), Some (PDict [(''term'', PInt 3)]))"
    using data(2) by simp
  then have "json_loads data = Some (PDict [(''term'', PInt 3)])" unfolding nats_on_msg_def by (simp split: option.splits)
  with data(1) show ?thesis by (auto simp: sample_nats_def)
qed

end
