(* ===== verification/Sdk.thy ===== *)
theory Sdk
  imports Llm
begin

text \<open>
  \<open>omni/sdk.py\<close>: the client of the control plane. A method makes one call (HTTP method, path, payload)
  of a transport; \<open>'w\<close> is the state of whatever the transport reaches. What \<open>urlopen\<close> returns is the
  argument \<open>urlopen\<close> of the HTTP transport.
\<close>

section \<open>The transport\<close>

datatype sdk_error =
    OmniApiError int string string \<comment> \<open>status, path, detail\<close>
  | Other_exception py_error \<comment> \<open>not translated\<close>

fun sdk_error_str :: "sdk_error \<Rightarrow> string" where
  "sdk_error_str (OmniApiError status path detail) =
     ''OmniMind API '' @ show_int status @ '' on '' @ path @ '': '' @ detail"
| "sdk_error_str (Other_exception (KeyError s)) = repr_str s"
| "sdk_error_str (Other_exception (ValueError s)) = s"
| "sdk_error_str (Other_exception (PermissionError s)) = s"
| "sdk_error_str (Other_exception (RuntimeError s)) = s"
| "sdk_error_str (Other_exception _) = []"

type_synonym json_object = "(string, pyval) dict"

type_synonym 'w transport = "string \<Rightarrow> string \<Rightarrow> json_object option \<Rightarrow> 'w \<Rightarrow> (sdk_error + pyval) \<times> 'w"

record url_request =
  ur_url :: string
  ur_data :: "string option"
  ur_method :: string
  ur_headers :: "(string, string) dict"

definition rstrip_slashes :: "string \<Rightarrow> string" where
  "rstrip_slashes s = rev (dropWhile (\<lambda>c. c = CHR ''/'') (rev s))"

definition http_transport :: "(url_request \<Rightarrow> 'w \<Rightarrow> http_reply \<times> 'w) \<Rightarrow> string \<Rightarrow> 'w transport" where
  \<comment> \<open>only an \<open>HTTPError\<close> is translated; an empty body is \<open>None\<close>\<close>
  "http_transport urlopen base_url verb path payload w =
     (let req = \<lparr>ur_url = rstrip_slashes base_url @ path,
                 ur_data = map_option (\<lambda>p. json_dumps (PDict p)) payload,
                 ur_method = verb,
                 ur_headers = (case payload of None \<Rightarrow> [] | Some _ \<Rightarrow> [(''Content-Type'', ''application/json'')])\<rparr>
      in case urlopen req w of (reply, w') \<Rightarrow>
           (case reply of
              Body raw \<Rightarrow>
                if raw = [] then Inr PNone
                else (case json_loads raw of
                    None \<Rightarrow> Inl (Other_exception (ValueError ''JSONDecodeError''))
                  | Some v \<Rightarrow> Inr v)
            | Http_status code detail \<Rightarrow> Inl (OmniApiError code path detail)
            | Unreachable msg \<Rightarrow> Inl (Other_exception (RuntimeError msg))
            | Broken err \<Rightarrow> Inl (Other_exception err), w'))"

section \<open>The client\<close>

record 'w omni_client =
  oc_base_url :: string
  oc_transport :: "'w transport"

definition new_client :: "(url_request \<Rightarrow> 'w \<Rightarrow> http_reply \<times> 'w) \<Rightarrow> string \<Rightarrow> 'w transport option \<Rightarrow> 'w omni_client" where
  "new_client urlopen base_url transport =
     \<lparr>oc_base_url = rstrip_slashes base_url,
      oc_transport = (case transport of None \<Rightarrow> http_transport urlopen (rstrip_slashes base_url) | Some t \<Rightarrow> t)\<rparr>"

record api_call =
  ac_method :: string
  ac_path :: string
  ac_payload :: "json_object option"

definition client_call :: "'w omni_client \<Rightarrow> api_call \<Rightarrow> 'w \<Rightarrow> (sdk_error + pyval) \<times> 'w" where
  "client_call client c = oc_transport client (ac_method c) (ac_path c) (ac_payload c)"

abbreviation get_call :: "string \<Rightarrow> api_call" where
  "get_call path \<equiv> \<lparr>ac_method = ''GET'', ac_path = path, ac_payload = None\<rparr>"

abbreviation post_call :: "string \<Rightarrow> json_object option \<Rightarrow> api_call" where
  "post_call path payload \<equiv> \<lparr>ac_method = ''POST'', ac_path = path, ac_payload = payload\<rparr>"

section \<open>Its methods\<close>

datatype sdk_method =
  \<comment> \<open>with their arguments; an \<open>option\<close> is a parameter that may be \<open>None\<close>, a
    \<open>pyval\<close> one the command line fills with whatever JSON it was given\<close>
    Evaluate_policy json_object string "json_object option" real int
  | Write_memory string pyval string string string
  | Read_memory string string
  | Memory_history string string
  | Register_agent string "string list option"
  | Submit_task string "string list option" int string "json_object option"
  | Assign_task string
  | Orchestrator_report
  | Publish_skill string string string string string "json_object option" "string list option"
  | Install_skill string string
  | Simulate string string pyval
  | Dry_run pyval string "int option" "real option" "int option"
  | Predict_failure pyval string
  | Predictor_status
  | Train_predictor "json_object list"
  | Twin_snapshot
  | Learning_report
  | Replay "string option" "string option" int

abbreviation opt_value :: "('a \<Rightarrow> pyval) \<Rightarrow> 'a option \<Rightarrow> pyval" where
  "opt_value f x \<equiv> (case x of None \<Rightarrow> PNone | Some y \<Rightarrow> f y)"

abbreviation str_values :: "string list \<Rightarrow> pyval" where
  "str_values xs \<equiv> PList (map PStr xs)"

definition or_empty :: "'a list option \<Rightarrow> 'a list" where
  \<comment> \<open>\<open>xs or []\<close>, \<open>d or {}\<close>\<close>
  "or_empty x = (case x of None \<Rightarrow> [] | Some xs \<Rightarrow> xs)"

definition replay_path :: "string option \<Rightarrow> string option \<Rightarrow> int \<Rightarrow> string" where
  "replay_path subject subsystem limit =
     (let parts = (case subject of None \<Rightarrow> [] | Some s \<Rightarrow> [''subject='' @ s]) @
                  (case subsystem of None \<Rightarrow> [] | Some s \<Rightarrow> [''subsystem='' @ s]) @
                  (if limit \<noteq> 100 then [''limit='' @ show_int limit] else [])
      in if parts = [] then ''/twin/replay'' else ''/twin/replay'' @ ''?'' @ join_with ''&'' parts)"

fun call_of :: "sdk_method \<Rightarrow> api_call" where
  "call_of (Evaluate_policy who action resource cost calls) =
     post_call ''/policy/evaluate'' (Some
       [(''principal'', PDict who), (''action'', PStr action), (''resource'', opt_value PDict resource),
        (''cost'', PFloat cost), (''calls'', PInt calls)])"
| "call_of (Write_memory key v agent_id reason branch) =
     post_call ''/memory/write'' (Some
       [(''key'', PStr key), (''value'', v), (''agent_id'', PStr agent_id), (''reason'', PStr reason), (''branch'', PStr branch)])"
| "call_of (Read_memory key branch) = get_call (''/memory/read?key='' @ key @ ''&branch='' @ branch)"
| "call_of (Memory_history key branch) = get_call (''/memory/history?key='' @ key @ ''&branch='' @ branch)"
| "call_of (Register_agent name skills) =
     post_call ''/agents/register'' (Some [(''name'', PStr name), (''skills'', str_values (or_empty skills))])"
| "call_of (Submit_task name required_skills priority risk_level payload) =
     post_call ''/tasks/submit'' (Some
       [(''name'', PStr name), (''required_skills'', str_values (or_empty required_skills)), (''priority'', PInt priority),
        (''risk_level'', PStr risk_level), (''payload'', PDict (or_empty payload))])"
| "call_of (Assign_task task_id) = post_call (''/tasks/'' @ task_id @ ''/assign'') None"
| "call_of Orchestrator_report = get_call ''/orchestrator/report''"
| "call_of (Publish_skill name description kind author version interface tags) =
     post_call ''/marketplace/publish'' (Some
       [(''name'', PStr name), (''description'', PStr description), (''kind'', PStr kind), (''author'', PStr author),
        (''version'', PStr version), (''interface'', opt_value PDict interface), (''tags'', str_values (or_empty tags))])"
| "call_of (Install_skill skill_id agent_id) =
     post_call ''/marketplace/install'' (Some [(''skill_id'', PStr skill_id), (''agent_id'', PStr agent_id)])"
| "call_of (Simulate action domain params) =
     post_call ''/simulation/run'' (Some [(''action'', PStr action), (''domain'', PStr domain), (''params'', params)])"
| "call_of (Dry_run plan domain max_steps timeout_s max_effects) =
     post_call ''/simulation/dryrun'' (Some
       [(''plan'', plan), (''domain'', PStr domain), (''max_steps'', opt_value PInt max_steps),
        (''timeout_s'', opt_value PFloat timeout_s), (''max_effects'', opt_value PInt max_effects)])"
| "call_of (Predict_failure plan domain) =
     post_call ''/simulation/predict'' (Some [(''plan'', plan), (''domain'', PStr domain)])"
| "call_of Predictor_status = get_call ''/simulation/predictor/status''"
| "call_of (Train_predictor traces) =
     post_call ''/simulation/predictor/train'' (Some [(''traces'', PList (map PDict traces))])"
| "call_of Twin_snapshot = get_call ''/twin/snapshot''"
| "call_of Learning_report = get_call ''/learning/report''"
| "call_of (Replay subject subsystem limit) = get_call (replay_path subject subsystem limit)"

definition invoke :: "'w omni_client \<Rightarrow> sdk_method \<Rightarrow> 'w \<Rightarrow> (sdk_error + pyval) \<times> 'w" where
  "invoke client m = client_call client (call_of m)"

end
