(* ===== verification/Api_Contract.thy ===== *)
theory Api_Contract
  imports Sdk
begin

text \<open>
  What the routes of \<open>omni/api/main.py\<close> declare about the requests they take: the request bodies (the
  classes of the module and the contracts it uses) as lists of typed fields with their defaults, and
  the routes a client calls with their path, query parameters and body. \<open>has_type\<close> says when a JSON
  value has an annotation as it stands, without the coercions Pydantic also accepts.
\<close>

section \<open>Annotations\<close>

datatype annotation =
    T_str
  | T_int
  | T_int_range int int \<comment> \<open>\<open>Field(ge=..., le=...)\<close>\<close>
  | T_float
  | T_datetime \<comment> \<open>its texts are not read here, so nothing sent counts as one\<close>
  | T_any
  | T_dict
  | T_list annotation
  | T_or_none annotation
  | T_enum "string list"
  | T_model "(string \<times> annotation \<times> pyval option) list" \<comment> \<open>\<open>None\<close>: the field is required\<close>

type_synonym field_decl = "string \<times> annotation \<times> pyval option"

abbreviation required :: "string \<Rightarrow> annotation \<Rightarrow> field_decl" where
  "required n t \<equiv> (n, t, None)"

abbreviation optional :: "string \<Rightarrow> annotation \<Rightarrow> pyval \<Rightarrow> field_decl" where
  "optional n t v \<equiv> (n, t, Some v)"

fun has_type :: "annotation \<Rightarrow> pyval \<Rightarrow> bool" where
  "has_type T_str v = (case v of PStr _ \<Rightarrow> True | _ \<Rightarrow> False)"
| "has_type T_int v = (case v of PInt _ \<Rightarrow> True | _ \<Rightarrow> False)"
| "has_type (T_int_range low high) v = (case v of PInt i \<Rightarrow> low \<le> i \<and> i \<le> high | _ \<Rightarrow> False)"
| "has_type T_float v = (case v of PFloat _ \<Rightarrow> True | PInt _ \<Rightarrow> True | _ \<Rightarrow> False)"
| "has_type T_datetime v = False"
| "has_type T_any v = True"
| "has_type T_dict v = (case v of PDict _ \<Rightarrow> True | _ \<Rightarrow> False)"
| "has_type (T_list t) v = (case v of PList xs \<Rightarrow> list_all (has_type t) xs | _ \<Rightarrow> False)"
| "has_type (T_or_none t) v = (v = PNone \<or> has_type t v)"
| "has_type (T_enum names) v = (case v of PStr s \<Rightarrow> s \<in> set names | _ \<Rightarrow> False)"
| "has_type (T_model decls) v =
     (case v of
        PDict d \<Rightarrow> list_all (\<lambda>(n, t, dflt). case dict_get d n of None \<Rightarrow> dflt \<noteq> None | Some x \<Rightarrow> has_type t x) decls
      | _ \<Rightarrow> False)"

fun fields_of :: "annotation \<Rightarrow> field_decl list" where
  "fields_of (T_model decls) = decls"
| "fields_of _ = []"

abbreviation strs_default :: "string \<Rightarrow> field_decl" where
  "strs_default n \<equiv> optional n (T_list T_str) (PList [])"

section \<open>Bodies\<close>

definition Principal_model :: annotation where
  "Principal_model = T_model [required ''id'' T_str, strs_default ''roles'', strs_default ''groups'', optional ''attributes'' T_dict (PDict [])]"

definition Resource_model :: annotation where
  "Resource_model = T_model [optional ''type'' T_str (PStr ''generic''), optional ''attributes'' T_dict (PDict [])]"

definition SkillInterface_model :: annotation where
  "SkillInterface_model = T_model
     [strs_default ''actions'', strs_default ''events'', strs_default ''permissions'', optional ''config_schema'' T_dict (PDict []),
      optional ''documentation'' T_str (PStr []), strs_default ''tests'', strs_default ''ui_components'', strs_default ''api'']"

definition skill_kinds :: "string list" where
  "skill_kinds = [''official'', ''community'', ''private'', ''enterprise'', ''local'', ''remote'']"

definition TaskSpec_model :: "string \<Rightarrow> annotation" where
  \<comment> \<open>the default identifier is drawn afresh; a default time is given as \<open>None\<close> here\<close>
  "TaskSpec_model task_id = T_model
     [optional ''id'' T_str (PStr task_id), required ''name'' T_str, optional ''signature'' T_str (PStr []),
      strs_default ''required_skills'', optional ''priority'' (T_int_range 0 10) (PInt 0), optional ''risk_level'' T_str (PStr ''low''),
      optional ''payload'' T_dict (PDict []),
      optional ''status'' (T_enum [''queued'', ''assigned'', ''running'', ''completed'', ''failed'', ''cancelled'']) (PStr ''queued''),
      optional ''assignee'' (T_or_none T_str) PNone, optional ''created_at'' T_datetime PNone,
      optional ''started_at'' (T_or_none T_datetime) PNone, optional ''finished_at'' (T_or_none T_datetime) PNone,
      optional ''result'' T_any PNone]"

definition PolicyEvaluateBody :: annotation where
  "PolicyEvaluateBody = T_model
     [required ''principal'' Principal_model, required ''action'' T_str, optional ''resource'' (T_or_none Resource_model) PNone,
      optional ''cost'' T_float (PFloat 0), optional ''calls'' T_int (PInt 1)]"

definition MemoryWriteBody :: annotation where
  "MemoryWriteBody = T_model
     [required ''key'' T_str, required ''value'' T_dict, required ''agent_id'' T_str, required ''reason'' T_str,
      optional ''branch'' T_str (PStr ''main'')]"

definition SkillPublishBody :: annotation where
  "SkillPublishBody = T_model
     [required ''name'' T_str, optional ''description'' T_str (PStr []), optional ''kind'' (T_enum skill_kinds) (PStr ''community''),
      optional ''author'' T_str (PStr ''system''), required ''version'' T_str, optional ''interface'' (T_or_none SkillInterface_model) PNone,
      strs_default ''tags'']"

definition SimulationRunBody :: annotation where
  "SimulationRunBody = T_model [required ''action'' T_str, required ''domain'' T_str, optional ''params'' (T_or_none T_dict) PNone]"

definition DryRunPlanBody :: annotation where
  "DryRunPlanBody = T_model
     [required ''plan'' T_dict, optional ''domain'' T_str (PStr ''generic''), optional ''max_steps'' (T_or_none T_int) PNone,
      optional ''timeout_s'' (T_or_none T_float) PNone, optional ''max_effects'' (T_or_none T_int) PNone]"

definition PredictorTrainBody :: annotation where
  "PredictorTrainBody = T_model [required ''traces'' (T_list T_dict)]"

definition PredictBody :: annotation where
  "PredictBody = T_model [required ''plan'' T_dict, optional ''domain'' T_str (PStr ''generic'')]"

definition AgentRegisterBody :: annotation where
  "AgentRegisterBody = T_model [required ''name'' T_str, strs_default ''skills'']"

definition InstallBody :: annotation where
  "InstallBody = T_model [required ''skill_id'' T_str, required ''agent_id'' T_str, optional ''version'' (T_or_none T_str) PNone]"

section \<open>Routes\<close>

datatype path_part = Fixed string | Param string

record route =
  rt_method :: string
  rt_path :: "path_part list"
  rt_query :: "field_decl list"
  rt_body :: "annotation option"

abbreviation get_route :: "path_part list \<Rightarrow> field_decl list \<Rightarrow> route" where
  "get_route path query \<equiv> \<lparr>rt_method = ''GET'', rt_path = path, rt_query = query, rt_body = None\<rparr>"

abbreviation post_route :: "path_part list \<Rightarrow> annotation option \<Rightarrow> route" where
  "post_route path body \<equiv> \<lparr>rt_method = ''POST'', rt_path = path, rt_query = [], rt_body = body\<rparr>"

definition route_policy_evaluate :: route where
  "route_policy_evaluate = post_route [Fixed ''policy'', Fixed ''evaluate''] (Some PolicyEvaluateBody)"

definition route_memory_write :: route where
  "route_memory_write = post_route [Fixed ''memory'', Fixed ''write''] (Some MemoryWriteBody)"

definition route_memory_read :: route where
  "route_memory_read = get_route [Fixed ''memory'', Fixed ''read'']
     [required ''key'' T_str, optional ''branch'' T_str (PStr ''main''), optional ''version'' (T_or_none T_int) PNone]"

definition route_memory_history :: route where
  "route_memory_history = get_route [Fixed ''memory'', Fixed ''history'']
     [required ''key'' T_str, optional ''branch'' T_str (PStr ''main'')]"

definition route_agent_register :: route where
  "route_agent_register = post_route [Fixed ''agents'', Fixed ''register''] (Some AgentRegisterBody)"

definition route_task_submit :: "string \<Rightarrow> route" where
  "route_task_submit task_id = post_route [Fixed ''tasks'', Fixed ''submit''] (Some (TaskSpec_model task_id))"

definition route_task_assign :: route where
  "route_task_assign = post_route [Fixed ''tasks'', Param ''task_id'', Fixed ''assign''] None"

definition route_orchestrator_report :: route where
  "route_orchestrator_report = get_route [Fixed ''orchestrator'', Fixed ''report''] []"

definition route_skill_publish :: route where
  "route_skill_publish = post_route [Fixed ''marketplace'', Fixed ''publish''] (Some SkillPublishBody)"

definition route_skill_install :: route where
  "route_skill_install = post_route [Fixed ''marketplace'', Fixed ''install''] (Some InstallBody)"

definition route_simulation_run :: route where
  "route_simulation_run = post_route [Fixed ''simulation'', Fixed ''run''] (Some SimulationRunBody)"

definition route_simulation_dryrun :: route where
  "route_simulation_dryrun = post_route [Fixed ''simulation'', Fixed ''dryrun''] (Some DryRunPlanBody)"

definition route_predictor_status :: route where
  "route_predictor_status = get_route [Fixed ''simulation'', Fixed ''predictor'', Fixed ''status''] []"

definition route_predictor_train :: route where
  "route_predictor_train = post_route [Fixed ''simulation'', Fixed ''predictor'', Fixed ''train''] (Some PredictorTrainBody)"

definition route_simulation_predict :: route where
  "route_simulation_predict = post_route [Fixed ''simulation'', Fixed ''predict''] (Some PredictBody)"

definition route_learning_report :: route where
  "route_learning_report = get_route [Fixed ''learning'', Fixed ''report''] []"

definition route_twin_snapshot :: route where
  "route_twin_snapshot = get_route [Fixed ''twin'', Fixed ''snapshot''] []"

definition route_twin_replay :: route where
  "route_twin_replay = get_route [Fixed ''twin'', Fixed ''replay'']
     [optional ''subject'' (T_or_none T_str) PNone, optional ''subsystem'' (T_or_none T_str) PNone, optional ''limit'' T_int (PInt 100)]"

section \<open>A call against a route\<close>

definition path_of :: "string \<Rightarrow> string" where
  "path_of url = takeWhile (\<lambda>c. c \<noteq> CHR ''?'') url"

definition name_value :: "string \<Rightarrow> string \<times> string" where
  "name_value s = (takeWhile (\<lambda>c. c \<noteq> CHR ''='') s, drop 1 (dropWhile (\<lambda>c. c \<noteq> CHR ''='') s))"

definition query_of :: "string \<Rightarrow> (string \<times> string) list" where
  \<comment> \<open>the query of a URL whose characters are all plain, so that none is percent-encoded\<close>
  "query_of url =
     (case dropWhile (\<lambda>c. c \<noteq> CHR ''?'') url of
        [] \<Rightarrow> []
      | _ # q \<Rightarrow> map name_value (split_on CHR ''&'' q))"

fun match_path :: "path_part list \<Rightarrow> string list \<Rightarrow> (string \<times> string) list option" where
  \<comment> \<open>the path parameters, if the segments are an instance of the template\<close>
  "match_path [] [] = Some []"
| "match_path (Fixed s # ps) (t # ts) = (if s = t then match_path ps ts else None)"
| "match_path (Param n # ps) (t # ts) = (if t = [] then None else map_option (Cons (n, t)) (match_path ps ts))"
| "match_path _ _ = None"

definition path_params :: "route \<Rightarrow> string \<Rightarrow> (string \<times> string) list option" where
  "path_params r url =
     (case split_on CHR ''/'' (path_of url) of
        [] \<Rightarrow> None
      | lead # segments \<Rightarrow> if lead = [] then match_path (rt_path r) segments else None)"

definition query_fits :: "route \<Rightarrow> (string \<times> string) list \<Rightarrow> bool" where
  "query_fits r q \<longleftrightarrow> distinct (map fst q) \<and> set (map fst q) \<subseteq> set (map fst (rt_query r)) \<and>
     (\<forall>(n, t, dflt) \<in> set (rt_query r). dflt = None \<longrightarrow> n \<in> set (map fst q))"

definition body_fits :: "annotation option \<Rightarrow> json_object option \<Rightarrow> bool" where
  "body_fits body payload \<longleftrightarrow>
     (case (body, payload) of
        (None, None) \<Rightarrow> True
      | (Some t, Some d) \<Rightarrow> distinct (dict_keys d) \<and> set (dict_keys d) \<subseteq> set (map fst (fields_of t)) \<and> has_type t (PDict d)
      | _ \<Rightarrow> False)"

definition accepts :: "route \<Rightarrow> api_call \<Rightarrow> bool" where
  "accepts r c \<longleftrightarrow> ac_method c = rt_method r \<and> path_params r (ac_path c) \<noteq> None \<and>
     query_fits r (query_of (ac_path c)) \<and> body_fits (rt_body r) (ac_payload c)"

end
