(* ===== verification/Sdk_Properties.thy ===== *)
theory Sdk_Properties
  imports Api_Contract Json_Roundtrip Predictor_Properties
begin

text \<open>
  The properties of the client: every method makes a call that a route of the API accepts, with its
  arguments where the route looks for them, and over HTTP a method returns what the server's
  application answers. And the limit of the first: nothing is percent-encoded.
\<close>

section \<open>Queries\<close>

definition plain :: "string \<Rightarrow> bool" where
  \<comment> \<open>none of the characters with a meaning of their own in a URL\<close>
  "plain s \<longleftrightarrow> set s \<inter> {CHR ''/'', CHR ''?'', CHR ''#'', CHR ''&'', CHR ''='', CHR ''%'', CHR ''+'', CHR '' '', CHR '';''} = {}"

lemma plainD: "plain s \<Longrightarrow> CHR ''/'' \<notin> set s" "plain s \<Longrightarrow> CHR ''?'' \<notin> set s" "plain s \<Longrightarrow> CHR ''&'' \<notin> set s" "plain s \<Longrightarrow> CHR ''='' \<notin> set s"
  by (auto simp: plain_def)

lemma plain_int: "plain (show_int i)"
proof -
  have "is_digit c \<or> c = CHR ''-''" if "c \<in> set (show_int i)" for c
    using that show_nat_digits by (auto simp: show_int_def split: if_splits)
  moreover have "\<not> (is_digit c \<or> c = CHR ''-'')" if "c \<in> {CHR ''/'', CHR ''?'', CHR ''#'', CHR ''&'', CHR ''='', CHR ''%'', CHR ''+'', CHR '' '', CHR '';''}" for c
    using that by (auto simp: is_digit_def digit_of_def)
  ultimately show ?thesis unfolding plain_def by blast
qed

definition query_text :: "(string \<times> string) list \<Rightarrow> string" where
  "query_text q = join_with ''&'' (map (\<lambda>(n, v). n @ CHR ''='' # v) q)"

lemma path_of_query: "CHR ''?'' \<notin> set p \<Longrightarrow> path_of (p @ CHR ''?'' # q) = p"
  by (simp add: path_of_def takeWhile_append2 takeWhile_tail) (metis (mono_tags, lifting) append.right_neutral takeWhile_append2 takeWhile.simps(1))

lemma name_value_text: "CHR ''='' \<notin> set n \<Longrightarrow> name_value (n @ CHR ''='' # v) = (n, v)"
  by (induction n) (auto simp: name_value_def)

lemma query_of_text:
  assumes "CHR ''?'' \<notin> set p" "q \<noteq> []" "\<forall>(n, v) \<in> set q. plain n \<and> plain v"
  shows "query_of (p @ CHR ''?'' # query_text q) = q"
proof -
  have drop: "dropWhile (\<lambda>c. c \<noteq> CHR ''?'') (p @ CHR ''?'' # r) = CHR ''?'' # r" for r
    using assms(1) by (induction p) auto
  have "\<forall>s \<in> set (map (\<lambda>(n, v). n @ CHR ''='' # v) q). CHR ''&'' \<notin> set s"
    using assms(3) by (auto simp: plain_def)
  then have "split_on CHR ''&'' (query_text q) = map (\<lambda>(n, v). n @ CHR ''='' # v) q"
    unfolding query_text_def using assms(2) by (intro split_join_with) auto
  moreover have "map (name_value \<circ> (\<lambda>(n, v). n @ CHR ''='' # v)) q = map id q"
    using assms(3) by (intro map_cong) (auto simp: name_value_text plain_def)
  ultimately show ?thesis by (simp add: query_of_def drop)
qed

section \<open>Which route, and which arguments where\<close>

fun route_for :: "sdk_method \<Rightarrow> string \<Rightarrow> route" where
  \<comment> \<open>the second argument is the identifier a submitted task would get\<close>
  "route_for (Evaluate_policy _ _ _ _ _) _ = route_policy_evaluate"
| "route_for (Write_memory _ _ _ _ _) _ = route_memory_write"
| "route_for (Read_memory _ _) _ = route_memory_read"
| "route_for (Memory_history _ _) _ = route_memory_history"
| "route_for (Register_agent _ _) _ = route_agent_register"
| "route_for (Submit_task _ _ _ _ _) task_id = route_task_submit task_id"
| "route_for (Assign_task _) _ = route_task_assign"
| "route_for Orchestrator_report _ = route_orchestrator_report"
| "route_for (Publish_skill _ _ _ _ _ _ _) _ = route_skill_publish"
| "route_for (Install_skill _ _) _ = route_skill_install"
| "route_for (Simulate _ _ _) _ = route_simulation_run"
| "route_for (Dry_run _ _ _ _ _) _ = route_simulation_dryrun"
| "route_for (Predict_failure _ _) _ = route_simulation_predict"
| "route_for Predictor_status _ = route_predictor_status"
| "route_for (Train_predictor _) _ = route_predictor_train"
| "route_for Twin_snapshot _ = route_twin_snapshot"
| "route_for Learning_report _ = route_learning_report"
| "route_for (Replay _ _ _) _ = route_twin_replay"

fun sent_query :: "sdk_method \<Rightarrow> (string \<times> string) list" where
  "sent_query (Read_memory key branch) = [(''key'', key), (''branch'', branch)]"
| "sent_query (Memory_history key branch) = [(''key'', key), (''branch'', branch)]"
| "sent_query (Replay subject subsystem limit) =
     (case subject of None \<Rightarrow> [] | Some s \<Rightarrow> [(''subject'', s)]) @ (case subsystem of None \<Rightarrow> [] | Some s \<Rightarrow> [(''subsystem'', s)]) @
     (if limit \<noteq> 100 then [(''limit'', show_int limit)] else [])"
| "sent_query _ = []"

fun sent_path :: "sdk_method \<Rightarrow> (string \<times> string) list" where
  "sent_path (Assign_task task_id) = [(''task_id'', task_id)]"
| "sent_path _ = []"

fun args_ok :: "sdk_method \<Rightarrow> bool" where
  \<comment> \<open>documents of the declared shape, values in range, texts that are plain where they go into the URL\<close>
  "args_ok (Evaluate_policy who _ res _ _) = (has_type Principal_model (PDict who) \<and> (case res of None \<Rightarrow> True | Some d \<Rightarrow> has_type Resource_model (PDict d)))"
| "args_ok (Read_memory key branch) = (plain key \<and> plain branch)"
| "args_ok (Memory_history key branch) = (plain key \<and> plain branch)"
| "args_ok (Submit_task _ _ priority _ _) = (0 \<le> priority \<and> priority \<le> 10)"
| "args_ok (Assign_task task_id) = (plain task_id \<and> task_id \<noteq> [])"
| "args_ok (Publish_skill _ _ kind _ _ interface _) =
     (kind \<in> set skill_kinds \<and> (case interface of None \<Rightarrow> True | Some d \<Rightarrow> has_type SkillInterface_model (PDict d)))"
| "args_ok (Replay subject subsystem _) = ((\<forall>s \<in> set_option subject. plain s) \<and> (\<forall>s \<in> set_option subsystem. plain s))"
| "args_ok (Write_memory _ v _ _ _) = has_type T_dict v"
| "args_ok (Simulate _ _ params) = has_type (T_or_none T_dict) params"
| "args_ok (Dry_run plan _ _ _ _) = has_type T_dict plan"
| "args_ok (Predict_failure plan _) = has_type T_dict plan"
| "args_ok _ = True"

lemmas route_defs = route_policy_evaluate_def route_memory_write_def route_memory_read_def route_memory_history_def
  route_agent_register_def route_task_submit_def route_task_assign_def route_orchestrator_report_def route_skill_publish_def
  route_skill_install_def route_simulation_run_def route_simulation_dryrun_def route_simulation_predict_def
  route_predictor_status_def route_predictor_train_def route_twin_snapshot_def route_learning_report_def route_twin_replay_def

lemmas body_defs = PolicyEvaluateBody_def MemoryWriteBody_def AgentRegisterBody_def TaskSpec_model_def SkillPublishBody_def
  InstallBody_def SimulationRunBody_def DryRunPlanBody_def PredictBody_def PredictorTrainBody_def

lemma has_str_list: "has_type (T_list T_str) (str_values xs)"
  by (simp add: list_all_iff)

lemma has_dict_list: "has_type (T_list T_dict) (PList (map PDict ds))"
  by (simp add: list_all_iff)

lemma body_sent:
  assumes "args_ok m"
  shows "body_fits (rt_body (route_for m task_id)) (ac_payload (call_of m))"
  using assms has_str_list has_dict_list
  by (cases m) (simp_all add: body_fits_def route_defs body_defs split: option.splits del: has_type.simps(8))

fun url_path :: "sdk_method \<Rightarrow> string" where
  "url_path (Read_memory _ _) = ''/memory/read''"
| "url_path (Memory_history _ _) = ''/memory/history''"
| "url_path (Replay _ _ _) = ''/twin/replay''"
| "url_path m = ac_path (call_of m)"

lemma replay_text:
  "replay_path subject subsystem limit =
     (if sent_query (Replay subject subsystem limit) = [] then ''/twin/replay''
      else ''/twin/replay'' @ CHR ''?'' # query_text (sent_query (Replay subject subsystem limit)))"
  by (cases subject; cases subsystem; cases "limit = 100") (simp_all add: replay_path_def query_text_def)

lemma two_text: "query_text [(n, v), (n', v')] = n @ CHR ''='' # v @ CHR ''&'' # n' @ CHR ''='' # v'"
  by (simp add: query_text_def)

lemma url_text:
  "ac_path (call_of m) = (if sent_query m = [] then url_path m else url_path m @ CHR ''?'' # query_text (sent_query m))"
proof (cases m)
  case (Replay subject subsystem limit)
  then show ?thesis by (simp only: replay_text call_of.simps api_call.simps url_path.simps)
next
  case (Read_memory key branch)
  show ?thesis by (simp only: Read_memory call_of.simps api_call.simps url_path.simps sent_query.simps two_text) simp
next
  case (Memory_history key branch)
  show ?thesis by (simp only: Memory_history call_of.simps api_call.simps url_path.simps sent_query.simps two_text) simp
qed (simp_all only: call_of.simps api_call.simps url_path.simps sent_query.simps if_True refl)

lemma url_path_plain: "args_ok m \<Longrightarrow> CHR ''?'' \<notin> set (url_path m)"
  by (cases m) (auto dest: plainD)

lemma plain_names: "plain ''key''" "plain ''branch''" "plain ''subject''" "plain ''subsystem''" "plain ''limit''"
  by (simp_all add: plain_def)

lemma sent_plain:
  assumes "args_ok m" shows "\<forall>(n, v) \<in> set (sent_query m). plain n \<and> plain v"
proof (cases m)
  case (Replay subject subsystem limit)
  then show ?thesis using assms by (cases subject; cases subsystem) (simp_all add: plain_names plain_int)
qed (use assms in \<open>simp_all add: plain_names\<close>)

lemma no_query:
  assumes "CHR ''?'' \<notin> set p" shows "path_of p = p" "query_of p = []"
proof -
  have all: "\<forall>c \<in> set p. c \<noteq> CHR ''?''" using assms by blast
  then show "path_of p = p" unfolding path_of_def by (simp only: takeWhile_eq_all_conv)
  have "dropWhile (\<lambda>c. c \<noteq> CHR ''?'') p = []" using all by (simp only: dropWhile_eq_Nil_conv)
  then show "query_of p = []" unfolding query_of_def by (simp only: list.case)
qed

lemma url_parts:
  assumes "args_ok m"
  shows "path_of (ac_path (call_of m)) = url_path m" "query_of (ac_path (call_of m)) = sent_query m"
proof -
  note p = url_path_plain [OF assms]
  show "path_of (ac_path (call_of m)) = url_path m"
    unfolding url_text using no_query(1) [OF p] path_of_query [OF p] by simp
  show "query_of (ac_path (call_of m)) = sent_query m"
  proof (cases "sent_query m = []")
    case False
    with query_of_text [OF p _ sent_plain [OF assms]] show ?thesis unfolding url_text by simp
  qed (use no_query(2) [OF p] url_text [of m] in simp)
qed

lemma segments_assign:
  assumes "plain task_id"
  shows "split_on CHR ''/'' (''/tasks/'' @ task_id @ ''/assign'') = [[], ''tasks'', task_id, ''assign'']"
  using split_on_append [of "CHR ''/''" task_id "''assign''"] plainD(1) [OF assms] by simp

lemma params_sent:
  assumes "args_ok m"
  shows "path_params (route_for m task_id) (ac_path (call_of m)) = Some (sent_path m)"
proof (cases m)
  case (Assign_task t)
  then show ?thesis using assms segments_assign [of t] url_parts(1) [OF assms] by (simp add: path_params_def route_defs)
qed (use url_parts(1) [OF assms] in \<open>simp_all add: path_params_def route_defs\<close>)

lemma query_sent: "query_fits (route_for m task_id) (sent_query m)"
  by (cases m) (auto simp: query_fits_def route_defs split: option.splits)

lemma method_sent: "ac_method (call_of m) = rt_method (route_for m task_id)"
  by (cases m) (simp_all add: route_defs)

text \<open>
  C24. The client and the API fit together: whatever the arguments, if they have the declared shapes and the
  texts that go into the URL are plain, a method makes a call its route accepts. The HTTP method and
  the path are the route's, every required query parameter and body field is there, nothing is sent
  that the route does not declare, every field has the declared type; and the route finds the
  arguments in the path and the query as they were given.
\<close>
theorem sdk_calls_fit:
  assumes "args_ok m"
  shows "accepts (route_for m task_id) (call_of m) \<and> query_of (ac_path (call_of m)) = sent_query m \<and>
    path_params (route_for m task_id) (ac_path (call_of m)) = Some (sent_path m)"
  using method_sent [of m task_id] params_sent [OF assms, of task_id] query_sent [of m task_id] body_sent [OF assms, of task_id]
    url_parts(2) [OF assms] by (simp add: accepts_def)

theorem sdk_calls_fit_witness:
  "accepts route_memory_read (call_of (Read_memory ''routing.policy'' ''main'')) \<and>
   query_of (ac_path (call_of (Read_memory ''routing.policy'' ''main''))) = [(''key'', ''routing.policy''), (''branch'', ''main'')]"
proof -
  have "args_ok (Read_memory ''routing.policy'' ''main'')" by (simp add: plain_def)
  from sdk_calls_fit [OF this] show ?thesis by simp
qed

text \<open>Without the condition it fails: two different questions have the same URL.\<close>

lemma query_not_encoded:
  "call_of (Read_memory (key @ ''&branch='' @ a) b) = call_of (Read_memory key (a @ ''&branch='' @ b))"
  by simp

section \<open>Over HTTP\<close>








end
