(* ===== verification/Cli.thy ===== *)
theory Cli
  imports Sdk Seed_Rules Fleet_Node Evolution Twin
begin

text \<open>
  \<open>omni/cli.py\<close>: the commands, on the arguments the parser returns. A command prints texts or raises;
  the commands that talk to a control plane go through the client, to the world \<open>'w\<close>. Reading a file
  and \<open>urlopen\<close> are arguments; the command line itself is read in Cli_Args.
\<close>

section \<open>Arguments\<close>

datatype cli_command =
    Version_cmd
  | Demo_cmd
  | Policy_cmd string string string string string real \<comment> \<open>action, role, principal, risk, resource type, cost\<close>
  | Memory_cmd string string string string \<comment> \<open>key, value, agent, reason\<close>
  | Twin_cmd
  | Simulate_cmd string string "string option" \<comment> \<open>action, domain, params\<close>
  | Dryrun_cmd "string option" "string option" string "int option" "real option" "int option"
      \<comment> \<open>plan, plan file, domain, max steps, timeout, max effects\<close>
  | Predict_cmd "string option" "string option" string
  | Fleet_cmd "string option" int \<comment> \<open>node, capacity\<close>

record cli_args =
  ca_url :: string
  ca_command :: "cli_command option"

record 'w cli_world =
  \<comment> \<open>what the commands reach outside\<close>
  cw_urlopen :: "url_request \<Rightarrow> 'w \<Rightarrow> http_reply \<times> 'w"
  cw_read_file :: "string \<Rightarrow> string result"
  cw_env :: "nat \<Rightarrow> env" \<comment> \<open>the clock and the identifiers of the \<open>n\<close>-th reading\<close>
  cw_fqdn :: string
  cw_hash :: "doc \<Rightarrow> string"
  cw_parse :: "string \<Rightarrow> real option"
  cw_help :: string

type_synonym printed = "sdk_error + string list"

definition print_json :: "pyval \<Rightarrow> string list" where
  \<comment> \<open>\<open>_print\<close>\<close>
  "print_json data = [json_indent 2 0 data]"

definition cli_loads :: "string \<Rightarrow> sdk_error + pyval" where
  "cli_loads s = (case json_loads s of None \<Rightarrow> Inl (Other_exception (ValueError ''JSONDecodeError'')) | Some v \<Rightarrow> Inr v)"

definition given :: "string option \<Rightarrow> string option" where
  \<comment> \<open>an option that is set and not empty\<close>
  "given x = (case x of None \<Rightarrow> None | Some s \<Rightarrow> if s = [] then None else Some s)"

section \<open>Commands of a client\<close>

definition cli_call :: "'w cli_world \<Rightarrow> string \<Rightarrow> sdk_method \<Rightarrow> 'w \<Rightarrow> printed \<times> 'w" where
  \<comment> \<open>\<open>_print(OmniClient(args.url).method(...))\<close>\<close>
  "cli_call cw url m w =
     (case invoke (new_client (cw_urlopen cw) url None) m w of
        (Inl err, w') \<Rightarrow> (Inl err, w')
      | (Inr v, w') \<Rightarrow> (Inr (print_json v), w'))"

definition cmd_policy :: "'w cli_world \<Rightarrow> string \<Rightarrow> string \<Rightarrow> string \<Rightarrow> string \<Rightarrow> string \<Rightarrow> string \<Rightarrow> real \<Rightarrow> 'w \<Rightarrow> printed \<times> 'w" where
  "cmd_policy cw url action role who risk resource_type cost =
     cli_call cw url (Evaluate_policy
       [(''id'', PStr who), (''roles'', PList [PStr role]), (''groups'', PList []), (''attributes'', PDict [])]
       action (Some [(''type'', PStr resource_type), (''attributes'', PDict [(''risk_level'', PStr risk)])]) cost 1)"

definition cmd_memory :: "'w cli_world \<Rightarrow> string \<Rightarrow> string \<Rightarrow> string \<Rightarrow> string \<Rightarrow> string \<Rightarrow> 'w \<Rightarrow> printed \<times> 'w" where
  "cmd_memory cw url key txt agent reason w =
     (case cli_loads txt of
        Inl err \<Rightarrow> (Inl err, w)
      | Inr v \<Rightarrow> cli_call cw url (Write_memory key v agent reason ''main'') w)"

definition cmd_twin :: "'w cli_world \<Rightarrow> string \<Rightarrow> 'w \<Rightarrow> printed \<times> 'w" where
  "cmd_twin cw url = cli_call cw url Twin_snapshot"

definition cmd_simulate :: "'w cli_world \<Rightarrow> string \<Rightarrow> string \<Rightarrow> string \<Rightarrow> string option \<Rightarrow> 'w \<Rightarrow> printed \<times> 'w" where
  "cmd_simulate cw url action domain params w =
     (case (case given params of None \<Rightarrow> Inr PNone | Some s \<Rightarrow> cli_loads s) of
        Inl err \<Rightarrow> (Inl err, w)
      | Inr v \<Rightarrow> cli_call cw url (Simulate action domain v) w)"

definition load_plan :: "'w cli_world \<Rightarrow> string option \<Rightarrow> string option \<Rightarrow> sdk_error + pyval" where
  "load_plan cw plan plan_file =
     (case given plan_file of
        Some path \<Rightarrow> (case cw_read_file cw path of Inl err \<Rightarrow> Inl (Other_exception err) | Inr s \<Rightarrow> cli_loads s)
      | None \<Rightarrow>
          (case given plan of
             Some s \<Rightarrow> cli_loads s
           | None \<Rightarrow> Inl (Other_exception (ValueError ''provide --plan (inline JSON) or --plan-file (path)''))))"

definition cmd_dryrun :: "'w cli_world \<Rightarrow> string \<Rightarrow> string option \<Rightarrow> string option \<Rightarrow> string \<Rightarrow> int option \<Rightarrow> real option \<Rightarrow> int option \<Rightarrow>
    'w \<Rightarrow> printed \<times> 'w" where
  \<comment> \<open>an argument that is not given keeps the method's default \<open>None\<close>\<close>
  "cmd_dryrun cw url plan plan_file domain max_steps timeout max_effects w =
     (case load_plan cw plan plan_file of
        Inl err \<Rightarrow> (Inl err, w)
      | Inr p \<Rightarrow> cli_call cw url (Dry_run p domain max_steps timeout max_effects) w)"

definition cmd_predict :: "'w cli_world \<Rightarrow> string \<Rightarrow> string option \<Rightarrow> string option \<Rightarrow> string \<Rightarrow> 'w \<Rightarrow> printed \<times> 'w" where
  "cmd_predict cw url plan plan_file domain w =
     (case load_plan cw plan plan_file of
        Inl err \<Rightarrow> (Inl err, w)
      | Inr p \<Rightarrow> cli_call cw url (Predict_failure p domain) w)"

section \<open>Local commands\<close>

definition package_version :: string where
  "package_version = ''0.9.0''"

definition cmd_version :: "string list" where
  "cmd_version = [''omnimind '' @ package_version]"

definition no_handlers :: "(unit, unit) handler_effect" where
  "no_handlers h subject payload b = (Inr (), b)"

definition cmd_fleet :: "'w cli_world \<Rightarrow> string option \<Rightarrow> int \<Rightarrow> pyval result" where
  \<comment> \<open>a node without a bus over a store of its own\<close>
  "cmd_fleet cw node_arg capacity =
     (let e = cw_env cw;
          n = \<lparr>fn_id = (case given node_arg of None \<Rightarrow> ''node_'' @ take 12 (env_uuid (e 0)) | Some s \<Rightarrow> s),
               fn_capacity = capacity, fn_version = ''0.4.0'', fn_fqdn = cw_fqdn cw\<rparr>;
          world0 = \<lparr>fw_storage = In_memory new_mem_storage, fw_bus = None\<rparr>;
          (announced, world1) = node_announce no_handlers (e 1) None n world0
      in then_r announced (\<lambda>_.
         (let (elected, world2) = elect no_handlers Column_text (e 2) n world1
          in then_r elected (\<lambda>(winner, term).
             then_r (node_peers Column_text n world2) (\<lambda>peers.
               Inr (PDict [(''node'', PStr (fn_id n)), (''peers_known'', PInt (int (length peers))),
                 (''leader'', PDict [(''leader'', opt_str winner), (''term'', PInt term)]),
                 (''is_leader'', PBool (is_leader n world2))]))))))"

definition demo_task :: "env \<Rightarrow> task_spec" where
  "demo_task e =
     \<lparr>tk_id = new_id ''task'' e, tk_name = ''summarize docs'', tk_signature = [], tk_required_skills = [''summarize''],
      tk_priority = 0, tk_risk_level = ''low'', tk_payload = [], tk_status = QUEUED, tk_assignee = None,
      tk_created_at = env_time e, tk_started_at = None, tk_finished_at = None, tk_result = PNone\<rparr>"

definition cmd_demo :: "'w cli_world \<Rightarrow> pyval result" where
  \<comment> \<open>every subsystem once, in process\<close>
  "cmd_demo cw =
     (let e = cw_env cw;
          orch0 = new_orchestrator (e 0) BalancedScoring 50 (3 / 4) 300 2 []
      in then_r (evaluate (e 1) \<lparr>pr_id = ''ops-1'', pr_roles = [''operator''], pr_groups = [], pr_attributes = []\<rparr> ''agent.spawn''
            (Some \<lparr>rs_type = ''agent'', rs_attributes = [(''risk_level'', PStr ''low'')]\<rparr>) 0 1 (new_policy_engine make_seed_rules, None))
          (\<lambda>(decision, _).
         (let (agent, orch1) = register_agent (e 2) ''worker'' [''summarize''] WORKER orch0;
              task = demo_task (e 3)
          in then_r (assign (e 5) (tk_id task) (submit (e 4) task orch1)) (\<lambda>(_, orch).
             then_r (mem_write (cw_hash cw) (e 6) ''routing.policy'' [(''region'', PStr ''eu'')] (ag_id agent) ''seeded by demo'' ''main'' [])
               (\<lambda>(entry, rows).
             (let (published, catalog1) = publish (e 7) ''summarize'' ''summarize docs'' OFFICIAL ''core'' ''1.0.0''
                    (Some (empty_interface\<lparr>si_actions := [''summarize'']\<rparr>)) [] new_catalog
              in then_r published (\<lambda>skill.
                 (let (installed, cat) = install (sk_id skill) (ag_id agent) None catalog1
                  in then_r installed (\<lambda>_.
                     then_r (simulate (cw_parse cw) (e 8) ''deploy'' ''deploy'' [(''size'', PFloat (1 / 2))] (new_sandbox (7 / 10) []))
                       (\<lambda>(sim, sandbox).
                     (let lp = lp_ingest \<lparr>ev_id = new_id ''eval'' (e 9), ev_task_id = tk_id task, ev_agent_id = ag_id agent,
                            ev_task_type = ''summary'', ev_metrics = default_metrics\<lparr>mb_accuracy := 9 / 10, mb_execution_time_ms := 120\<rparr>,
                            ev_summary = [], ev_completed_at = env_stamp (e 9)\<rparr> (new_pipeline 200 None)
                      in then_r (evo_propose (e 10) (PStr ''routing'') (PStr ''cost routing'') (PStr ''route by cost'') (PStr [])
                           (new_evolution_engine (5 / 100) (Some lp))) (\<lambda>(proposal, evo).
                         then_r (evo_evaluate (e 11) (ep_id proposal) (default_metrics\<lparr>mb_accuracy := 95 / 100, mb_cost := 5 / 100\<rparr>) evo)
                           (\<lambda>(measured, _).
                         (let view = fst (twin_snapshot (e 12)
                                \<lparr>ts_orchestrator = Some orch, ts_marketplace = Some cat, ts_memory = Some rows,
                                 ts_simulation = Some sandbox, ts_learning = Some lp, ts_ledger = None\<rparr> new_twin)
                          in Inr (PDict
                            [(''policy'', PDict [(''allowed'', PBool (pd_allowed decision)), (''rule'', opt_str (pd_matched_rule decision))]),
                             (''orchestrator'', orchestrator_report orch),
                             (''memory'', PDict [(''key'', PStr (me_key entry)), (''version'', PInt (me_version entry))]),
                             (''skills'', PDict [(''installed'', PInt (int (length (installed_by (ag_id agent) cat))))]),
                             (''simulation'', PDict [(''confidence'', PFloat (sm_confidence sim)), (''needs_approval'', PBool (sm_needs_approval sim))]),
                             (''learning_samples'', PInt (int (length (lp_read (e 12) lp)))),
                             (''evolution'', PDict [(''proposal'', ep_title measured), (''status'', PStr (ep_status measured))]),
                             (''twin_agents'', PInt (tc_agents_total (tv_counters view))),
                             (''twin_errors'', PInt (int (length (tv_errors view))))])))))))))))))))"

section \<open>The entry point\<close>

definition run_command :: "'w cli_world \<Rightarrow> string \<Rightarrow> cli_command \<Rightarrow> 'w \<Rightarrow> printed \<times> 'w" where
  "run_command cw url cmd w =
     (case cmd of
        Version_cmd \<Rightarrow> (Inr cmd_version, w)
      | Demo_cmd \<Rightarrow> (map_sum Other_exception print_json (cmd_demo cw), w)
      | Policy_cmd action role who risk resource_type cost \<Rightarrow> cmd_policy cw url action role who risk resource_type cost w
      | Memory_cmd key txt agent reason \<Rightarrow> cmd_memory cw url key txt agent reason w
      | Twin_cmd \<Rightarrow> cmd_twin cw url w
      | Simulate_cmd action domain params \<Rightarrow> cmd_simulate cw url action domain params w
      | Dryrun_cmd plan plan_file domain max_steps timeout max_effects \<Rightarrow>
          cmd_dryrun cw url plan plan_file domain max_steps timeout max_effects w
      | Predict_cmd plan plan_file domain \<Rightarrow> cmd_predict cw url plan plan_file domain w
      | Fleet_cmd node_arg capacity \<Rightarrow> (map_sum Other_exception print_json (cmd_fleet cw node_arg capacity), w))"

record cli_outcome =
  co_stdout :: "string list"
  co_stderr :: "string list"
  co_code :: int

definition main_entry :: "'w cli_world \<Rightarrow> cli_args \<Rightarrow> 'w \<Rightarrow> cli_outcome \<times> 'w" where
  "main_entry cw args w =
     (case ca_command args of
        None \<Rightarrow> (\<lparr>co_stdout = [cw_help cw], co_stderr = [], co_code = 2\<rparr>, w)
      | Some cmd \<Rightarrow>
          (case run_command cw (ca_url args) cmd w of
             (Inl err, w') \<Rightarrow> (\<lparr>co_stdout = [], co_stderr = [''error: '' @ sdk_error_str err], co_code = 1\<rparr>, w')
           | (Inr out, w') \<Rightarrow> (\<lparr>co_stdout = out, co_stderr = [], co_code = 0\<rparr>, w')))"

end
