(* ===== verification/Cli_Properties.thy ===== *)
theory Cli_Properties
  imports Cli
begin

text \<open>
  The properties of the command line: the exit codes and what a command may do outside, and that the
  commands without a server succeed: the demonstration, which runs every subsystem once, and the local
  fleet node.
\<close>

section \<open>The fleet node\<close>

lemma fleet_alone:
  "cmd_fleet cw node_arg capacity =
     (let n = (case given node_arg of None \<Rightarrow> ''node_'' @ take 12 (env_uuid (cw_env cw 0)) | Some s \<Rightarrow> s) in
      Inr (PDict [(''node'', PStr n), (''peers_known'', PInt 0), (''leader'', PDict [(''leader'', PStr n), (''term'', PInt 1)]),
        (''is_leader'', PBool True)]))"
  by (simp add: cmd_fleet_def node_announce_def node_publish_def elect_def node_peers_def is_leader_def new_mem_storage_def Let_def
    ms_announce_def ms_nodes_def ms_set_leader_def ms_get_leader_def opt_str_def)

section \<open>The steps of the demonstration\<close>

definition ops :: principal where
  "ops = \<lparr>pr_id = ''ops-1'', pr_roles = [''operator''], pr_groups = [], pr_attributes = []\<rparr>"

definition low_agent :: resource where
  "low_agent = \<lparr>rs_type = ''agent'', rs_attributes = [(''risk_level'', PStr ''low'')]\<rparr>"

lemma demo_risks: "risk_of_value (PStr ''low'') = Some LOW" "risk_of_value (PStr ''medium'') = Some MEDIUM"
  by code_simp+

lemma demo_condition: "eval_condition (risk_at_most ''medium'') ops low_agent = Inr True"
  by (simp add: eval_condition_def risk_at_most_def ops_def low_agent_def startswith_def eval_op_def policy_get_path_def resource_dict_def
    dict_merge_def policy_compare_def risk_index_def cmp3_def removeprefix_def demo_risks)

lemma demo_rules:
  "filter_r (\<lambda>rule. rule_matches rule ops ''agent.spawn'' low_agent) make_seed_rules = Inr [hd make_seed_rules]"
  using demo_condition
  by (simp add: make_seed_rules_def seed_rule_def rule_matches_def action_matches_def startswith_def)
    (simp add: ops_def)

lemma demo_policy:
  "\<exists>d st. evaluate e ops ''agent.spawn'' (Some low_agent) 0 1 (new_policy_engine make_seed_rules, None) = Inr (d, st) \<and>
     pd_allowed d \<and> pd_matched_rule d = Some ''rule_allow_agent_ops''"
proof -
  let ?e = "new_policy_engine make_seed_rules"
  have rules: "pe_rules ?e = make_seed_rules" "\<not> pe_lockdown ?e" "pe_limits ?e = []"
    by (simp_all add: new_policy_engine_def make_seed_rules_def add_rule_def)
  have ok: "ls_allowed (check_limits t ?e ops 0 1)" for t
    by (simp add: check_limits_def rules limit_windows_def default_limit_status_def)
  have hd: "is_allow (hd make_seed_rules)" "\<not> is_deny (hd make_seed_rules)" "ru_risk_level (hd make_seed_rules) = None"
      "\<not> ru_require_approval (hd make_seed_rules)" "ru_id (hd make_seed_rules) = ''rule_allow_agent_ops''"
    by (simp_all add: make_seed_rules_def seed_rule_def is_allow_def is_deny_def)
  show ?thesis
    by (simp add: evaluate_def Let_def rules demo_rules py_sorted_desc_def hd evaluate_allow_def ok policy_log_def del: make_seed_rules_def)
qed

lemma deploy_model: "\<exists>m. dict_get SIMULATION_DOMAINS ''deploy'' = Some m \<and> dm_base_risk m = 1 / 4 \<and> dm_blast_radius m = 1 \<and> \<not> dm_always_approve m"
  by (simp add: SIMULATION_DOMAINS_def domain_model_of_def)

lemma demo_assigned:
  fixes e :: "nat \<Rightarrow> env"
  defines "orch1 \<equiv> snd (register_agent (e 2) ''worker'' [''summarize''] WORKER (new_orchestrator (e 0) BalancedScoring 50 (3 / 4) 300 2 []))"
  shows "\<exists>orch. assign (e 5) (tk_id (demo_task (e 3))) (submit (e 4) (demo_task (e 3)) orch1) = Inr (Some (new_id ''agt'' (e 2)), orch) \<and>
    length (agents orch) = 1 \<and> map tk_status (tasks orch) = [ASSIGNED]"
  by (simp add: orch1_def tasks_def assign_def submit_def demo_task_def register_agent_def new_agent_def new_orchestrator_def best_agent_def best_step_def
    BalancedScoring_def lacks_skills_def Let_def agents_def upd_agent_def upd_task_def dict_upd_def)

lemma demo_memory:
  "\<exists>entry rows. mem_write h e ''routing.policy'' v who ''seeded by demo'' ''main'' [] = Inr (entry, rows) \<and>
     me_key entry = ''routing.policy'' \<and> me_version entry = 1"
  by (simp add: mem_write_def mem_latest_def mem_insert_def Let_def fetchone_def row_to_entry_def py_sorted_desc_def)

lemma demo_versions: "materialize ''0.0.0'' = Inr [0, 0, 0]" "materialize ''1.0.0'' = Inr [1, 0, 0]"
  by code_simp+

lemma demo_skill:
  "\<exists>s c c'. publish e ''summarize'' ''summarize docs'' OFFICIAL ''core'' ''1.0.0'' i [] new_catalog = (Inr s, c) \<and>
     install (sk_id s) who None c = (Inr (Some (s\<lparr>sk_installs := 1\<rparr>)), c') \<and> length (installed_by who c') = 1"
  by (simp add: publish_def described_def find_by_name_def new_catalog_def add_version_def demo_versions put_skill_def install_def
    installed_by_def installed_ids_def List.map_filter_def Let_def)

lemma demo_simulation:
  "\<exists>r sb. simulate parse e ''deploy'' ''deploy'' [(''size'', PFloat (1 / 2))] (new_sandbox (7 / 10) []) = Inr (r, sb) \<and>
     sm_confidence r = 8 / 10 \<and> \<not> sm_needs_approval r"
proof -
  obtain m where m: "dict_get SIMULATION_DOMAINS ''deploy'' = Some m" "dm_base_risk m = 1 / 4" "dm_blast_radius m = 1" "\<not> dm_always_approve m"
    using deploy_model by blast
  have "py_round (8 / 10) 3 = 8 / (10 :: real)" by (simp add: py_round_def round_half_even_def)
  then show ?thesis
    by (simp add: simulate_def new_sandbox_def m risk_of_def get_or_def py_float_def Let_def)
qed

lemma demo_proposal:
  "\<exists>p eng. evo_propose e1 (PStr ''routing'') (PStr ''cost routing'') (PStr ''route by cost'') (PStr []) (new_evolution_engine (5 / 100) (Some lp)) =
     Inr (p, eng) \<and> (\<exists>p' eng'. evo_evaluate e2 (ep_id p) after eng = Inr (p', eng') \<and> ep_title p' = PStr ''cost routing'' \<and> ep_status p' = ''running'')"
  by (simp add: evo_propose_def known_domain_def DOMAINS_def default_hypothesis_def new_evolution_engine_def evo_evaluate_def evo_by_id_def
    measured_def Let_def)

lemma demo_view:
  "tc_agents_total (tv_counters (fst (twin_snapshot e \<lparr>ts_orchestrator = Some orch, ts_marketplace = mp, ts_memory = mem,
     ts_simulation = sim, ts_learning = lp, ts_ledger = lg\<rparr> new_twin))) = int (length (agents orch))"
  "tv_errors (fst (twin_snapshot e \<lparr>ts_orchestrator = Some orch, ts_marketplace = mp, ts_memory = mem,
     ts_simulation = sim, ts_learning = lp, ts_ledger = lg\<rparr> new_twin)) = []"
  by (simp_all add: twin_snapshot_def counters_of_def new_twin_def Let_def)

section \<open>What a command may do\<close>






section \<open>The claims\<close>

text \<open>
  C36. The demonstration succeeds whatever the clock, the identifiers, the hash and the network: an operator may
  spawn a low-risk agent under the seed rules, the task is assigned to the one agent there is, the
  first version of a document is written, a skill published and installed, a half-size deployment needs no
  approval, and a proposal is measured; exit code 0, one report printed, nothing outside touched.
\<close>
theorem demo_succeeds:
  "\<exists>orch. main_entry cw \<lparr>ca_url = url, ca_command = Some Demo_cmd\<rparr> w =
     (\<lparr>co_stdout = print_json (PDict
        [(''policy'', PDict [(''allowed'', PBool True), (''rule'', PStr ''rule_allow_agent_ops'')]),
         (''orchestrator'', orchestrator_report orch),
         (''memory'', PDict [(''key'', PStr ''routing.policy''), (''version'', PInt 1)]),
         (''skills'', PDict [(''installed'', PInt 1)]),
         (''simulation'', PDict [(''confidence'', PFloat (8 / 10)), (''needs_approval'', PBool False)]),
         (''learning_samples'', PInt 1),
         (''evolution'', PDict [(''proposal'', PStr ''cost routing''), (''status'', PStr ''running'')]),
         (''twin_agents'', PInt 1), (''twin_errors'', PInt 0)]), co_stderr = [], co_code = 0\<rparr>, w) \<and>
     length (agents orch) = 1 \<and> map tk_status (tasks orch) = [ASSIGNED]"
proof -
  let ?e = "cw_env cw"
  obtain d st where 1: "evaluate (?e 1) ops ''agent.spawn'' (Some low_agent) 0 1 (new_policy_engine make_seed_rules, None) = Inr (d, st)"
    "pd_allowed d" "pd_matched_rule d = Some ''rule_allow_agent_ops''"
    using demo_policy by blast
  obtain agent orch1 where 2: "register_agent (?e 2) ''worker'' [''summarize''] WORKER (new_orchestrator (?e 0) BalancedScoring 50 (3 / 4) 300 2 []) = (agent, orch1)"
    by fastforce
  obtain orch where 3: "assign (?e 5) (tk_id (demo_task (?e 3))) (submit (?e 4) (demo_task (?e 3)) orch1) = Inr (Some (new_id ''agt'' (?e 2)), orch)"
    "length (agents orch) = 1" "map tk_status (tasks orch) = [ASSIGNED]"
    using demo_assigned [of ?e] 2 by auto
  obtain entry rows where 4: "mem_write (cw_hash cw) (?e 6) ''routing.policy'' [(''region'', PStr ''eu'')] (ag_id agent) ''seeded by demo'' ''main'' [] = Inr (entry, rows)"
    "me_key entry = ''routing.policy''" "me_version entry = 1"
    using demo_memory by blast
  obtain s c c' where 5: "publish (?e 7) ''summarize'' ''summarize docs'' OFFICIAL ''core'' ''1.0.0''
      (Some (empty_interface\<lparr>si_actions := [''summarize'']\<rparr>)) [] new_catalog = (Inr s, c)"
    "install (sk_id s) (ag_id agent) None c = (Inr (Some (s\<lparr>sk_installs := 1\<rparr>)), c')" "length (installed_by (ag_id agent) c') = 1"
    using demo_skill by blast
  obtain r sb where 6: "simulate (cw_parse cw) (?e 8) ''deploy'' ''deploy'' [(''size'', PFloat (1 / 2))] (new_sandbox (7 / 10) []) = Inr (r, sb)"
    "sm_confidence r = 8 / 10" "\<not> sm_needs_approval r"
    using demo_simulation by blast
  define lp where "lp = lp_ingest \<lparr>ev_id = new_id ''eval'' (?e 9), ev_task_id = tk_id (demo_task (?e 3)), ev_agent_id = ag_id agent,
      ev_task_type = ''summary'', ev_metrics = default_metrics\<lparr>mb_accuracy := 9 / 10, mb_execution_time_ms := 120\<rparr>,
      ev_summary = [], ev_completed_at = env_stamp (?e 9)\<rparr> (new_pipeline 200 None)"
  have 7: "length (lp_read e lp) = 1" for e by (simp add: lp_def lp_ingest_def new_pipeline_def lp_read_def)
  obtain p eng p' eng' where 8: "evo_propose (?e 10) (PStr ''routing'') (PStr ''cost routing'') (PStr ''route by cost'') (PStr [])
      (new_evolution_engine (5 / 100) (Some lp)) = Inr (p, eng)"
    "evo_evaluate (?e 11) (ep_id p) (default_metrics\<lparr>mb_accuracy := 95 / 100, mb_cost := 5 / 100\<rparr>) eng = Inr (p', eng')"
    "ep_title p' = PStr ''cost routing''" "ep_status p' = ''running''"
    using demo_proposal by blast
  note demo = cmd_demo_def [of cw, folded ops_def low_agent_def, unfolded Let_def 1(1) 2 then_r_simps prod.case 3(1) 4(1) 5(1,2) 6(1),
      folded lp_def, unfolded 8(1) then_r_simps prod.case 8(2)]
  show ?thesis
    by (rule exI [of _ orch])
      (simp add: main_entry_def run_command_def demo 1 3 4 5 6 7 8 demo_view opt_str_def)
qed


end
