(* ===== verification/Cli_Args.thy ===== *)
theory Cli_Args
  imports Cli Json_Roundtrip
begin

text \<open>
  \<open>build_parser\<close> of \<open>omni/cli.py\<close>: the subcommands with their options, types and defaults as a table, and
  the reading of a command line against it. Of the forms argparse takes only the exact one is read, an
  option's full name and its value as two words; the others (\<open>--opt=value\<close>, abbreviations, a value
  that begins with a dash, \<open>-h\<close>) are \<open>Not_covered\<close>, which says nothing about them.
\<close>

section \<open>The table\<close>

datatype arg_type = A_str | A_int | A_float

record arg_spec =
  an_name :: string
  an_required :: bool
  an_type :: arg_type
  an_default :: pyval

abbreviation req_arg :: "string \<Rightarrow> arg_spec" where
  "req_arg n \<equiv> \<lparr>an_name = n, an_required = True, an_type = A_str, an_default = PNone\<rparr>"

abbreviation opt_arg :: "string \<Rightarrow> arg_type \<Rightarrow> pyval \<Rightarrow> arg_spec" where
  "opt_arg n t v \<equiv> \<lparr>an_name = n, an_required = False, an_type = t, an_default = v\<rparr>"

definition default_url :: string where
  "default_url = ''http://127.0.0.1:8000''"

definition SUBCOMMANDS :: "(string, arg_spec list) dict" where
  "SUBCOMMANDS =
     [(''version'', []), (''demo'', []),
      (''policy'', [req_arg ''--action'', opt_arg ''--role'' A_str (PStr ''operator''), opt_arg ''--principal'' A_str (PStr ''cli-user''),
         opt_arg ''--risk'' A_str (PStr ''low''), opt_arg ''--resource-type'' A_str (PStr ''generic''), opt_arg ''--cost'' A_float (PFloat 0)]),
      (''memory'', [req_arg ''--key'', req_arg ''--value'', opt_arg ''--agent'' A_str (PStr ''cli''),
         opt_arg ''--reason'' A_str (PStr ''written from CLI'')]),
      (''twin'', []),
      (''simulate'', [req_arg ''--action'', req_arg ''--domain'', opt_arg ''--params'' A_str PNone]),
      (''dryrun'', [opt_arg ''--plan'' A_str PNone, opt_arg ''--plan-file'' A_str PNone, opt_arg ''--domain'' A_str (PStr ''generic''),
         opt_arg ''--max-steps'' A_int PNone, opt_arg ''--timeout'' A_float PNone, opt_arg ''--max-effects'' A_int PNone]),
      (''predict'', [opt_arg ''--plan'' A_str PNone, opt_arg ''--plan-file'' A_str PNone, opt_arg ''--domain'' A_str (PStr ''generic'')]),
      (''fleet'', [opt_arg ''--node'' A_str PNone, opt_arg ''--capacity'' A_int (PInt 32)])]"

section \<open>Reading a command line\<close>

datatype 'a parsed =
    Parsed 'a
  | Usage_error \<comment> \<open>\<open>parser.error\<close>: the process exits with 2\<close>
  | Not_covered

definition plain_word :: "string \<Rightarrow> bool" where
  "plain_word s \<longleftrightarrow> (case s of [] \<Rightarrow> True | c # _ \<Rightarrow> c \<noteq> CHR ''-'')"

fun convert :: "(string \<Rightarrow> real option) \<Rightarrow> arg_type \<Rightarrow> string \<Rightarrow> pyval option" where
  "convert parse A_str s = Some (PStr s)"
| "convert parse A_int s = map_option PInt (read_int s)"
| "convert parse A_float s = map_option PFloat (parse s)"

fun take_options :: "(string \<Rightarrow> real option) \<Rightarrow> arg_spec list \<Rightarrow> string list \<Rightarrow> json_object \<Rightarrow> json_object parsed" where
  \<comment> \<open>the options given, the last value of each\<close>
  "take_options parse specs [] given_args = Parsed given_args"
| "take_options parse specs [name] given_args =
     (if name \<in> set (map an_name specs) then Usage_error else Not_covered)"
| "take_options parse specs (name # val # words) given_args =
     (case find (\<lambda>a. an_name a = name) specs of
        None \<Rightarrow> Not_covered
      | Some a \<Rightarrow>
          if \<not> plain_word val then Not_covered
          else (case convert parse (an_type a) val of
              None \<Rightarrow> Usage_error
            | Some v \<Rightarrow> take_options parse specs words (dict_set name v given_args)))"

definition fill_defaults :: "arg_spec list \<Rightarrow> json_object \<Rightarrow> json_object parsed" where
  "fill_defaults specs given_args =
     (if list_ex (\<lambda>a. an_required a \<and> dict_get given_args (an_name a) = None) specs then Usage_error
      else Parsed (map (\<lambda>a. (an_name a, get_or given_args (an_name a) (an_default a))) specs))"

definition str_arg :: "json_object \<Rightarrow> string \<Rightarrow> string" where
  "str_arg d n = (case dict_get d n of Some (PStr s) \<Rightarrow> s | _ \<Rightarrow> [])"

definition opt_str_arg :: "json_object \<Rightarrow> string \<Rightarrow> string option" where
  "opt_str_arg d n = (case dict_get d n of Some (PStr s) \<Rightarrow> Some s | _ \<Rightarrow> None)"

definition opt_int_arg :: "json_object \<Rightarrow> string \<Rightarrow> int option" where
  "opt_int_arg d n = (case dict_get d n of Some (PInt i) \<Rightarrow> Some i | _ \<Rightarrow> None)"

definition opt_float_arg :: "json_object \<Rightarrow> string \<Rightarrow> real option" where
  "opt_float_arg d n = (case dict_get d n of Some (PFloat x) \<Rightarrow> Some x | _ \<Rightarrow> None)"

definition num_arg :: "'a option \<Rightarrow> 'a::zero" where
  "num_arg x = (case x of None \<Rightarrow> 0 | Some v \<Rightarrow> v)"

definition namespace_command :: "string \<Rightarrow> json_object \<Rightarrow> cli_command option" where
  \<comment> \<open>the fields of the namespace the handler of the command reads\<close>
  "namespace_command name d =
     (if name = ''version'' then Some Version_cmd
      else if name = ''demo'' then Some Demo_cmd
      else if name = ''policy'' then Some (Policy_cmd (str_arg d ''--action'') (str_arg d ''--role'') (str_arg d ''--principal'')
        (str_arg d ''--risk'') (str_arg d ''--resource-type'') (num_arg (opt_float_arg d ''--cost'')))
      else if name = ''memory'' then Some (Memory_cmd (str_arg d ''--key'') (str_arg d ''--value'') (str_arg d ''--agent'') (str_arg d ''--reason''))
      else if name = ''twin'' then Some Twin_cmd
      else if name = ''simulate'' then Some (Simulate_cmd (str_arg d ''--action'') (str_arg d ''--domain'') (opt_str_arg d ''--params''))
      else if name = ''dryrun'' then Some (Dryrun_cmd (opt_str_arg d ''--plan'') (opt_str_arg d ''--plan-file'') (str_arg d ''--domain'')
        (opt_int_arg d ''--max-steps'') (opt_float_arg d ''--timeout'') (opt_int_arg d ''--max-effects''))
      else if name = ''predict'' then Some (Predict_cmd (opt_str_arg d ''--plan'') (opt_str_arg d ''--plan-file'') (str_arg d ''--domain''))
      else if name = ''fleet'' then Some (Fleet_cmd (opt_str_arg d ''--node'') (num_arg (opt_int_arg d ''--capacity'')))
      else None)"

fun then_parsed :: "'a parsed \<Rightarrow> ('a \<Rightarrow> 'b parsed) \<Rightarrow> 'b parsed" where
  "then_parsed (Parsed x) f = f x"
| "then_parsed Usage_error f = Usage_error"
| "then_parsed Not_covered f = Not_covered"

definition parse_command :: "(string \<Rightarrow> real option) \<Rightarrow> string \<Rightarrow> string list \<Rightarrow> cli_command parsed" where
  "parse_command parse name words =
     (case dict_get SUBCOMMANDS name of
        None \<Rightarrow> Usage_error
      | Some specs \<Rightarrow>
          then_parsed (take_options parse specs words []) (\<lambda>given_args.
          then_parsed (fill_defaults specs given_args) (\<lambda>d.
            (case namespace_command name d of None \<Rightarrow> Usage_error | Some c \<Rightarrow> Parsed c))))"

fun parse_args :: "(string \<Rightarrow> real option) \<Rightarrow> string \<Rightarrow> string list \<Rightarrow> cli_args parsed" where
  \<comment> \<open>the options before the command, then the command with its own; the second argument is the URL so far\<close>
  "parse_args parse url [] = Parsed \<lparr>ca_url = url, ca_command = None\<rparr>"
| "parse_args parse url (word # words) =
     (if word = ''--url'' then
        (case words of
           [] \<Rightarrow> Usage_error
         | u # rest \<Rightarrow> if plain_word u then parse_args parse u rest else Not_covered)
      else if \<not> plain_word word then Not_covered
      else then_parsed (parse_command parse word words) (\<lambda>c. Parsed \<lparr>ca_url = url, ca_command = Some c\<rparr>))"

definition main_argv :: "'w cli_world \<Rightarrow> string list \<Rightarrow> 'w \<Rightarrow> (cli_outcome \<times> 'w) parsed" where
  \<comment> \<open>\<open>main_entry(argv)\<close>; a usage error leaves it before a handler runs\<close>
  "main_argv cw argv w = then_parsed (parse_args (cw_parse cw) default_url argv) (\<lambda>args. Parsed (main_entry cw args w))"

section \<open>Writing a command line\<close>

definition opt_words :: "string \<Rightarrow> ('a \<Rightarrow> string) \<Rightarrow> 'a option \<Rightarrow> string list" where
  "opt_words name f x = (case x of None \<Rightarrow> [] | Some v \<Rightarrow> [name, f v])"

fun command_words :: "cli_command \<Rightarrow> string list" where
  "command_words Version_cmd = [''version'']"
| "command_words Demo_cmd = [''demo'']"
| "command_words (Policy_cmd action role who risk resource_type cost) =
     [''policy'', ''--action'', action, ''--role'', role, ''--principal'', who, ''--risk'', risk, ''--resource-type'', resource_type,
      ''--cost'', show_float cost]"
| "command_words (Memory_cmd key txt agent reason) =
     [''memory'', ''--key'', key, ''--value'', txt, ''--agent'', agent, ''--reason'', reason]"
| "command_words Twin_cmd = [''twin'']"
| "command_words (Simulate_cmd action domain params) =
     [''simulate'', ''--action'', action, ''--domain'', domain] @ opt_words ''--params'' id params"
| "command_words (Dryrun_cmd plan plan_file domain max_steps timeout max_effects) =
     [''dryrun''] @ opt_words ''--plan'' id plan @ opt_words ''--plan-file'' id plan_file @ [''--domain'', domain] @
     opt_words ''--max-steps'' show_int max_steps @ opt_words ''--timeout'' show_float timeout @ opt_words ''--max-effects'' show_int max_effects"
| "command_words (Predict_cmd plan plan_file domain) =
     [''predict''] @ opt_words ''--plan'' id plan @ opt_words ''--plan-file'' id plan_file @ [''--domain'', domain]"
| "command_words (Fleet_cmd node_arg capacity) = [''fleet''] @ opt_words ''--node'' id node_arg @ [''--capacity'', show_int capacity]"

fun writable :: "(string \<Rightarrow> real option) \<Rightarrow> cli_command \<Rightarrow> bool" where
  \<comment> \<open>texts that do not begin with a dash, numbers that are not negative and survive their rendering\<close>
  "writable parse (Policy_cmd action role who risk resource_type cost) =
     (list_all plain_word [action, role, who, risk, resource_type] \<and> 0 \<le> cost \<and> parse (show_float cost) = Some cost)"
| "writable parse (Memory_cmd key txt agent reason) = list_all plain_word [key, txt, agent, reason]"
| "writable parse (Simulate_cmd action domain params) = (plain_word action \<and> plain_word domain \<and> pred_option plain_word params)"
| "writable parse (Dryrun_cmd plan plan_file domain max_steps timeout max_effects) =
     (pred_option plain_word plan \<and> pred_option plain_word plan_file \<and> plain_word domain \<and> pred_option (\<lambda>i. 0 \<le> i) max_steps \<and>
      pred_option (\<lambda>x. 0 \<le> x \<and> parse (show_float x) = Some x) timeout \<and> pred_option (\<lambda>i. 0 \<le> i) max_effects)"
| "writable parse (Predict_cmd plan plan_file domain) =
     (pred_option plain_word plan \<and> pred_option plain_word plan_file \<and> plain_word domain)"
| "writable parse (Fleet_cmd node_arg capacity) = (pred_option plain_word node_arg \<and> 0 \<le> capacity)"
| "writable parse other = True"

section \<open>Numbers written and read\<close>

lemma digit_plain: "is_digit c \<Longrightarrow> c \<noteq> CHR ''-'' \<and> c \<noteq> CHR ''+'' \<and> \<not> is_space c"
  by (auto simp: is_digit_def digit_of_def is_space_def Let_def split: if_splits)

lemma read_digits_value:
  "list_all is_digit s \<Longrightarrow> s \<noteq> [] \<or> after_digit \<Longrightarrow>
   read_digits after_digit acc s = Some (fold (\<lambda>c acc. acc * 10 + (case digit_of c of None \<Rightarrow> 0 | Some d \<Rightarrow> d)) s acc)"
  by (induction s arbitrary: after_digit acc) (auto simp: is_digit_def)

lemma strip_digits: "list_all is_digit s \<Longrightarrow> strip s = s"
proof -
  assume "list_all is_digit s"
  then have no: "\<forall>c \<in> set s. \<not> is_space c" by (auto simp: list_all_iff dest: digit_plain)
  have keep: "dropWhile is_space t = t" if "\<forall>c \<in> set t. \<not> is_space c" for t using that by (cases t) auto
  show ?thesis using no keep [of s] keep [of "rev s"] by (simp add: strip_def)
qed

lemma show_nat_cons:
  obtains c s where "show_nat n = c # s" "is_digit c" "list_all is_digit s"
proof -
  obtain c s where w: "show_nat n = c # s" using show_nat_head(1) [of n] by (cases "show_nat n") auto
  have "is_digit a" if "a \<in> set (c # s)" for a using show_nat_digits [of a n] that w by simp
  with w show ?thesis by (intro that) (auto simp: list_all_iff)
qed

lemma read_written_int: "0 \<le> i \<Longrightarrow> read_int (show_int i) = Some i"
proof -
  assume i: "0 \<le> i"
  obtain c s where w: "show_nat (nat i) = c # s" "is_digit c" "list_all is_digit s" by (rule show_nat_cons)
  then have "read_int (c # s) = Some (digits_value (c # s))"
    using digit_plain [of c] by (simp add: read_int_def strip_digits read_digits_value digits_value_def del: read_digits.simps)
  with i w digits_value_show_nat [of "nat i"] show ?thesis by (simp add: show_int_def)
qed

lemma plain_word_int: "0 \<le> i \<Longrightarrow> plain_word (show_int i)"
proof -
  assume i: "0 \<le> i"
  obtain c s where "show_nat (nat i) = c # s" "is_digit c" by (rule show_nat_cons)
  with i digit_plain [of c] show ?thesis by (simp add: plain_word_def show_int_def)
qed

lemma plain_fixed: "0 \<le> x \<Longrightarrow> plain_word (show_fixed n x)"
proof -
  assume x: "0 \<le> x"
  obtain c s where "show_nat (nat (round_half_even (\<bar>x\<bar> * 10 ^ n)) div 10 ^ n) = c # s" "is_digit c" by (rule show_nat_cons)
  with x digit_plain [of c] show ?thesis by (simp add: plain_word_def show_fixed_def Let_def)
qed

lemma plain_shortest: "0 \<le> x \<Longrightarrow> plain_word (shortest_from fuel n x)"
  by (induction fuel arbitrary: n) (simp_all add: plain_fixed)

lemma plain_word_float: "0 \<le> x \<Longrightarrow> plain_word (show_float x)"
  by (simp add: show_float_def plain_shortest)

section \<open>A command line written and read\<close>

lemma find_Cons_name:
  "find (\<lambda>a. an_name a = name) (a # specs) = (if an_name a = name then Some a else find (\<lambda>a. an_name a = name) specs)"
  by simp

lemmas line_simps = parse_command_def SUBCOMMANDS_def fill_defaults_def namespace_command_def str_arg_def opt_str_arg_def
  opt_int_arg_def opt_float_arg_def num_arg_def get_or_def opt_words_def plain_word_int plain_word_float read_written_int

lemma parse_policy: "writable parse (Policy_cmd a b c d e f) \<Longrightarrow>
  parse_command parse ''policy'' (tl (command_words (Policy_cmd a b c d e f))) = Parsed (Policy_cmd a b c d e f)"
  by (simp add: line_simps)

lemma parse_dryrun: "writable parse (Dryrun_cmd a b c d e f) \<Longrightarrow>
  parse_command parse ''dryrun'' (tl (command_words (Dryrun_cmd a b c d e f))) = Parsed (Dryrun_cmd a b c d e f)"
  by (cases a; cases b; cases d; cases e; cases f) (simp_all add: line_simps)

lemma parse_simulate: "writable parse (Simulate_cmd a b x) \<Longrightarrow>
  parse_command parse ''simulate'' (tl (command_words (Simulate_cmd a b x))) = Parsed (Simulate_cmd a b x)"
  by (cases x) (simp_all add: line_simps)

lemma parse_predict: "writable parse (Predict_cmd a b x) \<Longrightarrow>
  parse_command parse ''predict'' (tl (command_words (Predict_cmd a b x))) = Parsed (Predict_cmd a b x)"
  by (cases a; cases b) (simp_all add: line_simps)

lemma parse_fleet: "writable parse (Fleet_cmd a n) \<Longrightarrow>
  parse_command parse ''fleet'' (tl (command_words (Fleet_cmd a n))) = Parsed (Fleet_cmd a n)"
  by (cases a) (simp_all add: line_simps)

lemma parse_written:
  assumes "writable parse c"
  shows "parse_command parse (hd (command_words c)) (tl (command_words c)) = Parsed c"
  using assms
proof (cases c)
  case (Memory_cmd a b x y)
  with assms show ?thesis by (simp add: line_simps)
qed (simp_all add: parse_policy [simplified] parse_dryrun [simplified] parse_simulate [simplified] parse_predict [simplified]
  parse_fleet [simplified], simp_all add: line_simps)

lemma command_word: "hd (command_words c) \<noteq> ''--url'' \<and> plain_word (hd (command_words c)) \<and> command_words c \<noteq> []"
  by (cases c) (simp_all add: plain_word_def)

lemma parse_line:
  assumes "writable parse c"
  shows "parse_args parse url (command_words c) = Parsed \<lparr>ca_url = url, ca_command = Some c\<rparr>"
proof (cases "command_words c")
  case (Cons word words)
  with command_word [of c] parse_written [OF assms] show ?thesis by simp
qed (use command_word [of c] in simp)

text \<open>
  C38. A command line written with the options of a command is read back as that command: the entry point
  runs exactly it, against the URL given or the default one. Texts must not begin with a dash, numbers
  must not be negative, and \<open>float\<close> must read back the floats as they are shown.
\<close>

theorem cli_line_roundtrip:
  assumes "writable (cw_parse cw) c" and "plain_word url"
  shows "main_argv cw (command_words c) w = Parsed (main_entry cw \<lparr>ca_url = default_url, ca_command = Some c\<rparr> w) \<and>
    main_argv cw (''--url'' # url # command_words c) w = Parsed (main_entry cw \<lparr>ca_url = url, ca_command = Some c\<rparr> w)"
  using assms by (simp add: main_argv_def parse_line)

theorem cli_line_roundtrip_witness:
  "\<forall>cw :: unit cli_world. main_argv (cw\<lparr>cw_parse := \<lambda>s. if s = ''2.5'' then Some (5 / 2) else None\<rparr>)
     [''--url'', ''http://plane'', ''dryrun'', ''--plan'', ''[]'', ''--domain'', ''fs'', ''--max-steps'', ''12'', ''--timeout'', ''2.5''] () =
   Parsed (main_entry (cw\<lparr>cw_parse := \<lambda>s. if s = ''2.5'' then Some (5 / 2) else None\<rparr>)
     \<lparr>ca_url = ''http://plane'', ca_command = Some (Dryrun_cmd (Some ''[]'') None ''fs'' (Some 12) (Some (5 / 2)) None)\<rparr> ())"
proof
  fix cw :: "unit cli_world"
  define cw' where "cw' = cw\<lparr>cw_parse := \<lambda>s. if s = ''2.5'' then Some (5 / 2) else None\<rparr>"
  define c where "c = Dryrun_cmd (Some ''[]'') None ''fs'' (Some 12) (Some (5 / 2)) None"
  have "show_float (5 / 2) = ''2.5''" "show_int 12 = ''12''" by code_simp+
  then have c: "writable (cw_parse cw') c"
    "command_words c = [''dryrun'', ''--plan'', ''[]'', ''--domain'', ''fs'', ''--max-steps'', ''12'', ''--timeout'', ''2.5'']"
    by (simp_all add: c_def cw'_def plain_word_def opt_words_def)
  have "plain_word ''http://plane''" by (simp add: plain_word_def)
  from cli_line_roundtrip [OF c(1) this, of "()"] show "main_argv (cw\<lparr>cw_parse := \<lambda>s. if s = ''2.5'' then Some (5 / 2) else None\<rparr>)
     [''--url'', ''http://plane'', ''dryrun'', ''--plan'', ''[]'', ''--domain'', ''fs'', ''--max-steps'', ''12'', ''--timeout'', ''2.5''] () =
   Parsed (main_entry (cw\<lparr>cw_parse := \<lambda>s. if s = ''2.5'' then Some (5 / 2) else None\<rparr>)
     \<lparr>ca_url = ''http://plane'', ca_command = Some (Dryrun_cmd (Some ''[]'') None ''fs'' (Some 12) (Some (5 / 2)) None)\<rparr> ())"
    unfolding c(2) by (simp add: c_def cw'_def)
qed

lemma options_from_words:
  "take_options parse specs words given_args = Parsed d \<Longrightarrow> dict_get d n = Some v \<Longrightarrow> dict_get given_args n = Some v \<or> n \<in> set words"
  by (induction parse specs words given_args rule: take_options.induct)
     (fastforce simp: update_conv' split: option.splits if_splits)+

lemma parsed_cases: "then_parsed p f = Parsed y \<longleftrightarrow> (\<exists>x. p = Parsed x \<and> f x = Parsed y)"
  by (cases p) auto

lemma command_needs_options:
  assumes "parse_command parse name words = Parsed c" "dict_get SUBCOMMANDS name = Some specs" "a \<in> set specs" "an_required a"
  shows "an_name a \<in> set words"
  using assms options_from_words [of parse specs words "[]" _ "an_name a"]
  by (fastforce simp: parse_command_def parsed_cases fill_defaults_def list_ex_iff split: option.splits if_splits)

end
