(* ===== verification/Spec2Isabelle.thy ===== *)
theory Spec2Isabelle
  imports Policy_Properties Memory_Properties Fleet_Roster Simulation_Properties Evolution_Properties Learning_Properties Fleet_Properties Marketplace_Sync Twin_Properties Reflection_Properties Predictor_Properties Plane_Properties Process Nats_Bus Sdk_Properties Cli_Properties Cli_Args
begin

text \<open>
  \<^bold>\<open>OmniMind\<close> is a control plane for software agents written in Python (\<open>src/omni\<close>). One process builds
  a set of subsystems, wires them together (\<open>omni/api/main.py\<close>) and serves them over HTTP: a policy
  engine decides what a principal may do and writes an audit ledger; a memory store keeps immutable
  versions of documents; an orchestrator assigns tasks to a pool of agents; a public agent answers
  prompts through a language model; a marketplace distributes skills; sandboxes and a failure
  predictor try plans out; a learning pipeline aggregates evaluations; a self-evolution engine turns
  proposals into live mutations; a fleet layer coordinates several nodes; and a twin shows all of it,
  as a graph and as a live feed. This library models each subsystem as pure functions over an
  explicit state and proves what makes it correct, then composes the models into one machine, the
  control plane, and proves what holds of the whole.

  \<^bold>\<open>Conventions\<close> (\<open>Prelude\<close>, \<open>PyValue\<close>, \<open>Render\<close>, \<open>Py_Text\<close>).
  \<^item> A Python object with state is a record, an operation a function from the state to a result and a
    new state. A raise is \<open>Inl\<close> of the error, and the state beside it is what the code had changed by
    then, so a half-done operation shows.
  \<^item> A \<open>dict\<close> is an association list in insertion order, a JSON value the datatype \<open>pyval\<close> with Python's
    equality, ordering and truth; \<open>pv_ok\<close> says that the dictionaries in it have distinct keys.
  \<^item> Integers are unbounded, as in Python. Floats are reals: rounding, overflow and NaN are outside the
    model. f-strings show a real as its shortest decimal of at most 17 places, searched with 16
    units of fuel.
  \<^item> The clock, fresh identifiers, hashes, environment variables, random draws and the HTTP
    transport are arguments. Code of third-party packages (scikit-learn, the drivers, FastAPI) is an
    argument or is left out; an argument's documented behaviour is a named hypothesis where a
    property needs it.
  \<^item> Every subsystem guards its operations with a lock, so an operation is one atomic step; what runs
    interleaved is a sequence of operations.

  \<^bold>\<open>Contracts\<close> are locales, each interpreted on the models that provide it. \<open>Append_Log\<close>: \<open>append_log\<close>
  (operations only append), \<open>machine\<close>, \<open>guarded_machine\<close> and \<open>disciplined_machine\<close> (operations keep an
  invariant; always, for valid operations, or along disciplined runs) and \<open>logged_machine\<close>, their
  combination; interpreted on the policy engine, the ledger, the memory table, the pool, the bus, the
  evaluation table, the catalog, the proposals, the simulation sandbox and the live feed.
  \<open>Path_Map\<close>: \<open>path_map\<close>, places of a configuration some of which overlap, interpreted on the dotted
  keys the executor mutates. \<open>Scoring\<close>: what \<open>assign\<close> and \<open>balance\<close> need of a scoring strategy,
  interpreted on the three of the code. \<open>Fleet_Contracts\<close>: \<open>fleet_registry\<close> and \<open>fleet_queue\<close>,
  interpreted on both stores and on the interface that dispatches to them.

  \<^bold>\<open>Components\<close>, theory by theory.
  \<^item> Audit ledger, \<open>omni/audit/ledger.py\<close>: \<open>Ledger\<close>.
  \<^item> Policy engine, \<open>omni/contracts/policy.py\<close> and \<open>omni/policy/engine.py\<close>: \<open>Policy_Contracts\<close>,
    \<open>Policy\<close>, \<open>Seed_Rules\<close>. \<open>Policy_Proofs\<close> and \<open>Policy_Runs\<close> relate the evaluation to the abstract
    deny-overrides verdict, run the engine as a machine, and show that the log and the ledger agree,
    that approvals are granted once and that rolling limits are kept; the claims are in
    \<open>Policy_Properties\<close>.
  \<^item> Memory, \<open>omni/contracts/memory.py\<close> and \<open>omni/memory\<close>: \<open>Memory_Diff\<close>, \<open>Memory_Store\<close>,
    \<open>Memory_Fusion\<close>. \<open>Memory_Proofs\<close> refines the table to one history per key and branch,
    \<open>Memory_Fusion_Proofs\<close> says what a fusion writes; claims in \<open>Memory_Properties\<close>.
  \<^item> Orchestrator, \<open>omni/contracts/agent.py\<close>, \<open>omni/orchestrator/engine.py\<close> and
    \<open>omni/agents/fleet_seed.py\<close>, \<open>router.py\<close>: \<open>Orchestrator\<close>, \<open>Orchestrator_Proofs\<close>, \<open>Scoring\<close>,
    \<open>Orchestrator_Work\<close> (conservation of assigned work), \<open>Orchestrator_Properties\<close>,
    \<open>Orchestrator_Control\<close>, \<open>Fleet_Roster\<close>.
  \<^item> Simulation, \<open>omni/contracts/simulation.py\<close> and \<open>omni/simulation\<close>: \<open>Dry_Run\<close>, \<open>Simulation\<close>,
    \<open>Predictor\<close>; claims in \<open>Simulation_Properties\<close>, \<open>Predictor_Properties\<close>.
  \<^item> Learning and evolution, \<open>omni/learning\<close>, \<open>omni/evolution\<close>: \<open>Learning\<close>, \<open>Evolution\<close>,
    \<open>Evolution_Executor\<close> with \<open>Learning_Proofs\<close>, \<open>Learning_Properties\<close>, \<open>Evolution_Properties\<close>.
  \<^item> Fleet, \<open>omni/fleet\<close>: \<open>Fleet_Bus\<close>, \<open>Fleet_Storage\<close>, \<open>Fleet_Node\<close>, with \<open>Fleet_Contracts\<close>,
    \<open>Fleet_Properties\<close>.
  \<^item> Marketplace, \<open>omni/contracts/skill.py\<close> and \<open>omni/marketplace\<close>: \<open>Marketplace\<close>,
    \<open>Marketplace_Remote\<close>, with \<open>Marketplace_Proofs\<close>, \<open>Marketplace_Properties\<close>, \<open>Marketplace_Sync\<close>.
  \<^item> Twin, \<open>omni/twin\<close>: \<open>Twin\<close>, \<open>Twin_Stream\<close> (the live feed as a step machine over the turns the event
    loop interleaves); claims in \<open>Twin_Properties\<close>.
  \<^item> Agents, \<open>omni/agents/llm.py\<close>, \<open>runner.py\<close>, \<open>reflection.py\<close>: \<open>Json\<close> (the text of a reply is read by
    a real JSON reader), \<open>Llm\<close>, \<open>Agent_Runner\<close>, \<open>Reflection\<close>, with \<open>Json_Proofs\<close>,
    \<open>Agent_Runner_Proofs\<close>, \<open>Agent_Runner_Properties\<close>, \<open>Reflection_Properties\<close>.
  \<^item> Control plane, \<open>omni/api/main.py\<close>: \<open>Plane\<close> (the state and the wiring), \<open>Plane_Api\<close> (every handler),
    \<open>Plane_Step\<close> (requests, ticks and stream turns as events of one machine). \<open>Plane_Moves\<close> lists the
    ways an event may move the plane; \<open>Plane_Proofs\<close>, \<open>Plane_Routes\<close> and \<open>Plane_Events\<close> follow every
    handler through it; \<open>Plane_Guarantees\<close>, \<open>Plane_Answers\<close> and \<open>Plane_Queue\<close> draw the consequences;
    claims in \<open>Plane_Properties\<close>.
  \<^item> The process around it, \<open>omni/fleet/scheduler.py\<close>, \<open>omni/agents/reflection.py\<close> (start, stop and the
    loop) and the start-up and shutdown of \<open>omni/api/main.py\<close>: \<open>Process\<close>. A task of the event loop is an
    entry with a cancellation flag; which task is resumed when is the order of the events. The claim
    there carries every property of the plane's runs over to the runs of the process.
  \<^item> The bus over NATS and the choice between the buses, \<open>omni/fleet/bus.py\<close>: \<open>Nats_Bus\<close>. The client
    library is an argument, a wait that never ends is \<open>None\<close>. \<open>Json_Roundtrip\<close> shows that \<open>dumps\<close> and
    \<open>loads\<close> are inverse, floats included as far as they are decimals of at most 17 places.
  \<^item> The client, \<open>omni/sdk.py\<close>: \<open>Sdk\<close>; \<open>Api_Contract\<close> has the declarations of the routes it calls (paths,
    query parameters, bodies with types and defaults) from \<open>omni/api/main.py\<close> and \<open>omni/contracts\<close>;
    \<open>Sdk_Properties\<close> shows that every call fits its route and that a call over HTTP is the application's
    answer.
  \<^item> The command line, \<open>omni/cli.py\<close>: \<open>Cli\<close>, with the demonstration composed of the models of the
    subsystems; claims in \<open>Cli_Properties\<close>. \<open>Cli_Args\<close> has the table of options of \<open>build_parser\<close>, reads a
    command line against it and shows that a line written from a command is read back as it.

  \<^bold>\<open>Fuel.\<close> \<open>json_loads\<close> runs its reader with twice the length of the text and two more units;
  \<open>Json_Proofs\<close> shows that every call consumes text and that any larger amount gives the same value,
  so a \<open>None\<close> is an error in the text and never a shortage. The other loops recurse structurally or along a proved measure.

  \<^bold>\<open>Not modelled.\<close> FastAPI's own routing, validation and serialisation (a request of the machine is a
  constructor with typed parameters; \<open>Api_Contract\<close> is what the code declares, not how FastAPI enforces
  it), CORS and the static pages; the event loop and its timers beyond the order of the steps; the NATS
  server; the SQL engines beyond the statements the code sends; the forest of scikit-learn (an
  argument); the forms of an option argparse accepts besides the exact one (\<open>Not_covered\<close>); the files and sockets behind the stores. Re-exports, deployment files, the
  dashboard page and the tests have no behaviour of the program's own.
\<close>

end
